(* ===== verification/Prelude.thy ===== *)
theory Prelude
  imports Main "HOL-Library.Word"
begin

text \<open>
  Shared vocabulary of the development: machine types, results in the style of Rust's
  \<^verbatim>\<open>Result\<close>, I/O errors, time, big-endian integers and exact reads from a byte stream.
  Nothing here models a particular file of the repository; the component theories use these
  definitions and the lemma collections declared here.
\<close>

named_theorems result_simps \<open>rewriting of the result combinators\<close>
named_theorems codec_simps \<open>byte-level round trips\<close>

section \<open>Machine types\<close>

type_synonym byte = "8 word"
type_synonym bytes = "byte list"
type_synonym u16 = "16 word"
type_synonym u32 = "32 word"
type_synonym u64 = "64 word"
type_synonym i32 = int

text \<open>
  Instants and durations are natural numbers of nanoseconds, the resolution of Rust's
  \<^verbatim>\<open>std::time\<close>.
\<close>

type_synonym instant = nat
type_synonym duration = nat

definition from_millis :: "nat \<Rightarrow> duration" where
  "from_millis n = n * 1000000"

definition from_secs :: "nat \<Rightarrow> duration" where
  "from_secs n = n * 1000000000"

lemma from_secs_millis: "from_secs n = from_millis (1000 * n)"
  by (simp add: from_secs_def from_millis_def)

lemma from_millis_mono [simp]: "from_millis a \<le> from_millis b \<longleftrightarrow> a \<le> b"
  by (simp add: from_millis_def)

lemma from_millis_less [simp]: "from_millis a < from_millis b \<longleftrightarrow> a < b"
  by (simp add: from_millis_def)

lemma from_millis_pos [simp]: "0 < from_millis a \<longleftrightarrow> 0 < a"
  by (simp add: from_millis_def)

section \<open>Results\<close>

text \<open>
  A fallible operation returns \<open>'e + 'a\<close>, with \<open>Inl\<close> the error. The combinators are the
  ones the source uses: the question-mark operator (\<open>rbind\<close>), \<^verbatim>\<open>map_err\<close>,
  \<^verbatim>\<open>ok_or\<close>, \<^verbatim>\<open>ok\<close> and \<^verbatim>\<open>is_ok\<close>.
\<close>

definition rbind :: "'e + 'a \<Rightarrow> ('a \<Rightarrow> 'e + 'b) \<Rightarrow> 'e + 'b" where
  "rbind m f = (case m of Inl e \<Rightarrow> Inl e | Inr x \<Rightarrow> f x)"

definition map_err :: "('e \<Rightarrow> 'f) \<Rightarrow> 'e + 'a \<Rightarrow> 'f + 'a" where
  "map_err f m = (case m of Inl e \<Rightarrow> Inl (f e) | Inr x \<Rightarrow> Inr x)"

definition ok_or :: "'e \<Rightarrow> 'a option \<Rightarrow> 'e + 'a" where
  "ok_or e m = (case m of None \<Rightarrow> Inl e | Some x \<Rightarrow> Inr x)"

definition is_ok :: "'e + 'a \<Rightarrow> bool" where
  "is_ok m = (case m of Inl _ \<Rightarrow> False | Inr _ \<Rightarrow> True)"

lemma rbind_simps [simp, result_simps]:
  "rbind (Inl e) f = Inl e"
  "rbind (Inr x) f = f x"
  by (simp_all add: rbind_def)

lemma rbind_eq_Inr [result_simps]:
  "rbind m f = Inr y \<longleftrightarrow> (\<exists>x. m = Inr x \<and> f x = Inr y)"
  by (cases m) simp_all

lemma rbind_eq_Inl [result_simps]:
  "rbind m f = Inl e \<longleftrightarrow> m = Inl e \<or> (\<exists>x. m = Inr x \<and> f x = Inl e)"
  by (cases m) auto

lemma map_err_simps [simp, result_simps]:
  "map_err f (Inl e) = Inl (f e)"
  "map_err f (Inr x) = Inr x"
  by (simp_all add: map_err_def)

lemma map_err_eq_Inr [simp, result_simps]: "map_err f m = Inr y \<longleftrightarrow> m = Inr y"
  by (cases m) simp_all

lemma map_err_eq_Inl [result_simps]: "map_err f m = Inl e \<longleftrightarrow> (\<exists>e'. m = Inl e' \<and> e = f e')"
  by (cases m) auto

lemma ok_or_simps [simp, result_simps]:
  "ok_or e None = Inl e"
  "ok_or e (Some x) = Inr x"
  by (simp_all add: ok_or_def)

lemma ok_or_eq_Inr [simp, result_simps]: "ok_or e m = Inr y \<longleftrightarrow> m = Some y"
  by (cases m) simp_all

lemma ok_or_eq_Inl [simp, result_simps]: "ok_or e m = Inl e' \<longleftrightarrow> m = None \<and> e' = e"
  by (cases m) auto

lemma is_ok_simps [simp, result_simps]:
  "is_ok (Inl e) = False"
  "is_ok (Inr x) = True"
  by (simp_all add: is_ok_def)

lemma is_ok_iff: "is_ok m \<longleftrightarrow> (\<exists>x. m = Inr x)"
  by (cases m) simp_all

section \<open>I/O errors and exact reads\<close>

datatype io_error =
    NotFound | PermissionDenied | WouldBlock | Interrupted | InvalidData | InvalidInput
  | UnexpectedEof | BrokenPipe | ConnectionReset | TimedOut | OtherIo string

text \<open>
  \<open>read_exact n s\<close> takes exactly \<open>n\<close> bytes from what the peer has sent before closing, and
  fails with \<open>UnexpectedEof\<close> when there are fewer, as \<^verbatim>\<open>read_exact\<close> does.
\<close>

definition read_exact :: "nat \<Rightarrow> bytes \<Rightarrow> io_error + (bytes \<times> bytes)" where
  "read_exact n s = (if length s < n then Inl UnexpectedEof else Inr (take n s, drop n s))"

lemma read_exact_append [simp, codec_simps]:
  "length a = n \<Longrightarrow> read_exact n (a @ s) = Inr (a, s)"
  by (simp add: read_exact_def)

lemma read_exact_eq_Inr:
  "read_exact n s = Inr (a, t) \<longleftrightarrow> s = a @ t \<and> length a = n"
  by (auto simp: read_exact_def)

section \<open>Strings\<close>

text \<open>
  A Rust string is the list of its UTF-8 bytes, so \<open>length\<close> is \<^verbatim>\<open>len()\<close>.
  \<open>decimal\<close> is the \<^verbatim>\<open>Display\<close> of an unsigned integer.
\<close>

definition str_bytes :: "string \<Rightarrow> bytes" where
  "str_bytes s = map (\<lambda>c. word_of_nat (of_char c)) s"

definition digit_char :: "nat \<Rightarrow> char" where
  "digit_char d = char_of (48 + d)"

definition is_digit :: "char \<Rightarrow> bool" where
  "is_digit c \<longleftrightarrow> 48 \<le> (of_char c :: nat) \<and> (of_char c :: nat) \<le> 57"

fun decimal :: "nat \<Rightarrow> string" where
  "decimal n = (if n < 10 then [digit_char n] else decimal (n div 10) @ [digit_char (n mod 10)])"

declare decimal.simps [simp del]

definition is_char_boundary :: "string \<Rightarrow> nat \<Rightarrow> bool" where
  "is_char_boundary s i \<longleftrightarrow> i = 0 \<or> i = length s \<or>
     (i < length s \<and> \<not> (128 \<le> (of_char (s ! i) :: nat) \<and> (of_char (s ! i) :: nat) < 192))"

lemma is_digit_digit_char [simp]: "d < 10 \<Longrightarrow> is_digit (digit_char d)"
  by (simp add: is_digit_def digit_char_def)

lemma decimal_digits: "c \<in> set (decimal n) \<Longrightarrow> is_digit c"
proof (induction n rule: decimal.induct)
  case (1 n)
  then show ?case
    by (cases "n < 10") (auto simp: decimal.simps [of n])
qed

lemma length_decimal_le: "n < 10 ^ k \<Longrightarrow> 0 < k \<Longrightarrow> length (decimal n) \<le> k"
proof (induction n arbitrary: k rule: decimal.induct)
  case (1 n)
  show ?case
  proof (cases "n < 10")
    case True
    with "1.prems" show ?thesis by (simp add: decimal.simps [of n])
  next
    case False
    with "1.prems" obtain j where k: "k = Suc j" and "0 < j"
      by (cases k; cases "k - 1") auto
    from "1.prems" k have "n div 10 < 10 ^ j" by (simp add: less_mult_imp_div_less mult.commute)
    with "1.IH" [OF False _ \<open>0 < j\<close>] have "length (decimal (n div 10)) \<le> j" by simp
    with False k show ?thesis by (simp add: decimal.simps [of n])
  qed
qed

section \<open>Big-endian integers\<close>

fun be_bytes :: "nat \<Rightarrow> nat \<Rightarrow> bytes" where
  "be_bytes 0 v = []"
| "be_bytes (Suc n) v = be_bytes n (v div 256) @ [word_of_nat (v mod 256)]"

definition from_be :: "bytes \<Rightarrow> nat" where
  "from_be bs = foldl (\<lambda>a b. a * 256 + unat b) 0 bs"

lemma length_be_bytes [simp, codec_simps]: "length (be_bytes n v) = n"
  by (induction n arbitrary: v) simp_all

lemma from_be_Nil [simp]: "from_be [] = 0"
  by (simp add: from_be_def)

lemma from_be_snoc [simp]: "from_be (bs @ [b]) = from_be bs * 256 + unat b"
  by (simp add: from_be_def)

lemma unat_byte: "unat (b :: byte) < 256"
  using unsigned_less [of b] by simp

lemma from_be_bound: "from_be bs < 256 ^ length bs"
proof (induction bs rule: rev_induct)
  case Nil
  show ?case by simp
next
  case (snoc b bs)
  then show ?case using unat_byte [of b] by simp
qed

lemma unat_byte_of_nat [simp]: "unat (word_of_nat (v mod 256) :: byte) = v mod 256"
  by (simp add: unat_of_nat)

lemma from_be_be_bytes [codec_simps]: "v < 256 ^ n \<Longrightarrow> from_be (be_bytes n v) = v"
proof (induction n arbitrary: v)
  case 0
  then show ?case by simp
next
  case (Suc n)
  then have "v div 256 < 256 ^ n" by (simp add: less_mult_imp_div_less mult.commute)
  then show ?case using Suc.IH [of "v div 256"] by (simp add: div_mult_mod_eq)
qed

lemma be_bytes_from_be [codec_simps]: "be_bytes (length bs) (from_be bs) = bs"
proof (induction bs rule: rev_induct)
  case Nil
  show ?case by simp
next
  case (snoc b bs)
  then show ?case using unat_byte [of b] by simp
qed

lemma be_bytes_inj: "v < 256 ^ n \<Longrightarrow> w < 256 ^ n \<Longrightarrow> be_bytes n v = be_bytes n w \<longleftrightarrow> v = w"
  by (metis from_be_be_bytes)

section \<open>A field coding\<close>

text \<open>
  A list of byte strings as one byte string: every byte is preceded by 1 and every field is closed
  by 0. The concrete codecs the witnesses use are built from it.
\<close>

definition put_field :: "bytes \<Rightarrow> bytes" where
  "put_field f = concat (map (\<lambda>b. [1, b]) f) @ [0]"

definition put_fields :: "bytes list \<Rightarrow> bytes" where
  "put_fields fs = concat (map put_field fs)"

fun get_fields :: "bytes \<Rightarrow> bytes list" where
  "get_fields [] = []"
| "get_fields [x] = (if x = 0 then [[]] else [])"
| "get_fields (x # b # ys) =
     (if x = 0 then [] # get_fields (b # ys)
      else case get_fields ys of [] \<Rightarrow> [[b]] | f # fs \<Rightarrow> (b # f) # fs)"

lemma get_fields_zero [simp]: "get_fields (0 # r) = [] # get_fields r"
  by (cases r) simp_all

lemma get_fields_put_field [simp]: "get_fields (put_field f @ r) = f # get_fields r"
  by (induction f) (simp_all add: put_field_def)

lemma get_put_fields [simp]: "get_fields (put_fields fs) = fs"
  by (induction fs) (simp_all add: put_fields_def)

lemma length_put_field: "length (put_field f) = 2 * length f + 1"
  by (induction f) (simp_all add: put_field_def)

lemma length_put_fields: "length (put_fields fs) = (\<Sum>f\<leftarrow>fs. 2 * length f + 1)"
  by (induction fs) (simp_all add: put_fields_def length_put_field)

definition int_field :: "int \<Rightarrow> bytes" where
  "int_field i = (if i < 0 then 1 else 0) # replicate (nat \<bar>i\<bar>) 0"

definition field_int :: "bytes \<Rightarrow> int" where
  "field_int f = (if f = [] then 0 else if hd f = 1 then - int (length f - 1) else int (length f - 1))"

lemma field_int_field [simp]: "field_int (int_field i) = i"
  by (simp add: field_int_def int_field_def)

definition word_field :: "'a::len word \<Rightarrow> bytes" where
  "word_field w = be_bytes LENGTH('a) (unat w)"

definition field_word :: "bytes \<Rightarrow> 'a::len word" where
  "field_word f = of_nat (from_be f)"

lemma field_word_field [simp]: "field_word (word_field (w :: 'a::len word)) = w"
proof -
  have "unat w < 2 ^ LENGTH('a)"
    by (rule unsigned_less)
  also have "(2 :: nat) ^ LENGTH('a) \<le> 256 ^ LENGTH('a)"
    by (rule power_mono) simp_all
  finally show ?thesis
    by (simp add: field_word_def word_field_def from_be_be_bytes)
qed

lemma length_word_field [simp]: "length (word_field (w :: 'a::len word)) = LENGTH('a)"
  by (simp add: word_field_def length_be_bytes)

definition field_str :: "bytes \<Rightarrow> string" where
  "field_str f = map (\<lambda>b. char_of (unat b)) f"

lemma char_of_byte_of_char [simp]: "char_of (unat (word_of_nat (of_char c) :: byte)) = c"
proof -
  have "(of_char c :: nat) < 2 ^ 8"
    using mod_less_divisor [of 256 "of_char c :: nat"] by (simp add: of_char_mod_256)
  then show ?thesis
    by (simp add: unsigned_of_nat take_bit_nat_eq_self)
qed

lemma field_str_bytes [simp]: "field_str (str_bytes s) = s"
  by (induction s) (simp_all add: field_str_def str_bytes_def)

lemma length_str_bytes [simp]: "length (str_bytes s) = length s"
  by (simp add: str_bytes_def)

text \<open>Well-formed UTF-8, as \<^verbatim>\<open>String::from_utf8\<close> checks it.\<close>

definition cont_byte :: "byte \<Rightarrow> bool" where
  "cont_byte b \<longleftrightarrow> 128 \<le> b \<and> b \<le> 191"

fun utf8_valid :: "bytes \<Rightarrow> bool" where
  "utf8_valid [] = True"
| "utf8_valid (a # s) =
     (if a \<le> 127 then utf8_valid s
      else if 194 \<le> a \<and> a \<le> 223
        then (case s of b # r \<Rightarrow> cont_byte b \<and> utf8_valid r | _ \<Rightarrow> False)
      else if 224 \<le> a \<and> a \<le> 239
        then (case s of b # c # r \<Rightarrow> cont_byte b \<and> cont_byte c \<and> (a = 224 \<longrightarrow> 160 \<le> b) \<and>
                (a = 237 \<longrightarrow> b \<le> 159) \<and> utf8_valid r | _ \<Rightarrow> False)
      else if 240 \<le> a \<and> a \<le> 244
        then (case s of b # c # d # r \<Rightarrow> cont_byte b \<and> cont_byte c \<and> cont_byte d \<and>
                (a = 240 \<longrightarrow> 144 \<le> b) \<and> (a = 244 \<longrightarrow> b \<le> 143) \<and> utf8_valid r | _ \<Rightarrow> False)
      else False)"

lemma utf8_valid_ascii: "list_all (\<lambda>b. b \<le> 127) s \<Longrightarrow> utf8_valid s"
  by (induction s) simp_all

section \<open>Operations on a state\<close>

text \<open>
  An operation that may fail and changes a state also when it fails is a function from the state to
  its result and the state it leaves. \<open>sbind\<close> is the \<^verbatim>\<open>?\<close> operator between two of them.
\<close>

definition sret :: "'a \<Rightarrow> 's \<Rightarrow> ('e + 'a) \<times> 's" where
  "sret a s = (Inr a, s)"

definition sfail :: "'e \<Rightarrow> 's \<Rightarrow> ('e + 'a) \<times> 's" where
  "sfail e s = (Inl e, s)"

definition slift :: "('e + 'a) \<Rightarrow> 's \<Rightarrow> ('e + 'a) \<times> 's" where
  "slift r s = (r, s)"

definition sget :: "('s \<Rightarrow> 'e + 'a) \<Rightarrow> 's \<Rightarrow> ('e + 'a) \<times> 's" where
  "sget f s = (f s, s)"

definition sbind ::
  "('s \<Rightarrow> ('e + 'a) \<times> 's) \<Rightarrow> ('a \<Rightarrow> 's \<Rightarrow> ('e + 'b) \<times> 's) \<Rightarrow> 's \<Rightarrow> ('e + 'b) \<times> 's" where
  "sbind m f s = (case m s of (Inl e, s') \<Rightarrow> (Inl e, s') | (Inr a, s') \<Rightarrow> f a s')"

definition smap_err :: "('e \<Rightarrow> 'f) \<Rightarrow> ('s \<Rightarrow> ('e + 'a) \<times> 's) \<Rightarrow> 's \<Rightarrow> ('f + 'a) \<times> 's" where
  "smap_err g m s = (case m s of (r, s') \<Rightarrow> (map_err g r, s'))"

text \<open>\<^verbatim>\<open>let _ = m;\<close>\<close>

definition signore :: "('s \<Rightarrow> ('e + 'a) \<times> 's) \<Rightarrow> 's \<Rightarrow> ('f + unit) \<times> 's" where
  "signore m s = (Inr (), snd (m s))"

lemma sret_apply [simp]: "sret a s = (Inr a, s)" by (simp add: sret_def)
lemma sfail_apply [simp]: "sfail e s = (Inl e, s)" by (simp add: sfail_def)
lemma slift_apply [simp]: "slift r s = (r, s)" by (simp add: slift_def)
lemma sget_apply [simp]: "sget f s = (f s, s)" by (simp add: sget_def)
lemma signore_apply [simp]: "signore m s = (Inr (), snd (m s))" by (simp add: signore_def)

lemma sbind_Inr: "m s = (Inr a, s') \<Longrightarrow> sbind m f s = f a s'"
  by (simp add: sbind_def)

lemma sbind_Inl: "m s = (Inl e, s') \<Longrightarrow> sbind m f s = (Inl e, s')"
  by (simp add: sbind_def)

lemma sbind_eq_Inr [result_simps]:
  "sbind m f s = (Inr b, t) \<longleftrightarrow> (\<exists>a s'. m s = (Inr a, s') \<and> f a s' = (Inr b, t))"
  by (auto simp: sbind_def split: prod.splits sum.splits)

lemma smap_err_eq_Inr [result_simps]:
  "smap_err g m s = (Inr b, t) \<longleftrightarrow> m s = (Inr b, t)"
  by (auto simp: smap_err_def map_err_def split: prod.splits sum.splits)

lemma snd_smap_err [simp]: "snd (smap_err g m s) = snd (m s)"
  by (simp add: smap_err_def split: prod.split)

end
