(* ===== verification/Crypto.thy ===== *)
theory Crypto
  imports Prelude
begin

text \<open>
  The cryptographic core, \<^verbatim>\<open>src/shared/src/crypto/\<close>: keys, key derivation, AES-256-GCM
  sealing with a prepended nonce, Ed25519 signatures and the rotating temporal identifiers.

  The algorithms themselves come from third-party crates and are the fields of a
  \<open>crypto_lib\<close>; \<open>crypto_ok\<close> states what their documentation promises (lengths, decryption
  inverts encryption, a signature made with a key verifies under its public key, Diffie-Hellman
  commutes). Randomness and the clock are arguments: the answer of one
  \<^verbatim>\<open>getrandom::fill\<close> call (\<open>None\<close> on failure) and of one \<^verbatim>\<open>SystemTime::now()\<close>
  reading in seconds since the epoch (\<open>None\<close> for a clock before the epoch).
\<close>

section \<open>Errors, primitives and keys\<close>

datatype crypto_error =
    InvalidKeyLength | InvalidSignature | EncryptionFailed | DecryptionFailed
  | KeyDerivationFailed | RandomGenerationFailed | SystemTimeError

text \<open>
  \<open>hkdf_expand L ikm infos n\<close> is \<^verbatim>\<open>Hkdf::<Sha256>::new(None, ikm)\<close> expanded to \<open>n\<close> bytes
  with the given info components; \<open>hmac_sha256\<close> is \<open>None\<close> when the key is refused.
\<close>

record crypto_lib =
  hkdf_expand :: "bytes \<Rightarrow> bytes list \<Rightarrow> nat \<Rightarrow> bytes option"
  hmac_sha256 :: "bytes \<Rightarrow> bytes \<Rightarrow> bytes option"
  sha256 :: "bytes \<Rightarrow> bytes"
  aes_encrypt :: "bytes \<Rightarrow> bytes \<Rightarrow> bytes \<Rightarrow> bytes \<Rightarrow> bytes option"
  aes_decrypt :: "bytes \<Rightarrow> bytes \<Rightarrow> bytes \<Rightarrow> bytes \<Rightarrow> bytes option"
  ed_public :: "bytes \<Rightarrow> bytes"
  ed_sign :: "bytes \<Rightarrow> bytes \<Rightarrow> bytes"
  ed_key_valid :: "bytes \<Rightarrow> bool"
  ed_verify :: "bytes \<Rightarrow> bytes \<Rightarrow> bytes \<Rightarrow> bool"
  x_public :: "bytes \<Rightarrow> bytes"
  x_dh :: "bytes \<Rightarrow> bytes \<Rightarrow> bytes"

text \<open>The longest plaintext AES-GCM accepts, in bytes.\<close>

definition aes_max :: nat where
  "aes_max = 2 ^ 36"

definition crypto_ok :: "crypto_lib \<Rightarrow> bool" where
  "crypto_ok L \<longleftrightarrow>
     (\<forall>ikm infos n. n \<le> 255 * 32 \<longrightarrow> (\<exists>out. hkdf_expand L ikm infos n = Some out \<and> length out = n)) \<and>
     (\<forall>k m. \<exists>out. hmac_sha256 L k m = Some out \<and> length out = 32) \<and>
     (\<forall>m. length (sha256 L m) = 32) \<and>
     (\<forall>k n m a. length m \<le> aes_max \<longrightarrow> (\<exists>c. aes_encrypt L k n m a = Some c)) \<and>
     (\<forall>k n m a c. aes_encrypt L k n m a = Some c \<longrightarrow> aes_decrypt L k n c a = Some m) \<and>
     (\<forall>k n m a c. aes_encrypt L k n m a = Some c \<longrightarrow> length c = length m + 16) \<and>
     (\<forall>s. length (ed_public L s) = 32 \<and> ed_key_valid L (ed_public L s)) \<and>
     (\<forall>s m. length (ed_sign L s m) = 64 \<and> ed_verify L (ed_public L s) m (ed_sign L s m)) \<and>
     (\<forall>s. length (x_public L s) = 32) \<and>
     (\<forall>s t. x_dh L s (x_public L t) = x_dh L t (x_public L s))"

lemma crypto_okD:
  assumes "crypto_ok L"
  shows hkdf_ok: "n \<le> 8160 \<Longrightarrow> \<exists>out. hkdf_expand L ikm infos n = Some out \<and> length out = n"
    and hmac_ok: "\<exists>out. hmac_sha256 L k m = Some out \<and> length out = 32"
    and sha256_ok: "length (sha256 L m) = 32"
    and aes_total: "length m \<le> aes_max \<Longrightarrow> \<exists>c. aes_encrypt L k nc m a = Some c"
    and aes_inverse: "aes_encrypt L k nc m a = Some c \<Longrightarrow> aes_decrypt L k nc c a = Some m"
    and aes_length: "aes_encrypt L k nc m a = Some c \<Longrightarrow> length c = length m + 16"
    and ed_public_ok: "length (ed_public L s) = 32" "ed_key_valid L (ed_public L s)"
    and ed_sign_ok: "length (ed_sign L s m) = 64" "ed_verify L (ed_public L s) m (ed_sign L s m)"
    and x_public_ok: "length (x_public L s) = 32"
    and x_dh_commute: "x_dh L s (x_public L t) = x_dh L t (x_public L s)"
  using assms unfolding crypto_ok_def by simp_all

datatype client_symmetric_key = ClientSymmetricKey (csk_bytes: bytes)

datatype pairing_symmetric_key = PairingSymmetricKey (psk_bytes: bytes)

record ed25519_keypair =
  signing_key_bytes :: bytes
  verifying_key :: bytes

record x25519_keypair =
  secret_bytes :: bytes
  x_public_key :: bytes

definition from_signing_key_bytes :: "crypto_lib \<Rightarrow> bytes \<Rightarrow> crypto_error + ed25519_keypair" where
  "from_signing_key_bytes L seed =
     Inr \<lparr>signing_key_bytes = seed, verifying_key = ed_public L seed\<rparr>"

definition generate_ed25519 :: "crypto_lib \<Rightarrow> bytes option \<Rightarrow> crypto_error + ed25519_keypair" where
  "generate_ed25519 L rnd =
     rbind (ok_or RandomGenerationFailed rnd) (\<lambda>seed.
       Inr \<lparr>signing_key_bytes = seed, verifying_key = ed_public L seed\<rparr>)"

definition keypair_sign :: "crypto_lib \<Rightarrow> ed25519_keypair \<Rightarrow> bytes \<Rightarrow> bytes" where
  "keypair_sign L kp data = ed_sign L (signing_key_bytes kp) data"

definition from_secret_bytes :: "crypto_lib \<Rightarrow> bytes \<Rightarrow> x25519_keypair" where
  "from_secret_bytes L sk = \<lparr>secret_bytes = sk, x_public_key = x_public L sk\<rparr>"

definition generate_x25519 :: "crypto_lib \<Rightarrow> bytes option \<Rightarrow> crypto_error + x25519_keypair" where
  "generate_x25519 L rnd =
     rbind (ok_or RandomGenerationFailed rnd) (\<lambda>sk.
       Inr \<lparr>secret_bytes = sk, x_public_key = x_public L sk\<rparr>)"

definition diffie_hellman :: "crypto_lib \<Rightarrow> x25519_keypair \<Rightarrow> bytes \<Rightarrow> crypto_error + bytes" where
  "diffie_hellman L kp their_public = Inr (x_dh L (secret_bytes kp) their_public)"

definition generate_csk :: "bytes option \<Rightarrow> crypto_error + client_symmetric_key" where
  "generate_csk rnd =
     rbind (ok_or RandomGenerationFailed rnd) (\<lambda>key. Inr (ClientSymmetricKey key))"

text \<open>A key pair as the constructors build it: the public half belongs to the secret half.\<close>

definition ed_wf :: "crypto_lib \<Rightarrow> ed25519_keypair \<Rightarrow> bool" where
  "ed_wf L kp \<longleftrightarrow> verifying_key kp = ed_public L (signing_key_bytes kp)"

definition x_wf :: "crypto_lib \<Rightarrow> x25519_keypair \<Rightarrow> bool" where
  "x_wf L kp \<longleftrightarrow> x_public_key kp = x_public L (secret_bytes kp)"

lemma generate_ed25519_wf: "generate_ed25519 L rnd = Inr kp \<Longrightarrow> ed_wf L kp"
  by (auto simp: generate_ed25519_def ed_wf_def result_simps)

lemma from_signing_key_bytes_wf: "from_signing_key_bytes L seed = Inr kp \<Longrightarrow> ed_wf L kp"
  by (auto simp: from_signing_key_bytes_def ed_wf_def)

lemma generate_x25519_wf: "generate_x25519 L rnd = Inr kp \<Longrightarrow> x_wf L kp"
  by (auto simp: generate_x25519_def x_wf_def result_simps)

section \<open>Ed25519 signatures\<close>

definition sign_ed25519 :: "crypto_lib \<Rightarrow> ed25519_keypair \<Rightarrow> bytes \<Rightarrow> bytes" where
  "sign_ed25519 L kp data = keypair_sign L kp data"

definition verify_ed25519 :: "crypto_lib \<Rightarrow> bytes \<Rightarrow> bytes \<Rightarrow> bytes \<Rightarrow> crypto_error + unit" where
  "verify_ed25519 L public_key data signature =
     (if \<not> ed_key_valid L public_key then Inl InvalidSignature
      else if length signature \<noteq> 64 then Inl InvalidSignature
      else if ed_verify L public_key data signature then Inr ()
      else Inl InvalidSignature)"

lemma verify_ed25519_sign:
  "crypto_ok L \<Longrightarrow> ed_wf L kp \<Longrightarrow>
   verify_ed25519 L (verifying_key kp) data (sign_ed25519 L kp data) = Inr ()"
  by (simp add: verify_ed25519_def sign_ed25519_def keypair_sign_def ed_wf_def ed_public_ok ed_sign_ok)

lemma verify_ed25519_eq_Inr:
  "verify_ed25519 L pk data sig = Inr () \<longleftrightarrow>
   ed_key_valid L pk \<and> length sig = 64 \<and> ed_verify L pk data sig"
  by (simp add: verify_ed25519_def)

section \<open>Sealing with a prepended nonce\<close>

definition encrypt_aes_gcm :: "crypto_lib \<Rightarrow> bytes \<Rightarrow> bytes \<Rightarrow> bytes \<Rightarrow> bytes \<Rightarrow> crypto_error + bytes" where
  "encrypt_aes_gcm L key nonce plaintext aad =
     ok_or EncryptionFailed (aes_encrypt L key nonce plaintext aad)"

definition decrypt_aes_gcm :: "crypto_lib \<Rightarrow> bytes \<Rightarrow> bytes \<Rightarrow> bytes \<Rightarrow> bytes \<Rightarrow> crypto_error + bytes" where
  "decrypt_aes_gcm L key nonce ciphertext aad =
     ok_or DecryptionFailed (aes_decrypt L key nonce ciphertext aad)"

definition derive_nonce :: "crypto_lib \<Rightarrow> bytes \<Rightarrow> bytes \<Rightarrow> crypto_error + bytes" where
  "derive_nonce L challenge info = ok_or KeyDerivationFailed (hkdf_expand L challenge [info] 12)"

definition encrypt_with_csk ::
  "crypto_lib \<Rightarrow> client_symmetric_key \<Rightarrow> bytes \<Rightarrow> bytes \<Rightarrow> bytes \<Rightarrow> crypto_error + bytes" where
  "encrypt_with_csk L csk challenge context plaintext =
     rbind (derive_nonce L challenge context) (\<lambda>nonce.
       encrypt_aes_gcm L (csk_bytes csk) nonce plaintext [])"

definition decrypt_with_csk ::
  "crypto_lib \<Rightarrow> client_symmetric_key \<Rightarrow> bytes \<Rightarrow> bytes \<Rightarrow> bytes \<Rightarrow> crypto_error + bytes" where
  "decrypt_with_csk L csk challenge context ciphertext =
     rbind (derive_nonce L challenge context) (\<lambda>nonce.
       decrypt_aes_gcm L (csk_bytes csk) nonce ciphertext [])"

definition encrypt_with_csk_and_random_nonce ::
  "crypto_lib \<Rightarrow> client_symmetric_key \<Rightarrow> bytes option \<Rightarrow> bytes \<Rightarrow> crypto_error + bytes" where
  "encrypt_with_csk_and_random_nonce L csk rnd plaintext =
     rbind (ok_or RandomGenerationFailed rnd) (\<lambda>nonce.
     rbind (encrypt_aes_gcm L (csk_bytes csk) nonce plaintext []) (\<lambda>ciphertext.
       Inr (nonce @ ciphertext)))"

definition decrypt_with_csk_and_prepended_nonce ::
  "crypto_lib \<Rightarrow> client_symmetric_key \<Rightarrow> bytes \<Rightarrow> crypto_error + bytes" where
  "decrypt_with_csk_and_prepended_nonce L csk ciphertext_with_nonce =
     (if length ciphertext_with_nonce < 12 then Inl DecryptionFailed
      else decrypt_aes_gcm L (csk_bytes csk) (take 12 ciphertext_with_nonce)
             (drop 12 ciphertext_with_nonce) [])"

definition encrypt_with_psk ::
  "crypto_lib \<Rightarrow> pairing_symmetric_key \<Rightarrow> bytes option \<Rightarrow> bytes \<Rightarrow> crypto_error + bytes" where
  "encrypt_with_psk L psk rnd plaintext =
     rbind (ok_or RandomGenerationFailed rnd) (\<lambda>nonce.
     rbind (encrypt_aes_gcm L (psk_bytes psk) nonce plaintext []) (\<lambda>ciphertext.
       Inr (nonce @ ciphertext)))"

definition decrypt_with_psk ::
  "crypto_lib \<Rightarrow> pairing_symmetric_key \<Rightarrow> bytes \<Rightarrow> crypto_error + bytes" where
  "decrypt_with_psk L psk ciphertext_with_nonce =
     (if length ciphertext_with_nonce < 12 then Inl DecryptionFailed
      else decrypt_aes_gcm L (psk_bytes psk) (take 12 ciphertext_with_nonce)
             (drop 12 ciphertext_with_nonce) [])"

text \<open>
  The contract that both sealed channels offer their clients (the encrypted packets under the CSK
  and the pairing messages under the PSK): opening inverts sealing, sealing succeeds on every
  message the cipher accepts, the random nonce travels in front, and anything shorter than a nonce
  is refused.
\<close>

locale sealed_box =
  fixes good :: "'p \<Rightarrow> bool"
    and seal :: "'p \<Rightarrow> 'k \<Rightarrow> bytes option \<Rightarrow> bytes \<Rightarrow> crypto_error + bytes"
    and unseal :: "'p \<Rightarrow> 'k \<Rightarrow> bytes \<Rightarrow> crypto_error + bytes"
  assumes unseal_seal:
      "good p \<Longrightarrow> length r = 12 \<Longrightarrow> seal p k (Some r) m = Inr c \<Longrightarrow> unseal p k c = Inr m"
    and seal_total:
      "good p \<Longrightarrow> length m \<le> aes_max \<Longrightarrow> \<exists>c. seal p k (Some r) m = Inr c"
    and seal_no_entropy: "seal p k None m = Inl RandomGenerationFailed"
    and seal_nonce: "seal p k (Some r) m = Inr c \<Longrightarrow> \<exists>body. c = r @ body"
    and unseal_short: "length c < 12 \<Longrightarrow> unseal p k c = Inl DecryptionFailed"
begin

lemma round_trip:
  assumes "good p" "length r = 12" "length m \<le> aes_max"
  shows "\<exists>c. seal p k (Some r) m = Inr c \<and> unseal p k c = Inr m"
  using seal_total [OF assms(1,3)] unseal_seal [OF assms(1,2)] by blast

lemma seal_rnd: "seal p k rnd m = Inr c \<Longrightarrow> \<exists>r. rnd = Some r"
  using seal_no_entropy [of p k m] by (cases rnd) auto

lemma seal_injective:
  assumes "good p" "length r = 12" "length r' = 12"
    and "seal p k (Some r) m = Inr c" "seal p k (Some r') m' = Inr c"
  shows "m = m' \<and> r = r'"
proof -
  from unseal_seal [OF assms(1,2,4)] unseal_seal [OF assms(1,3,5)] have "m = m'" by simp
  moreover from seal_nonce [OF assms(4)] seal_nonce [OF assms(5)] assms(2,3) have "r = r'"
    by auto
  ultimately show ?thesis ..
qed

end

interpretation csk_box: sealed_box crypto_ok encrypt_with_csk_and_random_nonce
    decrypt_with_csk_and_prepended_nonce
  by unfold_locales
    (auto simp: encrypt_with_csk_and_random_nonce_def decrypt_with_csk_and_prepended_nonce_def
      encrypt_aes_gcm_def decrypt_aes_gcm_def result_simps aes_inverse aes_total)

interpretation psk_box: sealed_box crypto_ok encrypt_with_psk decrypt_with_psk
  by unfold_locales
    (auto simp: encrypt_with_psk_def decrypt_with_psk_def
      encrypt_aes_gcm_def decrypt_aes_gcm_def result_simps aes_inverse aes_total)

section \<open>Key derivation and the short authentication string\<close>

definition derive_psk_from_x25519 :: "crypto_lib \<Rightarrow> bytes \<Rightarrow> crypto_error + pairing_symmetric_key" where
  "derive_psk_from_x25519 L shared_secret =
     rbind (ok_or KeyDerivationFailed
              (hkdf_expand L shared_secret [str_bytes ''tapauth-pairing-key''] 32)) (\<lambda>psk.
       Inr (PairingSymmetricKey psk))"

definition format_06 :: "nat \<Rightarrow> string" where
  "format_06 n = replicate (6 - length (decimal n)) CHR ''0'' @ decimal n"

definition derive_sas ::
  "crypto_lib \<Rightarrow> pairing_symmetric_key \<Rightarrow> bytes \<Rightarrow> bytes \<Rightarrow> crypto_error + string" where
  "derive_sas L psk client_public server_public =
     rbind (ok_or KeyDerivationFailed
              (hkdf_expand L (psk_bytes psk)
                 [str_bytes ''tapauth-sas'', client_public @ server_public] 8)) (\<lambda>out.
       Inr (format_06 (from_be out mod 1000000)))"

text \<open>\<open>None\<close> is the panic of a slice that splits a UTF-8 sequence.\<close>

definition format_sas :: "string \<Rightarrow> string option" where
  "format_sas sas =
     (if length sas = 6
      then (if is_char_boundary sas 3 then Some (take 3 sas @ ''-'' @ drop 3 sas) else None)
      else Some sas)"

lemma format_06_shape:
  assumes "n < 1000000"
  shows "length (format_06 n) = 6" "list_all is_digit (format_06 n)"
proof -
  have "length (decimal n) \<le> 6" using length_decimal_le [of n 6] assms by simp
  then show "length (format_06 n) = 6" by (simp add: format_06_def)
  show "list_all is_digit (format_06 n)"
    by (auto simp: format_06_def list_all_iff decimal_digits is_digit_def set_replicate_conv_if
        dest: decimal_digits)
qed

lemma derive_sas_shape:
  "derive_sas L psk a b = Inr sas \<Longrightarrow> length sas = 6 \<and> list_all is_digit sas"
  by (auto simp: derive_sas_def result_simps format_06_shape)

lemma derive_sas_total: "crypto_ok L \<Longrightarrow> \<exists>sas. derive_sas L psk a b = Inr sas"
  using hkdf_ok [of L 8 "psk_bytes psk" "[str_bytes ''tapauth-sas'', a @ b]"]
  by (auto simp: derive_sas_def)

lemma derive_psk_total: "crypto_ok L \<Longrightarrow> \<exists>k. derive_psk_from_x25519 L s = Inr (PairingSymmetricKey k)"
  using hkdf_ok [of L 32 s "[str_bytes ''tapauth-pairing-key'']"]
  by (auto simp: derive_psk_from_x25519_def)

lemma digit_is_boundary:
  "list_all is_digit s \<Longrightarrow> i \<le> length s \<Longrightarrow> is_char_boundary s i"
  by (cases "i = length s") (auto simp: is_char_boundary_def list_all_length is_digit_def
      dest!: spec [where x = i])

section \<open>Temporal identifiers\<close>

definition TIME_WINDOW_SECONDS :: u64 where
  "TIME_WINDOW_SECONDS = 60"

definition current_time_window :: "u64 option \<Rightarrow> crypto_error + u64" where
  "current_time_window now =
     rbind (ok_or SystemTimeError now) (\<lambda>secs. Inr (secs div TIME_WINDOW_SECONDS))"

definition generate_temporal_identifier ::
  "crypto_lib \<Rightarrow> client_symmetric_key \<Rightarrow> u64 \<Rightarrow> crypto_error + bytes" where
  "generate_temporal_identifier L csk time_window =
     rbind (ok_or KeyDerivationFailed (hmac_sha256 L (csk_bytes csk) (be_bytes 8 (unat time_window))))
       (\<lambda>out. if length out < 16 then Inl KeyDerivationFailed else Inr (take 16 out))"

definition generate_temporal_identifier_ble ::
  "crypto_lib \<Rightarrow> client_symmetric_key \<Rightarrow> u64 \<Rightarrow> crypto_error + bytes" where
  "generate_temporal_identifier_ble L csk time_window =
     rbind (ok_or KeyDerivationFailed (hmac_sha256 L (csk_bytes csk) (be_bytes 8 (unat time_window))))
       (\<lambda>out. if length out < 10 then Inl KeyDerivationFailed else Inr (take 10 out))"

definition generate_current_temporal_identifier ::
  "crypto_lib \<Rightarrow> client_symmetric_key \<Rightarrow> u64 option \<Rightarrow> crypto_error + bytes" where
  "generate_current_temporal_identifier L csk now =
     rbind (current_time_window now) (\<lambda>w. generate_temporal_identifier L csk w)"

definition generate_current_temporal_identifier_ble ::
  "crypto_lib \<Rightarrow> client_symmetric_key \<Rightarrow> u64 option \<Rightarrow> crypto_error + bytes" where
  "generate_current_temporal_identifier_ble L csk now =
     rbind (current_time_window now) (\<lambda>w. generate_temporal_identifier_ble L csk w)"

definition generate_previous_temporal_identifier ::
  "crypto_lib \<Rightarrow> client_symmetric_key \<Rightarrow> u64 option \<Rightarrow> crypto_error + bytes" where
  "generate_previous_temporal_identifier L csk now =
     rbind (current_time_window now) (\<lambda>window.
       if window = 0 then Inl KeyDerivationFailed
       else generate_temporal_identifier L csk (window - 1))"

definition generate_previous_temporal_identifier_ble ::
  "crypto_lib \<Rightarrow> client_symmetric_key \<Rightarrow> u64 option \<Rightarrow> crypto_error + bytes" where
  "generate_previous_temporal_identifier_ble L csk now =
     rbind (current_time_window now) (\<lambda>window.
       if window = 0 then Inl KeyDerivationFailed
       else generate_temporal_identifier_ble L csk (window - 1))"

text \<open>The clock is read once for the current and, if that does not match, again for the previous window.\<close>

definition verify_temporal_identifier ::
  "crypto_lib \<Rightarrow> client_symmetric_key \<Rightarrow> bytes \<Rightarrow> u64 option \<Rightarrow> u64 option \<Rightarrow> crypto_error + bool" where
  "verify_temporal_identifier L csk identifier now1 now2 =
     rbind (generate_current_temporal_identifier L csk now1) (\<lambda>current.
       if identifier = current then Inr True
       else rbind (generate_previous_temporal_identifier L csk now2) (\<lambda>previous.
         Inr (identifier = previous)))"

definition verify_temporal_identifier_ble ::
  "crypto_lib \<Rightarrow> client_symmetric_key \<Rightarrow> bytes \<Rightarrow> u64 option \<Rightarrow> u64 option \<Rightarrow> crypto_error + bool" where
  "verify_temporal_identifier_ble L csk identifier now1 now2 =
     rbind (generate_current_temporal_identifier_ble L csk now1) (\<lambda>current.
       if identifier = current then Inr True
       else rbind (generate_previous_temporal_identifier_ble L csk now2) (\<lambda>previous.
         Inr (identifier = previous)))"

lemma temporal_identifier_total:
  assumes "crypto_ok L"
  shows "\<exists>out. generate_temporal_identifier L csk w = Inr (take 16 out) \<and>
           generate_temporal_identifier_ble L csk w = Inr (take 10 out) \<and> length out = 32"
  using hmac_ok [OF assms, of "csk_bytes csk" "be_bytes 8 (unat w)"]
  by (auto simp: generate_temporal_identifier_def generate_temporal_identifier_ble_def)

text \<open>Within sixty seconds the window moves by at most one.\<close>

lemma window_within_minute:
  fixes t u :: u64
  assumes "unat t \<le> unat u" "unat u \<le> unat t + 60"
  shows "u div 60 = t div 60 \<or> (u div 60 \<noteq> 0 \<and> u div 60 - 1 = t div 60)"
proof -
  have d: "unat (x div 60) = unat x div 60" for x :: u64
    by (simp add: unat_div)
  from assms have "unat u div 60 = unat t div 60 \<or> unat u div 60 = unat t div 60 + 1"
    by linarith
  then show ?thesis
  proof
    assume "unat u div 60 = unat t div 60"
    then show ?thesis by (simp add: word_unat_eq_iff d)
  next
    assume h: "unat u div 60 = unat t div 60 + 1"
    then have nz: "u div 60 \<noteq> 0" by (metis d add_is_0 one_neq_zero unat_0)
    then have "unat (u div 60 - 1) = unat u div 60 - 1"
      by (simp add: unat_minus_one d)
    with h nz show ?thesis by (simp add: word_unat_eq_iff d)
  qed
qed

lemma verify_temporal_identifier_iff:
  assumes "generate_current_temporal_identifier L csk now1 = Inr c"
    and "generate_previous_temporal_identifier L csk now2 = Inr p"
  shows "verify_temporal_identifier L csk i now1 now2 = Inr (i = c \<or> i = p)"
  using assms by (simp add: verify_temporal_identifier_def)

section \<open>A small concrete library\<close>

text \<open>
  A library that satisfies \<open>crypto_ok\<close>, used to evaluate the model on concrete inputs.
  It is not secure and stands for none of the crates.
\<close>

definition pad :: "nat \<Rightarrow> bytes \<Rightarrow> bytes" where
  "pad n b = take n (b @ replicate n 0)"

lemma length_pad [simp]: "length (pad n b) = n"
  by (simp add: pad_def)

lemma pad_pad [simp]: "pad n (pad n b) = pad n b"
  by (simp add: pad_def)

definition demo_crypto :: crypto_lib where
  "demo_crypto =
     \<lparr>hkdf_expand = (\<lambda>ikm infos n. if n \<le> 8160 then Some (pad n (ikm @ concat infos)) else None),
      hmac_sha256 = (\<lambda>k m. Some (pad 32 (m @ k))),
      sha256 = pad 32,
      aes_encrypt = (\<lambda>k n m a. if length m \<le> aes_max then Some (m @ pad 16 k) else None),
      aes_decrypt = (\<lambda>k n c a. if 16 \<le> length c \<and> drop (length c - 16) c = pad 16 k
                               then Some (take (length c - 16) c) else None),
      ed_public = pad 32,
      ed_sign = (\<lambda>s m. pad 32 s @ pad 32 m),
      ed_key_valid = (\<lambda>_. True),
      ed_verify = (\<lambda>pk m sig. sig = pad 32 pk @ pad 32 m),
      x_public = pad 32,
      x_dh = (\<lambda>s p. map2 xor (pad 32 s) (pad 32 p))\<rparr>"

lemma map2_xor_commute: "length a = length b \<Longrightarrow> map2 xor a b = map2 xor b (a :: bytes)"
  by (induction a b rule: list_induct2) (simp_all add: xor.commute)

lemma demo_crypto_ok: "crypto_ok demo_crypto"
  unfolding crypto_ok_def
proof (intro conjI)
  show "\<forall>s t. x_dh demo_crypto s (x_public demo_crypto t) = x_dh demo_crypto t (x_public demo_crypto s)"
    by (auto simp: demo_crypto_def intro!: map2_xor_commute)
qed (auto simp: demo_crypto_def split: if_splits)

text \<open>Equations for evaluation, one per primitive.\<close>

lemma demo_eval:
  "n \<le> 8160 \<Longrightarrow> hkdf_expand demo_crypto ikm infos n = Some (pad n (ikm @ concat infos))"
  "hmac_sha256 demo_crypto k m = Some (pad 32 (m @ k))"
  "sha256 demo_crypto m = pad 32 m"
  "length m \<le> aes_max \<Longrightarrow> aes_encrypt demo_crypto k n' m a = Some (m @ pad 16 k)"
  "aes_decrypt demo_crypto k n' (m @ pad 16 k) a = Some m"
  "ed_public demo_crypto s = pad 32 s"
  "ed_sign demo_crypto s m = pad 32 s @ pad 32 m"
  "ed_key_valid demo_crypto pk"
  "ed_verify demo_crypto pk m sig \<longleftrightarrow> sig = pad 32 pk @ pad 32 m"
  "x_public demo_crypto s = pad 32 s"
  "x_dh demo_crypto s p = map2 xor (pad 32 s) (pad 32 p)"
  by (simp_all add: demo_crypto_def)

section \<open>Properties\<close>

text \<open>
  Both sealed channels are lossless: whatever the daemon seals under the CSK, and whatever a
  pairing peer seals under the PSK, with twelve bytes of fresh randomness opens again to exactly
  the sealed message, and sealing never fails below the cipher's length limit.
\<close>

theorem sealed_channels_round_trip:
  assumes "crypto_ok L" and "length r = 12" and "length m \<le> aes_max"
  shows "(\<exists>c. encrypt_with_csk_and_random_nonce L csk (Some r) m = Inr c \<and>
              decrypt_with_csk_and_prepended_nonce L csk c = Inr m) \<and>
         (\<exists>c. encrypt_with_psk L psk (Some r) m = Inr c \<and> decrypt_with_psk L psk c = Inr m)"
  using csk_box.round_trip [OF assms] psk_box.round_trip [OF assms] by blast

theorem sealed_channels_round_trip_witness:
  "(\<exists>c. encrypt_with_csk_and_random_nonce demo_crypto (ClientSymmetricKey (replicate 32 7))
          (Some (replicate 12 1)) [1, 2, 3] = Inr c \<and>
        decrypt_with_csk_and_prepended_nonce demo_crypto (ClientSymmetricKey (replicate 32 7)) c
          = Inr [1, 2, 3]) \<and>
   (\<exists>c. encrypt_with_psk demo_crypto (PairingSymmetricKey (replicate 32 9))
          (Some (replicate 12 1)) [1, 2, 3] = Inr c \<and>
        decrypt_with_psk demo_crypto (PairingSymmetricKey (replicate 32 9)) c = Inr [1, 2, 3])"
  by (rule sealed_channels_round_trip [OF demo_crypto_ok]) (simp_all add: aes_max_def)

text \<open>
  A temporal identifier lives for at least a minute: one generated at second \<open>t\<close> is accepted
  by a verifier whose two clock readings lie between \<open>t\<close> and \<open>t + 60\<close>, in the 16-byte form of
  the encrypted packets and in the 10-byte form of the BLE advertisement.
\<close>

theorem temporal_identifier_lives_a_minute:
  fixes t t1 t2 :: u64
  assumes "crypto_ok L"
    and "unat t \<le> unat t1" "unat t1 \<le> unat t2" "unat t2 \<le> unat t + 60"
  shows "(\<exists>i. generate_current_temporal_identifier L csk (Some t) = Inr i \<and> length i = 16 \<and>
              verify_temporal_identifier L csk i (Some t1) (Some t2) = Inr True) \<and>
         (\<exists>i. generate_current_temporal_identifier_ble L csk (Some t) = Inr i \<and> length i = 10 \<and>
              verify_temporal_identifier_ble L csk i (Some t1) (Some t2) = Inr True)"
proof -
  let ?w = "\<lambda>x :: u64. x div 60"
  from window_within_minute [of t t2] assms(2-4)
  have w2: "?w t2 = ?w t \<or> (?w t2 \<noteq> 0 \<and> ?w t2 - 1 = ?w t)" by simp
  have later: "?w t1 \<noteq> ?w t \<Longrightarrow> ?w t2 \<noteq> 0 \<and> ?w t2 - 1 = ?w t"
  proof -
    assume ne: "?w t1 \<noteq> ?w t"
    have "unat t div 60 \<le> unat t1 div 60" "unat t1 div 60 \<le> unat t2 div 60"
      using assms(2,3) by (simp_all add: div_le_mono)
    moreover have "unat t1 div 60 \<noteq> unat t div 60"
      using ne by (simp add: word_unat_eq_iff unat_div)
    ultimately have "?w t2 \<noteq> ?w t" by (auto simp: word_unat_eq_iff unat_div)
    with w2 show ?thesis by simp
  qed
  obtain out where "generate_temporal_identifier L csk (?w t) = Inr (take 16 out)"
    "generate_temporal_identifier_ble L csk (?w t) = Inr (take 10 out)" "length out = 32"
    using temporal_identifier_total [OF assms(1)] by blast
  moreover obtain out1 where "generate_temporal_identifier L csk (?w t1) = Inr (take 16 out1)"
    "generate_temporal_identifier_ble L csk (?w t1) = Inr (take 10 out1)" "length out1 = 32"
    using temporal_identifier_total [OF assms(1)] by blast
  moreover have "?w t1 = ?w t \<or> ?w t1 \<noteq> ?w t \<and> ?w t2 \<noteq> 0 \<and> ?w t2 - 1 = ?w t"
    using later by blast
  ultimately show ?thesis
    by (elim disjE conjE)
      (simp_all add: generate_current_temporal_identifier_def generate_current_temporal_identifier_ble_def
        verify_temporal_identifier_def verify_temporal_identifier_ble_def
        generate_previous_temporal_identifier_def generate_previous_temporal_identifier_ble_def
        current_time_window_def TIME_WINDOW_SECONDS_def)
qed

theorem temporal_identifier_lives_a_minute_witness:
  "(\<exists>i. generate_current_temporal_identifier demo_crypto (ClientSymmetricKey (replicate 32 7)) (Some 100)
          = Inr i \<and> length i = 16 \<and>
        verify_temporal_identifier demo_crypto (ClientSymmetricKey (replicate 32 7)) i (Some 119) (Some 120)
          = Inr True) \<and>
   (\<exists>i. generate_current_temporal_identifier_ble demo_crypto (ClientSymmetricKey (replicate 32 7)) (Some 100)
          = Inr i \<and> length i = 10 \<and>
        verify_temporal_identifier_ble demo_crypto (ClientSymmetricKey (replicate 32 7)) i (Some 119) (Some 120)
          = Inr True)"
  by (rule temporal_identifier_lives_a_minute [OF demo_crypto_ok]) simp_all

text \<open>
  The short authentication string is always six decimal digits, leading zeros included, and
  its display form is three digits, a dash and three digits: formatting it never panics.
\<close>

theorem sas_is_six_digits:
  assumes "derive_sas L psk client_public server_public = Inr sas"
  shows "length sas = 6 \<and> list_all is_digit sas \<and>
         format_sas sas = Some (take 3 sas @ ''-'' @ drop 3 sas)"
  using derive_sas_shape [OF assms] by (simp add: format_sas_def digit_is_boundary)

theorem sas_is_six_digits_witness:
  "derive_sas demo_crypto (PairingSymmetricKey ([0, 0, 0, 0, 0, 0, 48, 57] @ replicate 24 0))
     (replicate 32 1) (replicate 32 2) = Inr ''012345'' \<and>
   format_sas ''012345'' = Some ''012-345''"
proof -
  have d: "decimal 12345 = ''12345''" by (simp add: decimal.simps digit_char_def char_of_eq_iff)
  have h: "derive_sas demo_crypto (PairingSymmetricKey ([0, 0, 0, 0, 0, 0, 48, 57] @ replicate 24 0))
      (replicate 32 1) (replicate 32 2) = Inr ''012345''"
    by (simp add: derive_sas_def demo_eval pad_def from_be_def format_06_def d)
  from sas_is_six_digits [OF h] h show ?thesis by simp
qed

end
