(* ===== verification/Messages.thy ===== *)
theory Messages
  imports Crypto
begin

text \<open>
  The authentication messages, \<^verbatim>\<open>src/shared/src/protocol/messages.rs\<close> and
  \<^verbatim>\<open>src/shared/src/protocol/packet.rs\<close>, over the message types of
  \<^verbatim>\<open>src/proto/auth_protocol.proto\<close>: building, signing, verifying, sealing and opening them.

  The structs are the ones the protobuf compiler generates from the proto file; its encoder and
  decoder are the fields of a \<open>pb_codec\<close>, and \<open>codec_ok\<close> states that decoding inverts encoding.
\<close>

section \<open>Message types\<close>

record authentication_request =
  req_challenge :: bytes
  req_username :: string
  req_hostname :: string
  timestamp_unix_seconds :: u64

datatype authentication_grant = AuthenticationGrant (signed_challenge: bytes)

datatype authentication_denial = AuthenticationDenial (denial_challenge: bytes)

datatype grant_confirmation = GrantConfirmationMsg (confirmation_challenge: bytes)

datatype authentication_cancel = AuthenticationCancel (cancel_challenge: bytes)

datatype payload =
    AuthRequest authentication_request
  | AuthGrant authentication_grant
  | AuthDenial authentication_denial
  | GrantConfirmation grant_confirmation
  | AuthCancel authentication_cancel

record wrapper_message =
  version :: u32
  signature_algorithm :: i32
  signature :: bytes
  payload_of :: "payload option"

record encrypted_packet =
  temporal_identifier :: bytes
  encryption_algorithm :: i32
  ciphertext :: bytes

text \<open>The numbers of the proto enums.\<close>

definition ED25519 :: i32 where
  "ED25519 = 1"

definition AES_256_GCM :: i32 where
  "AES_256_GCM = 1"

definition SHA256_ALG :: i32 where
  "SHA256_ALG = 1"

record pb_codec =
  enc_wrapper :: "wrapper_message \<Rightarrow> bytes"
  dec_wrapper :: "bytes \<Rightarrow> wrapper_message option"
  enc_packet :: "encrypted_packet \<Rightarrow> bytes"
  dec_packet :: "bytes \<Rightarrow> encrypted_packet option"

definition codec_ok :: "('x) pb_codec_scheme \<Rightarrow> bool" where
  "codec_ok K \<longleftrightarrow> (\<forall>w. dec_wrapper K (enc_wrapper K w) = Some w) \<and>
     (\<forall>p. dec_packet K (enc_packet K p) = Some p)"

datatype protocol_error =
    Serialization | Deserialization | InvalidSignature_P | Crypto crypto_error
  | InvalidMessageFormat | MissingField string | Io io_error

section \<open>Signatures over the wrapper\<close>

definition sign_wrapper_message ::
  "crypto_lib \<Rightarrow> 'x pb_codec_scheme \<Rightarrow> wrapper_message \<Rightarrow> ed25519_keypair \<Rightarrow> protocol_error + wrapper_message"
where
  "sign_wrapper_message L K wrapper keypair =
     (let unsigned_wrapper = wrapper\<lparr>signature_algorithm := ED25519, signature := []\<rparr>;
          data_to_sign = enc_wrapper K unsigned_wrapper
      in Inr (unsigned_wrapper\<lparr>signature := sign_ed25519 L keypair data_to_sign\<rparr>))"

definition verify_wrapper_signature ::
  "crypto_lib \<Rightarrow> 'x pb_codec_scheme \<Rightarrow> wrapper_message \<Rightarrow> bytes \<Rightarrow> protocol_error + unit"
where
  "verify_wrapper_signature L K wrapper public_key =
     (let unsigned_wrapper = wrapper\<lparr>signature := []\<rparr>;
          data_to_verify = enc_wrapper K unsigned_wrapper
      in map_err Crypto (verify_ed25519 L public_key data_to_verify (signature wrapper)))"

section \<open>Requests, grants, denials, confirmations and cancels\<close>

definition create_auth_request_with_challenge ::
  "string \<Rightarrow> string \<Rightarrow> bytes \<Rightarrow> u64 option \<Rightarrow> protocol_error + authentication_request"
where
  "create_auth_request_with_challenge username hostname chal now =
     (if length chal \<noteq> 32 then Inl InvalidMessageFormat
      else rbind (ok_or (Crypto SystemTimeError) now) (\<lambda>timestamp.
        Inr \<lparr>req_challenge = chal, req_username = username, req_hostname = hostname,
             timestamp_unix_seconds = timestamp\<rparr>))"

definition create_auth_request ::
  "string \<Rightarrow> string \<Rightarrow> bytes option \<Rightarrow> u64 option \<Rightarrow> protocol_error + authentication_request"
where
  "create_auth_request username hostname rnd now =
     rbind (ok_or (Crypto RandomGenerationFailed) rnd) (\<lambda>chal.
       create_auth_request_with_challenge username hostname chal now)"

definition MAX_CLOCK_SKEW :: u64 where
  "MAX_CLOCK_SKEW = 60"

definition saturating_sub :: "u64 \<Rightarrow> u64 \<Rightarrow> u64" where
  "saturating_sub a b = (if a < b then 0 else a - b)"

definition is_request_timestamp_valid :: "authentication_request \<Rightarrow> u64 option \<Rightarrow> bool" where
  "is_request_timestamp_valid request now_opt =
     (case now_opt of
        None \<Rightarrow> False
      | Some now \<Rightarrow>
          (let timestamp = timestamp_unix_seconds request
           in timestamp \<le> now + MAX_CLOCK_SKEW \<and> saturating_sub now MAX_CLOCK_SKEW \<le> timestamp))"

definition create_auth_grant ::
  "crypto_lib \<Rightarrow> ed25519_keypair \<Rightarrow> bytes \<Rightarrow> protocol_error + authentication_grant"
where
  "create_auth_grant L keypair chal =
     (if length chal \<noteq> 32 then Inl InvalidMessageFormat
      else Inr (AuthenticationGrant (sign_ed25519 L keypair chal)))"

definition verify_auth_grant ::
  "crypto_lib \<Rightarrow> 'x pb_codec_scheme \<Rightarrow> wrapper_message \<Rightarrow> bytes \<Rightarrow> bytes \<Rightarrow> protocol_error + unit"
where
  "verify_auth_grant L K wrapper chal server_public_key =
     (if length chal \<noteq> 32 then Inl InvalidMessageFormat
      else rbind (verify_wrapper_signature L K wrapper server_public_key) (\<lambda>_.
        case payload_of wrapper of
          Some (AuthGrant grant) \<Rightarrow>
            map_err Crypto (verify_ed25519 L server_public_key chal (signed_challenge grant))
        | _ \<Rightarrow> Inl InvalidMessageFormat))"

definition create_auth_denial :: "bytes \<Rightarrow> protocol_error + authentication_denial" where
  "create_auth_denial chal =
     (if length chal \<noteq> 32 then Inl InvalidMessageFormat else Inr (AuthenticationDenial chal))"

definition create_grant_confirmation :: "bytes \<Rightarrow> protocol_error + grant_confirmation" where
  "create_grant_confirmation chal =
     (if length chal \<noteq> 32 then Inl InvalidMessageFormat else Inr (GrantConfirmationMsg chal))"

definition create_auth_cancel :: "bytes \<Rightarrow> protocol_error + authentication_cancel" where
  "create_auth_cancel chal =
     (if length chal \<noteq> 32 then Inl InvalidMessageFormat else Inr (AuthenticationCancel chal))"

section \<open>Wrapping and sealing\<close>

definition wrap_auth_request :: "authentication_request \<Rightarrow> wrapper_message" where
  "wrap_auth_request r =
     \<lparr>version = 1, signature_algorithm = ED25519, signature = [], payload_of = Some (AuthRequest r)\<rparr>"

definition wrap_auth_grant :: "authentication_grant \<Rightarrow> wrapper_message" where
  "wrap_auth_grant g =
     \<lparr>version = 1, signature_algorithm = ED25519, signature = [], payload_of = Some (AuthGrant g)\<rparr>"

definition wrap_auth_denial :: "authentication_denial \<Rightarrow> wrapper_message" where
  "wrap_auth_denial d =
     \<lparr>version = 1, signature_algorithm = ED25519, signature = [], payload_of = Some (AuthDenial d)\<rparr>"

definition wrap_grant_confirmation :: "grant_confirmation \<Rightarrow> wrapper_message" where
  "wrap_grant_confirmation c =
     \<lparr>version = 1, signature_algorithm = ED25519, signature = [], payload_of = Some (GrantConfirmation c)\<rparr>"

definition wrap_auth_cancel :: "authentication_cancel \<Rightarrow> wrapper_message" where
  "wrap_auth_cancel c =
     \<lparr>version = 1, signature_algorithm = ED25519, signature = [], payload_of = Some (AuthCancel c)\<rparr>"

definition extract_challenge :: "wrapper_message \<Rightarrow> bytes option" where
  "extract_challenge wrapper =
     (case payload_of wrapper of
        Some (AuthRequest r) \<Rightarrow> Some (req_challenge r)
      | Some (AuthDenial d) \<Rightarrow> Some (denial_challenge d)
      | Some (GrantConfirmation c) \<Rightarrow> Some (confirmation_challenge c)
      | Some (AuthCancel c) \<Rightarrow> Some (cancel_challenge c)
      | _ \<Rightarrow> None)"

definition create_encrypted_packet ::
  "crypto_lib \<Rightarrow> 'x pb_codec_scheme \<Rightarrow> u64 option \<Rightarrow> client_symmetric_key \<Rightarrow> bytes \<Rightarrow> bytes \<Rightarrow>
   wrapper_message \<Rightarrow> protocol_error + encrypted_packet"
where
  "create_encrypted_packet L K now csk chal context wrapper =
     rbind (map_err Crypto (generate_current_temporal_identifier L csk now)) (\<lambda>tid.
     rbind (map_err Crypto (encrypt_with_csk L csk chal context (enc_wrapper K wrapper))) (\<lambda>ct.
       Inr \<lparr>temporal_identifier = tid, encryption_algorithm = AES_256_GCM, ciphertext = ct\<rparr>))"

definition create_encrypted_packet_with_csk_nonce ::
  "crypto_lib \<Rightarrow> 'x pb_codec_scheme \<Rightarrow> u64 option \<Rightarrow> bytes option \<Rightarrow> client_symmetric_key \<Rightarrow>
   wrapper_message \<Rightarrow> protocol_error + encrypted_packet"
where
  "create_encrypted_packet_with_csk_nonce L K now rnd csk wrapper =
     rbind (map_err Crypto (generate_current_temporal_identifier L csk now)) (\<lambda>tid.
     rbind (map_err Crypto (encrypt_with_csk_and_random_nonce L csk rnd (enc_wrapper K wrapper))) (\<lambda>ct.
       Inr \<lparr>temporal_identifier = tid, encryption_algorithm = AES_256_GCM, ciphertext = ct\<rparr>))"

definition decrypt_encrypted_packet ::
  "crypto_lib \<Rightarrow> 'x pb_codec_scheme \<Rightarrow> client_symmetric_key \<Rightarrow> bytes \<Rightarrow> bytes \<Rightarrow>
   encrypted_packet \<Rightarrow> protocol_error + wrapper_message"
where
  "decrypt_encrypted_packet L K csk chal context packet =
     rbind (map_err Crypto (decrypt_with_csk L csk chal context (ciphertext packet))) (\<lambda>plaintext.
       ok_or Deserialization (dec_wrapper K plaintext))"

definition decrypt_encrypted_packet_with_csk_nonce ::
  "crypto_lib \<Rightarrow> 'x pb_codec_scheme \<Rightarrow> client_symmetric_key \<Rightarrow> encrypted_packet \<Rightarrow>
   protocol_error + wrapper_message"
where
  "decrypt_encrypted_packet_with_csk_nonce L K csk packet =
     rbind (map_err Crypto (decrypt_with_csk_and_prepended_nonce L csk (ciphertext packet))) (\<lambda>plaintext.
       ok_or Deserialization (dec_wrapper K plaintext))"

section \<open>Lemmas\<close>

lemma codec_okD:
  assumes "codec_ok K"
  shows dec_enc_wrapper: "dec_wrapper K (enc_wrapper K w) = Some w"
    and dec_enc_packet: "dec_packet K (enc_packet K p) = Some p"
  using assms by (simp_all add: codec_ok_def)

lemma sign_wrapper_message_total: "\<exists>s. sign_wrapper_message L K w kp = Inr s"
  by (simp add: sign_wrapper_message_def Let_def)

lemma sign_wrapper_message_fields:
  "sign_wrapper_message L K w kp = Inr s \<Longrightarrow>
     payload_of s = payload_of w \<and> version s = version w \<and> signature_algorithm s = ED25519"
  by (auto simp: sign_wrapper_message_def Let_def)

lemma verify_signed_wrapper:
  assumes "crypto_ok L" "ed_wf L kp" "sign_wrapper_message L K w kp = Inr s"
  shows "verify_wrapper_signature L K s (verifying_key kp) = Inr ()"
  using assms verify_ed25519_sign [OF assms(1,2)]
  by (auto simp: sign_wrapper_message_def verify_wrapper_signature_def Let_def)

lemma verify_wrapper_signature_iff:
  "verify_wrapper_signature L K w pk = Inr () \<longleftrightarrow>
   ed_key_valid L pk \<and> length (signature w) = 64 \<and>
   ed_verify L pk (enc_wrapper K (w\<lparr>signature := []\<rparr>)) (signature w)"
  by (simp add: verify_wrapper_signature_def Let_def verify_ed25519_eq_Inr)

lemma open_sealed_packet:
  assumes "crypto_ok L" "codec_ok K" "length r = 12"
    and "create_encrypted_packet_with_csk_nonce L K now (Some r) csk w = Inr p"
  shows "decrypt_encrypted_packet_with_csk_nonce L K csk p = Inr w"
  using assms csk_box.unseal_seal [OF assms(1,3)]
  by (auto simp: create_encrypted_packet_with_csk_nonce_def decrypt_encrypted_packet_with_csk_nonce_def
      result_simps dec_enc_wrapper)

lemma seal_packet_total:
  assumes "crypto_ok L" "length (enc_wrapper K w) \<le> aes_max"
  shows "\<exists>p. create_encrypted_packet_with_csk_nonce L K (Some t) (Some r) csk w = Inr p"
proof -
  obtain out where "generate_temporal_identifier L csk (t div 60) = Inr (take 16 out)"
    using temporal_identifier_total [OF assms(1)] by blast
  moreover obtain ct where "encrypt_with_csk_and_random_nonce L csk (Some r) (enc_wrapper K w) = Inr ct"
    using csk_box.seal_total [OF assms] by blast
  ultimately show ?thesis
    by (simp add: create_encrypted_packet_with_csk_nonce_def generate_current_temporal_identifier_def
        current_time_window_def TIME_WINDOW_SECONDS_def)
qed

lemma verify_auth_grant_iff:
  "verify_auth_grant L K w chal pk = Inr () \<longleftrightarrow>
   length chal = 32 \<and> verify_wrapper_signature L K w pk = Inr () \<and>
   (\<exists>g. payload_of w = Some (AuthGrant g) \<and> verify_ed25519 L pk chal (signed_challenge g) = Inr ())"
  by (auto simp: verify_auth_grant_def result_simps split: option.splits payload.splits)

section \<open>A concrete codec\<close>

text \<open>An instance of \<open>pb_codec\<close> on which the witnesses run.\<close>

fun payload_fields :: "payload option \<Rightarrow> bytes list" where
  "payload_fields None = []"
| "payload_fields (Some (AuthRequest r)) =
     [[1], req_challenge r, str_bytes (req_username r), str_bytes (req_hostname r),
      word_field (timestamp_unix_seconds r)]"
| "payload_fields (Some (AuthGrant g)) = [[2], signed_challenge g]"
| "payload_fields (Some (AuthDenial d)) = [[3], denial_challenge d]"
| "payload_fields (Some (GrantConfirmation c)) = [[4], confirmation_challenge c]"
| "payload_fields (Some (AuthCancel c)) = [[5], cancel_challenge c]"

fun fields_payload :: "bytes list \<Rightarrow> payload option" where
  "fields_payload [tag, chal, u, h, ts] =
     Some (AuthRequest \<lparr>req_challenge = chal, req_username = field_str u, req_hostname = field_str h,
       timestamp_unix_seconds = field_word ts\<rparr>)"
| "fields_payload [tag, chal] =
     Some (if tag = [2] then AuthGrant (AuthenticationGrant chal)
           else if tag = [3] then AuthDenial (AuthenticationDenial chal)
           else if tag = [4] then GrantConfirmation (GrantConfirmationMsg chal)
           else AuthCancel (AuthenticationCancel chal))"
| "fields_payload _ = None"

lemma fields_payload_fields [simp]: "fields_payload (payload_fields p) = p"
  by (cases p rule: payload_fields.cases) simp_all

definition demo_enc_wrapper :: "wrapper_message \<Rightarrow> bytes" where
  "demo_enc_wrapper w =
     put_fields ([word_field (version w), int_field (signature_algorithm w), signature w] @
       payload_fields (payload_of w))"

definition demo_dec_wrapper :: "bytes \<Rightarrow> wrapper_message option" where
  "demo_dec_wrapper bs = (case get_fields bs of
       v # a # s # fs \<Rightarrow> Some \<lparr>version = field_word v, signature_algorithm = field_int a, signature = s,
                           payload_of = fields_payload fs\<rparr>
     | _ \<Rightarrow> None)"

definition demo_enc_packet :: "encrypted_packet \<Rightarrow> bytes" where
  "demo_enc_packet p =
     put_fields [temporal_identifier p, int_field (encryption_algorithm p), ciphertext p]"

definition demo_dec_packet :: "bytes \<Rightarrow> encrypted_packet option" where
  "demo_dec_packet bs = (case get_fields bs of
       [t, a, c] \<Rightarrow> Some \<lparr>temporal_identifier = t, encryption_algorithm = field_int a, ciphertext = c\<rparr>
     | _ \<Rightarrow> None)"

definition demo_codec :: pb_codec where
  "demo_codec = \<lparr>enc_wrapper = demo_enc_wrapper, dec_wrapper = demo_dec_wrapper,
     enc_packet = demo_enc_packet, dec_packet = demo_dec_packet\<rparr>"

lemma demo_codec_ok: "codec_ok demo_codec"
  by (simp add: codec_ok_def demo_codec_def demo_enc_wrapper_def demo_dec_wrapper_def
      demo_enc_packet_def demo_dec_packet_def)

lemma demo_codec_sel [simp]:
  "enc_wrapper demo_codec = demo_enc_wrapper" "dec_wrapper demo_codec = demo_dec_wrapper"
  "enc_packet demo_codec = demo_enc_packet" "dec_packet demo_codec = demo_dec_packet"
  by (simp_all add: demo_codec_def)

lemma length_demo_enc_wrapper:
  "length (demo_enc_wrapper w) = 2 * (nat \<bar>signature_algorithm w\<bar> + length (signature w)) + 69 +
     (\<Sum>f\<leftarrow>payload_fields (payload_of w). 2 * length f + 1)"
  by (simp add: demo_enc_wrapper_def length_put_fields int_field_def)

section \<open>Properties\<close>

text \<open>
  A phone's answer is accepted. For every 32-byte challenge, the grant made with a paired key
  pair, wrapped, signed, sealed under the shared symmetric key and opened again by the client passes
  \<^verbatim>\<open>verify_auth_grant\<close> under that key's public half, and no step of the chain fails.
\<close>

theorem honest_grant_verifies:
  assumes "crypto_ok L" "codec_ok K" "ed_wf L kp" "length chal = 32" "length r = 12"
    and "create_auth_grant L kp chal = Inr g"
    and "sign_wrapper_message L K (wrap_auth_grant g) kp = Inr w"
    and "length (enc_wrapper K w) \<le> aes_max"
  shows "\<exists>p. create_encrypted_packet_with_csk_nonce L K (Some t) (Some r) csk w = Inr p \<and>
     decrypt_encrypted_packet_with_csk_nonce L K csk p = Inr w \<and>
     verify_auth_grant L K w chal (verifying_key kp) = Inr ()"
proof -
  obtain p where p: "create_encrypted_packet_with_csk_nonce L K (Some t) (Some r) csk w = Inr p"
    using seal_packet_total [OF assms(1,8)] by blast
  have "payload_of w = Some (AuthGrant (AuthenticationGrant (sign_ed25519 L kp chal)))"
    using sign_wrapper_message_fields [OF assms(7)] assms(4,6)
    by (simp add: create_auth_grant_def wrap_auth_grant_def)
  then have "verify_auth_grant L K w chal (verifying_key kp) = Inr ()"
    using verify_signed_wrapper [OF assms(1,3,7)] verify_ed25519_sign [OF assms(1,3)] assms(4)
    by (simp add: verify_auth_grant_iff)
  then show ?thesis
    using p open_sealed_packet [OF assms(1,2,5) p] by blast
qed

definition demo_phone :: ed25519_keypair where
  "demo_phone = \<lparr>signing_key_bytes = replicate 32 7, verifying_key = ed_public demo_crypto (replicate 32 7)\<rparr>"

lemma demo_phone_wf: "ed_wf demo_crypto demo_phone"
  by (simp add: demo_phone_def ed_wf_def)

lemma length_sign_demo: "length (sign_ed25519 demo_crypto kp m) = 64"
  using ed_sign_ok [OF demo_crypto_ok] by (simp add: sign_ed25519_def keypair_sign_def)

definition demo_grant_wrapper :: "bytes \<Rightarrow> wrapper_message" where
  "demo_grant_wrapper chal =
     (let w = wrap_auth_grant (AuthenticationGrant (sign_ed25519 demo_crypto demo_phone chal))
      in w\<lparr>signature := sign_ed25519 demo_crypto demo_phone (demo_enc_wrapper w)\<rparr>)"

theorem honest_grant_verifies_witness:
  "\<exists>p. create_encrypted_packet_with_csk_nonce demo_crypto demo_codec (Some 1000)
        (Some (replicate 12 3)) (ClientSymmetricKey (replicate 32 9)) (demo_grant_wrapper (replicate 32 5)) = Inr p \<and>
     decrypt_encrypted_packet_with_csk_nonce demo_crypto demo_codec (ClientSymmetricKey (replicate 32 9)) p
       = Inr (demo_grant_wrapper (replicate 32 5)) \<and>
     verify_auth_grant demo_crypto demo_codec (demo_grant_wrapper (replicate 32 5)) (replicate 32 5)
       (verifying_key demo_phone) = Inr ()"
  by (rule honest_grant_verifies [OF demo_crypto_ok demo_codec_ok demo_phone_wf])
    (simp_all add: create_auth_grant_def sign_wrapper_message_def demo_grant_wrapper_def Let_def
      wrap_auth_grant_def length_demo_enc_wrapper length_sign_demo ED25519_def aes_max_def)

text \<open>
  C8. \<^verbatim>\<open>verify_auth_grant\<close> accepts exactly the wrappers that carry a grant whose two Ed25519
  signatures, over the wrapper with an empty signature field and over the 32-byte challenge, both
  verify under the given public key.
\<close>

theorem verify_auth_grant_exact:
  "verify_auth_grant L K w chal pk = Inr () \<longleftrightarrow>
   length chal = 32 \<and> ed_key_valid L pk \<and>
   (\<exists>s. payload_of w = Some (AuthGrant (AuthenticationGrant s)) \<and>
        length s = 64 \<and> ed_verify L pk chal s) \<and>
   length (signature w) = 64 \<and> ed_verify L pk (enc_wrapper K (w\<lparr>signature := []\<rparr>)) (signature w)"
  by (auto simp: verify_auth_grant_iff verify_wrapper_signature_iff verify_ed25519_eq_Inr)
    (metis authentication_grant.collapse)

text \<open>
  A request's timestamp is accepted exactly when it lies at most 60 seconds before or after the
  receiver's clock (for clocks far from the end of the 64-bit range), and never when the clock is
  unreadable.
\<close>

theorem request_timestamp_window:
  assumes "unat now + 60 < 2 ^ 64"
  shows "(is_request_timestamp_valid req (Some now) \<longleftrightarrow>
      unat (timestamp_unix_seconds req) \<le> unat now + 60 \<and> unat now \<le> unat (timestamp_unix_seconds req) + 60) \<and>
    \<not> is_request_timestamp_valid req None"
proof -
  have add: "unat (now + 60) = unat now + 60"
    using assms by (simp add: unat_word_ariths)
  have sub: "\<not> now < 60 \<Longrightarrow> unat (now - 60) = unat now - 60"
    by (simp add: unat_sub_if_size word_le_nat_alt word_less_nat_alt)
  show ?thesis
    using add sub
    by (auto simp: is_request_timestamp_valid_def MAX_CLOCK_SKEW_def saturating_sub_def Let_def
        word_le_nat_alt word_less_nat_alt split: if_splits)
qed

theorem request_timestamp_window_witness:
  "is_request_timestamp_valid \<lparr>req_challenge = [], req_username = [], req_hostname = [],
       timestamp_unix_seconds = 1060\<rparr> (Some 1000) \<and>
   \<not> is_request_timestamp_valid \<lparr>req_challenge = [], req_username = [], req_hostname = [],
       timestamp_unix_seconds = 1061\<rparr> (Some 1000)"
  using request_timestamp_window [of 1000] by simp

end
