(* ===== verification/Framing.thy ===== *)
theory Framing
  imports Messages
begin

text \<open>
  Length-prefixed framing. The pairing protocol, the daemon's IPC socket and the PAM module's IPC
  client each read frames of a big-endian 32-bit length and that many bytes, each with its own size
  limit and error. The contract they share is the locale \<open>frame_reader\<close>; every reader of the
  program is an interpretation of it, in the theory of its component.

  A stream is the record \<open>byte_stream\<close>: the bytes the peer sends before it closes, the bytes
  written so far, and the error writes fail with, if they fail.
\<close>

record byte_stream =
  rx :: bytes
  tx :: bytes
  wr_err :: "io_error option"

definition write_all :: "byte_stream \<Rightarrow> bytes \<Rightarrow> io_error + byte_stream" where
  "write_all s b = (case wr_err s of Some e \<Rightarrow> Inl e | None \<Rightarrow> Inr (s\<lparr>tx := tx s @ b\<rparr>))"

definition frame :: "bytes \<Rightarrow> bytes" where
  "frame m = be_bytes 4 (length m) @ m"

primrec read_many :: "(bytes \<Rightarrow> 'e + bytes \<times> bytes) \<Rightarrow> nat \<Rightarrow> bytes \<Rightarrow> 'e + bytes list \<times> bytes" where
  "read_many rd 0 s = Inr ([], s)"
| "read_many rd (Suc n) s =
     rbind (rd s) (\<lambda>(m, t). rbind (read_many rd n t) (\<lambda>(ms, u). Inr (m # ms, u)))"

lemma write_all_Inr [result_simps]:
  "write_all s b = Inr s' \<longleftrightarrow> wr_err s = None \<and> s' = s\<lparr>tx := tx s @ b\<rparr>"
  by (auto simp: write_all_def split: option.splits)

lemma frame_inj: "frame m = frame m' \<longleftrightarrow> m = m'"
  by (auto simp: frame_def)

lemma frame_nonempty [simp]: "frame m \<noteq> []"
  using length_be_bytes [of 4 "length m"] by (auto simp: frame_def simp del: length_be_bytes)

lemma frame_inj_append:
  assumes "length m < 2 ^ 32" "length m' < 2 ^ 32" "frame m @ r = frame m' @ r'"
  shows "m = m' \<and> r = r'"
proof -
  have "be_bytes 4 (length m) = be_bytes 4 (length m')"
    using assms(3) by (simp add: frame_def append_eq_append_conv)
  then have "length m = length m'"
    using assms(1,2) be_bytes_inj [of "length m" 4 "length m'"] by simp
  then show ?thesis
    using assms(3) by (simp add: frame_def)
qed

locale frame_reader =
  fixes rd :: "bytes \<Rightarrow> 'e + bytes \<times> bytes"
    and limit :: nat
  assumes limit_u32: "limit < 2 ^ 32"
    and reads: "length m \<le> limit \<Longrightarrow> rd (frame m @ r) = Inr (m, r)"
    and sound: "rd s = Inr (m, r) \<Longrightarrow> s = frame m @ r \<and> length m \<le> limit"
begin

lemma reads_all: "length m \<le> limit \<Longrightarrow> rd (frame m) = Inr (m, [])"
  using reads [of m "[]"] by simp

lemma reads_many:
  "(\<forall>m \<in> set ms. length m \<le> limit) \<Longrightarrow>
   read_many rd (length ms) (concat (map frame ms) @ r) = Inr (ms, r)"
  by (induction ms) (simp_all add: reads)

lemma no_lookahead: "rd s = Inr (m, r) \<Longrightarrow> rd (s @ t) = Inr (m, r @ t)"
  using sound [of s m r] reads [of m "r @ t"] by simp

lemma oversize_refused:
  assumes "limit < length m" "length m < 2 ^ 32"
  shows "\<not> is_ok (rd (frame m @ r))"
proof
  assume "is_ok (rd (frame m @ r))"
  then obtain m' r' where ok: "rd (frame m @ r) = Inr (m', r')"
    by (auto simp: is_ok_def split: sum.splits)
  have "length m' \<le> limit" "frame m @ r = frame m' @ r'"
    using sound [OF ok] by simp_all
  then show False
    using frame_inj_append [of m m' r r'] assms limit_u32 by simp
qed

lemma truncated_refused:
  assumes "length m \<le> limit" "t \<noteq> []" "frame m = s @ t"
  shows "\<not> is_ok (rd s)"
proof
  assume "is_ok (rd s)"
  then obtain m' r' where "rd s = Inr (m', r')"
    by (auto simp: is_ok_def split: sum.splits)
  then have "rd (frame m) = Inr (m', r' @ t)"
    using no_lookahead assms(3) by simp
  then show False
    using reads_all [OF assms(1)] assms(2) by simp
qed

end

text \<open>How a reader that takes a 4-byte header, checks it and takes the body meets the contract.\<close>

lemma header_body_reads:
  assumes "length m \<le> limit" "limit < 2 ^ 32"
  shows "read_exact 4 (frame m @ r) = Inr (be_bytes 4 (length m), m @ r)"
    and "from_be (be_bytes 4 (length m)) = length m"
    and "read_exact (length m) (m @ r) = Inr (m, r)"
  using assms by (simp_all add: frame_def read_exact_append from_be_be_bytes)

lemma header_body_sound:
  assumes "read_exact 4 s = Inr (h, t)" "read_exact (from_be h) t = Inr (m, r)"
  shows "s = frame m @ r" "length m = from_be h"
proof -
  have "s = h @ m @ r" "length h = 4" "length m = from_be h"
    using assms by (auto simp: read_exact_eq_Inr)
  then show "s = frame m @ r" "length m = from_be h"
    using be_bytes_from_be [of h] by (simp_all add: frame_def)
qed

end
