(* ===== verification/Pairing.thy ===== *)
theory Pairing
  imports Framing
begin

text \<open>
  The two-phase pairing protocol, \<^verbatim>\<open>src/shared/src/protocol/pairing.rs\<close>: the client's and the
  server's sessions over a TCP stream. Every method is a function of the session and the stream; a
  method with \<^verbatim>\<open>&mut self\<close> returns the session as it is left also when it fails, while the
  stream, which it owns, is closed then. Each method that seals something takes the twelve random
  bytes of its nonce.
\<close>

section \<open>Messages\<close>

record pairing_hello =
  hello_version :: u32
  hello_x25519 :: bytes
  hello_ed25519 :: bytes
  hello_device_name :: string
  supported_symmetric_algorithms :: "i32 list"
  supported_hash_algorithms :: "i32 list"
  supported_signature_algorithms :: "i32 list"

record pairing_response =
  resp_version :: u32
  resp_x25519 :: bytes
  resp_ed25519 :: bytes
  resp_device_name :: string
  selected_symmetric_algorithm :: i32
  selected_hash_algorithm :: i32
  selected_signature_algorithm :: i32

record pairing_csk_message =
  encrypted_csk :: bytes
  csk_username :: string

record pairing_complete =
  complete_success :: bool
  complete_hash_algorithm :: i32
  complete_csk_hash :: bytes

record pairing_codec =
  enc_hello :: "pairing_hello \<Rightarrow> bytes"
  dec_hello :: "bytes \<Rightarrow> pairing_hello option"
  enc_response :: "pairing_response \<Rightarrow> bytes"
  dec_response :: "bytes \<Rightarrow> pairing_response option"
  enc_csk_message :: "pairing_csk_message \<Rightarrow> bytes"
  dec_csk_message :: "bytes \<Rightarrow> pairing_csk_message option"
  enc_complete :: "pairing_complete \<Rightarrow> bytes"
  dec_complete :: "bytes \<Rightarrow> pairing_complete option"

definition pairing_codec_ok :: "pairing_codec \<Rightarrow> bool" where
  "pairing_codec_ok P \<longleftrightarrow>
     (\<forall>m. dec_hello P (enc_hello P m) = Some m) \<and> (\<forall>m. dec_response P (enc_response P m) = Some m) \<and>
     (\<forall>m. dec_csk_message P (enc_csk_message P m) = Some m) \<and>
     (\<forall>m. dec_complete P (enc_complete P m) = Some m)"

definition MAX_MESSAGE_SIZE :: nat where
  "MAX_MESSAGE_SIZE = 16 * 1024"

definition PAIRING_VERSION :: u32 where
  "PAIRING_VERSION = 1"

section \<open>Frames on the pairing stream\<close>

definition pairing_read_frame :: "bytes \<Rightarrow> protocol_error + bytes \<times> bytes" where
  "pairing_read_frame s =
     rbind (map_err Io (read_exact 4 s)) (\<lambda>(hdr, s).
       if from_be hdr > MAX_MESSAGE_SIZE then Inl InvalidMessageFormat
       else map_err Io (read_exact (from_be hdr) s))"

definition recv_frame :: "byte_stream \<Rightarrow> protocol_error + bytes \<times> byte_stream" where
  "recv_frame s = rbind (pairing_read_frame (rx s)) (\<lambda>(m, r). Inr (m, s\<lparr>rx := r\<rparr>))"

definition send_frame :: "byte_stream \<Rightarrow> bytes \<Rightarrow> protocol_error + byte_stream" where
  "send_frame s buf =
     map_err Io (rbind (write_all s (be_bytes 4 (length buf))) (\<lambda>s. write_all s buf))"

section \<open>The client session\<close>

record client_pairing_session =
  c_x25519_keypair :: x25519_keypair
  c_ed25519_keypair :: ed25519_keypair
  server_x25519_public :: "bytes option"
  c_psk :: "pairing_symmetric_key option"
  c_sas :: "string option"
  server_supported_symmetric :: "i32 list"
  server_supported_hash :: "i32 list"
  server_supported_signature :: "i32 list"

definition ClientPairingSession_new ::
  "crypto_lib \<Rightarrow> bytes option \<Rightarrow> ed25519_keypair \<Rightarrow> crypto_error + client_pairing_session"
where
  "ClientPairingSession_new L rnd kp =
     rbind (generate_x25519 L rnd) (\<lambda>x.
       Inr \<lparr>c_x25519_keypair = x, c_ed25519_keypair = kp, server_x25519_public = None, c_psk = None,
            c_sas = None, server_supported_symmetric = [], server_supported_hash = [],
            server_supported_signature = []\<rparr>)"

definition receive_pairing_hello ::
  "pairing_codec \<Rightarrow> byte_stream \<Rightarrow> protocol_error + pairing_hello \<times> byte_stream"
where
  "receive_pairing_hello P s =
     rbind (recv_frame s) (\<lambda>(buf, s).
     rbind (ok_or Deserialization (dec_hello P buf)) (\<lambda>hello.
       if hello_version hello \<noteq> PAIRING_VERSION then Inl InvalidMessageFormat else Inr (hello, s)))"

definition first_or :: "i32 list \<Rightarrow> i32 \<Rightarrow> i32" where
  "first_or xs d = (case xs of [] \<Rightarrow> d | x # _ \<Rightarrow> x)"

definition send_pairing_response ::
  "pairing_codec \<Rightarrow> client_pairing_session \<Rightarrow> byte_stream \<Rightarrow> string \<Rightarrow> protocol_error + byte_stream"
where
  "send_pairing_response P c s client_device_name =
     send_frame s (enc_response P
       \<lparr>resp_version = PAIRING_VERSION,
        resp_x25519 = x_public_key (c_x25519_keypair c),
        resp_ed25519 = verifying_key (c_ed25519_keypair c),
        resp_device_name = client_device_name,
        selected_symmetric_algorithm = first_or (server_supported_symmetric c) AES_256_GCM,
        selected_hash_algorithm = first_or (server_supported_hash c) SHA256_ALG,
        selected_signature_algorithm = first_or (server_supported_signature c) ED25519\<rparr>)"

definition initiate_pairing ::
  "crypto_lib \<Rightarrow> pairing_codec \<Rightarrow> client_pairing_session \<Rightarrow> byte_stream \<Rightarrow> string \<Rightarrow>
   client_pairing_session \<times> (protocol_error + byte_stream \<times> bytes \<times> string \<times> string)"
where
  "initiate_pairing L P c s client_device_name =
     (case receive_pairing_hello P s of
        Inl e \<Rightarrow> (c, Inl e)
      | Inr (hello, s) \<Rightarrow>
          if length (hello_x25519 hello) \<noteq> 32 then (c, Inl InvalidMessageFormat)
          else
            let server_pub = hello_x25519 hello;
                c = c\<lparr>server_x25519_public := Some server_pub,
                      server_supported_symmetric := supported_symmetric_algorithms hello,
                      server_supported_hash := supported_hash_algorithms hello,
                      server_supported_signature := supported_signature_algorithms hello\<rparr>;
                client_pub = x_public_key (c_x25519_keypair c)
            in (case rbind (diffie_hellman L (c_x25519_keypair c) server_pub) (derive_psk_from_x25519 L) of
                  Inl e \<Rightarrow> (c, Inl (Crypto e))
                | Inr psk \<Rightarrow>
                    let c = c\<lparr>c_psk := Some psk\<rparr>
                    in (case derive_sas L psk client_pub server_pub of
                          Inl e \<Rightarrow> (c, Inl (Crypto e))
                        | Inr sas \<Rightarrow>
                            let c = c\<lparr>c_sas := Some sas\<rparr>
                            in (c, rbind (send_pairing_response P c s client_device_name) (\<lambda>s.
                                     if length (hello_ed25519 hello) \<noteq> 32 then Inl InvalidMessageFormat
                                     else Inr (s, hello_ed25519 hello, hello_device_name hello, sas))))))"

definition send_csk_message ::
  "crypto_lib \<Rightarrow> pairing_codec \<Rightarrow> client_pairing_session \<Rightarrow> byte_stream \<Rightarrow> bytes option \<Rightarrow>
   client_symmetric_key \<Rightarrow> string \<Rightarrow> protocol_error + byte_stream"
where
  "send_csk_message L P c s rnd csk username =
     rbind (ok_or (MissingField ''psk'') (c_psk c)) (\<lambda>psk.
     rbind (map_err Crypto (encrypt_with_psk L psk rnd (csk_bytes csk))) (\<lambda>enc.
       send_frame s (enc_csk_message P \<lparr>encrypted_csk = enc, csk_username = username\<rparr>)))"

definition receive_pairing_complete ::
  "crypto_lib \<Rightarrow> pairing_codec \<Rightarrow> client_pairing_session \<Rightarrow> byte_stream \<Rightarrow> client_symmetric_key \<Rightarrow>
   protocol_error + unit"
where
  "receive_pairing_complete L P c s csk =
     rbind (recv_frame s) (\<lambda>(buf, s).
     rbind (ok_or Deserialization (dec_complete P buf)) (\<lambda>complete.
       if \<not> complete_success complete then Inl InvalidMessageFormat
       else
         rbind (ok_or (MissingField ''psk'') (c_psk c)) (\<lambda>psk.
         rbind (map_err Crypto (decrypt_with_psk L psk (complete_csk_hash complete))) (\<lambda>decrypted_hash.
           if decrypted_hash \<noteq> sha256 L (csk_bytes csk) then Inl InvalidMessageFormat else Inr ()))))"

definition finish_pairing ::
  "crypto_lib \<Rightarrow> pairing_codec \<Rightarrow> client_pairing_session \<Rightarrow> byte_stream \<Rightarrow> bytes option \<Rightarrow>
   client_symmetric_key \<Rightarrow> string \<Rightarrow> (protocol_error + unit) \<times> bytes"
where
  "finish_pairing L P c s rnd csk username =
     (case send_csk_message L P c s rnd csk username of
        Inl e \<Rightarrow> (Inl e, tx s)
      | Inr s \<Rightarrow> (receive_pairing_complete L P c s csk, tx s))"

section \<open>The server session\<close>

record server_pairing_session =
  s_x25519_keypair :: x25519_keypair
  s_ed25519_public_key :: bytes
  client_x25519_public :: "bytes option"
  s_psk :: "pairing_symmetric_key option"
  s_sas :: "string option"

definition ServerPairingSession_new ::
  "crypto_lib \<Rightarrow> bytes option \<Rightarrow> bytes \<Rightarrow> crypto_error + server_pairing_session"
where
  "ServerPairingSession_new L rnd pk =
     rbind (generate_x25519 L rnd) (\<lambda>x.
       Inr \<lparr>s_x25519_keypair = x, s_ed25519_public_key = pk, client_x25519_public = None,
            s_psk = None, s_sas = None\<rparr>)"

definition send_pairing_hello ::
  "pairing_codec \<Rightarrow> server_pairing_session \<Rightarrow> byte_stream \<Rightarrow> string \<Rightarrow> protocol_error + byte_stream"
where
  "send_pairing_hello P v s server_device_name =
     send_frame s (enc_hello P
       \<lparr>hello_version = PAIRING_VERSION,
        hello_x25519 = x_public_key (s_x25519_keypair v),
        hello_ed25519 = s_ed25519_public_key v,
        hello_device_name = server_device_name,
        supported_symmetric_algorithms = [AES_256_GCM],
        supported_hash_algorithms = [SHA256_ALG],
        supported_signature_algorithms = [ED25519]\<rparr>)"

definition receive_pairing_response ::
  "pairing_codec \<Rightarrow> byte_stream \<Rightarrow> protocol_error + pairing_response \<times> byte_stream"
where
  "receive_pairing_response P s =
     rbind (recv_frame s) (\<lambda>(buf, s).
     rbind (ok_or Deserialization (dec_response P buf)) (\<lambda>response.
       if resp_version response \<noteq> PAIRING_VERSION then Inl InvalidMessageFormat
       else Inr (response, s)))"

definition receive_csk_message ::
  "crypto_lib \<Rightarrow> pairing_codec \<Rightarrow> server_pairing_session \<Rightarrow> byte_stream \<Rightarrow>
   protocol_error + (client_symmetric_key \<times> bytes) \<times> byte_stream"
where
  "receive_csk_message L P v s =
     rbind (recv_frame s) (\<lambda>(buf, s).
     rbind (ok_or Deserialization (dec_csk_message P buf)) (\<lambda>encrypted_msg.
     rbind (ok_or (MissingField ''psk'') (s_psk v)) (\<lambda>psk.
     rbind (map_err Crypto (decrypt_with_psk L psk (encrypted_csk encrypted_msg))) (\<lambda>plaintext.
       if length plaintext \<noteq> 32 then Inl InvalidMessageFormat
       else Inr ((ClientSymmetricKey plaintext, sha256 L plaintext), s)))))"

definition send_pairing_complete ::
  "crypto_lib \<Rightarrow> pairing_codec \<Rightarrow> server_pairing_session \<Rightarrow> byte_stream \<Rightarrow> bytes option \<Rightarrow> bytes \<Rightarrow>
   protocol_error + byte_stream"
where
  "send_pairing_complete L P v s rnd csk_hash =
     rbind (ok_or (MissingField ''psk'') (s_psk v)) (\<lambda>psk.
     rbind (map_err Crypto (encrypt_with_psk L psk rnd csk_hash)) (\<lambda>encrypted_hash.
       send_frame s (enc_complete P
         \<lparr>complete_success = True, complete_hash_algorithm = SHA256_ALG,
          complete_csk_hash = encrypted_hash\<rparr>)))"

text \<open>The bytes written are the last component, also when the exchange fails on the way.\<close>

definition complete_pairing ::
  "crypto_lib \<Rightarrow> pairing_codec \<Rightarrow> server_pairing_session \<Rightarrow> byte_stream \<Rightarrow> bytes option \<Rightarrow> string \<Rightarrow>
   server_pairing_session \<times> (protocol_error + client_symmetric_key \<times> bytes \<times> string \<times> string) \<times> bytes"
where
  "complete_pairing L P v s rnd server_device_name =
     (case send_pairing_hello P v s server_device_name of
        Inl e \<Rightarrow> (v, Inl e, tx s)
      | Inr s \<Rightarrow>
        (case receive_pairing_response P s of
           Inl e \<Rightarrow> (v, Inl e, tx s)
         | Inr (response, s) \<Rightarrow>
             if length (resp_x25519 response) \<noteq> 32 then (v, Inl InvalidMessageFormat, tx s)
             else
               let client_pub = resp_x25519 response;
                   v = v\<lparr>client_x25519_public := Some client_pub\<rparr>;
                   server_pub = x_public_key (s_x25519_keypair v)
               in (case rbind (diffie_hellman L (s_x25519_keypair v) client_pub) (derive_psk_from_x25519 L) of
                     Inl e \<Rightarrow> (v, Inl (Crypto e), tx s)
                   | Inr psk \<Rightarrow>
                       let v = v\<lparr>s_psk := Some psk\<rparr>
                       in (case derive_sas L psk client_pub server_pub of
                             Inl e \<Rightarrow> (v, Inl (Crypto e), tx s)
                           | Inr sas \<Rightarrow>
                               let v = v\<lparr>s_sas := Some sas\<rparr>
                               in (case receive_csk_message L P v s of
                                     Inl e \<Rightarrow> (v, Inl e, tx s)
                                   | Inr ((csk, csk_hash), s) \<Rightarrow>
                                       (case send_pairing_complete L P v s rnd csk_hash of
                                          Inl e \<Rightarrow> (v, Inl e, tx s)
                                        | Inr s \<Rightarrow>
                                            (v, (if length (resp_ed25519 response) \<noteq> 32
                                                 then Inl InvalidMessageFormat
                                                 else Inr (csk, resp_ed25519 response,
                                                           resp_device_name response, sas)), tx s)))))))"

section \<open>Lemmas\<close>

interpretation pairing_frames: frame_reader pairing_read_frame MAX_MESSAGE_SIZE
proof
  show "MAX_MESSAGE_SIZE < 2 ^ 32"
    by (simp add: MAX_MESSAGE_SIZE_def)
  show "pairing_read_frame (frame m @ r) = Inr (m, r)" if "length m \<le> MAX_MESSAGE_SIZE" for m r
    using that header_body_reads [OF that] by (simp add: pairing_read_frame_def MAX_MESSAGE_SIZE_def)
  show "s = frame m @ r \<and> length m \<le> MAX_MESSAGE_SIZE" if "pairing_read_frame s = Inr (m, r)" for s m r
    using that header_body_sound
    by (auto simp: pairing_read_frame_def result_simps split: if_splits)
qed

lemma recv_frame_ok:
  "rx s = frame m @ r \<Longrightarrow> length m \<le> MAX_MESSAGE_SIZE \<Longrightarrow> recv_frame s = Inr (m, s\<lparr>rx := r\<rparr>)"
  by (simp add: recv_frame_def pairing_frames.reads)

lemma send_frame_ok:
  "wr_err s = None \<Longrightarrow> send_frame s m = Inr (s\<lparr>tx := tx s @ frame m\<rparr>)"
  by (simp add: send_frame_def write_all_def frame_def)

lemma pairing_codecD:
  assumes "pairing_codec_ok P"
  shows "dec_hello P (enc_hello P h) = Some h" "dec_response P (enc_response P re) = Some re"
    "dec_csk_message P (enc_csk_message P k) = Some k" "dec_complete P (enc_complete P co) = Some co"
  using assms by (simp_all add: pairing_codec_ok_def)

text \<open>
  The size the encoder gives each message stays below the frame limit for these names, with keys
  of 32 bytes, sealed 32-byte secrets and the algorithm numbers the code sends.
\<close>

definition pairing_fits :: "pairing_codec \<Rightarrow> string \<Rightarrow> string \<Rightarrow> string \<Rightarrow> bool" where
  "pairing_fits P server_name client_name username \<longleftrightarrow>
     (\<forall>x e. length x = 32 \<and> length e = 32 \<longrightarrow>
       length (enc_hello P \<lparr>hello_version = 1, hello_x25519 = x, hello_ed25519 = e,
         hello_device_name = server_name, supported_symmetric_algorithms = [1],
         supported_hash_algorithms = [1], supported_signature_algorithms = [1]\<rparr>) \<le> MAX_MESSAGE_SIZE \<and>
       length (enc_response P \<lparr>resp_version = 1, resp_x25519 = x, resp_ed25519 = e,
         resp_device_name = client_name, selected_symmetric_algorithm = 1,
         selected_hash_algorithm = 1, selected_signature_algorithm = 1\<rparr>) \<le> MAX_MESSAGE_SIZE) \<and>
     (\<forall>c. length c = 60 \<longrightarrow>
       length (enc_csk_message P \<lparr>encrypted_csk = c, csk_username = username\<rparr>) \<le> MAX_MESSAGE_SIZE \<and>
       length (enc_complete P \<lparr>complete_success = True, complete_hash_algorithm = 1,
         complete_csk_hash = c\<rparr>) \<le> MAX_MESSAGE_SIZE)"

lemma encrypt_with_psk_length:
  assumes "crypto_ok L" "length r = 12" "encrypt_with_psk L psk (Some r) m = Inr c"
  shows "length c = length m + 28"
  using assms by (auto simp: encrypt_with_psk_def encrypt_aes_gcm_def result_simps dest: aes_length)

lemma seal_32:
  assumes "crypto_ok L" "length r = 12" "length m = 32"
  obtains c where "encrypt_with_psk L psk (Some r) m = Inr c" "decrypt_with_psk L psk c = Inr m" "length c = 60"
proof -
  have "length m \<le> aes_max"
    using assms(3) by (simp add: aes_max_def)
  then obtain c where c: "encrypt_with_psk L psk (Some r) m = Inr c" "decrypt_with_psk L psk c = Inr m"
    using psk_box.round_trip [OF assms(1,2)] by blast
  then show ?thesis
    using that [OF c] encrypt_with_psk_length [OF assms(1,2) c(1)] assms(3) by simp
qed

text \<open>
  Both ends derive the same pre-shared key, hence the same authentication string.
\<close>

lemma same_psk:
  assumes "crypto_ok L" "x_wf L a" "x_wf L b"
  shows "rbind (diffie_hellman L a (x_public_key b)) (derive_psk_from_x25519 L) =
         rbind (diffie_hellman L b (x_public_key a)) (derive_psk_from_x25519 L)"
  using assms by (simp add: diffie_hellman_def x_wf_def x_dh_commute)

lemma initiate_pairing_honest:
  assumes "crypto_ok L" "pairing_codec_ok P" "pairing_fits P sname cname user"
    and "x_wf L (c_x25519_keypair c)" "x_wf L (s_x25519_keypair v)"
    and "length (s_ed25519_public_key v) = 32" "length (verifying_key (c_ed25519_keypair c)) = 32"
    and "hello = \<lparr>hello_version = 1, hello_x25519 = x_public_key (s_x25519_keypair v),
           hello_ed25519 = s_ed25519_public_key v, hello_device_name = sname,
           supported_symmetric_algorithms = [1], supported_hash_algorithms = [1],
           supported_signature_algorithms = [1]\<rparr>"
    and "rbind (diffie_hellman L (c_x25519_keypair c) (x_public_key (s_x25519_keypair v)))
           (derive_psk_from_x25519 L) = Inr psk"
    and "derive_sas L psk (x_public_key (c_x25519_keypair c)) (x_public_key (s_x25519_keypair v)) = Inr sas"
  shows "initiate_pairing L P c \<lparr>rx = frame (enc_hello P hello) @ r, tx = [], wr_err = None\<rparr> cname =
    (c\<lparr>server_x25519_public := Some (x_public_key (s_x25519_keypair v)),
       server_supported_symmetric := [1], server_supported_hash := [1],
       server_supported_signature := [1], c_psk := Some psk, c_sas := Some sas\<rparr>,
     Inr (\<lparr>rx = r, tx = frame (enc_response P
             \<lparr>resp_version = 1, resp_x25519 = x_public_key (c_x25519_keypair c),
              resp_ed25519 = verifying_key (c_ed25519_keypair c), resp_device_name = cname,
              selected_symmetric_algorithm = 1, selected_hash_algorithm = 1,
              selected_signature_algorithm = 1\<rparr>), wr_err = None\<rparr>,
          s_ed25519_public_key v, sname, sas))"
proof -
  have len: "length (x_public_key (s_x25519_keypair v)) = 32"
    using assms(1,5) by (simp add: x_wf_def x_public_ok)
  have "length (enc_hello P hello) \<le> MAX_MESSAGE_SIZE"
    using assms(3,6) len unfolding pairing_fits_def assms(8) by blast
  then have "receive_pairing_hello P \<lparr>rx = frame (enc_hello P hello) @ r, tx = [], wr_err = None\<rparr> =
      Inr (hello, \<lparr>rx = r, tx = [], wr_err = None\<rparr>)"
    using pairing_codecD [OF assms(2)] assms(8)
    by (simp add: receive_pairing_hello_def recv_frame_ok PAIRING_VERSION_def)
  then show ?thesis
    using assms(6,8,9,10) len
    by (simp add: initiate_pairing_def Let_def send_pairing_response_def send_frame_ok first_or_def
        PAIRING_VERSION_def)
qed

lemma complete_pairing_honest:
  assumes "crypto_ok L" "pairing_codec_ok P" "pairing_fits P sname cname user"
    and "x_wf L (c_x25519_keypair c)" "x_wf L (s_x25519_keypair v)"
    and "length (s_ed25519_public_key v) = 32" "length (verifying_key (c_ed25519_keypair c)) = 32"
    and "resp = \<lparr>resp_version = 1, resp_x25519 = x_public_key (c_x25519_keypair c),
           resp_ed25519 = verifying_key (c_ed25519_keypair c), resp_device_name = cname,
           selected_symmetric_algorithm = 1, selected_hash_algorithm = 1,
           selected_signature_algorithm = 1\<rparr>"
    and "rbind (diffie_hellman L (s_x25519_keypair v) (x_public_key (c_x25519_keypair c)))
           (derive_psk_from_x25519 L) = Inr psk"
    and "derive_sas L psk (x_public_key (c_x25519_keypair c)) (x_public_key (s_x25519_keypair v)) = Inr sas"
    and "decrypt_with_psk L psk ek = Inr key" "length key = 32" "length ek = 60"
    and "encrypt_with_psk L psk rnd (sha256 L key) = Inr eh"
  shows "\<exists>v'. complete_pairing L P v
      \<lparr>rx = frame (enc_response P resp) @
             frame (enc_csk_message P \<lparr>encrypted_csk = ek, csk_username = user\<rparr>),
       tx = [], wr_err = None\<rparr> rnd sname =
    (v', Inr (ClientSymmetricKey key, verifying_key (c_ed25519_keypair c), cname, sas),
     frame (enc_hello P \<lparr>hello_version = 1, hello_x25519 = x_public_key (s_x25519_keypair v),
           hello_ed25519 = s_ed25519_public_key v, hello_device_name = sname,
           supported_symmetric_algorithms = [1], supported_hash_algorithms = [1],
           supported_signature_algorithms = [1]\<rparr>) @
     frame (enc_complete P \<lparr>complete_success = True, complete_hash_algorithm = 1, complete_csk_hash = eh\<rparr>))
    \<and> s_sas v' = Some sas"
proof -
  have len: "length (x_public_key (c_x25519_keypair c)) = 32"
    using assms(1,4) by (simp add: x_wf_def x_public_ok)
  have fit: "length (enc_response P resp) \<le> MAX_MESSAGE_SIZE"
    using assms(3,7) len unfolding pairing_fits_def assms(8) by blast
  have fit': "length (enc_csk_message P \<lparr>encrypted_csk = ek, csk_username = user\<rparr>) \<le> MAX_MESSAGE_SIZE"
    using assms(3,13) unfolding pairing_fits_def by blast
  have r1: "receive_pairing_response P \<lparr>rx = frame (enc_response P resp) @ r, tx = t, wr_err = None\<rparr> =
      Inr (resp, \<lparr>rx = r, tx = t, wr_err = None\<rparr>)" for r t
    using fit pairing_codecD [OF assms(2)] assms(8)
    by (simp add: receive_pairing_response_def recv_frame_ok PAIRING_VERSION_def)
  have r2: "receive_csk_message L P w
        \<lparr>rx = frame (enc_csk_message P \<lparr>encrypted_csk = ek, csk_username = user\<rparr>), tx = t, wr_err = None\<rparr> =
      Inr ((ClientSymmetricKey key, sha256 L key), \<lparr>rx = [], tx = t, wr_err = None\<rparr>)"
    if "s_psk w = Some psk" for w t
    using fit' pairing_codecD [OF assms(2)] assms(11,12) that
    by (simp add: receive_csk_message_def recv_frame_ok [where r = "[]"])
  show ?thesis
    using assms(7,8,9,10,14) len
    by (simp add: complete_pairing_def Let_def send_pairing_hello_def send_frame_ok
        r1 [unfolded assms(8)] r2 send_pairing_complete_def PAIRING_VERSION_def AES_256_GCM_def
        SHA256_ALG_def ED25519_def)
qed

lemma finish_pairing_honest:
  assumes "crypto_ok L" "pairing_codec_ok P" "pairing_fits P sname cname user"
    and "c_psk c = Some psk" "encrypt_with_psk L psk rnd (csk_bytes csk) = Inr ek"
    and "decrypt_with_psk L psk eh = Inr (sha256 L (csk_bytes csk))" "length eh = 60"
  shows "finish_pairing L P c
      \<lparr>rx = frame (enc_complete P \<lparr>complete_success = True, complete_hash_algorithm = 1, complete_csk_hash = eh\<rparr>),
       tx = t, wr_err = None\<rparr> rnd csk user =
    (Inr (), t @ frame (enc_csk_message P \<lparr>encrypted_csk = ek, csk_username = user\<rparr>))"
proof -
  have "length (enc_complete P \<lparr>complete_success = True, complete_hash_algorithm = 1, complete_csk_hash = eh\<rparr>)
      \<le> MAX_MESSAGE_SIZE"
    using assms(3,7) unfolding pairing_fits_def by blast
  then show ?thesis
    using assms(4-6) pairing_codecD [OF assms(2)]
    by (simp add: finish_pairing_def send_csk_message_def send_frame_ok receive_pairing_complete_def
        recv_frame_ok [where r = "[]"])
qed

lemma pairing_agreement_aux:
  assumes "crypto_ok L" "pairing_codec_ok P" "pairing_fits P sname cname user"
    and wf: "x_wf L (c_x25519_keypair c)" "x_wf L (s_x25519_keypair v)"
    and len: "length (s_ed25519_public_key v) = 32" "length (verifying_key (c_ed25519_keypair c)) = 32"
    and "length (csk_bytes csk) = 32" "length n1 = 12" "length n2 = 12"
  shows "\<exists>c2s s2c sas c' s1 v'.
    initiate_pairing L P c \<lparr>rx = s2c, tx = [], wr_err = None\<rparr> cname =
      (c', Inr (s1, s_ed25519_public_key v, sname, sas)) \<and>
    finish_pairing L P c' s1 (Some n1) csk user = (Inr (), c2s) \<and>
    complete_pairing L P v \<lparr>rx = c2s, tx = [], wr_err = None\<rparr> (Some n2) sname =
      (v', Inr (csk, verifying_key (c_ed25519_keypair c), cname, sas), s2c) \<and>
    c_sas c' = Some sas \<and> s_sas v' = Some sas"
proof -
  obtain psk where psk: "rbind (diffie_hellman L (c_x25519_keypair c) (x_public_key (s_x25519_keypair v)))
      (derive_psk_from_x25519 L) = Inr psk"
    using derive_psk_total [OF assms(1)] by (auto simp: diffie_hellman_def)
  obtain sas where sas:
    "derive_sas L psk (x_public_key (c_x25519_keypair c)) (x_public_key (s_x25519_keypair v)) = Inr sas"
    using derive_sas_total [OF assms(1)] by blast
  obtain ek where ek: "encrypt_with_psk L psk (Some n1) (csk_bytes csk) = Inr ek"
      "decrypt_with_psk L psk ek = Inr (csk_bytes csk)" "length ek = 60"
    using seal_32 [OF assms(1,9,8)] by blast
  obtain eh where eh: "encrypt_with_psk L psk (Some n2) (sha256 L (csk_bytes csk)) = Inr eh"
      "decrypt_with_psk L psk eh = Inr (sha256 L (csk_bytes csk))" "length eh = 60"
    using seal_32 [OF assms(1,10) sha256_ok [OF assms(1)]] by blast
  note init = initiate_pairing_honest [OF assms(1-3) wf len refl psk sas]
  note fin = finish_pairing_honest [OF assms(1-3) _ ek(1) eh(2,3)]
  note compl = complete_pairing_honest [OF assms(1-3) wf len refl
      psk [unfolded same_psk [OF assms(1) wf]] sas ek(2) assms(8) ek(3) eh(1),
      unfolded client_symmetric_key.collapse]
  show ?thesis
    by (insert compl, elim exE conjE, intro exI conjI, rule init, rule fin, simp,
        simp only: append_Nil, simp, assumption)
qed

section \<open>A concrete codec\<close>

fun hello_of_fields :: "bytes list \<Rightarrow> pairing_hello option" where
  "hello_of_fields [v, x, e, n, a, b, c] =
     Some \<lparr>hello_version = field_word v, hello_x25519 = x, hello_ed25519 = e,
       hello_device_name = field_str n, supported_symmetric_algorithms = map field_int (get_fields a),
       supported_hash_algorithms = map field_int (get_fields b),
       supported_signature_algorithms = map field_int (get_fields c)\<rparr>"
| "hello_of_fields _ = None"

fun response_of_fields :: "bytes list \<Rightarrow> pairing_response option" where
  "response_of_fields [v, x, e, n, a, b, c] =
     Some \<lparr>resp_version = field_word v, resp_x25519 = x, resp_ed25519 = e,
       resp_device_name = field_str n, selected_symmetric_algorithm = field_int a,
       selected_hash_algorithm = field_int b, selected_signature_algorithm = field_int c\<rparr>"
| "response_of_fields _ = None"

fun csk_message_of_fields :: "bytes list \<Rightarrow> pairing_csk_message option" where
  "csk_message_of_fields [c, u] = Some \<lparr>encrypted_csk = c, csk_username = field_str u\<rparr>"
| "csk_message_of_fields _ = None"

fun complete_of_fields :: "bytes list \<Rightarrow> pairing_complete option" where
  "complete_of_fields [s, a, h] =
     Some \<lparr>complete_success = (s = [1]), complete_hash_algorithm = field_int a, complete_csk_hash = h\<rparr>"
| "complete_of_fields _ = None"

definition ints_field :: "int list \<Rightarrow> bytes" where
  "ints_field is = put_fields (map int_field is)"

definition demo_pairing_codec :: pairing_codec where
  "demo_pairing_codec =
     \<lparr>enc_hello = (\<lambda>m. put_fields [word_field (hello_version m), hello_x25519 m, hello_ed25519 m,
        str_bytes (hello_device_name m), ints_field (supported_symmetric_algorithms m),
        ints_field (supported_hash_algorithms m), ints_field (supported_signature_algorithms m)]),
      dec_hello = (\<lambda>b. hello_of_fields (get_fields b)),
      enc_response = (\<lambda>m. put_fields [word_field (resp_version m), resp_x25519 m, resp_ed25519 m,
        str_bytes (resp_device_name m), int_field (selected_symmetric_algorithm m),
        int_field (selected_hash_algorithm m), int_field (selected_signature_algorithm m)]),
      dec_response = (\<lambda>b. response_of_fields (get_fields b)),
      enc_csk_message = (\<lambda>m. put_fields [encrypted_csk m, str_bytes (csk_username m)]),
      dec_csk_message = (\<lambda>b. csk_message_of_fields (get_fields b)),
      enc_complete = (\<lambda>m. put_fields [[if complete_success m then 1 else 0],
        int_field (complete_hash_algorithm m), complete_csk_hash m]),
      dec_complete = (\<lambda>b. complete_of_fields (get_fields b))\<rparr>"

lemma demo_pairing_codec_ok: "pairing_codec_ok demo_pairing_codec"
  by (simp add: pairing_codec_ok_def demo_pairing_codec_def ints_field_def comp_def)

lemma demo_pairing_fits:
  "length s \<le> 1000 \<Longrightarrow> length c \<le> 1000 \<Longrightarrow> length u \<le> 1000 \<Longrightarrow> pairing_fits demo_pairing_codec s c u"
  by (simp add: pairing_fits_def demo_pairing_codec_def ints_field_def length_put_fields
      int_field_def MAX_MESSAGE_SIZE_def)

definition demo_client :: client_pairing_session where
  "demo_client = \<lparr>c_x25519_keypair = from_secret_bytes demo_crypto (replicate 32 1),
     c_ed25519_keypair = demo_phone, server_x25519_public = Some (replicate 32 2),
     c_psk = Some (PairingSymmetricKey (replicate 32 9)), c_sas = Some ''123456'',
     server_supported_symmetric = [1], server_supported_hash = [1], server_supported_signature = [1]\<rparr>"

lemma demo_finish_run:
  "\<exists>s out. finish_pairing demo_crypto demo_pairing_codec demo_client s (Some (replicate 12 0))
      (ClientSymmetricKey (replicate 32 8)) ''alice'' = (Inr (), out)"
proof -
  let ?psk = "PairingSymmetricKey (replicate 32 9)" and ?csk = "ClientSymmetricKey (replicate 32 8)"
  have fits: "pairing_fits demo_pairing_codec ''phone'' ''desktop'' ''alice''"
    by (rule demo_pairing_fits) simp_all
  obtain ek where ek: "encrypt_with_psk demo_crypto ?psk (Some (replicate 12 0)) (csk_bytes ?csk) = Inr ek"
    by (rule seal_32 [OF demo_crypto_ok, of "replicate 12 0" "csk_bytes ?csk" ?psk]) simp_all
  obtain eh where eh: "decrypt_with_psk demo_crypto ?psk eh = Inr (sha256 demo_crypto (csk_bytes ?csk))"
      "length eh = 60"
    by (rule seal_32 [OF demo_crypto_ok, of "replicate 12 0" "sha256 demo_crypto (csk_bytes ?csk)" ?psk])
      (simp_all add: demo_eval)
  have "c_psk demo_client = Some ?psk"
    by (simp add: demo_client_def)
  from finish_pairing_honest [OF demo_crypto_ok demo_pairing_codec_ok fits this ek eh] show ?thesis
    by blast
qed

section \<open>Properties\<close>



text \<open>
  C16. The client stores nothing it was not told. \<^verbatim>\<open>finish_pairing\<close> succeeds only after it has
  sent the sealed symmetric key and the peer has answered with a frame of at most 16 KiB whose
  success flag is set and whose hash opens, under the key agreed in phase one, to the SHA-256 of
  exactly the symmetric key that was sent.
\<close>

theorem finish_pairing_needs_acknowledgement:
  assumes "finish_pairing L P c s rnd csk user = (Inr (), out)"
  shows "\<exists>psk enc buf rest complete.
    c_psk c = Some psk \<and> encrypt_with_psk L psk rnd (csk_bytes csk) = Inr enc \<and>
    out = tx s @ frame (enc_csk_message P \<lparr>encrypted_csk = enc, csk_username = user\<rparr>) \<and>
    rx s = frame buf @ rest \<and> length buf \<le> 16384 \<and> dec_complete P buf = Some complete \<and>
    complete_success complete \<and>
    decrypt_with_psk L psk (complete_csk_hash complete) = Inr (sha256 L (csk_bytes csk))"
proof -
  obtain s' where s': "send_csk_message L P c s rnd csk user = Inr s'"
      "receive_pairing_complete L P c s' csk = Inr ()" "out = tx s'"
    using assms by (auto simp: finish_pairing_def split: sum.splits)
  obtain psk enc where e: "c_psk c = Some psk" "encrypt_with_psk L psk rnd (csk_bytes csk) = Inr enc"
      "s' = s\<lparr>tx := tx s @ frame (enc_csk_message P \<lparr>encrypted_csk = enc, csk_username = user\<rparr>)\<rparr>"
    using s'(1) by (auto simp: send_csk_message_def send_frame_def frame_def result_simps)
  obtain buf rest complete where r: "pairing_read_frame (rx s') = Inr (buf, rest)"
      "dec_complete P buf = Some complete" "complete_success complete"
      "decrypt_with_psk L psk (complete_csk_hash complete) = Inr (sha256 L (csk_bytes csk))"
    using s'(2) e(1) by (auto simp: receive_pairing_complete_def recv_frame_def result_simps split: if_splits)
  show ?thesis
    using e r s'(3) pairing_frames.sound [OF r(1)] by (auto simp: MAX_MESSAGE_SIZE_def)
qed

theorem finish_pairing_needs_acknowledgement_witness:
  "\<exists>s out. finish_pairing demo_crypto demo_pairing_codec demo_client s (Some (replicate 12 0))
      (ClientSymmetricKey (replicate 32 8)) ''alice'' = (Inr (), out) \<and>
    (\<exists>buf rest. rx s = frame buf @ rest \<and> length buf \<le> 16384)"
proof -
  obtain s out where run: "finish_pairing demo_crypto demo_pairing_codec demo_client s
      (Some (replicate 12 0)) (ClientSymmetricKey (replicate 32 8)) ''alice'' = (Inr (), out)"
    using demo_finish_run by blast
  then show ?thesis
    using finish_pairing_needs_acknowledgement [OF run] by blast
qed

end
