(* ===== verification/FileSystem.thy ===== *)
theory FileSystem
  imports Prelude
begin

text \<open>
  The part of the operating system that the configuration code uses: paths, files with an owner and
  permission bits, the effective user of the process and the user database entry of
  \<^verbatim>\<open>tapauthd\<close>. \<open>fault\<close> says which calls the kernel refuses, and with which error; a call
  that is not refused has its documented effect.
\<close>

section \<open>Paths\<close>

type_synonym path = string

definition path_join :: "path \<Rightarrow> string \<Rightarrow> path" where
  "path_join d f = d @ ''/'' @ f"

definition file_name :: "path \<Rightarrow> string" where
  "file_name p = rev (takeWhile (\<lambda>c. c \<noteq> CHR ''/'') (rev p))"

definition path_parent :: "path \<Rightarrow> path" where
  "path_parent p = rev (drop 1 (dropWhile (\<lambda>c. c \<noteq> CHR ''/'') (rev p)))"

definition file_stem :: "string \<Rightarrow> string" where
  "file_stem f =
     (let before = rev (drop 1 (dropWhile (\<lambda>c. c \<noteq> CHR ''.'') (rev f)))
      in if before = [] then f else before)"

definition with_extension :: "path \<Rightarrow> string \<Rightarrow> path" where
  "with_extension p ext =
     take (length p - length (file_name p)) p @ file_stem (file_name p) @
       (if ext = [] then [] else ''.'' @ ext)"

text \<open>The directory itself and the directories above it, topmost first, without the root.\<close>

definition path_prefixes :: "path \<Rightarrow> path list" where
  "path_prefixes p = map (\<lambda>n. take n p) (filter (\<lambda>n. n = length p \<or> p ! n = CHR ''/'') [1..<Suc (length p)])"

lemma path_join_inject [simp]: "path_join d f = path_join d g \<longleftrightarrow> f = g"
  by (simp add: path_join_def)

lemma path_join_neq [simp]: "path_join d f \<noteq> d" "d \<noteq> path_join d f"
  by (simp_all add: path_join_def)

lemma takeWhile_no_slash:
  "CHR ''/'' \<notin> set f \<Longrightarrow> takeWhile (\<lambda>c. c \<noteq> CHR ''/'') (rev f @ CHR ''/'' # d) = rev f"
  "CHR ''/'' \<notin> set f \<Longrightarrow> dropWhile (\<lambda>c. c \<noteq> CHR ''/'') (rev f @ CHR ''/'' # d) = CHR ''/'' # d"
  by (simp_all add: takeWhile_append dropWhile_append)

lemma path_parent_join [simp]: "CHR ''/'' \<notin> set f \<Longrightarrow> path_parent (path_join d f) = d"
  by (simp add: path_parent_def path_join_def takeWhile_no_slash)

lemma file_name_join [simp]: "CHR ''/'' \<notin> set f \<Longrightarrow> file_name (path_join d f) = f"
  by (simp add: file_name_def path_join_def takeWhile_no_slash)

lemma with_extension_join:
  "CHR ''/'' \<notin> set f \<Longrightarrow>
   with_extension (path_join d f) ext =
     path_join d (file_stem f @ (if ext = [] then [] else ''.'' @ ext))"
  by (simp add: with_extension_def) (simp add: path_join_def)

section \<open>The file system\<close>

record fs_node =
  is_dir :: bool
  contents :: bytes
  owner :: nat
  mode :: nat

datatype fs_op = OpStat | OpRead | OpWrite | OpMkdir | OpChmod | OpChown | OpRemove

record os =
  nodes :: "path \<Rightarrow> fs_node option"
  fault :: "fs_op \<Rightarrow> path \<Rightarrow> io_error option"
  euid :: nat
  tapauthd_user :: "nat option"

type_synonym ('e, 'a) osm = "os \<Rightarrow> ('e + 'a) \<times> os"

definition metadata :: "path \<Rightarrow> os \<Rightarrow> io_error + fs_node" where
  "metadata p s = (case fault s OpStat p of Some e \<Rightarrow> Inl e | None \<Rightarrow> ok_or NotFound (nodes s p))"

definition path_exists :: "path \<Rightarrow> os \<Rightarrow> bool" where
  "path_exists p s = is_ok (metadata p s)"

definition fs_read :: "path \<Rightarrow> os \<Rightarrow> io_error + bytes" where
  "fs_read p s =
     (case fault s OpRead p of
        Some e \<Rightarrow> Inl e
      | None \<Rightarrow> (case nodes s p of
                   None \<Rightarrow> Inl NotFound
                 | Some n \<Rightarrow> if is_dir n then Inl (OtherIo ''Is a directory'') else Inr (contents n)))"

definition fs_read_to_string :: "path \<Rightarrow> os \<Rightarrow> io_error + bytes" where
  "fs_read_to_string p s =
     rbind (fs_read p s) (\<lambda>b. if utf8_valid b then Inr b else Inl InvalidData)"

definition fs_write :: "path \<Rightarrow> bytes \<Rightarrow> (io_error, unit) osm" where
  "fs_write p d s =
     (case fault s OpWrite p of
        Some e \<Rightarrow> (Inl e, s)
      | None \<Rightarrow>
        (case nodes s p of
           Some n \<Rightarrow>
             if is_dir n then (Inl (OtherIo ''Is a directory''), s)
             else (Inr (), s\<lparr>nodes := (nodes s)(p \<mapsto> n\<lparr>contents := d\<rparr>)\<rparr>)
         | None \<Rightarrow>
             (case nodes s (path_parent p) of
                Some n \<Rightarrow>
                  if is_dir n
                  then (Inr (), s\<lparr>nodes := (nodes s)(p \<mapsto>
                           \<lparr>is_dir = False, contents = d, owner = euid s, mode = 420\<rparr>)\<rparr>)
                  else (Inl (OtherIo ''Not a directory''), s)
              | None \<Rightarrow> (Inl NotFound, s))))"

text \<open>A file that another program has written with success.\<close>

definition put_file :: "path \<Rightarrow> bytes \<Rightarrow> ('e, unit) osm" where
  "put_file p d s =
     (Inr (), s\<lparr>nodes := (nodes s)(p \<mapsto>
        (case nodes s p of
           Some n \<Rightarrow> n\<lparr>contents := d\<rparr>
         | None \<Rightarrow> \<lparr>is_dir = False, contents = d, owner = euid s, mode = 420\<rparr>))\<rparr>)"

definition fs_remove_file :: "path \<Rightarrow> (io_error, unit) osm" where
  "fs_remove_file p s =
     (case fault s OpRemove p of
        Some e \<Rightarrow> (Inl e, s)
      | None \<Rightarrow>
        (case nodes s p of
           None \<Rightarrow> (Inl NotFound, s)
         | Some n \<Rightarrow>
             if is_dir n then (Inl (OtherIo ''Is a directory''), s)
             else (Inr (), s\<lparr>nodes := (nodes s)(p := None)\<rparr>)))"

definition fs_set_mode :: "path \<Rightarrow> nat \<Rightarrow> (io_error, unit) osm" where
  "fs_set_mode p m s =
     (case fault s OpChmod p of
        Some e \<Rightarrow> (Inl e, s)
      | None \<Rightarrow>
        (case nodes s p of
           None \<Rightarrow> (Inl NotFound, s)
         | Some n \<Rightarrow> (Inr (), s\<lparr>nodes := (nodes s)(p \<mapsto> n\<lparr>mode := m\<rparr>)\<rparr>)))"

definition fs_chown :: "path \<Rightarrow> nat \<Rightarrow> (io_error, unit) osm" where
  "fs_chown p u s =
     (case fault s OpChown p of
        Some e \<Rightarrow> (Inl e, s)
      | None \<Rightarrow>
        (case nodes s p of
           None \<Rightarrow> (Inl NotFound, s)
         | Some n \<Rightarrow> (Inr (), s\<lparr>nodes := (nodes s)(p \<mapsto> n\<lparr>owner := u\<rparr>)\<rparr>)))"

primrec create_dirs :: "path list \<Rightarrow> (io_error, unit) osm" where
  "create_dirs [] s = (Inr (), s)"
| "create_dirs (p # ps) s =
     (case nodes s p of
        Some n \<Rightarrow> if is_dir n then create_dirs ps s else (Inl (OtherIo ''Not a directory''), s)
      | None \<Rightarrow>
          (case fault s OpMkdir p of
             Some e \<Rightarrow> (Inl e, s)
           | None \<Rightarrow> create_dirs ps (s\<lparr>nodes := (nodes s)(p \<mapsto>
                       \<lparr>is_dir = True, contents = [], owner = euid s, mode = 493\<rparr>)\<rparr>)))"

definition create_dir_all :: "path \<Rightarrow> (io_error, unit) osm" where
  "create_dir_all p = create_dirs (path_prefixes p)"

end
