(* ===== verification/Config.thy ===== *)
theory Config
  imports Messages FileSystem "HOL-Library.AList"
begin

text \<open>
  Persistent state, \<^verbatim>\<open>src/shared/src/config.rs\<close>, \<^verbatim>\<open>src/shared/src/config/toml_config.rs\<close>
  and \<^verbatim>\<open>src/shared/src/tpm.rs\<close>: files readable and writable by their owner only, the client's
  keys, the paired servers and the system-wide settings. The model is the production build
  (no \<^verbatim>\<open>dev-state-override\<close>) with the \<^verbatim>\<open>tpm\<close> feature compiled in; with
  \<^verbatim>\<open>use_tpm\<close> off it coincides with the build without that feature.

  The JSON and TOML libraries are the fields of a \<open>config_codec\<close>, the TPM command line tools those
  of a \<open>tpm_tools\<close>. A \<^verbatim>\<open>HashMap\<close> is an association list with distinct keys, in the order in
  which it is iterated.
\<close>

section \<open>Data\<close>

datatype config_error =
    ConfIo io_error | ConfSerialization | InsufficientPermissions | InvalidConfig
  | ConfCrypto crypto_error

datatype client_config = ClientConfig (cc_hostname: string)

record paired_server =
  ps_name :: string
  ps_public_key :: string
  allowed_users :: "string list"
  paired_at :: int

type_synonym server_map = "(string \<times> paired_server) list"

definition is_user_allowed :: "paired_server \<Rightarrow> string \<Rightarrow> bool" where
  "is_user_allowed s username = list_ex (\<lambda>u. u = username) (allowed_users s)"

datatype tpm_pcr_policy = Standard | Paranoid

fun pcr_list :: "tpm_pcr_policy \<Rightarrow> string" where
  "pcr_list Standard = ''7,14''"
| "pcr_list Paranoid = ''0,2,7,14''"

record tapauth_config =
  pam_operation_timeout_secs :: u64
  pam_gui_timeout_secs :: u64
  udp_port :: u16
  enable_network :: bool
  enable_ble :: bool
  use_tpm :: bool
  tpm_pcr_policy :: tpm_pcr_policy

definition TapAuthConfig_default :: tapauth_config where
  "TapAuthConfig_default =
     \<lparr>pam_operation_timeout_secs = 120, pam_gui_timeout_secs = 30, udp_port = 36692,
      enable_network = True, enable_ble = True, use_tpm = False, tpm_pcr_policy = Standard\<rparr>"

record config_codec =
  json_enc_config :: "client_config \<Rightarrow> bytes option"
  json_dec_config :: "bytes \<Rightarrow> client_config option"
  json_enc_servers :: "server_map \<Rightarrow> bytes option"
  json_dec_servers :: "bytes \<Rightarrow> server_map option"
  toml_enc :: "tapauth_config \<Rightarrow> bytes option"
  toml_dec :: "bytes \<Rightarrow> tapauth_config option"

text \<open>
  What the code relies on: encoding succeeds and decoding gives back the value; a decoded map has
  distinct keys, and the order of a \<^verbatim>\<open>HashMap\<close> is not preserved.
\<close>

definition config_codec_ok :: "config_codec \<Rightarrow> bool" where
  "config_codec_ok J \<longleftrightarrow>
     (\<forall>c. \<exists>b. json_enc_config J c = Some b \<and> json_dec_config J b = Some c) \<and>
     (\<forall>m. distinct (map fst m) \<longrightarrow>
       (\<exists>b m'. json_enc_servers J m = Some b \<and> json_dec_servers J b = Some m' \<and> map_of m' = map_of m)) \<and>
     (\<forall>b m. json_dec_servers J b = Some m \<longrightarrow> distinct (map fst m)) \<and>
     (\<forall>c. \<exists>b. toml_enc J c = Some b \<and> utf8_valid b \<and> toml_dec J b = Some c)"

definition CONFIG_DIR :: path where "CONFIG_DIR = ''/var/lib/tapauth''"
definition CLIENT_CONFIG_FILE :: string where "CLIENT_CONFIG_FILE = ''client_config.json''"
definition PAIRED_SERVERS_FILE :: string where "PAIRED_SERVERS_FILE = ''paired_servers.json''"
definition CLIENT_KEY_FILE :: string where "CLIENT_KEY_FILE = ''client_key''"
definition CLIENT_SYMMETRIC_KEY_FILE :: string where "CLIENT_SYMMETRIC_KEY_FILE = ''client_symmetric_key''"
definition DEFAULT_CONFIG_PATH :: path where "DEFAULT_CONFIG_PATH = ''/etc/tapauth/config.toml''"

section \<open>Secure files\<close>

definition is_euid_tapauthd :: "os \<Rightarrow> bool" where
  "is_euid_tapauthd s = (case tapauthd_user s of Some uid \<Rightarrow> euid s = uid | None \<Rightarrow> False)"

definition is_euid_privileged_for_writes :: "os \<Rightarrow> bool" where
  "is_euid_privileged_for_writes s = (is_euid_tapauthd s \<or> euid s = 0)"

definition chown_to_tapauthd :: "path \<Rightarrow> (config_error, unit) osm" where
  "chown_to_tapauthd p s =
     (if euid s \<noteq> 0 then (Inr (), s)
      else (case tapauthd_user s of
              None \<Rightarrow> (Inr (), s)
            | Some uid \<Rightarrow>
                if CHR 0x00 \<in> set p then (Inl (ConfIo InvalidInput), s)
                else smap_err ConfIo (fs_chown p uid) s))"

definition ensure_secure_directory :: "path \<Rightarrow> (config_error, unit) osm" where
  "ensure_secure_directory p s =
     (if \<not> is_euid_privileged_for_writes s then (Inl InsufficientPermissions, s)
      else
        sbind (\<lambda>s. if \<not> path_exists p s then smap_err ConfIo (create_dir_all p) s else (Inr (), s)) (\<lambda>_.
        sbind (smap_err ConfIo (sget (metadata p))) (\<lambda>_.
        sbind (smap_err ConfIo (fs_set_mode p 448)) (\<lambda>_ s.
          if \<not> is_euid_tapauthd s then chown_to_tapauthd p s else (Inr (), s)))) s)"

definition write_secure_file :: "path \<Rightarrow> bytes \<Rightarrow> (config_error, unit) osm" where
  "write_secure_file p d s =
     (if \<not> is_euid_privileged_for_writes s then (Inl InsufficientPermissions, s)
      else
        sbind (smap_err ConfIo (fs_write p d)) (\<lambda>_.
        sbind (smap_err ConfIo (sget (metadata p))) (\<lambda>_.
        sbind (smap_err ConfIo (fs_set_mode p 384)) (\<lambda>_ s.
          if \<not> is_euid_tapauthd s then chown_to_tapauthd p s else (Inr (), s)))) s)"

definition read_secure_file :: "path \<Rightarrow> os \<Rightarrow> config_error + bytes" where
  "read_secure_file p s =
     rbind (map_err ConfIo (metadata p s)) (\<lambda>md.
       let owner_uid = owner md;
           owner_ok = (owner_uid = 0 \<or> (case tapauthd_user s of Some u \<Rightarrow> owner_uid = u | None \<Rightarrow> False))
       in if \<not> owner_ok then Inl InsufficientPermissions
          else let m = mode md mod 512
               in if m \<noteq> 384 \<and> m \<noteq> 256 then Inl InsufficientPermissions
                  else map_err ConfIo (fs_read p s))"

section \<open>The TPM\<close>

datatype tpm_error =
    NotAvailable | KeyNotFound | InvalidKeyFormat | OperationFailed string
  | TpmIo io_error | TpmCrypto crypto_error

text \<open>One run of a command line tool.\<close>

datatype 'a cmd = RunFailed string | ExitFailure string | ExitSuccess 'a

text \<open>
  \<^verbatim>\<open>tpm2_create\<close> makes the public and the private part from a PCR selection and the data,
  \<^verbatim>\<open>tpm2_load\<close> a context from the two parts, \<^verbatim>\<open>tpm2_unseal\<close> the data from a context.
\<close>

record tpm_tools =
  tpm2_getrandom_help :: bool
  tpm2_create :: "string \<Rightarrow> bytes \<Rightarrow> (bytes \<times> bytes) cmd"
  tpm2_load :: "bytes \<Rightarrow> bytes \<Rightarrow> bytes cmd"
  tpm2_unseal :: "bytes \<Rightarrow> bytes cmd"

definition is_tpm_available :: "tpm_tools \<Rightarrow> bool" where
  "is_tpm_available T = tpm2_getrandom_help T"

definition seal_data_with_tpm :: "tpm_tools \<Rightarrow> bytes \<Rightarrow> path \<Rightarrow> string \<Rightarrow> (tpm_error, unit) osm" where
  "seal_data_with_tpm T d out pcrs =
     (let temp_input = with_extension out ''tmp_in''
      in sbind (smap_err TpmIo (fs_write temp_input d)) (\<lambda>_.
         sbind (case tpm2_create T (''sha256:'' @ pcrs) d of
             RunFailed e \<Rightarrow> sbind (signore (fs_remove_file temp_input)) (\<lambda>_.
               sfail (OperationFailed (''Failed to run tpm2_create: '' @ e)))
           | ExitFailure e \<Rightarrow> sbind (signore (fs_remove_file temp_input)) (\<lambda>_.
               sfail (OperationFailed (''tpm2_create failed: '' @ e)))
           | ExitSuccess (pub, priv) \<Rightarrow>
               sbind (put_file (with_extension out ''pub'') pub) (\<lambda>_.
               sbind (put_file (with_extension out ''priv'') priv) (\<lambda>_.
                 signore (fs_remove_file temp_input)))) (\<lambda>_.
           sret ())))"

definition unseal_data_with_tpm :: "tpm_tools \<Rightarrow> path \<Rightarrow> (tpm_error, bytes) osm" where
  "unseal_data_with_tpm T sealed =
     (let temp_output = with_extension sealed ''tmp_out'';
          ctx_path = with_extension temp_output ''ctx''
      in sbind (sget (\<lambda>s.
             case (fs_read (with_extension sealed ''pub'') s, fs_read (with_extension sealed ''priv'') s) of
               (Inr pub, Inr priv) \<Rightarrow>
                 (case tpm2_load T pub priv of
                    RunFailed e \<Rightarrow> Inl (OperationFailed (''Failed to run tpm2_load: '' @ e))
                  | ExitFailure e \<Rightarrow> Inl (OperationFailed (''tpm2_load failed: '' @ e))
                  | ExitSuccess ctx \<Rightarrow> Inr ctx)
             | _ \<Rightarrow> Inl (OperationFailed ''tpm2_load failed: ''))) (\<lambda>ctx.
         sbind (put_file ctx_path ctx) (\<lambda>_.
           case tpm2_unseal T ctx of
             RunFailed e \<Rightarrow> sfail (OperationFailed (''Failed to run tpm2_unseal: '' @ e))
           | ExitFailure e \<Rightarrow>
               sbind (signore (fs_remove_file ctx_path)) (\<lambda>_.
                 sfail (OperationFailed (''tpm2_unseal failed: '' @ e)))
           | ExitSuccess d \<Rightarrow>
               sbind (put_file temp_output d) (\<lambda>_.
               sbind (smap_err TpmIo (sget (fs_read temp_output))) (\<lambda>d'.
               sbind (signore (fs_remove_file temp_output)) (\<lambda>_.
               sbind (signore (fs_remove_file ctx_path)) (\<lambda>_.
                 sret d')))))))"

definition load_sealed_keypair ::
  "crypto_lib \<Rightarrow> tpm_tools \<Rightarrow> path \<Rightarrow> (tpm_error, ed25519_keypair) osm" where
  "load_sealed_keypair L T sealed s =
     (if \<not> is_tpm_available T then (Inl NotAvailable, s)
      else if \<not> path_exists sealed s then (Inl KeyNotFound, s)
      else sbind (unseal_data_with_tpm T sealed) (\<lambda>private_bytes.
             if length private_bytes \<noteq> 32 then sfail InvalidKeyFormat
             else slift (map_err TpmCrypto (from_signing_key_bytes L private_bytes))) s)"

definition generate_and_seal_keypair ::
  "crypto_lib \<Rightarrow> tpm_tools \<Rightarrow> bytes option \<Rightarrow> path \<Rightarrow> string \<Rightarrow> (tpm_error, ed25519_keypair) osm" where
  "generate_and_seal_keypair L T rnd sealed pcrs =
     (if \<not> is_tpm_available T then sfail NotAvailable
      else sbind (slift (map_err TpmCrypto (generate_ed25519 L rnd))) (\<lambda>keypair.
           sbind (seal_data_with_tpm T (signing_key_bytes keypair) sealed pcrs) (\<lambda>_.
             sret keypair)))"

definition delete_sealed_key :: "path \<Rightarrow> (tpm_error, unit) osm" where
  "delete_sealed_key sealed =
     sbind (signore (fs_remove_file (with_extension sealed ''pub''))) (\<lambda>_.
     sbind (signore (fs_remove_file (with_extension sealed ''priv''))) (\<lambda>_. sret ()))"

section \<open>System-wide settings\<close>

definition load_from_path :: "config_codec \<Rightarrow> path \<Rightarrow> os \<Rightarrow> tapauth_config" where
  "load_from_path J p s =
     (case fs_read_to_string p s of
        Inl _ \<Rightarrow> TapAuthConfig_default
      | Inr c \<Rightarrow> (case toml_dec J c of Some config \<Rightarrow> config | None \<Rightarrow> TapAuthConfig_default))"

definition TapAuthConfig_load :: "config_codec \<Rightarrow> os \<Rightarrow> tapauth_config" where
  "TapAuthConfig_load J s = load_from_path J DEFAULT_CONFIG_PATH s"

definition save_to_path :: "config_codec \<Rightarrow> tapauth_config \<Rightarrow> path \<Rightarrow> (io_error, unit) osm" where
  "save_to_path J config p =
     sbind (create_dir_all (path_parent p)) (\<lambda>_.
     sbind (slift (ok_or InvalidData (toml_enc J config))) (\<lambda>c.
     sbind (fs_write p c) (\<lambda>_.
     sbind (sget (metadata p)) (\<lambda>_.
       fs_set_mode p 420))))"

definition TapAuthConfig_save :: "config_codec \<Rightarrow> tapauth_config \<Rightarrow> (io_error, unit) osm" where
  "TapAuthConfig_save J config = save_to_path J config DEFAULT_CONFIG_PATH"

definition operation_timeout :: "tapauth_config \<Rightarrow> duration" where
  "operation_timeout c = from_secs (unat (pam_operation_timeout_secs c))"

section \<open>The configuration manager\<close>

text \<open>
  The methods of \<^verbatim>\<open>ClientConfigManager\<close>; \<open>D\<close> is its \<^verbatim>\<open>config_dir\<close>, which
  \<^verbatim>\<open>ClientConfigManager::new\<close> sets to \<open>CONFIG_DIR\<close>. \<open>hn\<close> is the answer of
  \<^verbatim>\<open>hostname::get()\<close> when it succeeds with valid UTF-8.
\<close>

definition manager_init :: "path \<Rightarrow> (config_error, unit) osm" where
  "manager_init D = ensure_secure_directory D"

definition ClientConfig_default :: "string option \<Rightarrow> client_config" where
  "ClientConfig_default hn = ClientConfig (case hn of Some h \<Rightarrow> h | None \<Rightarrow> ''unknown'')"

definition load_config :: "config_codec \<Rightarrow> path \<Rightarrow> string option \<Rightarrow> os \<Rightarrow> config_error + client_config" where
  "load_config J D hn s =
     (let config_path = path_join D CLIENT_CONFIG_FILE
      in if \<not> path_exists config_path s then Inr (ClientConfig_default hn)
         else rbind (read_secure_file config_path s) (\<lambda>d.
                ok_or ConfSerialization (json_dec_config J d)))"

definition save_config :: "config_codec \<Rightarrow> path \<Rightarrow> client_config \<Rightarrow> (config_error, unit) osm" where
  "save_config J D config =
     sbind (manager_init D) (\<lambda>_.
     sbind (slift (ok_or ConfSerialization (json_enc_config J config))) (\<lambda>d.
       write_secure_file (path_join D CLIENT_CONFIG_FILE) d))"

definition load_keypair ::
  "crypto_lib \<Rightarrow> config_codec \<Rightarrow> tpm_tools \<Rightarrow> path \<Rightarrow> (config_error, ed25519_keypair) osm" where
  "load_keypair L J T D s =
     (if use_tpm (TapAuthConfig_load J s) then
        let tpm_key_path = path_join D (CLIENT_KEY_FILE @ ''.tpm'')
        in if \<not> path_exists (with_extension tpm_key_path ''pub'') s then (Inl (ConfIo NotFound), s)
           else smap_err (\<lambda>e. ConfIo (OtherIo ''Failed to unseal key from TPM''))
                  (load_sealed_keypair L T tpm_key_path) s
      else
        let key_path = path_join D CLIENT_KEY_FILE
        in if \<not> path_exists key_path s then (Inl InvalidConfig, s)
           else (rbind (read_secure_file key_path s) (\<lambda>d.
                   if length d \<noteq> 32 then Inl InvalidConfig
                   else map_err ConfCrypto (from_signing_key_bytes L d)), s))"

definition save_keypair ::
  "config_codec \<Rightarrow> tpm_tools \<Rightarrow> path \<Rightarrow> ed25519_keypair \<Rightarrow> (config_error, unit) osm" where
  "save_keypair J T D keypair =
     sbind (manager_init D) (\<lambda>_ s.
       let d = signing_key_bytes keypair; toml_config = TapAuthConfig_load J s
       in if use_tpm toml_config then
            (if \<not> is_tpm_available T then (Inl (ConfIo NotFound), s)
             else smap_err (\<lambda>e. ConfIo (OtherIo ''Failed to seal key with TPM''))
                    (seal_data_with_tpm T d (path_join D (CLIENT_KEY_FILE @ ''.tpm''))
                       (pcr_list (tpm_pcr_policy toml_config))) s)
          else write_secure_file (path_join D CLIENT_KEY_FILE) d s)"

definition generate_and_save_keypair ::
  "crypto_lib \<Rightarrow> config_codec \<Rightarrow> tpm_tools \<Rightarrow> path \<Rightarrow> bytes option \<Rightarrow> (config_error, ed25519_keypair) osm" where
  "generate_and_save_keypair L J T D rnd =
     sbind (slift (map_err ConfCrypto (generate_ed25519 L rnd))) (\<lambda>keypair.
     sbind (save_keypair J T D keypair) (\<lambda>_. sret keypair))"

definition load_csk :: "path \<Rightarrow> os \<Rightarrow> config_error + client_symmetric_key" where
  "load_csk D s =
     (let csk_path = path_join D CLIENT_SYMMETRIC_KEY_FILE
      in if \<not> path_exists csk_path s then Inl InvalidConfig
         else rbind (read_secure_file csk_path s) (\<lambda>d.
                if length d \<noteq> 32 then Inl InvalidConfig else Inr (ClientSymmetricKey d)))"

definition save_csk :: "path \<Rightarrow> client_symmetric_key \<Rightarrow> (config_error, unit) osm" where
  "save_csk D csk =
     sbind (manager_init D) (\<lambda>_.
       write_secure_file (path_join D CLIENT_SYMMETRIC_KEY_FILE) (csk_bytes csk))"

definition generate_and_save_csk :: "path \<Rightarrow> bytes option \<Rightarrow> (config_error, client_symmetric_key) osm" where
  "generate_and_save_csk D rnd =
     sbind (slift (map_err ConfCrypto (generate_csk rnd))) (\<lambda>csk.
     sbind (save_csk D csk) (\<lambda>_. sret csk))"

definition has_csk_file :: "path \<Rightarrow> os \<Rightarrow> bool" where
  "has_csk_file D s = path_exists (path_join D CLIENT_SYMMETRIC_KEY_FILE) s"

definition load_paired_servers :: "config_codec \<Rightarrow> path \<Rightarrow> os \<Rightarrow> config_error + server_map" where
  "load_paired_servers J D s =
     (let servers_path = path_join D PAIRED_SERVERS_FILE
      in if \<not> path_exists servers_path s then Inr []
         else rbind (read_secure_file servers_path s) (\<lambda>d.
                ok_or ConfSerialization (json_dec_servers J d)))"

definition save_paired_servers :: "config_codec \<Rightarrow> path \<Rightarrow> server_map \<Rightarrow> (config_error, unit) osm" where
  "save_paired_servers J D servers =
     sbind (manager_init D) (\<lambda>_.
     sbind (slift (ok_or ConfSerialization (json_enc_servers J servers))) (\<lambda>d.
       write_secure_file (path_join D PAIRED_SERVERS_FILE) d))"

definition add_paired_server ::
  "config_codec \<Rightarrow> path \<Rightarrow> string \<Rightarrow> paired_server \<Rightarrow> (config_error, unit) osm" where
  "add_paired_server J D sid server =
     sbind (sget (load_paired_servers J D)) (\<lambda>servers.
       save_paired_servers J D (AList.update sid server servers))"

definition remove_paired_server :: "config_codec \<Rightarrow> path \<Rightarrow> string \<Rightarrow> (config_error, unit) osm" where
  "remove_paired_server J D sid =
     sbind (sget (load_paired_servers J D)) (\<lambda>servers.
       save_paired_servers J D (AList.delete sid servers))"

definition remove_user_from_pairing ::
  "config_codec \<Rightarrow> path \<Rightarrow> string \<Rightarrow> string \<Rightarrow> (config_error, bool) osm" where
  "remove_user_from_pairing J D sid username =
     sbind (sget (load_paired_servers J D)) (\<lambda>servers.
       case map_of servers sid of
         Some server \<Rightarrow>
           (let server = server\<lparr>allowed_users := filter (\<lambda>u. u \<noteq> username) (allowed_users server)\<rparr>
            in if allowed_users server = []
               then sbind (save_paired_servers J D (AList.delete sid servers)) (\<lambda>_. sret True)
               else sbind (save_paired_servers J D (AList.update sid server servers)) (\<lambda>_. sret False))
       | None \<Rightarrow> sret True)"

definition clear_paired_servers :: "path \<Rightarrow> (config_error, unit) osm" where
  "clear_paired_servers D s =
     (let servers_path = path_join D PAIRED_SERVERS_FILE
      in if path_exists servers_path s then smap_err ConfIo (fs_remove_file servers_path) s
         else (Inr (), s))"

definition rotate_csk :: "path \<Rightarrow> bytes option \<Rightarrow> (config_error, client_symmetric_key) osm" where
  "rotate_csk D rnd =
     sbind (signore (clear_paired_servers D)) (\<lambda>_. generate_and_save_csk D rnd)"

definition remove_if_exists :: "path \<Rightarrow> (config_error, unit) osm" where
  "remove_if_exists p s =
     (if path_exists p s then smap_err ConfIo (fs_remove_file p) s else (Inr (), s))"

definition recover_from_tpm_failure ::
  "crypto_lib \<Rightarrow> config_codec \<Rightarrow> tpm_tools \<Rightarrow> path \<Rightarrow> bytes option \<Rightarrow> bytes option \<Rightarrow> (config_error, unit) osm" where
  "recover_from_tpm_failure L J T D rnd1 rnd2 =
     (let tpm_key_path = path_join D (CLIENT_KEY_FILE @ ''.tpm'')
      in sbind (remove_if_exists (with_extension tpm_key_path ''pub'')) (\<lambda>_.
         sbind (remove_if_exists (with_extension tpm_key_path ''priv'')) (\<lambda>_.
         sbind (remove_if_exists (path_join D CLIENT_KEY_FILE)) (\<lambda>_.
         sbind (clear_paired_servers D) (\<lambda>_.
         sbind (generate_and_save_keypair L J T D rnd1) (\<lambda>_.
         sbind (rotate_csk D rnd2) (\<lambda>_.
           sret ())))))))"

section \<open>Lemmas on secure files\<close>

definition owner_ok :: "os \<Rightarrow> fs_node \<Rightarrow> bool" where
  "owner_ok s n \<longleftrightarrow> owner n = 0 \<or> tapauthd_user s = Some (owner n)"

definition state_files :: "string set" where
  "state_files = {CLIENT_CONFIG_FILE, PAIRED_SERVERS_FILE, CLIENT_KEY_FILE, CLIENT_SYMMETRIC_KEY_FILE}"

text \<open>
  A machine on which the manager can work: the process is privileged, the state directory is there,
  the kernel refuses no call on it and its files, and what is there belongs to root or tapauthd.
\<close>

definition healthy :: "path \<Rightarrow> os \<Rightarrow> bool" where
  "healthy D s \<longleftrightarrow> is_euid_privileged_for_writes s \<and> CHR 0x00 \<notin> set D \<and>
     (\<forall>op. fault s op D = None) \<and> (\<exists>n. nodes s D = Some n \<and> is_dir n) \<and>
     (\<forall>f \<in> state_files. (\<forall>op. fault s op (path_join D f) = None) \<and>
        (\<forall>n. nodes s (path_join D f) = Some n \<longrightarrow> \<not> is_dir n \<and> owner_ok s n))"

lemma state_file_plain:
  "f \<in> state_files \<Longrightarrow> CHR ''/'' \<notin> set f" "f \<in> state_files \<Longrightarrow> CHR 0x00 \<notin> set f"
  by (auto simp: state_files_def CLIENT_CONFIG_FILE_def PAIRED_SERVERS_FILE_def CLIENT_KEY_FILE_def
      CLIENT_SYMMETRIC_KEY_FILE_def)

lemma state_file_mem [simp]:
  "CLIENT_CONFIG_FILE \<in> state_files" "PAIRED_SERVERS_FILE \<in> state_files"
  "CLIENT_KEY_FILE \<in> state_files" "CLIENT_SYMMETRIC_KEY_FILE \<in> state_files"
  by (simp_all add: state_files_def)

lemma state_files_distinct [simp]:
  "CLIENT_CONFIG_FILE \<noteq> PAIRED_SERVERS_FILE" "CLIENT_CONFIG_FILE \<noteq> CLIENT_KEY_FILE"
  "CLIENT_CONFIG_FILE \<noteq> CLIENT_SYMMETRIC_KEY_FILE" "PAIRED_SERVERS_FILE \<noteq> CLIENT_KEY_FILE"
  "PAIRED_SERVERS_FILE \<noteq> CLIENT_SYMMETRIC_KEY_FILE" "CLIENT_KEY_FILE \<noteq> CLIENT_SYMMETRIC_KEY_FILE"
  by (simp_all add: CLIENT_CONFIG_FILE_def PAIRED_SERVERS_FILE_def CLIENT_KEY_FILE_def
      CLIENT_SYMMETRIC_KEY_FILE_def)

lemma identity_frame [simp]:
  "is_euid_tapauthd (s\<lparr>nodes := N\<rparr>) = is_euid_tapauthd s"
  "is_euid_privileged_for_writes (s\<lparr>nodes := N\<rparr>) = is_euid_privileged_for_writes s"
  "owner_ok (s\<lparr>nodes := N\<rparr>) n = owner_ok s n"
  by (simp_all add: is_euid_tapauthd_def is_euid_privileged_for_writes_def owner_ok_def split: option.splits)

text \<open>A file only its owner can read.\<close>

definition secret_node :: "os \<Rightarrow> bytes \<Rightarrow> fs_node \<Rightarrow> bool" where
  "secret_node s d n \<longleftrightarrow> \<not> is_dir n \<and> contents n = d \<and> mode n = 384 \<and> owner_ok s n"

lemma manager_init_healthy:
  assumes "healthy D s"
  shows "\<exists>n. manager_init D s = (Inr (), s\<lparr>nodes := (nodes s)(D \<mapsto> n)\<rparr>) \<and> is_dir n \<and> mode n = 448"
proof -
  obtain n where n: "nodes s D = Some n" "is_dir n" "\<And>op. fault s op D = None"
      "is_euid_privileged_for_writes s" "CHR 0x00 \<notin> set D"
    using assms by (auto simp: healthy_def)
  then show ?thesis
    by (cases "tapauthd_user s")
      (auto simp: manager_init_def ensure_secure_directory_def path_exists_def metadata_def sbind_def
        smap_err_def fs_set_mode_def chown_to_tapauthd_def fs_chown_def is_euid_tapauthd_def is_ok_def
        is_euid_privileged_for_writes_def)
qed

lemma write_secure_healthy:
  assumes "healthy D s" "f \<in> state_files"
  shows "\<exists>n. write_secure_file (path_join D f) d s = (Inr (), s\<lparr>nodes := (nodes s)(path_join D f \<mapsto> n)\<rparr>) \<and>
     secret_node s d n"
proof -
  obtain m where m: "nodes s D = Some m" "is_dir m" "\<And>op. fault s op (path_join D f) = None"
      "is_euid_privileged_for_writes s" "CHR 0x00 \<notin> set (path_join D f)"
      "\<And>n. nodes s (path_join D f) = Some n \<Longrightarrow> \<not> is_dir n \<and> owner_ok s n"
    using assms state_file_plain [OF assms(2)] by (auto simp: healthy_def path_join_def)
  show ?thesis
    using m state_file_plain [OF assms(2)]
    by (cases "nodes s (path_join D f)"; cases "tapauthd_user s")
      (auto simp: write_secure_file_def fs_write_def metadata_def sbind_def secret_node_def owner_ok_def
        smap_err_def fs_set_mode_def chown_to_tapauthd_def fs_chown_def is_euid_tapauthd_def
        is_euid_privileged_for_writes_def)
qed

text \<open>One save: the directory is checked, then the file written; nothing else changes.\<close>

definition saved :: "path \<Rightarrow> string \<Rightarrow> bytes \<Rightarrow> os \<Rightarrow> os \<Rightarrow> bool" where
  "saved D f d s s' \<longleftrightarrow>
     (\<exists>m n. s' = s\<lparr>nodes := (nodes s)(D \<mapsto> m, path_join D f \<mapsto> n)\<rparr> \<and> is_dir m \<and> mode m = 448 \<and>
        secret_node s d n)"

lemma healthy_update:
  assumes "healthy D s" "is_dir m" "secret_node s d n"
  shows "healthy D (s\<lparr>nodes := (nodes s)(D \<mapsto> m, path_join D f \<mapsto> n)\<rparr>)"
  using assms
  by (auto simp: healthy_def secret_node_def)

lemma save_healthy:
  assumes "healthy D s" "f \<in> state_files"
  shows "\<exists>s'. sbind (manager_init D) (\<lambda>_. write_secure_file (path_join D f) d) s = (Inr (), s') \<and>
     saved D f d s s' \<and> healthy D s'"
proof -
  obtain m where m: "manager_init D s = (Inr (), s\<lparr>nodes := (nodes s)(D \<mapsto> m)\<rparr>)" "is_dir m" "mode m = 448"
    using manager_init_healthy [OF assms(1)] by blast
  let ?t = "s\<lparr>nodes := (nodes s)(D \<mapsto> m)\<rparr>"
  have "healthy D ?t"
    using assms(1) m(2)
    by (auto simp: healthy_def)
  then obtain n where n: "write_secure_file (path_join D f) d ?t =
      (Inr (), ?t\<lparr>nodes := (nodes ?t)(path_join D f \<mapsto> n)\<rparr>)" "secret_node ?t d n"
    using write_secure_healthy assms(2) by blast
  have "secret_node s d n"
    using n(2) by (simp add: secret_node_def owner_ok_def)
  then show ?thesis
    using m n(1) healthy_update [OF assms(1) m(2), of d n f] by (auto simp: sbind_def saved_def)
qed

lemma saved_reads:
  assumes "healthy D s" "f \<in> state_files" "saved D f d s s'"
  shows "path_exists (path_join D f) s'" "read_secure_file (path_join D f) s' = Inr d"
  using assms
  by (auto simp: saved_def healthy_def path_exists_def metadata_def is_ok_def read_secure_file_def
      fs_read_def secret_node_def owner_ok_def Let_def)

lemma access_frame:
  assumes "nodes s' p = nodes s p" "fault s' = fault s" "tapauthd_user s' = tapauthd_user s"
  shows "metadata p s' = metadata p s" "path_exists p s' = path_exists p s"
    "fs_read p s' = fs_read p s" "read_secure_file p s' = read_secure_file p s"
  unfolding path_exists_def metadata_def fs_read_def read_secure_file_def assms by (rule refl)+

lemma saved_frame:
  assumes "saved D f d s s'" "p \<noteq> D" "p \<noteq> path_join D f"
  shows "path_exists p s' = path_exists p s" "read_secure_file p s' = read_secure_file p s"
    "fs_read p s' = fs_read p s"
proof -
  have "nodes s' p = nodes s p" "fault s' = fault s" "tapauthd_user s' = tapauthd_user s"
    using assms by (auto simp: saved_def)
  then show "path_exists p s' = path_exists p s" "read_secure_file p s' = read_secure_file p s"
      "fs_read p s' = fs_read p s"
    by (rule access_frame)+
qed

section \<open>Slots and the store of paired servers\<close>

text \<open>
  What a client of the manager relies on for each thing it stores: after a save the next load gives
  it back (up to \<open>same\<close>, for a map without order), and other saves of the same kind may follow.
\<close>

locale slot =
  fixes good :: "'s \<Rightarrow> bool"
    and valid :: "'v \<Rightarrow> bool"
    and same :: "'v \<Rightarrow> 'v \<Rightarrow> bool"
    and save :: "'v \<Rightarrow> 's \<Rightarrow> ('e + unit) \<times> 's"
    and load :: "'s \<Rightarrow> 'e + 'v"
  assumes save_load:
      "good s \<Longrightarrow> valid v \<Longrightarrow> \<exists>s' v'. save v s = (Inr (), s') \<and> good s' \<and> load s' = Inr v' \<and> same v v'"
begin

lemma save_succeeds: "good s \<Longrightarrow> valid v \<Longrightarrow> fst (save v s) = Inr ()"
  using save_load by fastforce

lemma save_keeps_good: "good s \<Longrightarrow> valid v \<Longrightarrow> good (snd (save v s))"
  using save_load by fastforce

lemma load_after_save: "good s \<Longrightarrow> valid v \<Longrightarrow> \<exists>v'. load (snd (save v s)) = Inr v' \<and> same v v'"
  using save_load by fastforce

lemma last_save_wins:
  assumes "good s" "\<forall>v \<in> set vs. valid v" "valid w"
  shows "\<exists>w'. load (snd (save w (fold (\<lambda>v s. snd (save v s)) vs s))) = Inr w' \<and> same w w'"
proof -
  have "good (fold (\<lambda>v s. snd (save v s)) vs s)"
    using assms(1,2) by (induction vs arbitrary: s) (simp_all add: save_keeps_good)
  then show ?thesis
    using load_after_save assms(3) by blast
qed

end

lemma config_codecD:
  assumes "config_codec_ok J"
  shows json_config: "\<exists>b. json_enc_config J c = Some b \<and> json_dec_config J b = Some c"
    and json_servers: "distinct (map fst m) \<Longrightarrow>
      \<exists>b m'. json_enc_servers J m = Some b \<and> json_dec_servers J b = Some m' \<and> map_of m' = map_of m"
    and json_servers_distinct: "json_dec_servers J b = Some m \<Longrightarrow> distinct (map fst m)"
    and toml_config: "\<exists>b. toml_enc J t = Some b \<and> utf8_valid b \<and> toml_dec J b = Some t"
  using assms by (simp_all add: config_codec_ok_def)

interpretation csk_slot: slot "healthy D" "\<lambda>k. length (csk_bytes k) = 32" "(=)" "save_csk D" "load_csk D" for D
proof
  fix s and v :: client_symmetric_key
  assume a: "healthy D s" "length (csk_bytes v) = 32"
  obtain s' where "save_csk D v s = (Inr (), s')" "saved D CLIENT_SYMMETRIC_KEY_FILE (csk_bytes v) s s'" "healthy D s'"
    using save_healthy [OF a(1), of CLIENT_SYMMETRIC_KEY_FILE "csk_bytes v"] by (auto simp: save_csk_def)
  then show "\<exists>s' v'. save_csk D v s = (Inr (), s') \<and> healthy D s' \<and> load_csk D s' = Inr v' \<and> v = v'"
    using saved_reads [OF a(1)] a(2) by (simp add: load_csk_def)
qed

interpretation config_slot: slot "\<lambda>s. config_codec_ok J \<and> healthy D s" "\<lambda>_. True" "(=)"
    "save_config J D" "load_config J D hn" for J D hn
proof
  fix s v
  assume a: "config_codec_ok J \<and> healthy D s"
  obtain b where b: "json_enc_config J v = Some b" "json_dec_config J b = Some v"
    using json_config a by blast
  obtain s' where "sbind (manager_init D) (\<lambda>_. write_secure_file (path_join D CLIENT_CONFIG_FILE) b) s = (Inr (), s')"
      "saved D CLIENT_CONFIG_FILE b s s'" "healthy D s'"
    using save_healthy [of D s CLIENT_CONFIG_FILE b] a by auto
  then show "\<exists>s' v'. save_config J D v s = (Inr (), s') \<and> (config_codec_ok J \<and> healthy D s') \<and>
      load_config J D hn s' = Inr v' \<and> v = v'"
    using a b saved_reads [of D s CLIENT_CONFIG_FILE b s']
    by (auto simp: save_config_def load_config_def sbind_def split: prod.splits sum.splits)
qed

interpretation servers_slot: slot "\<lambda>s. config_codec_ok J \<and> healthy D s" "\<lambda>m. distinct (map fst m)"
    "\<lambda>m m'. map_of m' = map_of m \<and> distinct (map fst m')" "save_paired_servers J D" "load_paired_servers J D" for J D
proof
  fix s and v :: server_map
  assume a: "config_codec_ok J \<and> healthy D s" and d: "distinct (map fst v)"
  obtain b m' where b: "json_enc_servers J v = Some b" "json_dec_servers J b = Some m'" "map_of m' = map_of v"
    using json_servers a d by blast
  have "distinct (map fst m')"
    using json_servers_distinct a b(2) by blast
  moreover obtain s' where
    "sbind (manager_init D) (\<lambda>_. write_secure_file (path_join D PAIRED_SERVERS_FILE) b) s = (Inr (), s')"
      "saved D PAIRED_SERVERS_FILE b s s'" "healthy D s'"
    using save_healthy [of D s PAIRED_SERVERS_FILE b] a by auto
  ultimately show "\<exists>s' v'. save_paired_servers J D v s = (Inr (), s') \<and> (config_codec_ok J \<and> healthy D s') \<and>
      load_paired_servers J D s' = Inr v' \<and> map_of v' = map_of v \<and> distinct (map fst v')"
    using a b saved_reads [of D s PAIRED_SERVERS_FILE b s']
    by (auto simp: save_paired_servers_def load_paired_servers_def sbind_def split: prod.splits sum.splits)
qed

text \<open>The paired servers as a map that operations update key by key.\<close>

locale keyed_store =
  fixes good :: "'s \<Rightarrow> bool"
    and view :: "'s \<Rightarrow> 'k \<Rightarrow> 'v option"
    and put :: "'k \<Rightarrow> 'v \<Rightarrow> 's \<Rightarrow> 's"
    and del :: "'k \<Rightarrow> 's \<Rightarrow> 's"
  assumes put_good: "good s \<Longrightarrow> good (put k v s)"
    and put_view: "good s \<Longrightarrow> view (put k v s) = (view s)(k \<mapsto> v)"
    and del_good: "good s \<Longrightarrow> good (del k s)"
    and del_view: "good s \<Longrightarrow> view (del k s) = (view s)(k := None)"
begin

lemma put_many:
  "good s \<Longrightarrow> good (fold (\<lambda>(k, v). put k v) kvs s) \<and>
     view (fold (\<lambda>(k, v). put k v) kvs s) = view s ++ map_of (rev kvs)"
proof (induction kvs arbitrary: s)
  case (Cons kv kvs)
  then show ?case
    by (cases kv) (simp add: put_good put_view map_add_def fun_eq_iff split: option.splits)
qed simp

lemma del_put_view: "good s \<Longrightarrow> view s k = None \<Longrightarrow> view (del k (put k v s)) = view s"
  by (simp add: put_good put_view del_view fun_upd_idem)

lemma put_put_view: "good s \<Longrightarrow> view (put k w (put k v s)) = view (put k w s)"
  by (simp add: put_good put_view)

end

definition servers_of :: "config_codec \<Rightarrow> path \<Rightarrow> os \<Rightarrow> string \<Rightarrow> paired_server option" where
  "servers_of J D s = (case load_paired_servers J D s of Inr m \<Rightarrow> map_of m | Inl _ \<Rightarrow> Map.empty)"

definition store_good :: "config_codec \<Rightarrow> path \<Rightarrow> os \<Rightarrow> bool" where
  "store_good J D s \<longleftrightarrow> config_codec_ok J \<and> healthy D s \<and> is_ok (load_paired_servers J D s)"

lemma store_goodE:
  assumes "store_good J D s"
  obtains m where "load_paired_servers J D s = Inr m" "servers_of J D s = map_of m" "distinct (map fst m)"
proof -
  obtain m where m: "load_paired_servers J D s = Inr m"
    using assms by (auto simp: store_good_def is_ok_def split: sum.splits)
  have "distinct (map fst m)"
    using m assms
    by (auto simp: load_paired_servers_def store_good_def Let_def result_simps split: if_splits
        intro: json_servers_distinct)
  then show ?thesis
    using that m by (simp add: servers_of_def)
qed

lemma save_servers_good:
  assumes "store_good J D s" "distinct (map fst m)"
  obtains s' where "save_paired_servers J D m s = (Inr (), s')" "store_good J D s'" "servers_of J D s' = map_of m"
  using servers_slot.save_load [of J D s m] assms by (auto simp: store_good_def servers_of_def is_ok_def)

lemma add_paired_server_good:
  assumes "store_good J D s"
  obtains s' where "add_paired_server J D sid v s = (Inr (), s')" "store_good J D s'"
    "servers_of J D s' = (servers_of J D s)(sid \<mapsto> v)"
proof -
  obtain m where m: "load_paired_servers J D s = Inr m" "servers_of J D s = map_of m" "distinct (map fst m)"
    using store_goodE [OF assms] .
  obtain s' where "save_paired_servers J D (AList.update sid v m) s = (Inr (), s')" "store_good J D s'"
      "servers_of J D s' = map_of (AList.update sid v m)"
    using save_servers_good [OF assms] m(3) distinct_update by metis
  then show ?thesis
    using that m by (simp add: add_paired_server_def sbind_def update_conv')
qed

lemma remove_paired_server_good:
  assumes "store_good J D s"
  obtains s' where "remove_paired_server J D sid s = (Inr (), s')" "store_good J D s'"
    "servers_of J D s' = (servers_of J D s)(sid := None)"
proof -
  obtain m where m: "load_paired_servers J D s = Inr m" "servers_of J D s = map_of m" "distinct (map fst m)"
    using store_goodE [OF assms] .
  obtain s' where "save_paired_servers J D (AList.delete sid m) s = (Inr (), s')" "store_good J D s'"
      "servers_of J D s' = map_of (AList.delete sid m)"
    using save_servers_good [OF assms] m(3) distinct_delete by metis
  then show ?thesis
    using that m by (simp add: remove_paired_server_def sbind_def delete_conv')
qed

interpretation pairings: keyed_store "store_good J D" "servers_of J D"
    "\<lambda>k v s. snd (add_paired_server J D k v s)" "\<lambda>k s. snd (remove_paired_server J D k s)" for J D
  by unfold_locales (metis add_paired_server_good remove_paired_server_good snd_conv)+

lemma remove_user_good:
  assumes "store_good J D s"
  obtains s' where
    "remove_user_from_pairing J D sid u s = (Inr (servers_of J D s' sid = None), s')" "store_good J D s'"
    "servers_of J D s' = (servers_of J D s)(sid :=
       (case servers_of J D s sid of
          None \<Rightarrow> None
        | Some v \<Rightarrow> (let us = filter (\<lambda>x. x \<noteq> u) (allowed_users v)
                     in if us = [] then None else Some (v\<lparr>allowed_users := us\<rparr>))))"
proof -
  obtain m where m: "load_paired_servers J D s = Inr m" "servers_of J D s = map_of m" "distinct (map fst m)"
    using store_goodE [OF assms] .
  show ?thesis
  proof (cases "map_of m sid")
    case None
    then show ?thesis
      using that [of s] m assms by (simp add: remove_user_from_pairing_def sbind_def fun_upd_idem)
  next
    case (Some v)
    let ?us = "filter (\<lambda>x. x \<noteq> u) (allowed_users v)"
    let ?m = "if ?us = [] then AList.delete sid m else AList.update sid (v\<lparr>allowed_users := ?us\<rparr>) m"
    have "distinct (map fst ?m)"
      using m(3) by (simp add: distinct_delete distinct_update)
    then obtain s' where s': "save_paired_servers J D ?m s = (Inr (), s')" "store_good J D s'"
        "servers_of J D s' = map_of ?m"
      using save_servers_good [OF assms] by blast
    then show ?thesis
      using that [of s'] Some m
      by (simp add: remove_user_from_pairing_def sbind_def Let_def update_conv' delete_conv' split: if_splits)
  qed
qed

section \<open>Frames\<close>

text \<open>Calls that leave everything but the given paths alone.\<close>

definition touches_only :: "path set \<Rightarrow> os \<Rightarrow> os \<Rightarrow> bool" where
  "touches_only P s s' \<longleftrightarrow> (\<forall>p. p \<notin> P \<longrightarrow> nodes s' p = nodes s p) \<and> fault s' = fault s \<and>
     tapauthd_user s' = tapauthd_user s \<and> euid s' = euid s"

lemma touches_only_access:
  assumes "touches_only P s s'" "p \<notin> P"
  shows "nodes s' p = nodes s p" "fs_read p s' = fs_read p s" "path_exists p s' = path_exists p s"
    "read_secure_file p s' = read_secure_file p s"
proof -
  show n: "nodes s' p = nodes s p"
    using assms by (simp add: touches_only_def)
  have f: "fault s' = fault s" "tapauthd_user s' = tapauthd_user s"
    using assms(1) by (simp_all add: touches_only_def)
  show "fs_read p s' = fs_read p s" "path_exists p s' = path_exists p s"
    "read_secure_file p s' = read_secure_file p s"
    using access_frame [OF n f] by simp_all
qed

lemma TapAuthConfig_load_frame:
  "touches_only P s s' \<Longrightarrow> DEFAULT_CONFIG_PATH \<notin> P \<Longrightarrow> TapAuthConfig_load J s' = TapAuthConfig_load J s"
  by (simp add: TapAuthConfig_load_def load_from_path_def fs_read_to_string_def touches_only_access)

lemma touches_only_refl [simp]: "touches_only P s s"
  by (simp add: touches_only_def)

lemma touches_only_trans: "touches_only P s t \<Longrightarrow> touches_only P t u \<Longrightarrow> touches_only P s u"
  by (simp add: touches_only_def)

lemma touches_only_mono: "touches_only P s t \<Longrightarrow> P \<subseteq> Q \<Longrightarrow> touches_only Q s t"
  by (auto simp: touches_only_def)

lemma touches_only_node: "p \<in> P \<Longrightarrow> touches_only P s (s\<lparr>nodes := (nodes s)(p := x)\<rparr>)"
  by (auto simp: touches_only_def)

lemma touches_only_ops:
  assumes "p \<in> P"
  shows "touches_only P s (snd (fs_write p d s))" "touches_only P s (snd (fs_remove_file p s))"
    "touches_only P s (snd (put_file p d s))"
  using assms
  by (auto simp: fs_write_def fs_remove_file_def put_file_def touches_only_node split: option.splits)

lemma touches_only_sbind:
  assumes "\<And>s. touches_only P s (snd (m s))" "\<And>a s. touches_only P s (snd (f a s))"
  shows "touches_only P s (snd (sbind m f s))"
proof -
  obtain r t where t: "m s = (r, t)"
    by (cases "m s")
  show ?thesis
    using assms(1) [of s] assms(2) t by (cases r) (auto simp: sbind_def intro: touches_only_trans)
qed

lemma seal_touches_only:
  "touches_only {with_extension out ''tmp_in'', with_extension out ''pub'', with_extension out ''priv''} s
     (snd (seal_data_with_tpm T d out pcrs s))"
  unfolding seal_data_with_tpm_def Let_def
  by (intro touches_only_sbind)
    (auto simp: touches_only_ops split: cmd.splits prod.splits intro!: touches_only_sbind)

section \<open>A concrete codec and a concrete machine\<close>

definition server_field :: "string \<times> paired_server \<Rightarrow> bytes" where
  "server_field e = put_fields [str_bytes (fst e), str_bytes (ps_name (snd e)), str_bytes (ps_public_key (snd e)),
     int_field (paired_at (snd e)), put_fields (map str_bytes (allowed_users (snd e)))]"

fun field_server :: "bytes list \<Rightarrow> string \<times> paired_server" where
  "field_server [i, n, k, t, us] = (field_str i, \<lparr>ps_name = field_str n, ps_public_key = field_str k,
     allowed_users = map field_str (get_fields us), paired_at = field_int t\<rparr>)"
| "field_server _ = ([], \<lparr>ps_name = [], ps_public_key = [], allowed_users = [], paired_at = 0\<rparr>)"

fun field_toml :: "bytes list \<Rightarrow> tapauth_config option" where
  "field_toml [a, b, c, d, e, f, g] =
     Some \<lparr>pam_operation_timeout_secs = word_of_int (field_int a), pam_gui_timeout_secs = word_of_int (field_int b),
       udp_port = word_of_int (field_int c), enable_network = (d = [1]), enable_ble = (e = [1]),
       use_tpm = (f = [1]), tpm_pcr_policy = (if g = [1] then Paranoid else Standard)\<rparr>"
| "field_toml _ = None"

definition flag_field :: "bool \<Rightarrow> bytes" where
  "flag_field b = [if b then 1 else 0]"

definition demo_config_codec :: config_codec where
  "demo_config_codec =
     \<lparr>json_enc_config = (\<lambda>c. Some (str_bytes (cc_hostname c))),
      json_dec_config = (\<lambda>b. Some (ClientConfig (field_str b))),
      json_enc_servers = (\<lambda>m. Some (put_fields (map server_field m))),
      json_dec_servers = (\<lambda>b. let m = map (\<lambda>f. field_server (get_fields f)) (get_fields b)
                               in if distinct (map fst m) then Some m else None),
      toml_enc = (\<lambda>c. Some (put_fields [int_field (uint (pam_operation_timeout_secs c)),
         int_field (uint (pam_gui_timeout_secs c)), int_field (uint (udp_port c)),
         flag_field (enable_network c), flag_field (enable_ble c), flag_field (use_tpm c),
         flag_field (tpm_pcr_policy c = Paranoid)])),
      toml_dec = (\<lambda>b. field_toml (get_fields b))\<rparr>"

lemma field_server_field [simp]: "field_server (get_fields (server_field e)) = e"
  by (cases e) (simp add: server_field_def comp_def)

lemma ascii_put_fields:
  "(\<forall>f \<in> set fs. list_all (\<lambda>b. b \<le> (127 :: byte)) f) \<Longrightarrow> list_all (\<lambda>b. b \<le> 127) (put_fields fs)"
  by (auto simp: put_fields_def put_field_def list_all_iff)

lemma ascii_int_field: "list_all (\<lambda>b. b \<le> (127 :: byte)) (int_field i)"
  by (auto simp: int_field_def list_all_iff)

lemma demo_toml: "\<exists>b. toml_enc demo_config_codec c = Some b \<and> utf8_valid b \<and> toml_dec demo_config_codec b = Some c"
proof -
  have "tpm_pcr_policy c \<noteq> Paranoid \<Longrightarrow> tpm_pcr_policy c = Standard"
    by (cases "tpm_pcr_policy c") simp_all
  then have "toml_dec demo_config_codec (the (toml_enc demo_config_codec c)) = Some c"
    by (cases c) (auto simp: demo_config_codec_def flag_field_def)
  moreover have "utf8_valid (the (toml_enc demo_config_codec c))"
    unfolding demo_config_codec_def
    by (auto intro!: utf8_valid_ascii ascii_put_fields simp: ascii_int_field flag_field_def)
  ultimately show ?thesis
    by (simp add: demo_config_codec_def)
qed

lemma demo_config_codec_ok: "config_codec_ok demo_config_codec"
  unfolding config_codec_ok_def
  using demo_toml by (auto simp: demo_config_codec_def Let_def comp_def split: if_splits)

text \<open>Root on a machine with an empty state directory; tapauthd is user 990.\<close>

definition demo_os :: os where
  "demo_os = \<lparr>nodes = [CONFIG_DIR \<mapsto> \<lparr>is_dir = True, contents = [], owner = 0, mode = 493\<rparr>],
     fault = (\<lambda>_ _. None), euid = 0, tapauthd_user = Some 990\<rparr>"

lemma demo_os_healthy: "healthy CONFIG_DIR demo_os"
  by (auto simp: healthy_def demo_os_def is_euid_privileged_for_writes_def CONFIG_DIR_def path_join_def
      split: if_splits)

lemma demo_store_good: "store_good demo_config_codec CONFIG_DIR demo_os"
  by (simp add: store_good_def demo_config_codec_ok demo_os_healthy load_paired_servers_def path_exists_def
      metadata_def is_ok_def)
    (simp add: demo_os_def)

section \<open>Properties\<close>

text \<open>
  C15. A secret is read only from a file nobody else could have written or read:
  \<^verbatim>\<open>read_secure_file\<close> returns data exactly when the kernel allows the two calls, the file belongs
  to root or to tapauthd and its permission bits are 0600 or 0400, and then it returns the contents.
\<close>

theorem read_secure_file_exact:
  "read_secure_file p s = Inr d \<longleftrightarrow>
   fault s OpStat p = None \<and> fault s OpRead p = None \<and>
   (\<exists>n. nodes s p = Some n \<and> \<not> is_dir n \<and> contents n = d \<and>
        (owner n = 0 \<or> tapauthd_user s = Some (owner n)) \<and>
        (mode n mod 512 = 384 \<or> mode n mod 512 = 256))"
proof (cases "nodes s p")
  case (Some n)
  have "(case tapauthd_user s of Some u \<Rightarrow> owner n = u | None \<Rightarrow> False) \<longleftrightarrow> tapauthd_user s = Some (owner n)"
    by (simp split: option.split) blast
  then show ?thesis
    using Some
    by (cases "fault s OpStat p"; cases "fault s OpRead p")
      (simp_all add: read_secure_file_def metadata_def fs_read_def Let_def)
qed (simp add: read_secure_file_def metadata_def fs_read_def split: option.split)

text \<open>
  C14. The store of paired servers implements a map. On a machine where the manager can work, adding
  a server, removing one and removing a user from one always succeed, leave the machine in such a
  state, and change the map at the given identifier only: removing a user takes that user off the
  entry's list, drops the entry when nobody is left on it, and answers whether the entry is gone.
\<close>

theorem paired_servers_refine_map:
  assumes "store_good J D s"
  shows "(\<exists>s'. add_paired_server J D sid v s = (Inr (), s') \<and> store_good J D s' \<and>
      servers_of J D s' = (servers_of J D s)(sid \<mapsto> v)) \<and>
    (\<exists>s'. remove_paired_server J D sid s = (Inr (), s') \<and> store_good J D s' \<and>
      servers_of J D s' = (servers_of J D s)(sid := None)) \<and>
    (\<exists>s'. remove_user_from_pairing J D sid u s = (Inr (servers_of J D s' sid = None), s') \<and>
      store_good J D s' \<and> (\<forall>k. k \<noteq> sid \<longrightarrow> servers_of J D s' k = servers_of J D s k) \<and>
      servers_of J D s' sid =
        (case servers_of J D s sid of
           None \<Rightarrow> None
         | Some w \<Rightarrow> (if set (allowed_users w) \<subseteq> {u} then None
                      else Some (w\<lparr>allowed_users := filter (\<lambda>x. x \<noteq> u) (allowed_users w)\<rparr>))))"
proof (intro conjI)
  obtain s' where s': "remove_user_from_pairing J D sid u s = (Inr (servers_of J D s' sid = None), s')"
    "store_good J D s'" "servers_of J D s' = (servers_of J D s)(sid :=
       (case servers_of J D s sid of
          None \<Rightarrow> None
        | Some v \<Rightarrow> (let us = filter (\<lambda>x. x \<noteq> u) (allowed_users v)
                     in if us = [] then None else Some (v\<lparr>allowed_users := us\<rparr>))))"
    using remove_user_good [OF assms] .
  have e: "filter (\<lambda>x. x \<noteq> u) (allowed_users w) = [] \<longleftrightarrow> set (allowed_users w) \<subseteq> {u}" for w
    by (auto simp: filter_empty_conv)
  show "\<exists>s'. remove_user_from_pairing J D sid u s = (Inr (servers_of J D s' sid = None), s') \<and>
      store_good J D s' \<and> (\<forall>k. k \<noteq> sid \<longrightarrow> servers_of J D s' k = servers_of J D s k) \<and>
      servers_of J D s' sid =
        (case servers_of J D s sid of
           None \<Rightarrow> None
         | Some w \<Rightarrow> (if set (allowed_users w) \<subseteq> {u} then None
                      else Some (w\<lparr>allowed_users := filter (\<lambda>x. x \<noteq> u) (allowed_users w)\<rparr>)))"
    by (intro exI [of _ s'] conjI s'(1,2)) (simp_all add: s'(3) Let_def e split: option.split)
qed (rule add_paired_server_good [OF assms], blast, rule remove_paired_server_good [OF assms], blast)

theorem paired_servers_refine_map_witness:
  "\<exists>s'. add_paired_server demo_config_codec CONFIG_DIR ''ab'' \<lparr>ps_name = ''phone'', ps_public_key = ''ab'',
      allowed_users = [''alice''], paired_at = 0\<rparr> demo_os = (Inr (), s') \<and>
    servers_of demo_config_codec CONFIG_DIR s' = [''ab'' \<mapsto> \<lparr>ps_name = ''phone'', ps_public_key = ''ab'',
      allowed_users = [''alice''], paired_at = 0\<rparr>]"
proof -
  have "servers_of demo_config_codec CONFIG_DIR demo_os = Map.empty"
    by (simp add: servers_of_def load_paired_servers_def path_exists_def metadata_def is_ok_def)
      (simp add: demo_os_def)
  then show ?thesis
    using paired_servers_refine_map [OF demo_store_good, of "''ab''" "\<lparr>ps_name = ''phone'',
        ps_public_key = ''ab'', allowed_users = [''alice''], paired_at = 0\<rparr>", THEN conjunct1]
    by auto
qed

text \<open>
  C17. Rotating the symmetric key forgets every pairing. On a machine where the manager can work,
  \<^verbatim>\<open>rotate_csk\<close> with 32 fresh random bytes succeeds, the next load returns the new key, and no
  paired server is left.
\<close>

theorem rotate_csk_forgets_pairings:
  assumes "healthy D s" "length r = 32"
  shows "\<exists>s'. rotate_csk D (Some r) s = (Inr (ClientSymmetricKey r), s') \<and>
    load_csk D s' = Inr (ClientSymmetricKey r) \<and> load_paired_servers J D s' = Inr []"
proof -
  let ?p = "path_join D PAIRED_SERVERS_FILE"
  define t where "t = snd (clear_paired_servers D s)"
  have t: "healthy D t" "\<not> path_exists ?p t"
    using assms(1)
    by (auto simp: t_def healthy_def clear_paired_servers_def Let_def smap_err_def fs_remove_file_def
        path_exists_def metadata_def is_ok_def split: option.splits prod.splits)
  obtain s' where s': "save_csk D (ClientSymmetricKey r) t = (Inr (), s')"
      "saved D CLIENT_SYMMETRIC_KEY_FILE r t s'"
    using save_healthy [OF t(1), of CLIENT_SYMMETRIC_KEY_FILE r] by (auto simp: save_csk_def)
  have "\<not> path_exists ?p s'"
    using saved_frame(1) [OF s'(2), of ?p] t(2) by simp
  then have "load_paired_servers J D s' = Inr []"
    by (simp add: load_paired_servers_def)
  moreover have "load_csk D s' = Inr (ClientSymmetricKey r)"
    using csk_slot.load_after_save [OF t(1), of "ClientSymmetricKey r"] assms(2) s'(1) by simp
  ultimately show ?thesis
    using s'(1) by (simp add: rotate_csk_def generate_and_save_csk_def generate_csk_def sbind_def t_def [symmetric])
qed

theorem rotate_csk_forgets_pairings_witness:
  "\<exists>s'. rotate_csk CONFIG_DIR (Some (replicate 32 5)) demo_os = (Inr (ClientSymmetricKey (replicate 32 5)), s') \<and>
    load_csk CONFIG_DIR s' = Inr (ClientSymmetricKey (replicate 32 5)) \<and>
    load_paired_servers demo_config_codec CONFIG_DIR s' = Inr []"
  by (rule rotate_csk_forgets_pairings [OF demo_os_healthy]) simp

text \<open>
  C39. A key sealed with the TPM cannot be loaded again. With \<^verbatim>\<open>use_tpm\<close> set and no file
  \<^verbatim>\<open>client_key.tpm\<close>, which no part of the program writes, a successful
  \<^verbatim>\<open>save_keypair\<close> leaves \<^verbatim>\<open>client_key.pub\<close> and \<^verbatim>\<open>client_key.priv\<close>, and every following
  \<^verbatim>\<open>load_keypair\<close> fails, whatever the TPM tools answer, because
  \<^verbatim>\<open>load_sealed_keypair\<close> asks for \<^verbatim>\<open>client_key.tpm\<close> itself.
\<close>

theorem tpm_sealed_key_never_loads:
  assumes "healthy CONFIG_DIR s" "use_tpm (TapAuthConfig_load J s)"
    and "nodes s (path_join CONFIG_DIR ''client_key.tpm'') = None"
    and "save_keypair J T CONFIG_DIR keypair s = (Inr (), s')"
  shows "\<not> is_ok (fst (load_keypair L J T' CONFIG_DIR s'))"
proof -
  let ?out = "path_join CONFIG_DIR ''client_key.tpm''"
  let ?P = "{CONFIG_DIR, with_extension ?out ''tmp_in'', with_extension ?out ''pub'', with_extension ?out ''priv''}"
  obtain m where m: "manager_init CONFIG_DIR s = (Inr (), s\<lparr>nodes := (nodes s)(CONFIG_DIR \<mapsto> m)\<rparr>)"
    using manager_init_healthy [OF assms(1)] by blast
  let ?t = "s\<lparr>nodes := (nodes s)(CONFIG_DIR \<mapsto> m)\<rparr>"
  have ext: "with_extension ?out e = path_join CONFIG_DIR (''client_key.'' @ e)" if "e \<noteq> []" for e
    using that by (simp add: with_extension_join file_stem_def)
  have out: "DEFAULT_CONFIG_PATH \<notin> ?P" "?out \<notin> ?P"
    by (simp_all only: ext list.distinct not_False_eq_True)
      (simp_all add: path_join_def CONFIG_DIR_def DEFAULT_CONFIG_PATH_def)
  have conf: "TapAuthConfig_load J u = TapAuthConfig_load J s" if "touches_only ?P s u" for u
    using TapAuthConfig_load_frame [OF that out(1)] .
  have t: "touches_only ?P s ?t"
    by (rule touches_only_node) simp
  have "s' = snd (seal_data_with_tpm T (signing_key_bytes keypair) ?out
      (pcr_list (tpm_pcr_policy (TapAuthConfig_load J s))) ?t)"
    using assms(2,4) m conf [OF t]
    by (simp add: save_keypair_def sbind_Inr Let_def CLIENT_KEY_FILE_def smap_err_def split: if_splits prod.splits)
  then have "touches_only ?P ?t s'"
    using touches_only_mono [OF seal_touches_only] by (metis subset_insertI)
  then have s': "touches_only ?P s s'"
    by (rule touches_only_trans [OF t])
  then have "\<not> path_exists ?out s'"
    using assms(3) touches_only_access(1) [OF s' out(2)]
    by (simp add: path_exists_def metadata_def is_ok_def split: option.split)
  then show ?thesis
    using conf [OF s'] assms(2)
    by (simp add: load_keypair_def Let_def CLIENT_KEY_FILE_def smap_err_def load_sealed_keypair_def is_ok_def)
qed

definition demo_tpm_config :: tapauth_config where
  "demo_tpm_config = \<lparr>pam_operation_timeout_secs = 9, pam_gui_timeout_secs = 9, udp_port = 9,
     enable_network = True, enable_ble = True, use_tpm = True, tpm_pcr_policy = Standard\<rparr>"

definition demo_tpm_os :: os where
  "demo_tpm_os = demo_os\<lparr>nodes := (nodes demo_os)(DEFAULT_CONFIG_PATH \<mapsto>
     \<lparr>is_dir = False, contents = the (toml_enc demo_config_codec demo_tpm_config), owner = 0, mode = 420\<rparr>)\<rparr>"

definition demo_tpm_tools :: tpm_tools where
  "demo_tpm_tools = \<lparr>tpm2_getrandom_help = True, tpm2_create = (\<lambda>_ d. ExitSuccess (d, [0])),
     tpm2_load = (\<lambda>pub _. ExitSuccess pub), tpm2_unseal = (\<lambda>ctx. ExitSuccess ctx)\<rparr>"

lemma demo_tpm_os_healthy: "healthy CONFIG_DIR demo_tpm_os"
proof -
  have "DEFAULT_CONFIG_PATH \<noteq> CONFIG_DIR" "\<And>f. path_join CONFIG_DIR f \<noteq> DEFAULT_CONFIG_PATH"
    by (simp_all add: DEFAULT_CONFIG_PATH_def CONFIG_DIR_def path_join_def)
  then show ?thesis
    using demo_os_healthy by (auto simp: healthy_def demo_tpm_os_def split: if_splits)
qed

lemma demo_tpm_os_config: "TapAuthConfig_load demo_config_codec demo_tpm_os = demo_tpm_config"
  using demo_toml [of demo_tpm_config]
  by (auto simp: TapAuthConfig_load_def load_from_path_def fs_read_to_string_def fs_read_def demo_tpm_os_def)
    (simp add: demo_os_def)+

theorem tpm_sealed_key_never_loads_witness:
  "\<exists>s'. save_keypair demo_config_codec demo_tpm_tools CONFIG_DIR demo_phone demo_tpm_os = (Inr (), s') \<and>
     \<not> is_ok (fst (load_keypair demo_crypto demo_config_codec demo_tpm_tools CONFIG_DIR s'))"
proof -
  obtain m where m: "manager_init CONFIG_DIR demo_tpm_os =
      (Inr (), demo_tpm_os\<lparr>nodes := (nodes demo_tpm_os)(CONFIG_DIR \<mapsto> m)\<rparr>)" "is_dir m"
    using manager_init_healthy [OF demo_tpm_os_healthy] by blast
  let ?t = "demo_tpm_os\<lparr>nodes := (nodes demo_tpm_os)(CONFIG_DIR \<mapsto> m)\<rparr>"
  have "touches_only {CONFIG_DIR} demo_tpm_os ?t"
    by (rule touches_only_node) simp
  then have conf: "TapAuthConfig_load demo_config_codec ?t = demo_tpm_config"
    using TapAuthConfig_load_frame demo_tpm_os_config by (simp add: CONFIG_DIR_def DEFAULT_CONFIG_PATH_def)
  have none: "nodes demo_tpm_os (path_join CONFIG_DIR f) = None" for f
    by (simp add: demo_tpm_os_def) (simp add: demo_os_def DEFAULT_CONFIG_PATH_def CONFIG_DIR_def path_join_def)
  have fault: "fault demo_tpm_os = (\<lambda>_ _. None)"
    by (simp add: demo_tpm_os_def) (simp add: demo_os_def)
  have "\<exists>s'. save_keypair demo_config_codec demo_tpm_tools CONFIG_DIR demo_phone demo_tpm_os = (Inr (), s')"
    using m conf none fault
    by (simp add: save_keypair_def sbind_def Let_def demo_tpm_config_def is_tpm_available_def demo_tpm_tools_def
        seal_data_with_tpm_def smap_err_def fs_write_def put_file_def CLIENT_KEY_FILE_def
        with_extension_join file_stem_def)
  then obtain s' where s': "save_keypair demo_config_codec demo_tpm_tools CONFIG_DIR demo_phone demo_tpm_os = (Inr (), s')"
    by blast
  then show ?thesis
    using tpm_sealed_key_never_loads [OF demo_tpm_os_healthy _ none s'] demo_tpm_os_config
    by (simp add: demo_tpm_config_def)
qed

lemma save_keypair_plain:
  assumes "healthy CONFIG_DIR s" "\<not> use_tpm (TapAuthConfig_load J s)"
  obtains s' where "save_keypair J T CONFIG_DIR kp s = (Inr (), s')" "saved CONFIG_DIR CLIENT_KEY_FILE (signing_key_bytes kp) s s'"
    "TapAuthConfig_load J s' = TapAuthConfig_load J s"
proof -
  let ?f = "path_join CONFIG_DIR CLIENT_KEY_FILE"
  have noconf: "DEFAULT_CONFIG_PATH \<noteq> CONFIG_DIR" "DEFAULT_CONFIG_PATH \<noteq> ?f"
    by (simp_all add: CONFIG_DIR_def DEFAULT_CONFIG_PATH_def path_join_def)
  obtain m where m: "manager_init CONFIG_DIR s = (Inr (), s\<lparr>nodes := (nodes s)(CONFIG_DIR \<mapsto> m)\<rparr>)"
    using manager_init_healthy [OF assms(1)] by blast
  have conf: "\<not> use_tpm (TapAuthConfig_load J (s\<lparr>nodes := (nodes s)(CONFIG_DIR \<mapsto> m)\<rparr>))"
    using TapAuthConfig_load_frame [OF touches_only_node [of CONFIG_DIR "{CONFIG_DIR}"]] noconf assms(2) by simp
  obtain s' where s': "sbind (manager_init CONFIG_DIR) (\<lambda>_. write_secure_file ?f (signing_key_bytes kp)) s = (Inr (), s')"
      "saved CONFIG_DIR CLIENT_KEY_FILE (signing_key_bytes kp) s s'"
    using save_healthy [OF assms(1), of CLIENT_KEY_FILE "signing_key_bytes kp"] by auto
  have "touches_only {CONFIG_DIR, ?f} s s'"
    using s'(2) by (auto simp: saved_def touches_only_def)
  then have "TapAuthConfig_load J s' = TapAuthConfig_load J s"
    using TapAuthConfig_load_frame noconf by auto
  moreover have "save_keypair J T CONFIG_DIR kp s = (Inr (), s')"
    using s'(1) m conf by (simp add: save_keypair_def sbind_Inr Let_def)
  ultimately show ?thesis
    using that s'(2) by blast
qed

text \<open>
  The key pair survives a restart. Without the TPM, on a machine where the manager can work, a
  key pair saved by \<^verbatim>\<open>save_keypair\<close> is the key pair the next \<^verbatim>\<open>load_keypair\<close> returns, and a
  pair made by \<^verbatim>\<open>generate_and_save_keypair\<close> likewise.
\<close>

theorem keypair_survives_restart:
  assumes "healthy CONFIG_DIR s" "\<not> use_tpm (TapAuthConfig_load J s)" "length seed = 32"
  shows "\<exists>s' keypair. generate_and_save_keypair L J T CONFIG_DIR (Some seed) s = (Inr keypair, s') \<and>
    load_keypair L J T CONFIG_DIR s' = (Inr keypair, s') \<and> ed_wf L keypair"
proof -
  define kp where "kp = \<lparr>signing_key_bytes = seed, verifying_key = ed_public L seed\<rparr>"
  obtain s' where s': "save_keypair J T CONFIG_DIR kp s = (Inr (), s')" "saved CONFIG_DIR CLIENT_KEY_FILE seed s s'"
      "TapAuthConfig_load J s' = TapAuthConfig_load J s"
    using save_keypair_plain [OF assms(1,2), of T kp] by (auto simp: kp_def)
  have "load_keypair L J T CONFIG_DIR s' = (Inr kp, s')"
    using saved_reads [OF assms(1) _ s'(2)] s'(3) assms(2,3)
    by (simp add: load_keypair_def Let_def from_signing_key_bytes_def kp_def)
  then show ?thesis
    using s'(1) by (simp add: generate_and_save_keypair_def generate_ed25519_def sbind_def kp_def ed_wf_def)
qed

theorem keypair_survives_restart_witness:
  "\<exists>s' keypair. generate_and_save_keypair demo_crypto demo_config_codec demo_tpm_tools CONFIG_DIR
      (Some (replicate 32 6)) demo_os = (Inr keypair, s') \<and>
    load_keypair demo_crypto demo_config_codec demo_tpm_tools CONFIG_DIR s' = (Inr keypair, s') \<and>
    ed_wf demo_crypto keypair"
proof (rule keypair_survives_restart [OF demo_os_healthy])
  show "\<not> use_tpm (TapAuthConfig_load demo_config_codec demo_os)"
    by (simp add: TapAuthConfig_load_def load_from_path_def fs_read_to_string_def fs_read_def demo_os_def
        DEFAULT_CONFIG_PATH_def CONFIG_DIR_def TapAuthConfig_default_def)
qed simp

end
