(* ===== verification/Network.thy ===== *)
theory Network
  imports Messages "HOL-Library.List_Lexorder" "HOL-Library.Char_ord"
begin

text \<open>
  The local network, \<^verbatim>\<open>src/shared/src/network/udp.rs\<close> and
  \<^verbatim>\<open>src/shared/src/network/discovery.rs\<close>: interface selection, the multicast sends, the
  filtered receive and the retry schedule. \<open>net_env\<close> holds what the host answers (interfaces, socket
  calls); \<open>net\<close> is the state: the clock, the datagrams still to arrive with their arrival times,
  what was sent and the two process-wide caches. Handling a datagram takes no time; waiting does.
\<close>

section \<open>Addresses\<close>

datatype ip_addr = IpV4 u32 | IpV6 "128 word"

record socket_addr =
  sa_ip :: ip_addr
  sa_port :: u16

definition v4_is_link_local :: "u32 \<Rightarrow> bool" where
  "v4_is_link_local a = (drop_bit 16 a = 0xA9FE)"

fun ip_is_loopback :: "ip_addr \<Rightarrow> bool" where
  "ip_is_loopback (IpV4 a) = (drop_bit 24 a = 127)"
| "ip_is_loopback (IpV6 a) = (a = 1)"

text \<open>\<^verbatim>\<open>Ipv6Addr::to_ipv4\<close>: IPv4-mapped and IPv4-compatible addresses.\<close>

definition to_ipv4 :: "128 word \<Rightarrow> u32 option" where
  "to_ipv4 a = (if drop_bit 32 a = 0 \<or> drop_bit 32 a = 0xFFFF then Some (ucast a) else None)"

definition normalize_ip :: "ip_addr \<Rightarrow> ip_addr" where
  "normalize_ip ip =
     (case ip of
        IpV6 v6 \<Rightarrow> (case to_ipv4 v6 of Some m \<Rightarrow> IpV4 m | None \<Rightarrow> IpV6 v6)
      | IpV4 a \<Rightarrow> IpV4 a)"

definition IPV4_MULTICAST_ADDR :: u32 where "IPV4_MULTICAST_ADDR = 0xEFFF1A2C"
definition IPV6_MULTICAST_ADDR :: "128 word" where
  "IPV6_MULTICAST_ADDR = 0xFF1200000000000000000000FDECFC27"

datatype net_error = NetIo io_error | NetProtocol protocol_error | NetDecode | NoResponse | NetTimeout

section \<open>The host\<close>

datatype family = Inet4 | Inet6

datatype sock_call = MkSocket | BindAny | SetLoop | SetIf | SendTo

record iface =
  if_name :: string
  if_ip :: ip_addr
  if_loopback :: bool

record net_env =
  local_port :: "u16 option"
  get_if_addrs :: "instant \<Rightarrow> io_error + iface list"
  if_nametoindex :: "string \<Rightarrow> u32"
  ipv6_bind_ok :: bool
  sock_fault :: "family \<Rightarrow> string \<Rightarrow> sock_call \<Rightarrow> io_error option"

datatype arrival = Datagram bytes socket_addr | RecvFailed io_error

datatype sent_datagram = SentDatagram (sd_to: socket_addr) (sd_iface: string) (sd_data: bytes)

record net =
  clock :: instant
  inbox :: "(instant \<times> arrival) list"
  outbox :: "(instant \<times> sent_datagram) list"
  if_cache :: "(ip_addr list \<times> instant) option"
  ipv6_checked :: "bool option"

section \<open>Interfaces\<close>

record multicast_interface =
  mi_name :: string
  mi_index :: u32
  mi_ipv4 :: "u32 option"
  mi_ipv6 :: "128 word option"

definition iter_min :: "u32 list \<Rightarrow> u32 option" where
  "iter_min xs = (case xs of [] \<Rightarrow> None | x # ys \<Rightarrow> Some (fold min ys x))"

definition select_ipv4 :: "u32 list \<Rightarrow> u32 option" where
  "select_ipv4 addrs =
     (case iter_min (filter (\<lambda>a. \<not> v4_is_link_local a) addrs) of
        Some a \<Rightarrow> Some a
      | None \<Rightarrow> iter_min addrs)"

fun push_addr ::
  "string \<Rightarrow> ip_addr \<Rightarrow> (string \<times> u32 list \<times> 128 word list) list \<Rightarrow> (string \<times> u32 list \<times> 128 word list) list"
where
  "push_addr n (IpV4 a) [] = [(n, [a], [])]"
| "push_addr n (IpV6 a) [] = [(n, [], [a])]"
| "push_addr n ip ((m, v4, v6) # r) =
     (if m = n then (case ip of IpV4 a \<Rightarrow> (m, v4 @ [a], v6) | IpV6 a \<Rightarrow> (m, v4, v6 @ [a])) # r
      else (m, v4, v6) # push_addr n ip r)"

definition by_name :: "iface list \<Rightarrow> (string \<times> u32 list \<times> 128 word list) list" where
  "by_name ifs = fold (\<lambda>i. push_addr (if_name i) (if_ip i)) (filter (\<lambda>i. \<not> if_loopback i) ifs) []"

definition get_interface_index :: "net_env \<Rightarrow> string \<Rightarrow> u32 option" where
  "get_interface_index E n =
     (if CHR 0x00 \<in> set n then None
      else let index = if_nametoindex E n in if index = 0 then None else Some index)"

definition interface_of :: "net_env \<Rightarrow> string \<times> u32 list \<times> 128 word list \<Rightarrow> multicast_interface option" where
  "interface_of E g =
     (case g of (n, v4, v6) \<Rightarrow>
        let v4 = remdups_adj (sort v4); v6 = remdups_adj (sort v6)
        in (case get_interface_index E n of
              Some index \<Rightarrow> Some \<lparr>mi_name = n, mi_index = index, mi_ipv4 = select_ipv4 v4,
                               mi_ipv6 = (case v6 of [] \<Rightarrow> None | a # _ \<Rightarrow> Some a)\<rparr>
            | None \<Rightarrow> None))"

definition get_multicast_interfaces :: "net_env \<Rightarrow> instant \<Rightarrow> multicast_interface list" where
  "get_multicast_interfaces E now =
     (let groups = (case get_if_addrs E now of Inr ifs \<Rightarrow> by_name ifs | Inl _ \<Rightarrow> [])
      in sort_key mi_name (List.map_filter (interface_of E) groups))"

definition INTERFACE_CACHE_TTL :: duration where
  "INTERFACE_CACHE_TTL = from_secs 1"

text \<open>An address list without repetitions, in order of first appearance.\<close>

definition collect_addrs :: "iface list \<Rightarrow> ip_addr list" where
  "collect_addrs ifs = fold (\<lambda>i acc. if if_ip i \<in> set acc then acc else acc @ [if_ip i]) ifs []"

definition is_local_ip :: "net_env \<Rightarrow> ip_addr \<Rightarrow> net \<Rightarrow> bool \<times> net" where
  "is_local_ip E addr s =
     (if ip_is_loopback addr then (True, s)
      else
        (let (addrs, fresh) =
               (case if_cache s of
                  None \<Rightarrow> ([], False)
                | Some (as, refreshed) \<Rightarrow> (as, clock s - refreshed < INTERFACE_CACHE_TTL \<and> as \<noteq> []))
         in if fresh then (addr \<in> set addrs, s)
            else
              let addrs = (case get_if_addrs E (clock s) of Inr ifs \<Rightarrow> collect_addrs ifs | Inl _ \<Rightarrow> addrs)
              in (addr \<in> set addrs, s\<lparr>if_cache := Some (addrs, clock s)\<rparr>)))"

definition is_ipv6_available :: "net_env \<Rightarrow> net \<Rightarrow> bool \<times> net" where
  "is_ipv6_available E s =
     (case ipv6_checked s of
        Some b \<Rightarrow> (b, s)
      | None \<Rightarrow> (ipv6_bind_ok E, s\<lparr>ipv6_checked := Some (ipv6_bind_ok E)\<rparr>))"

section \<open>Sending\<close>

text \<open>
  One interface: a socket is made, bound, told not to loop back (a failure is ignored), pinned to
  the interface and used for one datagram.
\<close>

definition multicast_on ::
  "net_env \<Rightarrow> family \<Rightarrow> string \<Rightarrow> socket_addr \<Rightarrow> bytes \<Rightarrow> net \<Rightarrow> nat \<times> net"
where
  "multicast_on E fam n dest d s =
     (if sock_fault E fam n MkSocket \<noteq> None then (0, s)
      else if sock_fault E fam n BindAny \<noteq> None then (0, s)
      else if sock_fault E fam n SetIf \<noteq> None then (0, s)
      else if sock_fault E fam n SendTo \<noteq> None then (0, s)
      else (1, s\<lparr>outbox := outbox s @ [(clock s, SentDatagram dest n d)]\<rparr>))"

primrec send_udp_multicast_loop ::
  "net_env \<Rightarrow> family \<Rightarrow> socket_addr \<Rightarrow> bytes \<Rightarrow> multicast_interface list \<Rightarrow> net \<Rightarrow> nat \<times> net"
where
  "send_udp_multicast_loop E fam dest d [] s = (0, s)"
| "send_udp_multicast_loop E fam dest d (i # is) s =
     (if (case fam of Inet4 \<Rightarrow> mi_ipv4 i = None | Inet6 \<Rightarrow> mi_ipv6 i = None)
      then send_udp_multicast_loop E fam dest d is s
      else (let (k, s) = multicast_on E fam (mi_name i) dest d s;
                (m, s) = send_udp_multicast_loop E fam dest d is s
            in (k + m, s)))"

definition send_udp_multicast_v4_all_interfaces ::
  "net_env \<Rightarrow> 'x pb_codec_scheme \<Rightarrow> u32 option \<Rightarrow> u16 \<Rightarrow> encrypted_packet \<Rightarrow> net \<Rightarrow> (net_error + nat) \<times> net"
where
  "send_udp_multicast_v4_all_interfaces E K multicast_ip port packet s =
     (case multicast_ip of
        None \<Rightarrow> (Inl (NetIo InvalidInput), s)
      | Some ip \<Rightarrow>
          apfst Inr (send_udp_multicast_loop E Inet4 \<lparr>sa_ip = IpV4 ip, sa_port = port\<rparr>
            (enc_packet K packet) (get_multicast_interfaces E (clock s)) s))"

definition send_udp_multicast_all_interfaces ::
  "net_env \<Rightarrow> 'x pb_codec_scheme \<Rightarrow> 128 word option \<Rightarrow> u16 \<Rightarrow> encrypted_packet \<Rightarrow> net \<Rightarrow> (net_error + nat) \<times> net"
where
  "send_udp_multicast_all_interfaces E K multicast_ip port packet s =
     (case multicast_ip of
        None \<Rightarrow> (Inl (NetIo InvalidInput), s)
      | Some ip \<Rightarrow>
          apfst Inr (send_udp_multicast_loop E Inet6 \<lparr>sa_ip = IpV6 ip, sa_port = port\<rparr>
            (enc_packet K packet) (get_multicast_interfaces E (clock s)) s))"

section \<open>Receiving\<close>

definition MAX_UDP_MESSAGE_SIZE :: nat where
  "MAX_UDP_MESSAGE_SIZE = 16 * 1024"

text \<open>One datagram: \<open>None\<close> when it is dropped and the loop continues.\<close>

definition check_datagram ::
  "net_env \<Rightarrow> 'x pb_codec_scheme \<Rightarrow> bytes \<Rightarrow> socket_addr \<Rightarrow> net \<Rightarrow> (net_error + encrypted_packet) option \<times> net"
where
  "check_datagram E K b addr s =
     (let packet_bytes = take 65536 b;
          src_ip = normalize_ip (sa_ip addr);
          (echo, s) = (if local_port E = Some (sa_port addr) then is_local_ip E src_ip s else (False, s))
      in if echo then (None, s)
         else let (loc, s) = is_local_ip E src_ip s
              in if loc then (None, s)
                 else if length packet_bytes > MAX_UDP_MESSAGE_SIZE then (None, s)
                 else (Some (ok_or NetDecode (dec_packet K packet_bytes)), s))"

text \<open>
  The receive loop of \<^verbatim>\<open>receive_udp_packet\<close> under the timeout of
  \<^verbatim>\<open>try_receive_udp_packet\<close>: it ends at the deadline when nothing acceptable has arrived, and
  leaves what has not arrived by then in the inbox.
\<close>

primrec receive_udp_packet ::
  "net_env \<Rightarrow> 'x pb_codec_scheme \<Rightarrow> instant \<Rightarrow> (instant \<times> arrival) list \<Rightarrow> net \<Rightarrow>
   (net_error + (encrypted_packet \<times> socket_addr) option) \<times> net"
where
  "receive_udp_packet E K deadline [] s = (Inr None, s\<lparr>clock := max (clock s) deadline, inbox := []\<rparr>)"
| "receive_udp_packet E K deadline (a # rest) s =
     (if deadline < max (clock s) (fst a)
      then (Inr None, s\<lparr>clock := max (clock s) deadline, inbox := a # rest\<rparr>)
      else
        let s = s\<lparr>clock := max (clock s) (fst a), inbox := rest\<rparr>
        in (case snd a of
              RecvFailed e \<Rightarrow> (Inl (NetIo e), s)
            | Datagram b addr \<Rightarrow>
                (case check_datagram E K b addr s of
                   (None, s) \<Rightarrow> receive_udp_packet E K deadline rest s
                 | (Some (Inl e), s) \<Rightarrow> (Inl e, s)
                 | (Some (Inr packet), s) \<Rightarrow> (Inr (Some (packet, addr)), s))))"

definition try_receive_udp_packet ::
  "net_env \<Rightarrow> 'x pb_codec_scheme \<Rightarrow> duration \<Rightarrow> net \<Rightarrow>
   (net_error + (encrypted_packet \<times> socket_addr) option) \<times> net"
where
  "try_receive_udp_packet E K timeout s = receive_udp_packet E K (clock s + timeout) (inbox s) s"

section \<open>Retry schedule\<close>

definition get_client_retry_interval :: "u32 \<Rightarrow> duration" where
  "get_client_retry_interval attempt = from_millis (200 * 2 ^ unat (min attempt 5))"

definition get_server_retry_interval :: duration where
  "get_server_retry_interval = from_millis 500"

definition get_session_timeout :: duration where
  "get_session_timeout = from_secs 120"

text \<open>
  \<open>send_fn\<close> is called with the attempt number and a state whose clock it may advance; the helper
  sleeps in between. The attempt counter is a \<^verbatim>\<open>u32\<close>.
\<close>

fun retransmit_with_backoff ::
  "nat \<Rightarrow> (u32 \<Rightarrow> net \<Rightarrow> ('e + 'a option) \<times> net) \<Rightarrow> instant \<Rightarrow> u32 \<Rightarrow> duration \<Rightarrow> net \<Rightarrow>
   (('e + 'a option) \<times> net) option"
where
  "retransmit_with_backoff 0 send_fn start attempt max_duration s = None"
| "retransmit_with_backoff (Suc fuel) send_fn start attempt max_duration s =
     (case send_fn attempt s of
        (Inl e, s) \<Rightarrow> Some (Inl e, s)
      | (Inr (Some r), s) \<Rightarrow> Some (Inr (Some r), s)
      | (Inr None, s) \<Rightarrow>
          if clock s - start \<ge> max_duration then Some (Inr None, s)
          else retransmit_with_backoff fuel send_fn start (attempt + 1) max_duration
                 (s\<lparr>clock := clock s + get_client_retry_interval attempt\<rparr>))"

section \<open>Lemmas\<close>

lemma is_local_ip_frame:
  assumes "is_local_ip E ip s = (b, s')"
  shows "clock s' = clock s" "inbox s' = inbox s" "outbox s' = outbox s"
  using assms by (auto simp: is_local_ip_def Let_def split: if_splits option.splits prod.splits)

lemma is_local_ip_loopback: "ip_is_loopback ip \<Longrightarrow> is_local_ip E ip s = (True, s)"
  by (simp add: is_local_ip_def)

lemma check_datagram_frame:
  assumes "check_datagram E K b addr s = (r, s')"
  shows "clock s' = clock s" "inbox s' = inbox s" "outbox s' = outbox s"
proof -
  obtain e1 s1 where e1: "(if local_port E = Some (sa_port addr) then is_local_ip E (normalize_ip (sa_ip addr)) s
      else (False, s)) = (e1, s1)"
    by (meson surj_pair)
  obtain e2 s2 where e2: "is_local_ip E (normalize_ip (sa_ip addr)) s1 = (e2, s2)"
    by (meson surj_pair)
  have f1: "clock s1 = clock s" "inbox s1 = inbox s" "outbox s1 = outbox s"
    using e1 is_local_ip_frame by (auto split: if_splits)
  have "s' = s1 \<or> s' = s2"
    using assms e1 e2 by (auto simp: check_datagram_def Let_def split: if_splits)
  then show "clock s' = clock s" "inbox s' = inbox s" "outbox s' = outbox s"
    using f1 is_local_ip_frame [OF e2] by auto
qed

lemma check_datagram_accepts:
  assumes "check_datagram E K b addr s = (Some (Inr p), s')"
  shows "dec_packet K (take 65536 b) = Some p" "length (take 65536 b) \<le> MAX_UDP_MESSAGE_SIZE"
    "\<not> fst (is_local_ip E (normalize_ip (sa_ip addr)) s)"
    "\<not> ip_is_loopback (normalize_ip (sa_ip addr))"
  using assms
  by (auto simp: check_datagram_def Let_def is_local_ip_loopback ok_or_def
      split: if_splits prod.splits option.splits)

text \<open>What every run of the receive loop does to the clock and the inbox.\<close>

definition received_ok ::
  "instant \<Rightarrow> (instant \<times> arrival) list \<Rightarrow> net \<Rightarrow> ('e + 'a option) \<Rightarrow> net \<Rightarrow> bool"
where
  "received_ok d xs s r s' \<longleftrightarrow>
     clock s \<le> clock s' \<and> clock s' \<le> max (clock s) d \<and> (\<exists>ys. xs = ys @ inbox s') \<and> outbox s' = outbox s \<and>
     (r = Inr None \<longrightarrow> clock s' = max (clock s) d) \<and>
     ((\<exists>x. r = Inr (Some x)) \<longrightarrow> length (inbox s') < length xs)"

lemma received_ok_Cons:
  assumes "received_ok d xs t r s'" "clock t = max (clock s) (fst a)" "outbox t = outbox s" "max (clock s) (fst a) \<le> d"
  shows "received_ok d (a # xs) s r s'"
  using assms by (auto simp: received_ok_def intro: append_Cons [symmetric])

lemma receive_udp_packet_ok:
  "receive_udp_packet E K d xs s = (r, s') \<Longrightarrow> received_ok d xs s r s'"
proof (induction xs arbitrary: s)
  case Nil
  then show ?case
    by (auto simp: received_ok_def)
next
  case (Cons a xs)
  show ?case
  proof (cases "d < max (clock s) (fst a)")
    case True
    then show ?thesis
      using Cons.prems by (auto simp: received_ok_def)
  next
    case False
    let ?s = "s\<lparr>clock := max (clock s) (fst a), inbox := xs\<rparr>"
    have fin: "received_ok d (a # xs) s r s'"
      if "clock s' = max (clock s) (fst a)" "inbox s' = xs" "outbox s' = outbox s" "r \<noteq> Inr None"
      using False that by (auto simp: received_ok_def)
    have again: "received_ok d (a # xs) s r s'"
      if "receive_udp_packet E K d xs t = (r, s')" "clock t = clock ?s" "outbox t = outbox ?s" for t
      using Cons.IH [OF that(1)] that False by (auto intro!: received_ok_Cons)
    show ?thesis
    proof (cases "snd a")
      case (RecvFailed e)
      then show ?thesis
        using Cons.prems False by (intro fin) (auto simp: Let_def)
    next
      case (Datagram b addr)
      obtain v s1 where v: "check_datagram E K b addr ?s = (v, s1)"
        by (meson surj_pair)
      note f = check_datagram_frame [OF v, simplified]
      show ?thesis
      proof (cases v)
        case None
        then show ?thesis
          using Cons.prems Datagram False v f by (intro again [of s1]) (simp_all add: Let_def)
      next
        case (Some w)
        then show ?thesis
          using Cons.prems Datagram False v f by (intro fin) (auto simp: Let_def split: sum.splits)
      qed
    qed
  qed
qed

lemma receive_udp_packet_sound:
  "receive_udp_packet E K d xs s = (Inr (Some (p, addr)), s') \<Longrightarrow>
   \<exists>t b u. (t, Datagram b addr) \<in> set xs \<and> t \<le> d \<and> check_datagram E K b addr u = (Some (Inr p), s')"
proof (induction xs arbitrary: s)
  case (Cons a xs)
  let ?s = "s\<lparr>clock := max (clock s) (fst a), inbox := xs\<rparr>"
  have time: "\<not> d < max (clock s) (fst a)"
    using Cons.prems by (auto split: if_splits)
  obtain b ad where a: "snd a = Datagram b ad"
    using Cons.prems time by (cases "snd a") (simp_all add: Let_def)
  obtain v s1 where v: "check_datagram E K b ad ?s = (v, s1)"
    by (meson surj_pair)
  show ?case
  proof (cases v)
    case None
    then have "receive_udp_packet E K d xs s1 = (Inr (Some (p, addr)), s')"
      using Cons.prems time a v by (simp add: Let_def)
    from Cons.IH [OF this] show ?thesis
      by auto
  next
    case (Some w)
    then have "w = Inr p" "ad = addr" "s1 = s'"
      using Cons.prems time a v by (auto simp: Let_def split: sum.splits)
    then have "(fst a, Datagram b addr) \<in> set (a # xs) \<and> fst a \<le> d \<and>
        check_datagram E K b addr ?s = (Some (Inr p), s')"
      using a v Some time by (cases a) simp
    then show ?thesis
      by blast
  qed
qed simp

lemma fold_min_mem: "fold min ys (x :: u32) \<in> set (x # ys)"
  by (induction ys arbitrary: x) (auto simp: min_def)

lemma fold_min_le: "y \<in> set (x # ys) \<Longrightarrow> fold min ys (x :: u32) \<le> y"
proof (induction ys arbitrary: x y)
  case (Cons z ys)
  have "fold min ys (min z x) \<le> min z x"
    using Cons.IH [of "min z x" "min z x"] by simp
  then show ?case
    using Cons.IH [of y "min z x"] Cons.prems by (auto simp: min_le_iff_disj)
qed simp

lemma iter_min_eq: "iter_min xs = (if xs = [] then None else Some (Min (set xs)))"
proof (cases xs)
  case (Cons x ys)
  have "Min (set (x # ys)) = fold min ys x"
    using fold_min_mem [of ys x] fold_min_le [of _ x ys] by (intro Min_eqI) simp_all
  then show ?thesis
    by (simp add: iter_min_def Cons)
qed (simp add: iter_min_def)

lemma push_addr_names: "fst ` set (push_addr n ip gs) = insert n (fst ` set gs)"
  by (induction n ip gs rule: push_addr.induct) (auto split: ip_addr.splits)

lemma push_addr_distinct: "distinct (map fst gs) \<Longrightarrow> distinct (map fst (push_addr n ip gs))"
proof (induction n ip gs rule: push_addr.induct)
  case (3 n ip m v4 v6 r)
  then show ?case
    using push_addr_names [of n ip r] by (cases "m = n") (simp_all split: ip_addr.split)
qed simp_all

lemma fold_push_distinct:
  "distinct (map fst gs) \<Longrightarrow> distinct (map fst (fold (\<lambda>i. push_addr (if_name i) (if_ip i)) is gs))"
  by (induction "is" arbitrary: gs) (simp_all add: push_addr_distinct)

lemma by_name_distinct: "distinct (map fst (by_name ifs))"
  unfolding by_name_def by (rule fold_push_distinct) simp

fun v4s :: "string \<Rightarrow> iface list \<Rightarrow> u32 list" where
  "v4s n [] = []"
| "v4s n (i # is) = (case if_ip i of IpV4 a \<Rightarrow> if if_name i = n then a # v4s n is else v4s n is | IpV6 _ \<Rightarrow> v4s n is)"

fun v6s :: "string \<Rightarrow> iface list \<Rightarrow> 128 word list" where
  "v6s n [] = []"
| "v6s n (i # is) = (case if_ip i of IpV6 a \<Rightarrow> if if_name i = n then a # v6s n is else v6s n is | IpV4 _ \<Rightarrow> v6s n is)"

definition group_of :: "(string \<times> u32 list \<times> 128 word list) list \<Rightarrow> string \<Rightarrow> u32 list \<times> 128 word list" where
  "group_of gs n = (case map_of gs n of Some g \<Rightarrow> g | None \<Rightarrow> ([], []))"

lemma group_of_push:
  "group_of (push_addr n ip gs) m =
     (if m = n then (case ip of IpV4 a \<Rightarrow> (fst (group_of gs n) @ [a], snd (group_of gs n))
                     | IpV6 a \<Rightarrow> (fst (group_of gs n), snd (group_of gs n) @ [a]))
      else group_of gs m)"
  by (induction n ip gs rule: push_addr.induct) (auto simp: group_of_def split: ip_addr.splits option.splits)

lemma group_of_fold:
  "group_of (fold (\<lambda>i. push_addr (if_name i) (if_ip i)) is gs) n =
     (fst (group_of gs n) @ v4s n is, snd (group_of gs n) @ v6s n is)"
  by (induction "is" arbitrary: gs) (auto simp: group_of_push split: ip_addr.splits)

lemma by_name_entry:
  assumes "(n, v4, v6) \<in> set (by_name ifs)"
  shows "v4 = v4s n (filter (\<lambda>i. \<not> if_loopback i) ifs)" "v6 = v6s n (filter (\<lambda>i. \<not> if_loopback i) ifs)"
proof -
  have "map_of (by_name ifs) n = Some (v4, v6)"
    using assms by_name_distinct by (intro map_of_is_SomeI)
  then have "group_of (by_name ifs) n = (v4, v6)"
    by (simp add: group_of_def)
  then show "v4 = v4s n (filter (\<lambda>i. \<not> if_loopback i) ifs)" "v6 = v6s n (filter (\<lambda>i. \<not> if_loopback i) ifs)"
    using group_of_fold [of "filter (\<lambda>i. \<not> if_loopback i) ifs" "[]" n] by (simp_all add: by_name_def group_of_def)
qed

lemma set_v4s: "set (v4s n is) = {a. \<exists>i \<in> set is. if_name i = n \<and> if_ip i = IpV4 a}"
  by (induction "is") (auto split: ip_addr.splits)

lemma select_ipv4_spec:
  assumes "select_ipv4 as = Some a"
  shows "a \<in> set as" "v4_is_link_local a \<Longrightarrow> \<forall>b \<in> set as. v4_is_link_local b"
proof -
  let ?r = "filter (\<lambda>a. \<not> v4_is_link_local a) as"
  have ne: "as \<noteq> []"
    using assms by (auto simp: select_ipv4_def iter_min_eq split: if_splits)
  have "?r = [] \<Longrightarrow> \<forall>b \<in> set as. v4_is_link_local b"
    by (simp add: filter_empty_conv)
  then have "a = Min (set as) \<and> (\<forall>b \<in> set as. v4_is_link_local b) \<or> a = Min (set ?r) \<and> ?r \<noteq> []"
    using assms ne unfolding select_ipv4_def iter_min_eq [of ?r] iter_min_eq [of as]
    by (cases "?r = []") (simp_all del: set_filter)
  moreover have "Min (set as) \<in> set as"
    using ne by simp
  moreover have "?r \<noteq> [] \<Longrightarrow> Min (set ?r) \<in> set ?r"
    by (simp only: Min_in finite_set set_empty not_False_eq_True)
  ultimately show "a \<in> set as" "v4_is_link_local a \<Longrightarrow> \<forall>b \<in> set as. v4_is_link_local b"
    by auto
qed

lemma interface_of_Some:
  assumes "interface_of E g = Some i"
  shows "mi_name i = fst g" "mi_index i \<noteq> 0" "mi_ipv4 i = select_ipv4 (remdups_adj (sort (fst (snd g))))"
  using assms
  by (auto simp: interface_of_def get_interface_index_def Let_def split: prod.splits option.splits if_splits)

lemma map_filter_names:
  "(\<And>g i. f g = Some i \<Longrightarrow> nm i = fst g) \<Longrightarrow>
   map nm (List.map_filter f gs) = map fst (filter (\<lambda>g. f g \<noteq> None) gs)"
  by (induction gs) (auto simp: map_filter_simps split: option.splits)

lemma set_collect_addrs: "set (collect_addrs ifs) = if_ip ` set ifs"
proof -
  have "set (fold (\<lambda>i acc. if if_ip i \<in> set acc then acc else acc @ [if_ip i]) ifs acc) =
      set acc \<union> if_ip ` set ifs" for acc
  proof (induction ifs arbitrary: acc)
    case (Cons i ifs)
    show ?case
      using Cons.IH [of acc] Cons.IH [of "acc @ [if_ip i]"] by (cases "if_ip i \<in> set acc") auto
  qed simp
  then show ?thesis
    by (simp add: collect_addrs_def)
qed

section \<open>Properties\<close>


definition quiet_env :: net_env where
  "quiet_env = \<lparr>local_port = Some 36692,
     get_if_addrs = (\<lambda>_. Inr [\<lparr>if_name = ''lo'', if_ip = IpV4 0x7F000001, if_loopback = True\<rparr>,
       \<lparr>if_name = ''eth0'', if_ip = IpV4 0xC0A80002, if_loopback = False\<rparr>]),
     if_nametoindex = (\<lambda>n. if n = ''eth0'' then 2 else 1), ipv6_bind_ok = True, sock_fault = (\<lambda>_ _ _. None)\<rparr>"

definition empty_net :: net where
  "empty_net = \<lparr>clock = 0, inbox = [], outbox = [], if_cache = None, ipv6_checked = None\<rparr>"

definition demo_packet :: encrypted_packet where
  "demo_packet = \<lparr>temporal_identifier = [1], encryption_algorithm = 1, ciphertext = [2]\<rparr>"

lemma demo_packet_decodes: "dec_packet demo_codec (enc_packet demo_codec demo_packet) = Some demo_packet"
  by (rule dec_enc_packet [OF demo_codec_ok])

lemma demo_packet_size: "length (enc_packet demo_codec demo_packet) \<le> 16384"
  by (simp add: demo_enc_packet_def demo_packet_def length_put_fields int_field_def)


text \<open>
  The loopback filter misses \<^verbatim>\<open>::1\<close>. The receive path normalises an IPv6 source with
  \<^verbatim>\<open>to_ipv4\<close>, which maps the IPv6 loopback address to 0.0.0.1; a well-formed datagram sent from
  \<^verbatim>\<open>::1\<close> on the same host is therefore accepted as a remote packet, although the address is a
  loopback address, unless some interface carries 0.0.0.1. The IPv4 loopback block is filtered.
\<close>

theorem ipv6_loopback_source_accepted:
  assumes "dec_packet K b = Some p" "length b \<le> 16384" "if_cache s = None"
    and "\<And>ifs. get_if_addrs E (clock s) = Inr ifs \<Longrightarrow> \<forall>i \<in> set ifs. if_ip i \<noteq> IpV4 1"
  shows "ip_is_loopback (IpV6 1) \<and>
    fst (check_datagram E K b \<lparr>sa_ip = IpV6 1, sa_port = port\<rparr> s) = Some (Inr p) \<and>
    fst (check_datagram E K b \<lparr>sa_ip = IpV4 0x7F000001, sa_port = port\<rparr> s) = None"
proof -
  let ?addrs = "case get_if_addrs E (clock s) of Inr ifs \<Rightarrow> collect_addrs ifs | Inl _ \<Rightarrow> []"
  have no: "IpV4 1 \<notin> set ?addrs"
    using assms(4) by (cases "get_if_addrs E (clock s)") (auto simp: set_collect_addrs)
  have n: "normalize_ip (IpV6 1) = IpV4 1" "\<not> ip_is_loopback (IpV4 1)"
    by (simp_all add: normalize_ip_def to_ipv4_def)
  let ?s = "s\<lparr>if_cache := Some (?addrs, clock s)\<rparr>"
  have l: "is_local_ip E (IpV4 1) s = (False, ?s)"
    using no n(2) assms(3) by (simp add: is_local_ip_def Let_def)
  have l': "fst (is_local_ip E (IpV4 1) ?s) = False"
    using no n(2) by (auto simp: is_local_ip_def Let_def split: sum.split)
  have "fst (check_datagram E K b \<lparr>sa_ip = IpV6 1, sa_port = port\<rparr> s) = Some (Inr p)"
    using assms(1,2) l l' n
    by (auto simp: check_datagram_def Let_def MAX_UDP_MESSAGE_SIZE_def split: if_splits prod.splits)
  moreover have "fst (check_datagram E K b \<lparr>sa_ip = IpV4 0x7F000001, sa_port = port\<rparr> s) = None"
    by (simp add: check_datagram_def normalize_ip_def is_local_ip_def Let_def)
  ultimately show ?thesis
    by simp
qed

theorem ipv6_loopback_source_accepted_witness:
  "fst (check_datagram quiet_env demo_codec (enc_packet demo_codec demo_packet)
      \<lparr>sa_ip = IpV6 1, sa_port = 9\<rparr> empty_net) = Some (Inr demo_packet)"
  using ipv6_loopback_source_accepted [OF demo_packet_decodes demo_packet_size, of empty_net quiet_env 9]
  by (simp add: empty_net_def quiet_env_def)

text \<open>
  The interfaces a request is sent on. The list is ordered by name without repetition, every
  entry has a kernel index and belongs to an interface that is not a loopback, and the IPv4
  source it selects is one of that interface's addresses and is link-local (169.254/16) only if all
  of them are.
\<close>

theorem multicast_interfaces_sound:
  "sorted (map mi_name (get_multicast_interfaces E now)) \<and>
   distinct (map mi_name (get_multicast_interfaces E now)) \<and>
   (\<forall>i \<in> set (get_multicast_interfaces E now). mi_index i \<noteq> 0 \<and>
     (\<exists>ifs. get_if_addrs E now = Inr ifs \<and>
       (\<forall>a. mi_ipv4 i = Some a \<longrightarrow>
         (\<exists>f \<in> set ifs. if_name f = mi_name i \<and> \<not> if_loopback f \<and> if_ip f = IpV4 a) \<and>
         (v4_is_link_local a \<longrightarrow>
           (\<forall>f \<in> set ifs. if_name f = mi_name i \<and> \<not> if_loopback f \<longrightarrow>
              (\<forall>b. if_ip f = IpV4 b \<longrightarrow> v4_is_link_local b))))))"
proof (cases "get_if_addrs E now")
  case (Inl e)
  then show ?thesis
    by (simp add: get_multicast_interfaces_def map_filter_simps)
next
  case (Inr ifs)
  have eq: "get_multicast_interfaces E now = sort_key mi_name (List.map_filter (interface_of E) (by_name ifs))"
    by (simp add: get_multicast_interfaces_def Inr)
  have "distinct (map mi_name (List.map_filter (interface_of E) (by_name ifs)))"
    by (simp add: map_filter_names interface_of_Some(1) distinct_map_filter by_name_distinct)
  then have d: "distinct (map mi_name (get_multicast_interfaces E now))"
    by (simp add: eq distinct_map)
  have "mi_index i \<noteq> 0 \<and> (\<exists>ifs. get_if_addrs E now = Inr ifs \<and>
       (\<forall>a. mi_ipv4 i = Some a \<longrightarrow>
         (\<exists>f \<in> set ifs. if_name f = mi_name i \<and> \<not> if_loopback f \<and> if_ip f = IpV4 a) \<and>
         (v4_is_link_local a \<longrightarrow>
           (\<forall>f \<in> set ifs. if_name f = mi_name i \<and> \<not> if_loopback f \<longrightarrow>
              (\<forall>b. if_ip f = IpV4 b \<longrightarrow> v4_is_link_local b)))))"
    if i: "i \<in> set (get_multicast_interfaces E now)" for i
  proof -
    obtain n v4 v6 where g: "(n, v4, v6) \<in> set (by_name ifs)" "interface_of E (n, v4, v6) = Some i"
      using i by (auto simp: eq map_filter_def)
    have s: "mi_name i = n" "mi_index i \<noteq> 0" "mi_ipv4 i = select_ipv4 (remdups_adj (sort v4))"
      using interface_of_Some [OF g(2)] by simp_all
    have v4: "set v4 = {a. \<exists>f \<in> set ifs. \<not> if_loopback f \<and> if_name f = n \<and> if_ip f = IpV4 a}"
      using by_name_entry(1) [OF g(1)] by (auto simp: set_v4s)
    show ?thesis
      using s v4 Inr select_ipv4_spec [of "remdups_adj (sort v4)"] by auto blast
  qed
  then show ?thesis
    using d by (simp add: eq)
qed

theorem multicast_interfaces_sound_witness:
  "map mi_ipv4 (get_multicast_interfaces quiet_env 0) = [Some 0xC0A80002] \<and>
   mi_index (hd (get_multicast_interfaces quiet_env 0)) \<noteq> 0 \<and>
   distinct (map mi_name (get_multicast_interfaces quiet_env 0))"
proof -
  have ne: "map mi_ipv4 (get_multicast_interfaces quiet_env 0) = [Some 0xC0A80002]"
    by code_simp
  then have "hd (get_multicast_interfaces quiet_env 0) \<in> set (get_multicast_interfaces quiet_env 0)"
    by (intro hd_in_set) auto
  then show ?thesis
    using multicast_interfaces_sound [of quiet_env 0] ne by blast
qed

text \<open>
  Retransmission is bounded. The pauses start at 200 ms, double five times and stay at 6.4 s; and
  \<^verbatim>\<open>retransmit_with_backoff\<close> always returns when the callback does not turn the clock back: it
  makes at most one call for every 200 ms of the allowed duration, plus two.
\<close>

theorem retransmission_bounded:
  assumes "\<And>n s r s'. send_fn n s = (r, s') \<Longrightarrow> clock s \<le> clock s'"
    and "max_duration div from_millis 200 + 2 \<le> fuel"
  shows "(\<forall>n. get_client_retry_interval n =
      from_millis (if n < 5 then 200 * 2 ^ unat n else 6400)) \<and>
    (\<exists>r. retransmit_with_backoff fuel send_fn (clock s) 0 max_duration s = Some r)"
proof
  have "unat (min n 5) = (if n < 5 then unat n else 5)" for n :: u32
    by (simp add: min_def word_less_nat_alt word_le_nat_alt)
  then show "\<forall>n. get_client_retry_interval n = from_millis (if n < 5 then 200 * 2 ^ unat n else 6400)"
    by (simp add: get_client_retry_interval_def)
  have pause: "from_millis 200 \<le> get_client_retry_interval n" for n
    by (simp add: get_client_retry_interval_def from_millis_def)
  let ?need = "\<lambda>rem. if rem = 0 then 1 else rem div from_millis 200 + 2"
  have "start \<le> clock s \<Longrightarrow> ?need (max_duration - (clock s - start)) \<le> fuel \<Longrightarrow>
      \<exists>r. retransmit_with_backoff fuel send_fn start n max_duration s = Some r" for start n s fuel
  proof (induction fuel arbitrary: n s)
    case (Suc fuel)
    obtain r t where t: "send_fn n s = (r, t)"
      by (meson surj_pair)
    have mono: "clock s \<le> clock t"
      by (rule assms(1) [OF t])
    let ?u = "t\<lparr>clock := clock t + get_client_retry_interval n\<rparr>"
    have "\<exists>r. retransmit_with_backoff fuel send_fn start (n + 1) max_duration ?u = Some r"
      if "\<not> max_duration \<le> clock t - start"
    proof (rule Suc.IH)
      show "start \<le> clock ?u"
        using Suc.prems(1) mono by simp
      let ?rem = "max_duration - (clock s - start)" and ?rem' = "max_duration - (clock ?u - start)"
      have rem: "?rem \<noteq> 0"
        using that mono by simp
      have "?rem' = 0 \<or> ?rem' + from_millis 200 \<le> ?rem"
        using that mono pause [of n] Suc.prems(1) by (simp; linarith)
      then have "?rem' = 0 \<or> ?rem' div from_millis 200 + 1 \<le> ?rem div from_millis 200"
        using div_le_mono [of "?rem' + from_millis 200" ?rem "from_millis 200"] by (auto simp: from_millis_def)
      then show "?need ?rem' \<le> fuel"
        using Suc.prems(2) rem by auto
    qed
    then show ?case
      using t by (auto split: sum.splits option.splits)
  qed (simp split: if_splits)
  from this [of "clock s" s] show "\<exists>r. retransmit_with_backoff fuel send_fn (clock s) 0 max_duration s = Some r"
    using assms(2) by auto
qed

theorem retransmission_bounded_witness:
  "\<exists>r. retransmit_with_backoff 602 (\<lambda>n s. (Inr None :: nat + nat option, s)) 0 0 (from_secs 120) empty_net = Some r"
proof -
  have "from_secs 120 div from_millis 200 + 2 \<le> 602"
    by (simp add: from_secs_def from_millis_def)
  from conjunct2 [OF retransmission_bounded [of "\<lambda>n s. (Inr None :: nat + nat option, s)", OF _ this, of empty_net]]
  show ?thesis
    by (simp add: empty_net_def)
qed

end
