(* ===== verification/Transport.thy ===== *)
theory Transport
  imports Config Network
begin

text \<open>
  The transports, \<^verbatim>\<open>src/tapauthd/src/transport.rs\<close> and \<^verbatim>\<open>src/tapauthd/src/transport/\<close>.
  The trait is the record \<open>transport\<close> of its methods over a world; UDP multicast is an instance over
  the network of \<^verbatim>\<open>Network\<close>, Bluetooth LE one over the record \<open>ble\<close>. The locale
  \<open>transport_laws\<close> is what the authentication loop relies on; both instances interpret it.
\<close>

section \<open>The trait\<close>

datatype auth_error =
    AeConfig config_error | AeNetwork net_error | AeProtocol protocol_error | AeCrypto crypto_error
  | AeTimeout | Denied | ExplicitDenial | NoPairedDevices | TransportDisabled | BleError string

datatype receive_result = Response encrypted_packet socket_addr | RTimeout

text \<open>\<open>tr_now\<close> reads the clock of the world, \<open>tr_sleep\<close> lets time pass.\<close>

record 'w transport =
  tr_now :: "'w \<Rightarrow> instant"
  tr_sleep :: "duration \<Rightarrow> 'w \<Rightarrow> 'w"
  tr_send_request :: "encrypted_packet \<Rightarrow> 'w \<Rightarrow> (auth_error + unit) \<times> 'w"
  tr_receive_response :: "duration \<Rightarrow> 'w \<Rightarrow> (auth_error + receive_result) \<times> 'w"
  tr_send_confirmation :: "encrypted_packet \<Rightarrow> 'w \<Rightarrow> (auth_error + unit) \<times> 'w"
  tr_send_cancel :: "encrypted_packet \<Rightarrow> 'w \<Rightarrow> (auth_error + unit) \<times> 'w"
  tr_finalize :: "'w \<Rightarrow> (auth_error + unit) \<times> 'w"

text \<open>
  What a transport promises: no method turns the clock back; an empty-handed receive has waited
  for the timeout; a response is one of the packets still to be delivered, and uses one delivery up.
\<close>

locale transport_laws =
  fixes T :: "'w transport"
    and pending :: "'w \<Rightarrow> nat"
    and deliverable :: "'w \<Rightarrow> encrypted_packet set"
  assumes send_mono: "tr_send_request T p w = (r, w') \<Longrightarrow>
      tr_now T w \<le> tr_now T w' \<and> pending w' \<le> pending w \<and> deliverable w' \<subseteq> deliverable w"
    and receive_mono: "tr_receive_response T d w = (q, w') \<Longrightarrow>
      tr_now T w \<le> tr_now T w' \<and> pending w' \<le> pending w \<and> deliverable w' \<subseteq> deliverable w"
    and receive_timeout: "tr_receive_response T d w = (Inr RTimeout, w') \<Longrightarrow> tr_now T w + d \<le> tr_now T w'"
    and receive_response: "tr_receive_response T d w = (Inr (Response p a), w') \<Longrightarrow>
      pending w' < pending w \<and> p \<in> deliverable w"
    and no_denial: "fst (tr_send_request T p w) \<noteq> Inl ExplicitDenial"
      "fst (tr_receive_response T d w) \<noteq> Inl ExplicitDenial"
begin

lemma receive_progress:
  "tr_receive_response T d w = (Inr x, w') \<Longrightarrow> pending w' < pending w \<or> tr_now T w + d \<le> tr_now T w'"
  using receive_timeout receive_response by (cases x) blast+

end

section \<open>UDP\<close>

definition send_to_multicast_groups ::
  "net_env \<Rightarrow> 'x pb_codec_scheme \<Rightarrow> u16 \<Rightarrow> encrypted_packet \<Rightarrow> net \<Rightarrow> net"
where
  "send_to_multicast_groups E K port packet s =
     (let s = snd (send_udp_multicast_v4_all_interfaces E K (Some IPV4_MULTICAST_ADDR) port packet s);
          (v6, s) = is_ipv6_available E s
      in if v6 then snd (send_udp_multicast_all_interfaces E K (Some IPV6_MULTICAST_ADDR) port packet s)
         else s)"

definition udp_send :: "net_env \<Rightarrow> 'x pb_codec_scheme \<Rightarrow> u16 \<Rightarrow> encrypted_packet \<Rightarrow> net \<Rightarrow> (auth_error + unit) \<times> net" where
  "udp_send E K port packet s = (Inr (), send_to_multicast_groups E K port packet s)"

definition udp_receive_response ::
  "net_env \<Rightarrow> 'x pb_codec_scheme \<Rightarrow> duration \<Rightarrow> net \<Rightarrow> (auth_error + receive_result) \<times> net"
where
  "udp_receive_response E K timeout s =
     (case try_receive_udp_packet E K timeout s of
        (Inl e, s) \<Rightarrow> (Inl (AeNetwork e), s)
      | (Inr (Some (packet, addr)), s) \<Rightarrow> (Inr (Response packet addr), s)
      | (Inr None, s) \<Rightarrow> (Inr RTimeout, s))"

definition UdpTransport :: "net_env \<Rightarrow> 'x pb_codec_scheme \<Rightarrow> u16 \<Rightarrow> net transport" where
  "UdpTransport E K port =
     \<lparr>tr_now = clock, tr_sleep = (\<lambda>d s. s\<lparr>clock := clock s + d\<rparr>),
      tr_send_request = udp_send E K port, tr_receive_response = udp_receive_response E K,
      tr_send_confirmation = udp_send E K port, tr_send_cancel = udp_send E K port,
      tr_finalize = (\<lambda>s. (Inr (), s))\<rparr>"

section \<open>Bluetooth LE\<close>

text \<open>
  \<open>ble_env\<close> is what BlueZ and the environment answer: the outcome of each advertising attempt,
  of registering the GATT application, of looking up and disconnecting a device; \<open>grace\<close> is
  \<^verbatim>\<open>TAPAUTH_BLE_GRACE_MS\<close> when it parses. \<open>gatt_writes\<close> are the writes to the response
  characteristic that phones will make, \<open>ble_rnd\<close> the answers of the random generator.
\<close>

datatype adv_error = AdvError (adv_failed: bool) (adv_message: string) (adv_display: string)

record ble_env =
  advertise :: "nat \<Rightarrow> adv_error + unit"
  serve_gatt_application :: "string + unit"
  device_known :: "string \<Rightarrow> bool"
  disconnect_ok :: "string \<Rightarrow> bool"
  grace :: "u64 option"

record ble =
  ble_clock :: instant
  gatt_writes :: "(instant \<times> string \<times> bytes) list"
  response_queue :: "bytes list"
  ble_rnd :: "bytes option list"
  request_packet :: "encrypted_packet option"
  adv_handle :: bool
  gatt_handle :: bool
  confirmation_data :: "bytes option"
  connected_devices :: "string list"
  disconnected :: "string list"
  shutdown_started :: bool
  shutdown_tasks :: "instant list"

record ble_config =
  bc_temporal_id :: bytes
  bc_csk :: client_symmetric_key
  bc_keypair :: ed25519_keypair
  bc_challenge :: bytes

definition create_confirmation ::
  "crypto_lib \<Rightarrow> 'x pb_codec_scheme \<Rightarrow> ble_config \<Rightarrow> bytes option \<Rightarrow> encrypted_packet \<Rightarrow> auth_error + bytes"
where
  "create_confirmation L K C rnd request =
     rbind (map_err (\<lambda>_. BleError ''Failed to create confirmation'') (create_grant_confirmation (bc_challenge C))) (\<lambda>confirmation.
     rbind (map_err (\<lambda>_. BleError ''Failed to sign confirmation'')
              (sign_wrapper_message L K (wrap_grant_confirmation confirmation) (bc_keypair C))) (\<lambda>wrapper.
     rbind (map_err (\<lambda>_. BleError ''Failed to encrypt confirmation'')
              (encrypt_with_csk_and_random_nonce L (bc_csk C) rnd (enc_wrapper K wrapper))) (\<lambda>ct.
       Inr (enc_packet K \<lparr>temporal_identifier = temporal_identifier request,
              encryption_algorithm = encryption_algorithm request, ciphertext = ct\<rparr>))))"

definition do_shutdown :: "ble_env \<Rightarrow> ble \<Rightarrow> ble" where
  "do_shutdown B s =
     s\<lparr>disconnected := disconnected s @ filter (\<lambda>d. device_known B d \<and> disconnect_ok B d) (connected_devices s),
       connected_devices := [], adv_handle := False, gatt_handle := False\<rparr>"

fun contains_sub :: "string \<Rightarrow> string \<Rightarrow> bool" where
  "contains_sub pat [] = (pat = [])"
| "contains_sub pat (c # cs) = (take (length pat) (c # cs) = pat \<or> contains_sub pat cs)"

definition MAX_ATTEMPTS :: nat where
  "MAX_ATTEMPTS = 5"

text \<open>\<open>advertise_loop n\<close> has \<open>n\<close> attempts left after the current one.\<close>

primrec advertise_loop :: "ble_env \<Rightarrow> nat \<Rightarrow> ble \<Rightarrow> (auth_error + unit) \<times> ble" where
  "advertise_loop B 0 s =
     (case advertise B MAX_ATTEMPTS of
        Inr _ \<Rightarrow> (Inr (), s\<lparr>adv_handle := True\<rparr>)
      | Inl e \<Rightarrow> (Inl (BleError ''Failed to start BLE advertising''), s))"
| "advertise_loop B (Suc n) s =
     (case advertise B (MAX_ATTEMPTS - Suc n) of
        Inr _ \<Rightarrow> (Inr (), s\<lparr>adv_handle := True\<rparr>)
      | Inl e \<Rightarrow>
          if adv_failed e \<and> contains_sub ''register advertisement'' (adv_message e)
          then (Inl (BleError ''Failed to start BLE advertising''), s)
          else
            let is_busy = (contains_sub ''Busy'' (adv_display e) \<or> contains_sub ''0x0a'' (adv_display e));
                pause = from_millis (if is_busy then 150 else 100)
            in advertise_loop B n (s\<lparr>ble_clock := ble_clock s + pause\<rparr>))"

definition ble_send_request :: "ble_env \<Rightarrow> encrypted_packet \<Rightarrow> ble \<Rightarrow> (auth_error + unit) \<times> ble" where
  "ble_send_request B packet s =
     (if adv_handle s then (Inr (), s)
      else
        sbind (advertise_loop B (MAX_ATTEMPTS - 1)) (\<lambda>_ s.
          (case serve_gatt_application B of
             Inl e \<Rightarrow> (Inl (BleError (''Failed to register GATT server: '' @ e)), s)
           | Inr _ \<Rightarrow> (Inr (), s\<lparr>gatt_handle := True\<rparr>))) (s\<lparr>request_packet := Some packet\<rparr>))"

text \<open>
  The GATT write callback, for the writes due by now: the device is remembered, the bytes queued.
  A write while no GATT application is registered reaches nobody.
\<close>

fun deliver_writes :: "ble_env \<Rightarrow> (instant \<times> string \<times> bytes) list \<Rightarrow> ble \<Rightarrow> ble" where
  "deliver_writes B [] s = s\<lparr>gatt_writes := []\<rparr>"
| "deliver_writes B ((t, dev, b) # rest) s =
     (if ble_clock s < t then s\<lparr>gatt_writes := (t, dev, b) # rest\<rparr>
      else deliver_writes B rest
             (if gatt_handle s
              then s\<lparr>connected_devices :=
                       (if device_known B dev then List.insert dev (connected_devices s) else connected_devices s),
                     response_queue := response_queue s @ [b]\<rparr>
              else s))"

text \<open>
  The two GATT read callbacks: the request characteristic hands out the encoded request and
  remembers the device; the confirmation characteristic is empty until a confirmation is stored.
\<close>

definition gatt_read_request :: "'x pb_codec_scheme \<Rightarrow> ble_env \<Rightarrow> string \<Rightarrow> ble \<Rightarrow> bytes option \<times> ble" where
  "gatt_read_request K B dev s =
     (if gatt_handle s
      then (map_option (enc_packet K) (request_packet s),
            s\<lparr>connected_devices :=
                (if device_known B dev then List.insert dev (connected_devices s) else connected_devices s)\<rparr>)
      else (None, s))"

definition gatt_read_confirmation :: "ble \<Rightarrow> bytes" where
  "gatt_read_confirmation s = (case confirmation_data s of Some b \<Rightarrow> b | None \<Rightarrow> [])"

definition store_confirmation ::
  "crypto_lib \<Rightarrow> 'x pb_codec_scheme \<Rightarrow> ble_config \<Rightarrow> encrypted_packet \<Rightarrow> ble \<Rightarrow> ble"
where
  "store_confirmation L K C request s =
     (case confirmation_data s of
        Some _ \<Rightarrow> s
      | None \<Rightarrow>
          let rnd = (case ble_rnd s of [] \<Rightarrow> None | r # _ \<Rightarrow> r); s = s\<lparr>ble_rnd := drop 1 (ble_rnd s)\<rparr>
          in (case create_confirmation L K C rnd request of
                Inr conf \<Rightarrow> s\<lparr>confirmation_data := Some conf\<rparr>
              | Inl _ \<Rightarrow> s))"

text \<open>
  One queued response: \<open>None\<close> when it is skipped and the loop goes on.
\<close>

definition ble_check_response ::
  "crypto_lib \<Rightarrow> 'x pb_codec_scheme \<Rightarrow> ble_config \<Rightarrow> encrypted_packet \<Rightarrow> bytes \<Rightarrow> ble \<Rightarrow> encrypted_packet option \<times> ble"
where
  "ble_check_response L K C request b s =
     (case dec_packet K b of
        None \<Rightarrow> (None, s)
      | Some p \<Rightarrow>
          (case decrypt_encrypted_packet_with_csk_nonce L K (bc_csk C) p of
             Inl _ \<Rightarrow> (None, s)
           | Inr m \<Rightarrow>
               (case payload_of m of
                  Some (AuthGrant _) \<Rightarrow> (Some p, store_confirmation L K C request s)
                | Some (AuthDenial _) \<Rightarrow> (Some p, store_confirmation L K C request s)
                | _ \<Rightarrow> (None, s))))"

function ble_receive_loop ::
  "crypto_lib \<Rightarrow> 'x pb_codec_scheme \<Rightarrow> ble_env \<Rightarrow> ble_config \<Rightarrow> encrypted_packet \<Rightarrow> instant \<Rightarrow> ble \<Rightarrow>
   (auth_error + receive_result) \<times> ble"
where
  "ble_receive_loop L K B C request deadline s =
     (if deadline \<le> ble_clock s then (Inr RTimeout, s)
      else
        let s = deliver_writes B (gatt_writes s) s
        in (case response_queue s of
              [] \<Rightarrow> ble_receive_loop L K B C request deadline (s\<lparr>ble_clock := ble_clock s + from_millis 20\<rparr>)
            | b # q \<Rightarrow>
                (case ble_check_response L K C request b (s\<lparr>response_queue := q\<rparr>) of
                   (None, s') \<Rightarrow> ble_receive_loop L K B C request deadline (s\<lparr>response_queue := q\<rparr>)
                 | (Some p, s') \<Rightarrow>
                     (Inr (Response p \<lparr>sa_ip = IpV4 0, sa_port = 0\<rparr>),
                      s'\<lparr>ble_clock := ble_clock s' + from_millis 100\<rparr>))))"
  by pat_completeness auto

text \<open>A skipped response leaves the transport unchanged, so the loop continues from the popped queue.\<close>

lemma ble_check_response_None:
  "ble_check_response L K C request b s = (None, s') \<Longrightarrow> s' = s"
  by (auto simp: ble_check_response_def split: option.splits sum.splits payload.splits)

lemma deliver_writes_frame:
  "ble_clock (deliver_writes B ws s) = ble_clock s"
  "request_packet (deliver_writes B ws s) = request_packet s"
  "length (gatt_writes (deliver_writes B ws s)) + length (response_queue (deliver_writes B ws s))
     \<le> length ws + length (response_queue s)"
  by (induction B ws s rule: deliver_writes.induct) auto

termination ble_receive_loop
  apply (relation "measures [\<lambda>(L, K, B, C, request, deadline, s). deadline - ble_clock s,
      \<lambda>(L, K, B, C, request, deadline, s). length (gatt_writes s) + length (response_queue s)]")
    apply simp
   apply (auto simp: deliver_writes_frame from_millis_def)[1]
  subgoal for L K B C request deadline s
    using deliver_writes_frame [of B "gatt_writes s" s] by (auto simp: deliver_writes_frame)
  done

declare ble_receive_loop.simps [simp del]

definition ble_receive_response ::
  "crypto_lib \<Rightarrow> 'x pb_codec_scheme \<Rightarrow> ble_env \<Rightarrow> ble_config \<Rightarrow> duration \<Rightarrow> ble \<Rightarrow> (auth_error + receive_result) \<times> ble"
where
  "ble_receive_response L K B C timeout s =
     (case request_packet s of
        None \<Rightarrow> (Inl (BleError ''send_request must be called before receive_response''), s)
      | Some request \<Rightarrow> ble_receive_loop L K B C request (ble_clock s + timeout) s)"

definition ble_send_confirmation :: "encrypted_packet \<Rightarrow> ble \<Rightarrow> (auth_error + unit) \<times> ble" where
  "ble_send_confirmation packet s = (Inr (), s)"

text \<open>The shutdown runs in a task of its own, after the grace window.\<close>

definition ble_send_cancel :: "ble_env \<Rightarrow> encrypted_packet \<Rightarrow> ble \<Rightarrow> (auth_error + unit) \<times> ble" where
  "ble_send_cancel B packet s =
     (if \<not> shutdown_started s
      then (Inr (), s\<lparr>shutdown_started := True, shutdown_tasks := shutdown_tasks s @
              [ble_clock s + from_millis (case grace B of Some g \<Rightarrow> unat g | None \<Rightarrow> 300)]\<rparr>)
      else (Inr (), s))"

definition ble_finalize :: "ble \<Rightarrow> (auth_error + unit) \<times> ble" where
  "ble_finalize s =
     (if \<not> shutdown_started s
      then (Inr (), s\<lparr>shutdown_started := True, shutdown_tasks := shutdown_tasks s @ [ble_clock s]\<rparr>)
      else (Inr (), s))"

text \<open>The scheduled shutdowns that are due.\<close>

definition run_shutdown_tasks :: "ble_env \<Rightarrow> ble \<Rightarrow> ble" where
  "run_shutdown_tasks B s =
     (if list_ex (\<lambda>t. t \<le> ble_clock s) (shutdown_tasks s)
      then (do_shutdown B s)\<lparr>shutdown_tasks := filter (\<lambda>t. ble_clock s < t) (shutdown_tasks s)\<rparr>
      else s)"

definition BleTransport :: "crypto_lib \<Rightarrow> 'x pb_codec_scheme \<Rightarrow> ble_env \<Rightarrow> ble_config \<Rightarrow> ble transport" where
  "BleTransport L K B C =
     \<lparr>tr_now = ble_clock, tr_sleep = (\<lambda>d s. s\<lparr>ble_clock := ble_clock s + d\<rparr>),
      tr_send_request = ble_send_request B, tr_receive_response = ble_receive_response L K B C,
      tr_send_confirmation = ble_send_confirmation, tr_send_cancel = ble_send_cancel B,
      tr_finalize = ble_finalize\<rparr>"

text \<open>Starting the transport: the first adapter BlueZ lists, powered on if need be.\<close>

record bluez =
  bz_session :: "string + unit"
  bz_adapter_names :: "string + string list"
  bz_adapter :: "string \<Rightarrow> string + unit"
  bz_is_powered :: "string + bool"
  bz_set_powered :: "string + unit"

definition BleTransport_new :: "bluez \<Rightarrow> instant \<Rightarrow> bytes option list \<Rightarrow> auth_error + ble" where
  "BleTransport_new Z now rnds =
     rbind (map_err (\<lambda>e. BleError (''Failed to create BlueZ session: '' @ e)) (bz_session Z)) (\<lambda>_.
     rbind (map_err (\<lambda>e. BleError (''Failed to get adapter names: '' @ e)) (bz_adapter_names Z)) (\<lambda>names.
     rbind (ok_or (BleError ''No Bluetooth adapter found'') (case names of [] \<Rightarrow> None | n # _ \<Rightarrow> Some n)) (\<lambda>n.
     rbind (map_err (\<lambda>e. BleError (''Failed to get adapter: '' @ e)) (bz_adapter Z n)) (\<lambda>_.
     rbind (if bz_is_powered Z = Inr True then Inr ()
            else map_err (\<lambda>_. BleError ''Bluetooth adapter not powered'') (bz_set_powered Z)) (\<lambda>_.
       Inr \<lparr>ble_clock = now, gatt_writes = [], response_queue = [], ble_rnd = rnds, request_packet = None,
            adv_handle = False, gatt_handle = False, confirmation_data = None, connected_devices = [],
            disconnected = [], shutdown_started = False, shutdown_tasks = []\<rparr>)))))"

section \<open>Both transports keep the laws\<close>

text \<open>Sending touches neither the clock nor what the receive path looks at.\<close>

definition same_reception :: "net \<Rightarrow> net \<Rightarrow> bool" where
  "same_reception s s' \<longleftrightarrow> clock s' = clock s \<and> inbox s' = inbox s \<and> if_cache s' = if_cache s"

lemma multicast_loop_frame:
  assumes "send_udp_multicast_loop E fam dest d is s = (k, s')"
  shows "same_reception s s'"
  using assms
proof (induction "is" arbitrary: s k s')
  case (Cons i "is")
  then show ?case
    unfolding same_reception_def by (fastforce simp: multicast_on_def split: if_splits prod.splits)
qed (simp add: same_reception_def)

lemma send_to_multicast_groups_frame: "same_reception s (send_to_multicast_groups E K port p s)"
proof -
  have v4: "same_reception s (snd (send_udp_multicast_v4_all_interfaces E K a port p s))" for a s
    by (auto simp: send_udp_multicast_v4_all_interfaces_def apfst_def map_prod_def same_reception_def
        split: option.splits prod.splits dest: multicast_loop_frame [unfolded same_reception_def])
  have v6: "same_reception s (snd (send_udp_multicast_all_interfaces E K a port p s))" for a s
    by (auto simp: send_udp_multicast_all_interfaces_def apfst_def map_prod_def same_reception_def
        split: option.splits prod.splits dest: multicast_loop_frame [unfolded same_reception_def])
  have av: "same_reception s (snd (is_ipv6_available E s))" for s
    by (simp add: is_ipv6_available_def same_reception_def split: option.split)
  obtain b s1 where b: "is_ipv6_available E (snd (send_udp_multicast_v4_all_interfaces E K (Some IPV4_MULTICAST_ADDR) port p s)) = (b, s1)"
    by (meson surj_pair)
  have "same_reception s s1"
    using av [of "snd (send_udp_multicast_v4_all_interfaces E K (Some IPV4_MULTICAST_ADDR) port p s)"] b
      v4 [of s "Some IPV4_MULTICAST_ADDR"] by (simp add: same_reception_def)
  then show ?thesis
    using v6 [of s1] b by (simp add: send_to_multicast_groups_def same_reception_def)
qed

definition udp_deliverable :: "'x pb_codec_scheme \<Rightarrow> net \<Rightarrow> encrypted_packet set" where
  "udp_deliverable K s = {p. \<exists>t b a. (t, Datagram b a) \<in> set (inbox s) \<and> dec_packet K (take 65536 b) = Some p}"

lemma udp_deliverable_mono: "inbox s = ys @ inbox s' \<Longrightarrow> udp_deliverable K s' \<subseteq> udp_deliverable K s"
  unfolding udp_deliverable_def by (simp, blast)

lemma udp_receive_run:
  assumes "udp_receive_response E K d s = (r, s')"
  shows "\<exists>r'. receive_udp_packet E K (clock s + d) (inbox s) s = (r', s') \<and>
    (r = Inr RTimeout \<longrightarrow> r' = Inr None) \<and> (\<forall>p a. r = Inr (Response p a) \<longrightarrow> r' = Inr (Some (p, a)))"
  using assms
  by (auto simp: udp_receive_response_def try_receive_udp_packet_def split: prod.splits sum.splits option.splits)

interpretation udp_laws: transport_laws "UdpTransport E K port" "\<lambda>s. length (inbox s)" "udp_deliverable K" for E K port
proof
  fix p w r w'
  assume "tr_send_request (UdpTransport E K port) p w = (r, w')"
  then have "w' = send_to_multicast_groups E K port p w"
    by (simp add: UdpTransport_def udp_send_def)
  then show "tr_now (UdpTransport E K port) w \<le> tr_now (UdpTransport E K port) w' \<and>
      length (inbox w') \<le> length (inbox w) \<and> udp_deliverable K w' \<subseteq> udp_deliverable K w"
    using send_to_multicast_groups_frame [of w E K port p] by (simp add: UdpTransport_def udp_deliverable_def same_reception_def)
next
  fix d w q w'
  assume "tr_receive_response (UdpTransport E K port) d w = (q, w')"
  then obtain r' where "receive_udp_packet E K (clock w + d) (inbox w) w = (r', w')"
    using udp_receive_run by (fastforce simp: UdpTransport_def)
  then have "received_ok (clock w + d) (inbox w) w r' w'"
    by (rule receive_udp_packet_ok)
  then show "tr_now (UdpTransport E K port) w \<le> tr_now (UdpTransport E K port) w' \<and>
      length (inbox w') \<le> length (inbox w) \<and> udp_deliverable K w' \<subseteq> udp_deliverable K w"
    using udp_deliverable_mono by (fastforce simp: UdpTransport_def received_ok_def)
next
  fix d w w'
  assume "tr_receive_response (UdpTransport E K port) d w = (Inr RTimeout, w')"
  then have "receive_udp_packet E K (clock w + d) (inbox w) w = (Inr None, w')"
    using udp_receive_run by (fastforce simp: UdpTransport_def)
  then have "received_ok (clock w + d) (inbox w) w (Inr None :: net_error + (encrypted_packet \<times> socket_addr) option) w'"
    by (rule receive_udp_packet_ok)
  then show "tr_now (UdpTransport E K port) w + d \<le> tr_now (UdpTransport E K port) w'"
    by (simp add: UdpTransport_def received_ok_def)
next
  fix d w p a w'
  assume "tr_receive_response (UdpTransport E K port) d w = (Inr (Response p a), w')"
  then have run: "receive_udp_packet E K (clock w + d) (inbox w) w = (Inr (Some (p, a)), w')"
    using udp_receive_run by (fastforce simp: UdpTransport_def)
  obtain t b u where "(t, Datagram b a) \<in> set (inbox w)" "check_datagram E K b a u = (Some (Inr p), w')"
    using receive_udp_packet_sound [OF run] by blast
  then have "p \<in> udp_deliverable K w"
    using check_datagram_accepts(1) unfolding udp_deliverable_def by blast
  then show "length (inbox w') < length (inbox w) \<and> p \<in> udp_deliverable K w"
    using receive_udp_packet_ok [OF run] by (simp add: received_ok_def)
qed (auto simp: UdpTransport_def udp_send_def udp_receive_response_def split: prod.splits sum.splits option.splits)

definition ble_pending :: "ble \<Rightarrow> nat" where
  "ble_pending s = length (gatt_writes s) + length (response_queue s)"

definition ble_bytes :: "ble \<Rightarrow> bytes set" where
  "ble_bytes s = set (response_queue s) \<union> (snd \<circ> snd) ` set (gatt_writes s)"

definition ble_deliverable :: "'x pb_codec_scheme \<Rightarrow> ble \<Rightarrow> encrypted_packet set" where
  "ble_deliverable K s = {p. \<exists>b \<in> ble_bytes s. dec_packet K b = Some p}"

lemma ble_deliverable_mono: "ble_bytes s' \<subseteq> ble_bytes s \<Longrightarrow> ble_deliverable K s' \<subseteq> ble_deliverable K s"
  unfolding ble_deliverable_def by blast

lemma deliver_writes_bytes:
  "ble_bytes (deliver_writes B ws s) \<subseteq> (snd \<circ> snd) ` set ws \<union> set (response_queue s)"
proof (induction B ws s rule: deliver_writes.induct)
  case (2 B t dev b rest s)
  show ?case
  proof (cases "ble_clock s < t")
    case False
    define s1 where "s1 = (if gatt_handle s
      then s\<lparr>connected_devices := (if device_known B dev then List.insert dev (connected_devices s) else connected_devices s),
             response_queue := response_queue s @ [b]\<rparr>
      else s)"
    have "set (response_queue s1) \<subseteq> insert b (set (response_queue s))"
      by (auto simp: s1_def)
    moreover have "ble_bytes (deliver_writes B rest s1) \<subseteq> (snd \<circ> snd) ` set rest \<union> set (response_queue s1)"
      using 2 [OF False] by (simp only: s1_def)
    moreover have "deliver_writes B ((t, dev, b) # rest) s = deliver_writes B rest s1"
      using False by (simp add: s1_def)
    ultimately show ?thesis
      by (simp only: list.set image_insert comp_def snd_conv) blast
  qed (auto simp: ble_bytes_def)
qed (auto simp: ble_bytes_def)

lemma deliver_own_writes:
  "ble_bytes (deliver_writes B (gatt_writes s) s) \<subseteq> ble_bytes s"
  "ble_pending (deliver_writes B (gatt_writes s) s) \<le> ble_pending s"
  using deliver_writes_bytes [of B "gatt_writes s" s] deliver_writes_frame(3) [of B "gatt_writes s" s]
  by (auto simp: ble_bytes_def ble_pending_def)

lemma store_confirmation_frame [simp]:
  "ble_clock (store_confirmation L K C r s) = ble_clock s"
  "gatt_writes (store_confirmation L K C r s) = gatt_writes s"
  "response_queue (store_confirmation L K C r s) = response_queue s"
  by (auto simp: store_confirmation_def Let_def split: option.splits sum.splits)

lemma ble_check_response_frame:
  assumes "ble_check_response L K C r b s = (v, s')"
  shows "ble_clock s' = ble_clock s" "gatt_writes s' = gatt_writes s" "response_queue s' = response_queue s"
    "v = Some p \<Longrightarrow> dec_packet K b = Some p"
  using assms by (auto simp: ble_check_response_def split: option.splits sum.splits payload.splits)

definition ble_received_ok :: "'x pb_codec_scheme \<Rightarrow> instant \<Rightarrow> ble \<Rightarrow> (auth_error + receive_result) \<Rightarrow> ble \<Rightarrow> bool" where
  "ble_received_ok K deadline s r s' \<longleftrightarrow>
     ble_clock s \<le> ble_clock s' \<and> ble_pending s' \<le> ble_pending s \<and> ble_bytes s' \<subseteq> ble_bytes s \<and>
     (r = Inr RTimeout \<longrightarrow> deadline \<le> ble_clock s') \<and>
     (\<forall>p a. r = Inr (Response p a) \<longrightarrow> ble_pending s' < ble_pending s \<and> p \<in> ble_deliverable K s)"

lemma ble_received_ok_later:
  assumes "ble_received_ok K deadline t r s'" "ble_clock s \<le> ble_clock t" "ble_pending t \<le> ble_pending s"
    "ble_bytes t \<subseteq> ble_bytes s"
  shows "ble_received_ok K deadline s r s'"
proof -
  have "ble_deliverable K t \<subseteq> ble_deliverable K s"
    by (rule ble_deliverable_mono [OF assms(4)])
  then show ?thesis
    using assms unfolding ble_received_ok_def by (auto intro: le_trans order_less_le_trans)
qed

lemma ble_receive_loop_step:
  assumes "\<not> deadline \<le> ble_clock s"
  shows "ble_receive_loop L K B C request deadline s =
    (case response_queue (deliver_writes B (gatt_writes s) s) of
       [] \<Rightarrow> ble_receive_loop L K B C request deadline
          ((deliver_writes B (gatt_writes s) s)\<lparr>ble_clock := ble_clock (deliver_writes B (gatt_writes s) s) + from_millis 20\<rparr>)
     | b # q \<Rightarrow>
         (case ble_check_response L K C request b ((deliver_writes B (gatt_writes s) s)\<lparr>response_queue := q\<rparr>) of
            (None, s') \<Rightarrow> ble_receive_loop L K B C request deadline ((deliver_writes B (gatt_writes s) s)\<lparr>response_queue := q\<rparr>)
          | (Some p, s') \<Rightarrow> (Inr (Response p \<lparr>sa_ip = IpV4 0, sa_port = 0\<rparr>), s'\<lparr>ble_clock := ble_clock s' + from_millis 100\<rparr>)))"
  by (subst ble_receive_loop.simps) (simp only: assms if_False Let_def)

lemma ble_receive_loop_ok:
  "ble_receive_loop L K B C request deadline s = (r, s') \<Longrightarrow> ble_received_ok K deadline s r s'"
proof (induction L K B C request deadline s rule: ble_receive_loop.induct)
  case (1 L K B C request deadline s)
  show ?case
  proof (cases "deadline \<le> ble_clock s")
    case True
    then have "ble_receive_loop L K B C request deadline s = (Inr RTimeout, s)"
      by (subst ble_receive_loop.simps) (simp only: if_True)
    then show ?thesis
      using "1.prems" True by (simp add: ble_received_ok_def)
  next
    case False
    define t where "t = deliver_writes B (gatt_writes s) s"
    have t: "ble_clock t = ble_clock s" "ble_pending t \<le> ble_pending s" "ble_bytes t \<subseteq> ble_bytes s"
      using deliver_own_writes [of B s] deliver_writes_frame(1) by (simp_all add: t_def)
    note step = ble_receive_loop_step [OF False, of L K B C request, folded t_def]
    show ?thesis
    proof (cases "response_queue t")
      case Nil
      let ?u = "t\<lparr>ble_clock := ble_clock t + from_millis 20\<rparr>"
      have "ble_receive_loop L K B C request deadline ?u = (r, s')"
        using "1.prems" by (simp only: step Nil list.case)
      then have "ble_received_ok K deadline ?u r s'"
        by (rule "1.IH"(1) [OF False t_def Nil])
      then show ?thesis
        by (rule ble_received_ok_later) (use t in \<open>auto simp: ble_pending_def ble_bytes_def\<close>)
    next
      case (Cons b q)
      let ?u = "t\<lparr>response_queue := q\<rparr>"
      have u: "ble_pending ?u < ble_pending t" "ble_bytes ?u \<subseteq> ble_bytes t" "b \<in> ble_bytes t"
        using Cons by (auto simp: ble_pending_def ble_bytes_def)
      obtain v s1 where v: "ble_check_response L K C request b ?u = (v, s1)"
        by (meson surj_pair)
      note f = ble_check_response_frame [OF v]
      show ?thesis
      proof (cases v)
        case None
        have "ble_receive_loop L K B C request deadline ?u = (r, s')"
          using "1.prems" by (simp only: step Cons list.case v None prod.case option.case)
        then have "ble_received_ok K deadline ?u r s'"
          by (rule "1.IH"(2) [OF False t_def Cons v [symmetric] None])
        then show ?thesis
          by (rule ble_received_ok_later) (use t u in auto)
      next
        case (Some p)
        have r: "r = Inr (Response p \<lparr>sa_ip = IpV4 0, sa_port = 0\<rparr>)" "s' = s1\<lparr>ble_clock := ble_clock s1 + from_millis 100\<rparr>"
          using "1.prems" by (simp_all only: step Cons list.case v Some prod.case option.case prod.inject)
        have "p \<in> ble_deliverable K s"
          using u(3) t(3) f(4) Some by (auto simp: ble_deliverable_def)
        moreover have "ble_pending s' = ble_pending ?u" "ble_bytes s' = ble_bytes ?u" "ble_clock s \<le> ble_clock s'"
          using f(1-3) t(1) by (simp_all add: r(2) ble_pending_def ble_bytes_def)
        ultimately show ?thesis
          using t u r(1) by (simp add: ble_received_ok_def)
      qed
    qed
  qed
qed

lemma advertise_loop_frame:
  assumes "advertise_loop B n s = (r, s')"
  shows "ble_clock s \<le> ble_clock s' \<and> gatt_writes s' = gatt_writes s \<and> response_queue s' = response_queue s"
  using assms
proof (induction n arbitrary: s)
  case 0
  then show ?case
    by (auto split: sum.splits)
next
  case (Suc n)
  then show ?case
    by (fastforce simp: Let_def split: sum.splits if_splits)
qed

lemma ble_send_request_frame:
  assumes "ble_send_request B p s = (r, s')"
  shows "ble_clock s \<le> ble_clock s' \<and> gatt_writes s' = gatt_writes s \<and> response_queue s' = response_queue s"
proof (cases "adv_handle s")
  case False
  obtain q t where t: "advertise_loop B (MAX_ATTEMPTS - 1) (s\<lparr>request_packet := Some p\<rparr>) = (q, t)"
    by (meson surj_pair)
  show ?thesis
    using assms False t advertise_loop_frame [OF t]
    by (cases q) (auto simp: ble_send_request_def sbind_def split: sum.splits)
qed (use assms in \<open>simp add: ble_send_request_def\<close>)

lemma advertise_loop_no_denial: "fst (advertise_loop B n s) \<noteq> Inl ExplicitDenial"
  by (induction n arbitrary: s) (simp_all add: Let_def split: sum.split)

lemma ble_send_request_no_denial: "fst (ble_send_request B p s) \<noteq> Inl ExplicitDenial"
proof -
  obtain q t where t: "advertise_loop B (MAX_ATTEMPTS - 1) (s\<lparr>request_packet := Some p\<rparr>) = (q, t)"
    by (meson surj_pair)
  show ?thesis
    using t advertise_loop_no_denial [of B "MAX_ATTEMPTS - 1" "s\<lparr>request_packet := Some p\<rparr>"]
    by (auto simp: ble_send_request_def sbind_def split: sum.split)
qed

lemma ble_receive_loop_no_error: "\<exists>x. fst (ble_receive_loop L K B C request deadline s) = Inr x"
proof (induction L K B C request deadline s rule: ble_receive_loop.induct)
  case (1 L K B C request deadline s)
  show ?case
  proof (cases "deadline \<le> ble_clock s")
    case True
    then show ?thesis
      by (subst ble_receive_loop.simps) simp
  next
    case False
    show ?thesis
      using "1.IH"(1) [OF False refl] "1.IH"(2) [OF False refl]
      by (subst ble_receive_loop_step [OF False]) (auto split: list.splits prod.splits option.splits)
  qed
qed

interpretation ble_laws: transport_laws "BleTransport L K B C" ble_pending "ble_deliverable K" for L K B C
proof
  fix p w r w'
  assume "tr_send_request (BleTransport L K B C) p w = (r, w')"
  then have "ble_clock w \<le> ble_clock w' \<and> gatt_writes w' = gatt_writes w \<and> response_queue w' = response_queue w"
    by (simp add: BleTransport_def ble_send_request_frame)
  then show "tr_now (BleTransport L K B C) w \<le> tr_now (BleTransport L K B C) w' \<and> ble_pending w' \<le> ble_pending w \<and>
      ble_deliverable K w' \<subseteq> ble_deliverable K w"
    by (simp add: BleTransport_def ble_pending_def ble_deliverable_def ble_bytes_def)
next
  have ok: "request_packet w = None \<and> w' = w \<and> (\<exists>e. q = Inl e) \<or> ble_received_ok K (ble_clock w + d) w q w'"
    if "tr_receive_response (BleTransport L K B C) d w = (q, w')" for d w q w'
    using that by (auto simp: BleTransport_def ble_receive_response_def dest: ble_receive_loop_ok split: option.splits)
  show "tr_now (BleTransport L K B C) w \<le> tr_now (BleTransport L K B C) w' \<and> ble_pending w' \<le> ble_pending w \<and>
      ble_deliverable K w' \<subseteq> ble_deliverable K w"
    if "tr_receive_response (BleTransport L K B C) d w = (q, w')" for d w q w'
    using ok [OF that] ble_deliverable_mono by (auto simp: BleTransport_def ble_received_ok_def)
  show "tr_now (BleTransport L K B C) w + d \<le> tr_now (BleTransport L K B C) w'"
    if "tr_receive_response (BleTransport L K B C) d w = (Inr RTimeout, w')" for d w w'
    using ok [OF that] by (auto simp: BleTransport_def ble_received_ok_def)
  show "ble_pending w' < ble_pending w \<and> p \<in> ble_deliverable K w"
    if "tr_receive_response (BleTransport L K B C) d w = (Inr (Response p a), w')" for d w p a w'
    using ok [OF that] by (auto simp: ble_received_ok_def)
  show "fst (tr_send_request (BleTransport L K B C) p w) \<noteq> Inl ExplicitDenial" for p w
    using ble_send_request_no_denial by (simp add: BleTransport_def)
  show "fst (tr_receive_response (BleTransport L K B C) d w) \<noteq> Inl ExplicitDenial" for d w
    by (simp add: BleTransport_def ble_receive_response_def split: option.split)
      (metis Inr_Inl_False ble_receive_loop_no_error)
qed

end
