(* ===== verification/Auth.thy ===== *)
theory Auth
  imports Transport
begin

text \<open>
  One authentication, \<^verbatim>\<open>src/tapauthd/src/auth_handler.rs\<close>: the daemon's loaded state, the
  request/response loop over a transport, and the session that runs both transports in parallel
  and races them against a cancel and the session timeout.

  The loop is a function with fuel; \<open>transport_laws\<close> gives a bound on the fuel it needs. The
  concurrent part is a function of the order in which the branches of its \<^verbatim>\<open>select!\<close> become
  ready (a list of \<open>tick\<close>s): a list that runs out means that nothing more happened before the
  timeout. Hex decoding comes from a crate and is the parameter \<open>H\<close>.
\<close>

record hex_lib =
  hex_encode :: "bytes \<Rightarrow> string"
  hex_decode :: "string \<Rightarrow> bytes option"

definition hex_ok :: "hex_lib \<Rightarrow> bool" where
  "hex_ok H \<longleftrightarrow> (\<forall>b. hex_decode H (hex_encode H b) = Some b)"

section \<open>The daemon's state\<close>

record transports_enabled =
  te_network :: bool
  te_ble :: bool

definition TransportsEnabled_from_config :: "config_codec \<Rightarrow> os \<Rightarrow> transports_enabled" where
  "TransportsEnabled_from_config J s =
     (let config = TapAuthConfig_load J s in \<lparr>te_network = enable_network config, te_ble = enable_ble config\<rparr>)"

definition transports_any :: "transports_enabled \<Rightarrow> bool" where
  "transports_any t = (te_network t \<or> te_ble t)"

record daemon_state =
  paired_servers :: server_map
  ds_keypair :: "ed25519_keypair option"
  ds_csk :: "client_symmetric_key option"
  ds_hostname :: string
  init_error :: "string option"

text \<open>\<open>shw\<close> prints a configuration error.\<close>

definition DaemonState_new ::
  "crypto_lib \<Rightarrow> config_codec \<Rightarrow> tpm_tools \<Rightarrow> (config_error \<Rightarrow> string) \<Rightarrow> string option \<Rightarrow> (auth_error, daemon_state) osm"
where
  "DaemonState_new L J T shw hn s =
     (let (rk, s) = load_keypair L J T CONFIG_DIR s;
          (keypair, err) =
            (case rk of
               Inr kp \<Rightarrow> (Some kp, None)
             | Inl e \<Rightarrow> (None, Some (''Failed to load keypair: '' @ shw e @
                          ''. Please open tapauth-config GUI to regenerate keys.'')));
          (csk, err) =
            (case load_csk CONFIG_DIR s of
               Inr k \<Rightarrow> (Some k, err)
             | Inl e \<Rightarrow>
                 let msg = ''Failed to load CSK: '' @ shw e @ ''. Please open tapauth-config GUI to configure keys.''
                 in (None, Some (case err of Some prev \<Rightarrow> prev @ ''; '' @ msg | None \<Rightarrow> msg)))
      in (rbind (map_err AeConfig (load_paired_servers J CONFIG_DIR s)) (\<lambda>servers.
          rbind (map_err AeConfig (load_config J CONFIG_DIR hn s)) (\<lambda>config.
            Inr \<lparr>paired_servers = servers, ds_keypair = keypair, ds_csk = csk,
                 ds_hostname = cc_hostname config, init_error = err\<rparr>)), s))"

definition is_healthy :: "daemon_state \<Rightarrow> bool" where
  "is_healthy d = (ds_keypair d \<noteq> None \<and> ds_csk d \<noteq> None)"

fun join_and :: "string list \<Rightarrow> string" where
  "join_and [] = []"
| "join_and [x] = x"
| "join_and (x # xs) = x @ '' and '' @ join_and xs"

definition reload ::
  "crypto_lib \<Rightarrow> config_codec \<Rightarrow> tpm_tools \<Rightarrow> string option \<Rightarrow> daemon_state \<Rightarrow> os \<Rightarrow> daemon_state \<times> os"
where
  "reload L J T hn d s =
     (let (rk, s) = load_keypair L J T CONFIG_DIR s;
          keypair = (case rk of Inr kp \<Rightarrow> Some kp | Inl _ \<Rightarrow> ds_keypair d);
          csk = (case load_csk CONFIG_DIR s of Inr k \<Rightarrow> Some k | Inl _ \<Rightarrow> ds_csk d);
          servers = (case load_paired_servers J CONFIG_DIR s of Inr m \<Rightarrow> m | Inl _ \<Rightarrow> paired_servers d);
          config = (case load_config J CONFIG_DIR hn s of Inr c \<Rightarrow> c | Inl _ \<Rightarrow> ClientConfig (ds_hostname d));
          missing = (if keypair = None then [''Keypair''] else []) @ (if csk = None then [''CSK''] else [])
      in (\<lparr>paired_servers = servers, ds_keypair = keypair, ds_csk = csk, ds_hostname = cc_hostname config,
           init_error = (if keypair \<noteq> None \<and> csk \<noteq> None then None
                         else Some (join_and missing @
                           '' unavailable after reload. Use tapauth-config to regenerate keys.''))\<rparr>, s))"

section \<open>The response loop\<close>

definition paired_key :: "hex_lib \<Rightarrow> paired_server \<Rightarrow> bytes option" where
  "paired_key H server =
     (case hex_decode H (ps_public_key server) of
        Some pk \<Rightarrow> if length pk = 32 then Some pk else None
      | None \<Rightarrow> None)"

definition verify_response_signature ::
  "crypto_lib \<Rightarrow> 'x pb_codec_scheme \<Rightarrow> hex_lib \<Rightarrow> wrapper_message \<Rightarrow> server_map \<Rightarrow> auth_error + bool"
where
  "verify_response_signature L K H wrapper servers =
     Inr (list_ex (\<lambda>(sid, server).
            case paired_key H server of
              Some pk \<Rightarrow> is_ok (verify_wrapper_signature L K wrapper pk)
            | None \<Rightarrow> False) servers)"

definition nonce_fingerprint :: "encrypted_packet \<Rightarrow> bytes" where
  "nonce_fingerprint p = temporal_identifier p @ ciphertext p"

definition wait_for_response ::
  "crypto_lib \<Rightarrow> 'x pb_codec_scheme \<Rightarrow> hex_lib \<Rightarrow> 'w transport \<Rightarrow> duration \<Rightarrow> client_symmetric_key \<Rightarrow>
   server_map \<Rightarrow> bytes list \<Rightarrow> 'w \<Rightarrow> (auth_error + (wrapper_message \<times> socket_addr) option) \<times> bytes list \<times> 'w"
where
  "wait_for_response L K H T retry_interval csk servers nonce_cache w =
     (case tr_receive_response T retry_interval w of
        (Inl e, w) \<Rightarrow> (Inl e, nonce_cache, w)
      | (Inr RTimeout, w) \<Rightarrow> (Inr None, nonce_cache, w)
      | (Inr (Response response_packet server_addr), w) \<Rightarrow>
          let fp = nonce_fingerprint response_packet
          in if fp \<in> set nonce_cache then (Inr None, nonce_cache, w)
             else
               let nonce_cache = fp # nonce_cache
               in (case decrypt_encrypted_packet_with_csk_nonce L K csk response_packet of
                     Inl e \<Rightarrow> (Inl (AeProtocol e), nonce_cache, w)
                   | Inr wrapper \<Rightarrow>
                       (case verify_response_signature L K H wrapper servers of
                          Inl e \<Rightarrow> (Inl e, nonce_cache, w)
                        | Inr True \<Rightarrow> (Inr (Some (wrapper, server_addr)), nonce_cache, w)
                        | Inr False \<Rightarrow> (Inr None, nonce_cache, w))))"

text \<open>
  The packet the background task sends: \<open>None\<close> when it cannot be built. \<open>now\<close> and \<open>rnd\<close> are the
  clock and random bytes read for it.
\<close>

definition confirmation_packet ::
  "crypto_lib \<Rightarrow> 'x pb_codec_scheme \<Rightarrow> u64 option \<Rightarrow> bytes option \<Rightarrow> bytes \<Rightarrow> ed25519_keypair \<Rightarrow>
   client_symmetric_key \<Rightarrow> encrypted_packet option"
where
  "confirmation_packet L K now rnd chal keypair csk =
     (case create_grant_confirmation chal of
        Inl _ \<Rightarrow> None
      | Inr confirmation \<Rightarrow>
          (case sign_wrapper_message L K (wrap_grant_confirmation confirmation) keypair of
             Inl _ \<Rightarrow> None
           | Inr conf_wrapper \<Rightarrow>
               (case create_encrypted_packet_with_csk_nonce L K now rnd csk conf_wrapper of
                  Inl _ \<Rightarrow> None
                | Inr p \<Rightarrow> Some p)))"

definition send_confirmation_background :: "'w transport \<Rightarrow> encrypted_packet \<Rightarrow> 'w \<Rightarrow> 'w" where
  "send_confirmation_background T p w =
     (let w = snd (tr_send_confirmation T p w);
          w = tr_sleep T (from_millis 150) w;
          w = snd (tr_send_confirmation T p w);
          w = tr_sleep T (from_millis 150) w;
          w = snd (tr_send_confirmation T p w)
      in snd (tr_finalize T w))"

datatype response_error = InvalidMessage

definition handle_auth_grant ::
  "crypto_lib \<Rightarrow> 'x pb_codec_scheme \<Rightarrow> hex_lib \<Rightarrow> wrapper_message \<Rightarrow> bytes \<Rightarrow> server_map \<Rightarrow>
   response_error + (auth_error + unit)"
where
  "handle_auth_grant L K H wrapper chal servers =
     (let grant_valid = list_ex (\<lambda>(sid, server).
            case paired_key H server of
              Some pk \<Rightarrow> is_ok (verify_auth_grant L K wrapper chal pk)
            | None \<Rightarrow> False) servers
      in if grant_valid then Inr (Inr ()) else Inl InvalidMessage)"

definition handle_auth_denial :: "wrapper_message \<Rightarrow> bytes \<Rightarrow> response_error + (auth_error + unit)" where
  "handle_auth_denial wrapper chal =
     (case payload_of wrapper of
        Some (AuthDenial d) \<Rightarrow>
          if denial_challenge d \<noteq> chal then Inl InvalidMessage else Inr (Inl ExplicitDenial)
      | _ \<Rightarrow> Inl InvalidMessage)"

definition process_auth_response ::
  "crypto_lib \<Rightarrow> 'x pb_codec_scheme \<Rightarrow> hex_lib \<Rightarrow> wrapper_message \<Rightarrow> bytes \<Rightarrow> server_map \<Rightarrow>
   response_error + (auth_error + unit)"
where
  "process_auth_response L K H wrapper chal servers =
     (case payload_of wrapper of
        Some (AuthGrant _) \<Rightarrow> handle_auth_grant L K H wrapper chal servers
      | Some (AuthDenial _) \<Rightarrow> handle_auth_denial wrapper chal
      | _ \<Rightarrow> Inl InvalidMessage)"

text \<open>
  The loop of \<^verbatim>\<open>authenticate_with_transport\<close>, one round at a time. A finished round says whether
  the background confirmation was started, which is the case exactly when a grant or a denial was
  accepted.
\<close>

datatype 'w round = Finished "auth_error + unit" bool 'w | Again u32 "bytes list" 'w

definition authenticate_round ::
  "crypto_lib \<Rightarrow> 'x pb_codec_scheme \<Rightarrow> hex_lib \<Rightarrow> 'w transport \<Rightarrow> encrypted_packet \<Rightarrow> client_symmetric_key \<Rightarrow>
   bytes \<Rightarrow> server_map \<Rightarrow> instant \<Rightarrow> u32 \<Rightarrow> bytes list \<Rightarrow> 'w \<Rightarrow> 'w round"
where
  "authenticate_round L K H T packet csk chal servers start attempt cache w =
     (if get_session_timeout \<le> tr_now T w - start
      then Finished (Inl AeTimeout) False (snd (tr_finalize T w))
      else
        (case tr_send_request T packet w of
           (Inl e, w) \<Rightarrow> Finished (Inl e) False (snd (tr_finalize T w))
         | (Inr _, w) \<Rightarrow>
             (case wait_for_response L K H T (get_client_retry_interval attempt) csk servers cache w of
                (Inr (Some (wrapper, server_addr)), cache, w) \<Rightarrow>
                  (case process_auth_response L K H wrapper chal servers of
                     Inr result \<Rightarrow> Finished result True w
                   | Inl InvalidMessage \<Rightarrow> Again attempt cache w)
              | (Inr None, cache, w) \<Rightarrow> Again (attempt + 1) cache w
              | (Inl e, cache, w) \<Rightarrow> Finished (Inl e) False (snd (tr_finalize T w)))))"

fun authenticate_loop ::
  "nat \<Rightarrow> crypto_lib \<Rightarrow> 'x pb_codec_scheme \<Rightarrow> hex_lib \<Rightarrow> 'w transport \<Rightarrow> encrypted_packet \<Rightarrow> client_symmetric_key \<Rightarrow>
   bytes \<Rightarrow> server_map \<Rightarrow> instant \<Rightarrow> u32 \<Rightarrow> bytes list \<Rightarrow> 'w \<Rightarrow> ((auth_error + unit) \<times> bool \<times> 'w) option"
where
  "authenticate_loop 0 L K H T packet csk chal servers start attempt cache w = None"
| "authenticate_loop (Suc fuel) L K H T packet csk chal servers start attempt cache w =
     (case authenticate_round L K H T packet csk chal servers start attempt cache w of
        Finished r conf w \<Rightarrow> Some (r, conf, w)
      | Again attempt cache w \<Rightarrow>
          authenticate_loop fuel L K H T packet csk chal servers start attempt cache w)"

definition authenticate_with_transport ::
  "nat \<Rightarrow> crypto_lib \<Rightarrow> 'x pb_codec_scheme \<Rightarrow> hex_lib \<Rightarrow> 'w transport \<Rightarrow> encrypted_packet \<Rightarrow> client_symmetric_key \<Rightarrow>
   bytes \<Rightarrow> server_map \<Rightarrow> 'w \<Rightarrow> ((auth_error + unit) \<times> bool \<times> 'w) option"
where
  "authenticate_with_transport fuel L K H T packet csk chal servers w =
     authenticate_loop fuel L K H T packet csk chal servers (tr_now T w) 0 [] w"

section \<open>The loop over any transport\<close>

definition grant_evidence ::
  "crypto_lib \<Rightarrow> 'x pb_codec_scheme \<Rightarrow> hex_lib \<Rightarrow> client_symmetric_key \<Rightarrow> bytes \<Rightarrow> server_map \<Rightarrow> encrypted_packet set \<Rightarrow> bool"
where
  "grant_evidence L K H csk chal servers P \<longleftrightarrow>
     (\<exists>p wrapper sid server pk. p \<in> P \<and> decrypt_encrypted_packet_with_csk_nonce L K csk p = Inr wrapper \<and>
        (sid, server) \<in> set servers \<and> hex_decode H (ps_public_key server) = Some pk \<and> length pk = 32 \<and>
        verify_auth_grant L K wrapper chal pk = Inr ())"

definition denial_evidence ::
  "crypto_lib \<Rightarrow> 'x pb_codec_scheme \<Rightarrow> hex_lib \<Rightarrow> client_symmetric_key \<Rightarrow> bytes \<Rightarrow> server_map \<Rightarrow> encrypted_packet set \<Rightarrow> bool"
where
  "denial_evidence L K H csk chal servers P \<longleftrightarrow>
     (\<exists>p wrapper sid server pk. p \<in> P \<and> decrypt_encrypted_packet_with_csk_nonce L K csk p = Inr wrapper \<and>
        (sid, server) \<in> set servers \<and> hex_decode H (ps_public_key server) = Some pk \<and> length pk = 32 \<and>
        verify_wrapper_signature L K wrapper pk = Inr () \<and>
        payload_of wrapper = Some (AuthDenial (AuthenticationDenial chal)))"

lemma evidence_mono:
  "P \<subseteq> Q \<Longrightarrow> grant_evidence L K H csk chal servers P \<Longrightarrow> grant_evidence L K H csk chal servers Q"
  "P \<subseteq> Q \<Longrightarrow> denial_evidence L K H csk chal servers P \<Longrightarrow> denial_evidence L K H csk chal servers Q"
  unfolding grant_evidence_def denial_evidence_def by blast+

lemma paired_key_Some [result_simps]:
  "paired_key H server = Some pk \<longleftrightarrow> hex_decode H (ps_public_key server) = Some pk \<and> length pk = 32"
  by (auto simp: paired_key_def split: option.splits)

lemma is_ok_unit [simp]: "is_ok (r :: 'e + unit) \<longleftrightarrow> r = Inr ()"
  by (cases r) (simp_all add: is_ok_def)

lemma verify_response_signature_True:
  "verify_response_signature L K H wrapper servers = Inr True \<longleftrightarrow>
   (\<exists>sid server pk. (sid, server) \<in> set servers \<and> paired_key H server = Some pk \<and>
      verify_wrapper_signature L K wrapper pk = Inr ())"
  by (fastforce simp: verify_response_signature_def list_ex_iff split: option.splits)

lemma wait_for_response_Some:
  assumes "wait_for_response L K H T d csk servers cache w = (Inr (Some (wrapper, addr)), cache', w')"
  shows "\<exists>p. tr_receive_response T d w = (Inr (Response p addr), w') \<and> nonce_fingerprint p \<notin> set cache \<and>
     cache' = nonce_fingerprint p # cache \<and> decrypt_encrypted_packet_with_csk_nonce L K csk p = Inr wrapper \<and>
     (\<exists>sid server pk. (sid, server) \<in> set servers \<and> paired_key H server = Some pk \<and>
        verify_wrapper_signature L K wrapper pk = Inr ())"
  using assms
  by (auto simp: wait_for_response_def Let_def verify_response_signature_True
      split: prod.splits sum.splits receive_result.splits if_splits bool.splits)

lemma wait_for_response_world:
  assumes "wait_for_response L K H T d csk servers cache w = (Inr x, cache', w')"
  obtains y where "tr_receive_response T d w = (Inr y, w')"
  using assms
  by (auto simp: wait_for_response_def Let_def
      split: prod.splits sum.splits receive_result.splits if_splits bool.splits)

lemma wait_for_response_error:
  assumes "wait_for_response L K H T d csk servers cache w = (Inl e, cache', w')"
  shows "tr_receive_response T d w = (Inl e, w') \<or> (\<exists>pe. e = AeProtocol pe)"
  using assms
  by (auto simp: wait_for_response_def verify_response_signature_def Let_def
      split: prod.splits sum.splits receive_result.splits if_splits bool.splits)

lemma process_auth_response_grant:
  "process_auth_response L K H wrapper chal servers = Inr (Inr ()) \<Longrightarrow>
   \<exists>sid server pk. (sid, server) \<in> set servers \<and> paired_key H server = Some pk \<and>
     verify_auth_grant L K wrapper chal pk = Inr ()"
  by (auto simp: process_auth_response_def handle_auth_grant_def handle_auth_denial_def list_ex_iff
      split: option.splits payload.splits if_splits)

lemma process_auth_response_denial:
  "process_auth_response L K H wrapper chal servers = Inr (Inl e) \<Longrightarrow>
   e = ExplicitDenial \<and> payload_of wrapper = Some (AuthDenial (AuthenticationDenial chal))"
  by (auto simp: process_auth_response_def handle_auth_grant_def handle_auth_denial_def
      split: option.splits payload.splits if_splits)

lemma accepted_evidence:
  assumes w: "wait_for_response L K H T d csk servers cache w = (Inr (Some (wrapper, addr)), c, w')"
    and r: "process_auth_response L K H wrapper chal servers = Inr r"
    and P: "\<And>p. tr_receive_response T d w = (Inr (Response p addr), w') \<Longrightarrow> p \<in> P"
  shows "r = Inr () \<and> grant_evidence L K H csk chal servers P \<or>
    r = Inl ExplicitDenial \<and> denial_evidence L K H csk chal servers P"
proof -
  obtain p sid server pk where p: "p \<in> P" "decrypt_encrypted_packet_with_csk_nonce L K csk p = Inr wrapper"
      "(sid, server) \<in> set servers" "paired_key H server = Some pk" "verify_wrapper_signature L K wrapper pk = Inr ()"
    using wait_for_response_Some [OF w] P by blast
  show ?thesis
  proof (cases r)
    case (Inl e)
    then have "e = ExplicitDenial" "payload_of wrapper = Some (AuthDenial (AuthenticationDenial chal))"
      using process_auth_response_denial r by blast+
    then show ?thesis
      using p Inl unfolding denial_evidence_def paired_key_Some by blast
  next
    case (Inr v)
    then obtain sid server pk where "(sid, server) \<in> set servers" "paired_key H server = Some pk"
        "verify_auth_grant L K wrapper chal pk = Inr ()"
      using process_auth_response_grant [of L K H wrapper chal servers] r by auto
    moreover have "r = Inr ()"
      using Inr by simp
    ultimately show ?thesis
      using p(1,2) unfolding grant_evidence_def paired_key_Some by blast
  qed
qed

lemma authenticate_round_silent:
  assumes rd: "authenticate_round L K H T packet csk chal servers start attempt cache w = Finished r False w'"
    and no: "fst (tr_send_request T packet w) \<noteq> Inl ExplicitDenial"
      "\<And>d v. fst (tr_receive_response T d v) \<noteq> Inl ExplicitDenial"
  shows "r \<noteq> Inr () \<and> r \<noteq> Inl ExplicitDenial"
proof -
  obtain sr w1 where w1: "tr_send_request T packet w = (sr, w1)"
    by (cases "tr_send_request T packet w")
  obtain wr c w2 where w2: "wait_for_response L K H T (get_client_retry_interval attempt) csk servers cache w1
      = (wr, c, w2)"
    by (cases "wait_for_response L K H T (get_client_retry_interval attempt) csk servers cache w1")
  have "sr \<noteq> Inl ExplicitDenial"
    using no(1) w1 by simp
  moreover have "wr \<noteq> Inl ExplicitDenial"
  proof
    assume "wr = Inl ExplicitDenial"
    then show False
      using wait_for_response_error [of L K H T "get_client_retry_interval attempt" csk servers cache w1] w2
        no(2) [of "get_client_retry_interval attempt" w1] by fastforce
  qed
  ultimately show ?thesis
    using rd w1 w2
    by (cases "get_session_timeout \<le> tr_now T w - start"; cases sr; cases wr)
      (auto simp: authenticate_round_def split: option.splits sum.splits response_error.splits)
qed

lemma authenticate_round_inv:
  assumes "authenticate_round L K H T packet csk chal servers start attempt cache w = rd"
    and "(\<exists>n c w'. rd = Again n c w') \<or> (\<exists>r w'. rd = Finished r True w')"
  obtains w1 x c w2 where "tr_now T w - start < get_session_timeout" "tr_send_request T packet w = (Inr (), w1)"
    "wait_for_response L K H T (get_client_retry_interval attempt) csk servers cache w1 = (Inr x, c, w2)"
    "rd = (case x of None \<Rightarrow> Again (attempt + 1) c w2
           | Some (wrapper, addr) \<Rightarrow>
               (case process_auth_response L K H wrapper chal servers of
                  Inr r \<Rightarrow> Finished r True w2 | Inl _ \<Rightarrow> Again attempt c w2))"
proof -
  obtain sr w1 where w1: "tr_send_request T packet w = (sr, w1)"
    by (cases "tr_send_request T packet w")
  obtain wr c w2 where w2: "wait_for_response L K H T (get_client_retry_interval attempt) csk servers cache w1
      = (wr, c, w2)"
    by (cases "wait_for_response L K H T (get_client_retry_interval attempt) csk servers cache w1")
  have time: "tr_now T w - start < get_session_timeout"
    using assms by (auto simp: authenticate_round_def split: if_splits)
  obtain x where x: "sr = Inr ()" "wr = Inr x"
    using assms time w1 w2 by (cases sr; cases wr) (auto simp: authenticate_round_def)
  have "rd = (case x of None \<Rightarrow> Again (attempt + 1) c w2
           | Some (wrapper, addr) \<Rightarrow>
               (case process_auth_response L K H wrapper chal servers of
                  Inr r \<Rightarrow> Finished r True w2 | Inl _ \<Rightarrow> Again attempt c w2))"
    using assms(1) time w1 w2 x
    by (auto simp: authenticate_round_def split: option.splits sum.splits response_error.splits)
  then show thesis
    using that time w1 w2 x by blast
qed

context transport_laws
begin

lemma round_Again:
  assumes "authenticate_round L K H T packet csk chal servers start attempt cache w = Again n cache' w'"
  shows "tr_now T w - start < get_session_timeout \<and> deliverable w' \<subseteq> deliverable w \<and> tr_now T w \<le> tr_now T w' \<and>
    pending w' \<le> pending w \<and>
    (pending w' < pending w \<or> tr_now T w + get_client_retry_interval attempt \<le> tr_now T w')"
proof -
  obtain w1 x c w2 where st: "tr_now T w - start < get_session_timeout" "tr_send_request T packet w = (Inr (), w1)"
    "wait_for_response L K H T (get_client_retry_interval attempt) csk servers cache w1 = (Inr x, c, w2)"
    and fin: "Again n cache' w' = (case x of None \<Rightarrow> Again (attempt + 1) c w2
           | Some (wrapper, addr) \<Rightarrow>
               (case process_auth_response L K H wrapper chal servers of
                  Inr r \<Rightarrow> Finished r True w2 | Inl _ \<Rightarrow> Again attempt c w2))"
    by (rule authenticate_round_inv [OF assms]) blast+
  from fin have "w2 = w'"
    by (cases x) (auto split: sum.splits)
  with wait_for_response_world [OF st(3)]
  obtain y where y: "tr_receive_response T (get_client_retry_interval attempt) w1 = (Inr y, w')"
    by metis
  have "deliverable w' \<subseteq> deliverable w"
    using send_mono [OF st(2)] receive_mono [OF y] by blast
  moreover have "tr_now T w \<le> tr_now T w1" "tr_now T w1 \<le> tr_now T w'" "pending w1 \<le> pending w" "pending w' \<le> pending w1"
    using send_mono [OF st(2)] receive_mono [OF y] by blast+
  ultimately show ?thesis
    using receive_progress [OF y] st(1) by linarith
qed

lemma round_Finished:
  assumes "authenticate_round L K H T packet csk chal servers start attempt cache w = Finished r conf w'"
  shows "(r = Inr () \<longrightarrow> grant_evidence L K H csk chal servers (deliverable w)) \<and>
   (r = Inl ExplicitDenial \<longrightarrow> denial_evidence L K H csk chal servers (deliverable w)) \<and>
   (conf \<longleftrightarrow> r = Inr () \<or> r = Inl ExplicitDenial)"
proof (cases conf)
  case True
  then have fin: "authenticate_round L K H T packet csk chal servers start attempt cache w = Finished r True w'"
    using assms by simp
  obtain w1 x c w2 where st: "tr_send_request T packet w = (Inr (), w1)"
    "wait_for_response L K H T (get_client_retry_interval attempt) csk servers cache w1 = (Inr x, c, w2)"
    and fin: "Finished r True w' = (case x of None \<Rightarrow> Again (attempt + 1) c w2
           | Some (wrapper, addr) \<Rightarrow>
               (case process_auth_response L K H wrapper chal servers of
                  Inr r \<Rightarrow> Finished r True w2 | Inl _ \<Rightarrow> Again attempt c w2))"
    by (rule authenticate_round_inv [OF fin]) blast+
  obtain wrapper addr where x: "x = Some (wrapper, addr)" "w2 = w'"
      "process_auth_response L K H wrapper chal servers = Inr r"
    using fin by (cases x) (auto split: sum.splits)
  note st = st(1) st(2) [unfolded x(1,2)] x(3)
  have "p \<in> deliverable w" if "tr_receive_response T (get_client_retry_interval attempt) w1 = (Inr (Response p addr), w')" for p
    using receive_response [OF that] send_mono [OF st(1)] by blast
  then show ?thesis
    using accepted_evidence [OF st(2,3), of "deliverable w"] True by auto
next
  case False
  then show ?thesis
    using authenticate_round_silent [of L K H T packet csk chal servers start attempt cache w r w'] assms no_denial by simp
qed

lemma loop_sound:
  "authenticate_loop fuel L K H T packet csk chal servers start attempt cache w = Some (r, conf, w') \<Longrightarrow>
   (r = Inr () \<longrightarrow> grant_evidence L K H csk chal servers (deliverable w)) \<and>
   (r = Inl ExplicitDenial \<longrightarrow> denial_evidence L K H csk chal servers (deliverable w)) \<and>
   (conf \<longleftrightarrow> r = Inr () \<or> r = Inl ExplicitDenial)"
proof (induction fuel arbitrary: attempt cache w)
  case (Suc fuel)
  show ?case
  proof (cases "authenticate_round L K H T packet csk chal servers start attempt cache w")
    case (Finished r1 c1 w1)
    then have "r1 = r" "c1 = conf"
      using Suc.prems by simp_all
    then show ?thesis
      using round_Finished [OF Finished] by simp
  next
    case (Again n c w1)
    then show ?thesis
      using Suc.prems Suc.IH [of n c w1] evidence_mono [of "deliverable w1" "deliverable w"] round_Again [OF Again] by auto
  qed
qed simp

end

text \<open>Rounds that the time left still allows: every empty round takes at least 200 ms.\<close>

definition rounds_left :: "duration \<Rightarrow> nat" where
  "rounds_left rem = (rem + from_millis 200 - 1) div from_millis 200"

lemma retry_interval_ge: "from_millis 200 \<le> get_client_retry_interval n"
  by (simp add: get_client_retry_interval_def from_millis_def)

lemma rounds_left_mono: "rem' \<le> rem \<Longrightarrow> rounds_left rem' \<le> rounds_left rem"
  by (simp add: rounds_left_def div_le_mono)

lemma rounds_left_less:
  assumes "0 < rem" and "rem' \<le> rem - from_millis 200"
  shows "rounds_left rem' < rounds_left rem"
proof (cases "rem' = 0")
  case True
  have "0 < rounds_left rem"
    using assms(1) by (simp add: rounds_left_def from_millis_def div_greater_zero_iff)
  then show ?thesis
    using True by (simp add: rounds_left_def from_millis_def)
next
  case False
  then have "rem' + from_millis 200 - 1 + from_millis 200 \<le> rem + from_millis 200 - 1"
    using assms(2) by (simp add: from_millis_def)
  then have "(rem' + from_millis 200 - 1 + from_millis 200) div from_millis 200 \<le> rounds_left rem"
    unfolding rounds_left_def by (rule div_le_mono)
  then show ?thesis
    by (simp add: rounds_left_def from_millis_def)
qed

context transport_laws
begin

lemma loop_returns:
  assumes "start \<le> tr_now T w"
    and "pending w + rounds_left (get_session_timeout - (tr_now T w - start)) < fuel"
  shows "\<exists>r. authenticate_loop fuel L K H T packet csk chal servers start attempt cache w = Some r"
  using assms
proof (induction fuel arbitrary: attempt cache w)
  case (Suc fuel)
  show ?case
  proof (cases "authenticate_round L K H T packet csk chal servers start attempt cache w")
    case (Again n c v)
    let ?rem = "get_session_timeout - (tr_now T w - start)" and ?rem' = "get_session_timeout - (tr_now T v - start)"
    note ag = round_Again [OF Again]
    have "?rem' \<le> ?rem" "0 < ?rem" "start \<le> tr_now T v"
      using ag Suc.prems(1) by auto
    moreover have "?rem' \<le> ?rem - from_millis 200" if "tr_now T w + get_client_retry_interval attempt \<le> tr_now T v"
      using that retry_interval_ge [of attempt] Suc.prems(1) by linarith
    ultimately have "pending v + rounds_left ?rem' < pending w + rounds_left ?rem"
      using ag rounds_left_mono [of ?rem' ?rem] rounds_left_less [of ?rem ?rem'] by linarith
    then show ?thesis
      using Again Suc.IH [of v n c] Suc.prems \<open>start \<le> tr_now T v\<close> by auto
  qed simp
qed simp

lemma authenticate_returns:
  "pending w + 600 < fuel \<Longrightarrow> \<exists>r. authenticate_with_transport fuel L K H T packet csk chal servers w = Some r"
  unfolding authenticate_with_transport_def
  by (rule loop_returns) (simp_all add: rounds_left_def get_session_timeout_def from_secs_def from_millis_def)

lemma authenticate_sound:
  "authenticate_with_transport fuel L K H T packet csk chal servers w = Some (r, conf, w') \<Longrightarrow>
   (r = Inr () \<longrightarrow> grant_evidence L K H csk chal servers (deliverable w)) \<and>
   (r = Inl ExplicitDenial \<longrightarrow> denial_evidence L K H csk chal servers (deliverable w)) \<and>
   (conf \<longleftrightarrow> r = Inr () \<or> r = Inl ExplicitDenial)"
  unfolding authenticate_with_transport_def by (rule loop_sound)

end

section \<open>The first answer on the UDP socket\<close>

text \<open>An address that belongs to no interface, now or later, and is not cached as one.\<close>

definition foreign_ip :: "net_env \<Rightarrow> ip_addr \<Rightarrow> net \<Rightarrow> bool" where
  "foreign_ip E ip s \<longleftrightarrow> \<not> ip_is_loopback ip \<and> (\<forall>as r. if_cache s = Some (as, r) \<longrightarrow> ip \<notin> set as) \<and>
     (\<forall>t ifs. get_if_addrs E t = Inr ifs \<longrightarrow> ip \<notin> if_ip ` set ifs)"

lemma is_local_ip_foreign:
  assumes "foreign_ip E ip s"
  obtains s' where "is_local_ip E ip s = (False, s')" "foreign_ip E ip s'"
proof -
  obtain b s' where r: "is_local_ip E ip s = (b, s')"
    by (meson surj_pair)
  moreover have "\<not> b" "foreign_ip E ip s'"
    using r assms
    by (auto simp: foreign_ip_def is_local_ip_def Let_def set_collect_addrs split: option.splits if_splits sum.splits)
  ultimately show thesis
    using that by simp
qed

lemma check_datagram_foreign:
  assumes "foreign_ip E (normalize_ip (sa_ip addr)) s" "length b \<le> MAX_UDP_MESSAGE_SIZE"
  shows "fst (check_datagram E K b addr s) = Some (ok_or NetDecode (dec_packet K b))"
proof -
  obtain s1 where s1: "is_local_ip E (normalize_ip (sa_ip addr)) s = (False, s1)" "foreign_ip E (normalize_ip (sa_ip addr)) s1"
    using is_local_ip_foreign [OF assms(1)] .
  obtain s2 where "is_local_ip E (normalize_ip (sa_ip addr)) s1 = (False, s2)"
    using is_local_ip_foreign [OF s1(2)] .
  then show ?thesis
    using s1(1) assms(2) by (simp add: check_datagram_def Let_def MAX_UDP_MESSAGE_SIZE_def)
qed

lemma udp_first_datagram:
  assumes "inbox s = (t, Datagram b addr) # rest" "t \<le> clock s + d" "length b \<le> MAX_UDP_MESSAGE_SIZE"
    and "foreign_ip E (normalize_ip (sa_ip addr)) s" and "same_reception s s1"
  shows "fst (tr_receive_response (UdpTransport E K port) d s1) =
    (case dec_packet K b of None \<Rightarrow> Inl (AeNetwork NetDecode) | Some p \<Rightarrow> Inr (Response p addr))"
proof -
  let ?s = "s1\<lparr>clock := max (clock s1) t, inbox := rest\<rparr>"
  have "foreign_ip E (normalize_ip (sa_ip addr)) ?s"
    using assms(4,5) by (simp add: foreign_ip_def same_reception_def)
  from check_datagram_foreign [OF this assms(3)] obtain s2 where
    "check_datagram E K b addr ?s = (Some (ok_or NetDecode (dec_packet K b)), s2)"
    by (metis prod.collapse)
  moreover have "\<not> clock s + d < max (clock s) t"
    using assms(2) by simp
  ultimately show ?thesis
    using assms(1,5)
    by (simp add: UdpTransport_def udp_receive_response_def try_receive_udp_packet_def same_reception_def Let_def
        ok_or_def split: option.split)
qed

lemma udp_send_request: "tr_send_request (UdpTransport E K port) p s = (Inr (), send_to_multicast_groups E K port p s)"
  by (simp add: UdpTransport_def udp_send_def)

lemma retry_interval_0: "get_client_retry_interval 0 = from_millis 200"
  by (simp add: get_client_retry_interval_def)

lemma session_timeout_pos: "\<not> get_session_timeout \<le> 0"
  by (simp add: get_session_timeout_def from_secs_def)

text \<open>The first round, whatever the transport, when it receives an acceptable answer or an error.\<close>

lemma authenticate_first:
  assumes "tr_send_request T packet w = (Inr (), w1)" "fst (tr_receive_response T (from_millis 200) w1) = Inr (Response p addr)"
    and "decrypt_encrypted_packet_with_csk_nonce L K csk p = Inr wrapper"
    and "(sid, server) \<in> set servers" "paired_key H server = Some pk" "verify_wrapper_signature L K wrapper pk = Inr ()"
    and "process_auth_response L K H wrapper chal servers = Inr r"
  shows "\<exists>w'. authenticate_with_transport (Suc fuel) L K H T packet csk chal servers w = Some (r, True, w')"
proof -
  obtain w2 where w2: "tr_receive_response T (from_millis 200) w1 = (Inr (Response p addr), w2)"
    using assms(2) by (metis prod.collapse)
  have "verify_response_signature L K H wrapper servers = Inr True"
    using assms(4-6) by (auto simp: verify_response_signature_True)
  then have "authenticate_round L K H T packet csk chal servers (tr_now T w) 0 [] w = Finished r True w2"
    using assms(1,3,7) w2 session_timeout_pos
    by (simp add: authenticate_round_def wait_for_response_def retry_interval_0 Let_def)
  then show ?thesis
    by (simp add: authenticate_with_transport_def)
qed

lemma process_auth_response_accepts:
  assumes "(sid, server) \<in> set servers" "paired_key H server = Some pk" "verify_auth_grant L K wrapper chal pk = Inr ()"
  shows "process_auth_response L K H wrapper chal servers = Inr (Inr ())"
proof -
  have "list_ex (\<lambda>(sid, server). case paired_key H server of
      Some pk \<Rightarrow> is_ok (verify_auth_grant L K wrapper chal pk) | None \<Rightarrow> False) servers"
    unfolding list_ex_iff by (rule bexI [OF _ assms(1)]) (simp add: assms(2,3))
  then show ?thesis
    using assms(3) by (auto simp: process_auth_response_def handle_auth_grant_def verify_auth_grant_iff)
qed

lemma authenticate_accepts:
  assumes "tr_send_request T packet w = (Inr (), w1)" "fst (tr_receive_response T (from_millis 200) w1) = Inr (Response p addr)"
    and "decrypt_encrypted_packet_with_csk_nonce L K csk p = Inr wrapper"
    and "(sid, server) \<in> set servers" "paired_key H server = Some pk" "verify_auth_grant L K wrapper chal pk = Inr ()"
  shows "\<exists>w'. authenticate_with_transport (Suc fuel) L K H T packet csk chal servers w = Some (Inr (), True, w')"
  using assms(6) by (intro authenticate_first [OF assms(1-5)] process_auth_response_accepts [OF assms(4-6)])
    (simp add: verify_auth_grant_iff)

lemma authenticate_fails_on_error:
  assumes "tr_send_request T packet w = (Inr (), w1)" "fst (tr_receive_response T (from_millis 200) w1) = Inl e"
  shows "\<exists>w'. authenticate_with_transport (Suc fuel) L K H T packet csk chal servers w = Some (Inl e, False, w')"
proof -
  obtain w2 where w2: "tr_receive_response T (from_millis 200) w1 = (Inl e, w2)"
    using assms(2) by (metis prod.collapse)
  then show ?thesis
    using assms(1) session_timeout_pos
    by (simp add: authenticate_with_transport_def authenticate_round_def wait_for_response_def retry_interval_0 Let_def)
qed

section \<open>Properties\<close>

text \<open>
  A login over a transport succeeds only with a paired phone's signature. When
  \<^verbatim>\<open>authenticate_with_transport\<close> returns success, over UDP or over Bluetooth LE, one of the
  packets the transport could deliver opens under the client's symmetric key and carries a grant
  for exactly this challenge whose signatures verify under the public key of a paired server.
\<close>

theorem auth_success_needs_grant:
  "(authenticate_with_transport fuel L K H (UdpTransport E K port) packet csk chal servers s = Some (Inr (), conf, s') \<longrightarrow>
     grant_evidence L K H csk chal servers (udp_deliverable K s)) \<and>
   (authenticate_with_transport fuel L K H (BleTransport L K B C) packet csk chal servers b = Some (Inr (), conf, b') \<longrightarrow>
     grant_evidence L K H csk chal servers (ble_deliverable K b))"
  by (intro conjI impI; drule udp_laws.authenticate_sound ble_laws.authenticate_sound; simp)

definition demo_hex :: hex_lib where
  "demo_hex = \<lparr>hex_encode = map (char_of \<circ> unat), hex_decode = (\<lambda>s. Some (str_bytes s))\<rparr>"

lemma demo_hex_ok: "hex_ok demo_hex"
proof -
  have "word_of_nat (unat x mod 256) = x" for x :: byte
    using unat_byte [of x] by simp
  then show ?thesis
    by (simp add: hex_ok_def demo_hex_def str_bytes_def o_def)
qed

definition demo_server :: paired_server where
  "demo_server = \<lparr>ps_name = ''Phone'', ps_public_key = hex_encode demo_hex (verifying_key demo_phone),
     allowed_users = [''alice''], paired_at = 0\<rparr>"

definition demo_csk :: client_symmetric_key where
  "demo_csk = ClientSymmetricKey (replicate 32 9)"

definition demo_challenge :: bytes where
  "demo_challenge = replicate 32 5"

definition demo_signed :: "payload \<Rightarrow> wrapper_message" where
  "demo_signed pl =
     (let w = \<lparr>version = 1, signature_algorithm = ED25519, signature = [], payload_of = Some pl\<rparr>
      in w\<lparr>signature := sign_ed25519 demo_crypto demo_phone (demo_enc_wrapper w)\<rparr>)"

definition demo_grant :: payload where
  "demo_grant = AuthGrant (AuthenticationGrant (sign_ed25519 demo_crypto demo_phone demo_challenge))"

definition demo_denial :: payload where
  "demo_denial = AuthDenial (AuthenticationDenial demo_challenge)"

definition demo_answer :: "payload \<Rightarrow> encrypted_packet" where
  "demo_answer pl =
     (case create_encrypted_packet_with_csk_nonce demo_crypto demo_codec (Some 1000) (Some (replicate 12 3)) demo_csk
             (demo_signed pl) of Inr p \<Rightarrow> p | Inl _ \<Rightarrow> demo_packet)"

definition demo_addr :: socket_addr where
  "demo_addr = \<lparr>sa_ip = IpV4 0xC0A80007, sa_port = 9\<rparr>"

definition demo_net :: "bytes \<Rightarrow> net" where
  "demo_net b = empty_net\<lparr>inbox := [(5, Datagram b demo_addr)]\<rparr>"

lemma length_demo_signed:
  "length (demo_enc_wrapper (demo_signed pl)) = 199 + (\<Sum>f\<leftarrow>payload_fields (Some pl). 2 * length f + 1)"
  by (simp add: demo_signed_def Let_def length_demo_enc_wrapper length_sign_demo ED25519_def)

lemma sealed_length:
  assumes "crypto_ok L" "length r = 12" "create_encrypted_packet_with_csk_nonce L K (Some t) (Some r) csk w = Inr p"
  shows "length (temporal_identifier p) \<le> 16 \<and> encryption_algorithm p = AES_256_GCM \<and>
    length (ciphertext p) = length (enc_wrapper K w) + 28"
  using assms temporal_identifier_total [OF assms(1), of csk "t div 60"]
  by (auto simp: create_encrypted_packet_with_csk_nonce_def encrypt_with_csk_and_random_nonce_def encrypt_aes_gcm_def
      generate_current_temporal_identifier_def current_time_window_def TIME_WINDOW_SECONDS_def result_simps
      dest: aes_length)

lemma demo_answer:
  assumes "(\<Sum>f\<leftarrow>payload_fields (Some pl). 2 * length f + 1) \<le> 1000"
  shows "create_encrypted_packet_with_csk_nonce demo_crypto demo_codec (Some 1000) (Some (replicate 12 3)) demo_csk
     (demo_signed pl) = Inr (demo_answer pl)"
  "decrypt_encrypted_packet_with_csk_nonce demo_crypto demo_codec demo_csk (demo_answer pl) = Inr (demo_signed pl)"
  "length (enc_packet demo_codec (demo_answer pl)) \<le> MAX_UDP_MESSAGE_SIZE"
proof -
  obtain p where p: "create_encrypted_packet_with_csk_nonce demo_crypto demo_codec (Some 1000) (Some (replicate 12 3)) demo_csk
     (demo_signed pl) = Inr p"
    using seal_packet_total [OF demo_crypto_ok, of demo_codec "demo_signed pl" 1000 "replicate 12 3" demo_csk] assms
    by (auto simp: length_demo_signed aes_max_def)
  then have eq: "demo_answer pl = p"
    by (simp add: demo_answer_def)
  show "create_encrypted_packet_with_csk_nonce demo_crypto demo_codec (Some 1000) (Some (replicate 12 3)) demo_csk
     (demo_signed pl) = Inr (demo_answer pl)"
    using p eq by simp
  show "decrypt_encrypted_packet_with_csk_nonce demo_crypto demo_codec demo_csk (demo_answer pl) = Inr (demo_signed pl)"
    using open_sealed_packet [OF demo_crypto_ok demo_codec_ok _ p] eq by simp
  show "length (enc_packet demo_codec (demo_answer pl)) \<le> MAX_UDP_MESSAGE_SIZE"
    using sealed_length [OF demo_crypto_ok _ p] eq assms
    by (simp add: demo_enc_packet_def length_put_fields MAX_UDP_MESSAGE_SIZE_def length_demo_signed int_field_def
        AES_256_GCM_def)
qed

lemma demo_signed_verifies: "verify_wrapper_signature demo_crypto demo_codec (demo_signed pl) (verifying_key demo_phone) = Inr ()"
  by (rule verify_signed_wrapper [OF demo_crypto_ok demo_phone_wf,
        where w = "\<lparr>version = 1, signature_algorithm = ED25519, signature = [], payload_of = Some pl\<rparr>"])
    (simp add: sign_wrapper_message_def demo_signed_def Let_def)

lemma payload_of_demo_signed [simp]: "payload_of (demo_signed pl) = Some pl"
  by (simp add: demo_signed_def Let_def)

lemma demo_addr_foreign: "foreign_ip quiet_env (normalize_ip (sa_ip demo_addr)) (demo_net b)"
  by (simp add: foreign_ip_def demo_net_def empty_net_def quiet_env_def demo_addr_def normalize_ip_def)

lemma demo_net_first:
  "length b \<le> MAX_UDP_MESSAGE_SIZE \<Longrightarrow> fst (tr_receive_response (UdpTransport quiet_env K port) (from_millis 200)
      (send_to_multicast_groups quiet_env K port packet (demo_net b))) =
    (case dec_packet K b of None \<Rightarrow> Inl (AeNetwork NetDecode) | Some p \<Rightarrow> Inr (Response p demo_addr))"
  by (rule udp_first_datagram [OF _ _ _ demo_addr_foreign send_to_multicast_groups_frame])
    (auto simp: demo_net_def empty_net_def from_millis_def)

lemma demo_paired_key: "paired_key demo_hex demo_server = Some (verifying_key demo_phone)"
  using demo_hex_ok ed_public_ok [OF demo_crypto_ok]
  by (simp add: paired_key_Some demo_server_def hex_ok_def demo_phone_def)

abbreviation demo_run :: "payload \<Rightarrow> server_map \<Rightarrow> ((auth_error + unit) \<times> bool \<times> net) option" where
  "demo_run pl servers \<equiv> authenticate_with_transport 602 demo_crypto demo_codec demo_hex
     (UdpTransport quiet_env demo_codec 36692) demo_packet demo_csk demo_challenge servers
     (demo_net (enc_packet demo_codec (demo_answer pl)))"

lemma demo_first:
  assumes "(\<Sum>f\<leftarrow>payload_fields (Some pl). 2 * length f + 1) \<le> 1000" "(sid, demo_server) \<in> set servers"
    and "process_auth_response demo_crypto demo_codec demo_hex (demo_signed pl) demo_challenge servers = Inr r"
  shows "\<exists>s'. authenticate_with_transport (Suc fuel) demo_crypto demo_codec demo_hex
     (UdpTransport quiet_env demo_codec port) packet demo_csk demo_challenge servers
     (demo_net (enc_packet demo_codec (demo_answer pl))) = Some (r, True, s')"
proof -
  have "fst (tr_receive_response (UdpTransport quiet_env demo_codec port) (from_millis 200)
      (send_to_multicast_groups quiet_env demo_codec port packet (demo_net (enc_packet demo_codec (demo_answer pl)))))
      = Inr (Response (demo_answer pl) demo_addr)"
    using demo_net_first [OF demo_answer(3) [OF assms(1)], of demo_codec] dec_enc_packet [OF demo_codec_ok] by simp
  from authenticate_first [OF udp_send_request this demo_answer(2) [OF assms(1)] assms(2) demo_paired_key
      demo_signed_verifies assms(3), where fuel = fuel]
  show ?thesis .
qed

lemmas demo_run_first = demo_first [where fuel = 601, simplified]

lemma demo_grant_accepted:
  "(sid, demo_server) \<in> set servers \<Longrightarrow>
   process_auth_response demo_crypto demo_codec demo_hex (demo_signed demo_grant) demo_challenge servers = Inr (Inr ())"
  using demo_signed_verifies verify_ed25519_sign [OF demo_crypto_ok demo_phone_wf]
  by (intro process_auth_response_accepts [OF _ demo_paired_key])
    (auto simp: verify_auth_grant_iff demo_grant_def demo_challenge_def)

lemma demo_grant_small: "(\<Sum>f\<leftarrow>payload_fields (Some demo_grant). 2 * length f + 1) \<le> 1000"
  by (simp add: demo_grant_def length_sign_demo)

lemma demo_login:
  "(sid, demo_server) \<in> set servers \<Longrightarrow> \<exists>s'. demo_run demo_grant servers = Some (Inr (), True, s')"
  using demo_run_first [of demo_grant sid servers, OF _ _ demo_grant_accepted] demo_grant_small by simp

lemma demo_refusal:
  "(sid, demo_server) \<in> set servers \<Longrightarrow> \<exists>s'. demo_run demo_denial servers = Some (Inl ExplicitDenial, True, s')"
  using demo_run_first [of demo_denial sid servers "Inl ExplicitDenial"]
  by (simp add: demo_challenge_def process_auth_response_def handle_auth_denial_def demo_denial_def)

theorem auth_success_needs_grant_witness:
  "grant_evidence demo_crypto demo_codec demo_hex demo_csk demo_challenge [(''phone'', demo_server)]
     (udp_deliverable demo_codec (demo_net (enc_packet demo_codec (demo_answer demo_grant))))"
  using auth_success_needs_grant [of 602 demo_crypto demo_codec demo_hex quiet_env 36692 demo_packet demo_csk
      demo_challenge "[(''phone'', demo_server)]"] demo_login [of "''phone''" "[(''phone'', demo_server)]"] by auto

text \<open>
  A login is refused explicitly only by a paired phone. When the loop reports a denial, a
  deliverable packet opens under the client's symmetric key, is signed by a paired server and denies
  exactly this challenge; and the confirmation is sent exactly after a grant or a denial.
\<close>

theorem explicit_denial_needs_signed_denial:
  assumes "authenticate_with_transport fuel L K H (UdpTransport E K port) packet csk chal servers s = Some (r, conf, s')"
    and "authenticate_with_transport fuel L K H (BleTransport L K B C) packet csk chal servers b = Some (r', conf', b')"
  shows "(r = Inl ExplicitDenial \<longrightarrow> denial_evidence L K H csk chal servers (udp_deliverable K s)) \<and>
    (conf \<longleftrightarrow> r = Inr () \<or> r = Inl ExplicitDenial) \<and>
    (r' = Inl ExplicitDenial \<longrightarrow> denial_evidence L K H csk chal servers (ble_deliverable K b)) \<and>
    (conf' \<longleftrightarrow> r' = Inr () \<or> r' = Inl ExplicitDenial)"
  using udp_laws.authenticate_sound [OF assms(1)] ble_laws.authenticate_sound [OF assms(2)] by blast

definition idle_ble :: ble where
  "idle_ble = \<lparr>ble_clock = 0, gatt_writes = [], response_queue = [], ble_rnd = [], request_packet = None,
     adv_handle = False, gatt_handle = False, confirmation_data = None, connected_devices = [],
     disconnected = [], shutdown_started = False, shutdown_tasks = []\<rparr>"

definition demo_ble_env :: ble_env where
  "demo_ble_env = \<lparr>advertise = (\<lambda>_. Inr ()), serve_gatt_application = Inr (), device_known = (\<lambda>_. True),
     disconnect_ok = (\<lambda>_. True), grace = None\<rparr>"

definition demo_ble_config :: ble_config where
  "demo_ble_config = \<lparr>bc_temporal_id = [], bc_csk = demo_csk, bc_keypair = demo_phone, bc_challenge = demo_challenge\<rparr>"

abbreviation demo_ble_run :: "server_map \<Rightarrow> ((auth_error + unit) \<times> bool \<times> ble) option" where
  "demo_ble_run servers \<equiv> authenticate_with_transport 602 demo_crypto demo_codec demo_hex
     (BleTransport demo_crypto demo_codec demo_ble_env demo_ble_config) demo_packet demo_csk demo_challenge servers idle_ble"

lemma idle_ble_pending [simp]: "ble_pending idle_ble = 0"
  by (simp add: ble_pending_def idle_ble_def)

theorem explicit_denial_needs_signed_denial_witness:
  "\<exists>s'. demo_run demo_denial [(''phone'', demo_server)] = Some (Inl ExplicitDenial, True, s') \<and>
     denial_evidence demo_crypto demo_codec demo_hex demo_csk demo_challenge [(''phone'', demo_server)]
       (udp_deliverable demo_codec (demo_net (enc_packet demo_codec (demo_answer demo_denial))))"
proof -
  obtain s' where run: "demo_run demo_denial [(''phone'', demo_server)] = Some (Inl ExplicitDenial, True, s')"
    using demo_refusal [of "''phone''" "[(''phone'', demo_server)]"] by auto
  have "\<exists>x. demo_ble_run [(''phone'', demo_server)] = Some x"
    by (rule ble_laws.authenticate_returns) simp
  then obtain x where x: "demo_ble_run [(''phone'', demo_server)] = Some (fst x, fst (snd x), snd (snd x))"
    by auto
  show ?thesis
    using explicit_denial_needs_signed_denial [OF run x] run by blast
qed

text \<open>
  C13. Authentication always returns. Every round without an answer waits at least 200 ms of the 120 s
  a session may take, so the loop needs at most 600 rounds more than there are packets to deliver,
  whatever the network, the phones and the Bluetooth stack do.
\<close>

theorem authentication_returns:
  assumes "length (inbox s) + 600 < fuel" and "ble_pending b + 600 < fuel"
  shows "(\<exists>r. authenticate_with_transport fuel L K H (UdpTransport E K port) packet csk chal servers s = Some r) \<and>
    (\<exists>r. authenticate_with_transport fuel L K H (BleTransport L K B C) packet csk chal servers b = Some r)"
  by (intro conjI udp_laws.authenticate_returns [OF assms(1)] ble_laws.authenticate_returns [OF assms(2)])

theorem authentication_returns_witness:
  "(\<exists>r. demo_run demo_grant [] = Some r) \<and> (\<exists>r. demo_ble_run [] = Some r)"
  by (rule authentication_returns) (simp_all add: demo_net_def)

text \<open>
  C9. A tap on a paired phone logs the user in. If the first datagram to arrive within 200 ms of the
  request comes from another host and is the phone's grant for the challenge, signed, sealed and
  encoded with the phone's own code, and the phone's key is paired, then
  \<^verbatim>\<open>authenticate_with_transport\<close> succeeds over UDP in its first round and confirms the grant.
\<close>

theorem honest_phone_unlocks:
  assumes "crypto_ok L" "codec_ok K" "ed_wf L phone" "length chal = 32" "length rnd = 12"
    and "create_auth_grant L phone chal = Inr g"
    and "sign_wrapper_message L K (wrap_auth_grant g) phone = Inr w"
    and "create_encrypted_packet_with_csk_nonce L K now (Some rnd) csk w = Inr p"
    and "length (enc_packet K p) \<le> MAX_UDP_MESSAGE_SIZE"
    and "(sid, server) \<in> set servers" "hex_decode H (ps_public_key server) = Some (verifying_key phone)"
    and "inbox s = (t, Datagram (enc_packet K p) addr) # rest" "t \<le> clock s + from_millis 200"
    and "foreign_ip E (normalize_ip (sa_ip addr)) s"
  shows "\<exists>s'. authenticate_with_transport (Suc fuel) L K H (UdpTransport E K port) packet csk chal servers s
    = Some (Inr (), True, s')"
proof (rule authenticate_accepts [OF udp_send_request _ open_sealed_packet [OF assms(1,2,5,8)] assms(10)])
  show "fst (tr_receive_response (UdpTransport E K port) (from_millis 200) (send_to_multicast_groups E K port packet s))
      = Inr (Response p addr)"
    using udp_first_datagram [OF assms(12,13,9,14) send_to_multicast_groups_frame, of K port] dec_enc_packet [OF assms(2)]
    by simp
  show "paired_key H server = Some (verifying_key phone)"
    using assms(3,11) ed_public_ok [OF assms(1)] by (simp add: paired_key_Some ed_wf_def)
  show "verify_auth_grant L K w chal (verifying_key phone) = Inr ()"
    using sign_wrapper_message_fields [OF assms(7)] verify_signed_wrapper [OF assms(1,3,7)]
      verify_ed25519_sign [OF assms(1,3)] assms(4,6)
    by (auto simp: verify_auth_grant_iff create_auth_grant_def wrap_auth_grant_def)
qed

theorem honest_phone_unlocks_witness:
  "\<exists>s'. demo_run demo_grant [(''phone'', demo_server)] = Some (Inr (), True, s')"
proof -
  note small = demo_grant_small
  have chal: "length demo_challenge = 32" "length (replicate 12 3 :: bytes) = 12"
    by (simp_all add: demo_challenge_def)
  have g: "create_auth_grant demo_crypto demo_phone demo_challenge
      = Inr (AuthenticationGrant (sign_ed25519 demo_crypto demo_phone demo_challenge))"
    by (simp add: create_auth_grant_def chal)
  have w: "sign_wrapper_message demo_crypto demo_codec
      (wrap_auth_grant (AuthenticationGrant (sign_ed25519 demo_crypto demo_phone demo_challenge))) demo_phone
      = Inr (demo_signed demo_grant)"
    by (simp add: sign_wrapper_message_def wrap_auth_grant_def demo_signed_def demo_grant_def Let_def)
  have k: "(''phone'', demo_server) \<in> set [(''phone'', demo_server)]"
      "hex_decode demo_hex (ps_public_key demo_server) = Some (verifying_key demo_phone)"
    using demo_paired_key by (simp_all add: paired_key_Some)
  have "inbox (demo_net b) = (5, Datagram b demo_addr) # []" "5 \<le> clock (demo_net b) + from_millis 200" for b
    by (simp_all add: demo_net_def from_millis_def)
  from honest_phone_unlocks [OF demo_crypto_ok demo_codec_ok demo_phone_wf chal g w demo_answer(1) [OF small]
      demo_answer(3) [OF small] k this demo_addr_foreign, where fuel = 601]
  show ?thesis
    by simp
qed

text \<open>
  C38. One stray datagram ends the UDP attempt. If the first datagram to arrive from another host does
  not decode, or decodes but does not open under the client's key, the loop returns the error at once;
  the packets that follow it, a genuine grant included, are not looked at. (The log line says that
  the packet is rejected; the replay and signature checks next to it keep waiting.)
\<close>

theorem stray_datagram_ends_udp:
  assumes "inbox s = (t, Datagram b addr) # rest" "t \<le> clock s + from_millis 200" "length b \<le> MAX_UDP_MESSAGE_SIZE"
    and "foreign_ip E (normalize_ip (sa_ip addr)) s"
    and "dec_packet K b = None \<and> err = AeNetwork NetDecode \<or>
      (\<exists>p e. dec_packet K b = Some p \<and> decrypt_encrypted_packet_with_csk_nonce L K csk p = Inl e \<and> err = AeProtocol e)"
  shows "\<exists>s'. authenticate_with_transport (Suc fuel) L K H (UdpTransport E K port) packet csk chal servers s
    = Some (Inl err, False, s')"
proof -
  note r = udp_first_datagram [OF assms(1-4) send_to_multicast_groups_frame, of K port E K port packet]
  from assms(5) show ?thesis
  proof (elim disjE conjE exE)
    assume "dec_packet K b = None" "err = AeNetwork NetDecode"
    then show ?thesis
      using authenticate_fails_on_error [OF udp_send_request, of E K port packet s err fuel L K H csk chal servers] r by simp
  next
    fix p e
    assume *: "dec_packet K b = Some p" "decrypt_encrypted_packet_with_csk_nonce L K csk p = Inl e" "err = AeProtocol e"
    obtain s2 where "tr_receive_response (UdpTransport E K port) (from_millis 200)
        (send_to_multicast_groups E K port packet s) = (Inr (Response p addr), s2)"
      using r *(1) by (metis option.simps(5) prod.collapse)
    then show ?thesis
      using *(2,3) session_timeout_pos
      by (simp add: authenticate_with_transport_def authenticate_round_def wait_for_response_def retry_interval_0
          udp_send_request Let_def)
  qed
qed

theorem stray_datagram_ends_udp_witness:
  "\<exists>s'. authenticate_with_transport 602 demo_crypto demo_codec demo_hex (UdpTransport quiet_env demo_codec 36692)
      demo_packet demo_csk demo_challenge [(''phone'', demo_server)]
      (empty_net\<lparr>inbox := [(5, Datagram [] demo_addr), (6, Datagram (enc_packet demo_codec (demo_answer demo_grant)) demo_addr)]\<rparr>)
     = Some (Inl (AeNetwork NetDecode), False, s')"
proof -
  let ?s = "empty_net\<lparr>inbox := [(5, Datagram [] demo_addr), (6, Datagram (enc_packet demo_codec (demo_answer demo_grant)) demo_addr)]\<rparr>"
  have "foreign_ip quiet_env (normalize_ip (sa_ip demo_addr)) ?s"
    using demo_addr_foreign [of "[]"] by (simp add: foreign_ip_def demo_net_def)
  moreover have "dec_packet demo_codec [] = None"
    by (simp add: demo_dec_packet_def)
  ultimately show ?thesis
    using stray_datagram_ends_udp [of ?s 5 "[]" demo_addr _ quiet_env demo_codec "AeNetwork NetDecode" demo_crypto demo_csk 601]
    by (simp add: from_millis_def MAX_UDP_MESSAGE_SIZE_def)
qed

end
