(* ===== verification/Firewall.thy ===== *)
theory Firewall
  imports Prelude "HOL-Library.AList"
begin

text \<open>
  The firewall guard, \<^verbatim>\<open>src/shared/src/firewall.rs\<close>: a port is opened while someone holds a
  reference-counted guard for it and closed by the destructor of the last one.

  A guard object is a number; \<open>strong\<close> counts its references and a \<^verbatim>\<open>Weak\<close> pointer upgrades
  exactly while that count is positive. Dropping the last reference and running the destructor are
  two steps, because other threads may create a guard in between; \<open>closing\<close> holds the destructors
  that are still to take the port's lock. The locks are poisoned only by a panic while they are
  held, which no code under them does. The tools that change the packet filter are the parameter
  \<open>fw_env\<close>, and \<open>rules\<close> is the filter they maintain.
\<close>

section \<open>Opening and closing a port\<close>

datatype protocol = Tcp | Udp

datatype firewall_error = Iptables | FirewallCmd | FwIo io_error

datatype fw_action = OpenPort | ClosePort

datatype fw_status = StatusOk | StatusFailed | ToolMissing | ToolIo io_error

record fw_env =
  firewalld_running :: bool
  firewall_cmd :: "fw_action \<Rightarrow> u16 \<Rightarrow> protocol \<Rightarrow> fw_status"
  iptables :: "fw_action \<Rightarrow> u16 \<Rightarrow> protocol \<Rightarrow> fw_status"

record port_control =
  weak :: "nat option"
  is_open :: bool

datatype firewall_guard = FirewallGuard (fg_port: u16) (fg_protocol: protocol)

record fw =
  guards :: "(u16 \<times> port_control) list"
  objects :: "firewall_guard list"
  strong :: "nat list"
  closing :: "firewall_guard list"
  rules :: "(u16 \<times> protocol) list"

definition run_firewalld_port_action :: "fw_env \<Rightarrow> fw_action \<Rightarrow> u16 \<Rightarrow> protocol \<Rightarrow> fw \<Rightarrow> (firewall_error + unit) \<times> fw" where
  "run_firewalld_port_action F action port protocol st =
     (case firewall_cmd F action port protocol of
        StatusOk \<Rightarrow>
          (Inr (), st\<lparr>rules := (case action of OpenPort \<Rightarrow> List.insert (port, protocol) (rules st)
                               | ClosePort \<Rightarrow> removeAll (port, protocol) (rules st))\<rparr>)
      | _ \<Rightarrow> (Inl FirewallCmd, st))"

definition open_port :: "fw_env \<Rightarrow> u16 \<Rightarrow> protocol \<Rightarrow> fw \<Rightarrow> (firewall_error + unit) \<times> fw" where
  "open_port F port protocol st =
     (if firewalld_running F then run_firewalld_port_action F OpenPort port protocol st
      else
        (case iptables F OpenPort port protocol of
           StatusOk \<Rightarrow> (Inr (), st\<lparr>rules := (port, protocol) # rules st\<rparr>)
         | StatusFailed \<Rightarrow> (Inl Iptables, st)
         | ToolMissing \<Rightarrow> (Inr (), st)
         | ToolIo e \<Rightarrow> (Inl (FwIo e), st)))"

definition close_port :: "fw_env \<Rightarrow> u16 \<Rightarrow> protocol \<Rightarrow> fw \<Rightarrow> (firewall_error + unit) \<times> fw" where
  "close_port F port protocol st =
     (if firewalld_running F then run_firewalld_port_action F ClosePort port protocol st
      else
        (case iptables F ClosePort port protocol of
           StatusOk \<Rightarrow> (Inr (), st\<lparr>rules := remove1 (port, protocol) (rules st)\<rparr>)
         | StatusFailed \<Rightarrow> (Inl Iptables, st)
         | ToolMissing \<Rightarrow> (Inr (), st)
         | ToolIo e \<Rightarrow> (Inl (FwIo e), st)))"

section \<open>The guard\<close>

definition live :: "fw \<Rightarrow> nat \<Rightarrow> bool" where
  "live st g = (g < length (strong st) \<and> 0 < strong st ! g)"

definition upgrade :: "fw \<Rightarrow> nat option \<Rightarrow> nat option" where
  "upgrade st w = (case w of Some g \<Rightarrow> if live st g then Some g else None | None \<Rightarrow> None)"

definition port_ctrl :: "fw \<Rightarrow> u16 \<Rightarrow> port_control" where
  "port_ctrl st port =
     (case map_of (guards st) port of Some c \<Rightarrow> c | None \<Rightarrow> \<lparr>weak = None, is_open = False\<rparr>)"

definition set_ctrl :: "u16 \<Rightarrow> port_control \<Rightarrow> fw \<Rightarrow> fw" where
  "set_ctrl port c st = st\<lparr>guards := AList.update port c (guards st)\<rparr>"

definition FirewallGuard_new :: "fw_env \<Rightarrow> u16 \<Rightarrow> protocol \<Rightarrow> fw \<Rightarrow> (firewall_error + nat) \<times> fw" where
  "FirewallGuard_new F port protocol st =
     (let ctrl = port_ctrl st port;
          st = set_ctrl port ctrl st
      in case upgrade st (weak ctrl) of
           Some existing \<Rightarrow> (Inr existing, st\<lparr>strong := (strong st)[existing := Suc (strong st ! existing)]\<rparr>)
         | None \<Rightarrow>
             (case (if \<not> is_open ctrl then open_port F port protocol st else (Inr (), st)) of
                (Inl e, st) \<Rightarrow> (Inl e, st)
              | (Inr _, st) \<Rightarrow>
                  let guard = length (objects st)
                  in (Inr guard,
                      set_ctrl port \<lparr>weak = Some guard, is_open = True\<rparr>
                        (st\<lparr>objects := objects st @ [FirewallGuard port protocol], strong := strong st @ [1]\<rparr>))))"

text \<open>Giving up one reference; the last one leaves the destructor to run.\<close>

definition drop_reference :: "nat \<Rightarrow> fw \<Rightarrow> fw" where
  "drop_reference g st =
     (let st' = st\<lparr>strong := (strong st)[g := strong st ! g - 1]\<rparr>
      in if live st g \<and> \<not> live st' g then st'\<lparr>closing := closing st' @ [objects st' ! g]\<rparr> else st')"

definition do_drop_close :: "fw_env \<Rightarrow> u16 \<Rightarrow> protocol \<Rightarrow> fw \<Rightarrow> fw" where
  "do_drop_close F port protocol st =
     (case map_of (guards st) port of
        None \<Rightarrow> st
      | Some ctrl \<Rightarrow>
          if upgrade st (weak ctrl) = None \<and> is_open ctrl
          then set_ctrl port (ctrl\<lparr>is_open := False\<rparr>) (snd (close_port F port protocol st))
          else st)"

definition run_destructor :: "fw_env \<Rightarrow> firewall_guard \<Rightarrow> fw \<Rightarrow> fw" where
  "run_destructor F d st = do_drop_close F (fg_port d) (fg_protocol d) (st\<lparr>closing := remove1 d (closing st)\<rparr>)"

text \<open>A drop that nobody interrupts.\<close>

definition drop_guard :: "fw_env \<Rightarrow> nat \<Rightarrow> fw \<Rightarrow> fw" where
  "drop_guard F g st =
     (let st' = drop_reference g st
      in if live st g \<and> \<not> live st' g then run_destructor F (objects st' ! g) st' else st')"

definition fw_init :: fw where
  "fw_init = \<lparr>guards = [], objects = [], strong = [], closing = [], rules = []\<rparr>"

text \<open>
  The threads that share the guard map: any of them may ask for a guard of \<open>R\<close>, give one up, or
  run a destructor whose turn has come.
\<close>

inductive fw_step :: "fw_env \<Rightarrow> (u16 \<times> protocol) set \<Rightarrow> fw \<Rightarrow> fw \<Rightarrow> bool" for F R where
  fw_new: "(port, protocol) \<in> R \<Longrightarrow> FirewallGuard_new F port protocol st = (r, st') \<Longrightarrow> fw_step F R st st'"
| fw_drop: "live st g \<Longrightarrow> fw_step F R st (drop_reference g st)"
| fw_close: "d \<in> set (closing st) \<Longrightarrow> fw_step F R st (run_destructor F d st)"

inductive fw_reachable :: "fw_env \<Rightarrow> (u16 \<times> protocol) set \<Rightarrow> fw \<Rightarrow> bool" for F R where
  fw_start: "fw_reachable F R fw_init"
| fw_next: "fw_reachable F R st \<Longrightarrow> fw_step F R st st' \<Longrightarrow> fw_reachable F R st'"

section \<open>The invariant\<close>

text \<open>
  The tools do what they are told, and every port is used with one protocol.
\<close>

definition fw_reliable :: "fw_env \<Rightarrow> bool" where
  "fw_reliable F \<longleftrightarrow> (\<forall>a p q. firewall_cmd F a p q = StatusOk \<and> iptables F a p q = StatusOk)"

definition single_protocol :: "(u16 \<times> protocol) set \<Rightarrow> bool" where
  "single_protocol R \<longleftrightarrow> (\<forall>port p q. (port, p) \<in> R \<and> (port, q) \<in> R \<longrightarrow> p = q)"

definition guard_pair :: "firewall_guard \<Rightarrow> u16 \<times> protocol" where
  "guard_pair d = (fg_port d, fg_protocol d)"

definition held :: "fw \<Rightarrow> u16 \<Rightarrow> bool" where
  "held st port \<longleftrightarrow> (\<exists>g. live st g \<and> fg_port (objects st ! g) = port)"

definition being_closed :: "fw \<Rightarrow> u16 \<Rightarrow> bool" where
  "being_closed st port \<longleftrightarrow> port \<in> fg_port ` set (closing st)"

definition guards_ok :: "(u16 \<times> protocol) set \<Rightarrow> fw \<Rightarrow> bool" where
  "guards_ok R st \<longleftrightarrow>
     length (strong st) = length (objects st) \<and>
     guard_pair ` set (objects st) \<subseteq> R \<and> guard_pair ` set (closing st) \<subseteq> R \<and>
     (\<forall>g. live st g \<longrightarrow> weak (port_ctrl st (fg_port (objects st ! g))) = Some g) \<and>
     (\<forall>port g. weak (port_ctrl st port) = Some g \<longrightarrow> g < length (objects st) \<and> fg_port (objects st ! g) = port)"

definition rules_ok :: "(u16 \<times> protocol) set \<Rightarrow> fw \<Rightarrow> bool" where
  "rules_ok R st \<longleftrightarrow>
     distinct (rules st) \<and> set (rules st) = {(port, p). (port, p) \<in> R \<and> is_open (port_ctrl st port)}"

definition fw_inv :: "(u16 \<times> protocol) set \<Rightarrow> fw \<Rightarrow> bool" where
  "fw_inv R st \<longleftrightarrow> guards_ok R st \<and> rules_ok R st \<and>
     (\<forall>port. (held st port \<longrightarrow> is_open (port_ctrl st port)) \<and>
        (is_open (port_ctrl st port) \<longrightarrow> held st port \<or> being_closed st port))"

lemma port_ctrl_set_ctrl [simp]: "port_ctrl (set_ctrl port c st) q = (if q = port then c else port_ctrl st q)"
  by (simp add: port_ctrl_def set_ctrl_def update_conv')

lemma set_ctrl_frame [simp]:
  "objects (set_ctrl port c st) = objects st" "strong (set_ctrl port c st) = strong st"
  "closing (set_ctrl port c st) = closing st" "rules (set_ctrl port c st) = rules st"
  "live (set_ctrl port c st) = live st"
  by (simp_all add: set_ctrl_def live_def fun_eq_iff)

lemma do_drop_close_alt:
  "do_drop_close F port protocol st =
     (let ctrl = port_ctrl st port
      in if upgrade st (weak ctrl) = None \<and> is_open ctrl
         then set_ctrl port (ctrl\<lparr>is_open := False\<rparr>) (snd (close_port F port protocol st)) else st)"
  by (simp add: do_drop_close_def port_ctrl_def Let_def split: option.split)

lemma tools_rules:
  assumes "fw_reliable F"
  shows "(port, p) \<notin> set (rules st) \<Longrightarrow> open_port F port p st = (Inr (), st\<lparr>rules := (port, p) # rules st\<rparr>)"
    and "distinct (rules st) \<Longrightarrow> close_port F port p st = (Inr (), st\<lparr>rules := removeAll (port, p) (rules st)\<rparr>)"
  using assms
  by (auto simp: fw_reliable_def open_port_def close_port_def run_firewalld_port_action_def distinct_remove1_removeAll)

lemma live_drop:
  "live (st\<lparr>strong := (strong st)[g := strong st ! g - 1]\<rparr>) h \<longleftrightarrow> live st h \<and> (h = g \<longrightarrow> 1 < strong st ! g)"
  by (cases "h = g") (auto simp: live_def)

lemma upgrade_None:
  assumes "guards_ok R st"
  shows "upgrade st (weak (port_ctrl st port)) = None \<longleftrightarrow> \<not> held st port"
  using assms by (auto simp: guards_ok_def upgrade_def held_def split: option.split)

lemma upgrade_Some:
  assumes "guards_ok R st" "upgrade st (weak (port_ctrl st port)) = Some g"
  shows "live st g" "fg_port (objects st ! g) = port" "weak (port_ctrl st port) = Some g"
  using assms by (auto simp: guards_ok_def upgrade_def split: option.splits if_splits)

lemma port_ctrl_frame [simp]:
  "port_ctrl (st\<lparr>strong := x\<rparr>) = port_ctrl st" "port_ctrl (st\<lparr>closing := y\<rparr>) = port_ctrl st"
  "port_ctrl (st\<lparr>rules := z\<rparr>) = port_ctrl st" "port_ctrl (st\<lparr>objects := v\<rparr>) = port_ctrl st"
  by (simp_all add: port_ctrl_def fun_eq_iff)

lemma fw_invI:
  assumes "guards_ok R st" "rules_ok R st"
    and "\<And>port. held st port \<Longrightarrow> is_open (port_ctrl st port)"
    and "\<And>port. is_open (port_ctrl st port) \<Longrightarrow> held st port \<or> being_closed st port"
  shows "fw_inv R st"
  using assms by (simp add: fw_inv_def)

lemma fw_invD:
  assumes "fw_inv R st"
  shows "guards_ok R st" "rules_ok R st" "held st port \<Longrightarrow> is_open (port_ctrl st port)"
    "is_open (port_ctrl st port) \<Longrightarrow> held st port \<or> being_closed st port"
  using assms by (simp_all add: fw_inv_def)

lemma drop_reference_inv:
  assumes inv: "fw_inv R st" and g: "live st g"
  shows "fw_inv R (drop_reference g st)"
proof (cases "1 < strong st ! g")
  case True
  let ?st = "st\<lparr>strong := (strong st)[g := strong st ! g - 1]\<rparr>"
  have l: "live ?st = live st"
    using True live_drop [of st g] by (auto simp: fun_eq_iff)
  then have "drop_reference g st = ?st"
    by (simp add: drop_reference_def Let_def)
  moreover have "fw_inv R ?st"
    using inv l by (simp add: fw_inv_def guards_ok_def rules_ok_def held_def being_closed_def)
  ultimately show ?thesis
    by simp
next
  case False
  let ?st = "st\<lparr>strong := (strong st)[g := strong st ! g - 1], closing := closing st @ [objects st ! g]\<rparr>"
  have l: "live ?st h \<longleftrightarrow> live st h \<and> h \<noteq> g" for h
    using False live_drop [of st g h] by (simp add: live_def)
  have eq: "drop_reference g st = ?st"
    using False g live_drop [of st g g] by (simp add: drop_reference_def Let_def)
  have gl: "g < length (objects st)"
    using g inv by (simp add: live_def fw_inv_def guards_ok_def)
  then have "guard_pair (objects st ! g) \<in> R"
    using inv nth_mem [OF gl] by (auto simp: fw_inv_def guards_ok_def)
  then have "guards_ok R ?st"
    using inv unfolding fw_inv_def guards_ok_def l by simp
  moreover have "rules_ok R ?st"
    using fw_invD(2) [OF inv] by (simp add: rules_ok_def)
  moreover have "held ?st port \<Longrightarrow> is_open (port_ctrl ?st port)" for port
    using fw_invD(3) [OF inv] unfolding held_def l by auto
  moreover have "is_open (port_ctrl ?st port) \<Longrightarrow> held ?st port \<or> being_closed ?st port" for port
    using fw_invD(4) [OF inv, of port] unfolding held_def being_closed_def l by auto
  ultimately show ?thesis
    unfolding eq by (rule fw_invI)
qed

lemma run_destructor_inv:
  assumes inv: "fw_inv R st" and d: "d \<in> set (closing st)" and rel: "fw_reliable F" and R: "single_protocol R"
  shows "fw_inv R (run_destructor F d st)"
proof -
  let ?st = "st\<lparr>closing := remove1 d (closing st)\<rparr>" and ?port = "fg_port d" and ?p = "fg_protocol d"
  have l: "live ?st = live st" "held ?st = held st"
    by (simp_all add: live_def held_def fun_eq_iff)
  have g: "guards_ok R ?st"
    using fw_invD(1) [OF inv] order_trans [OF image_mono [OF set_remove1_subset [of d "closing st"]], of guard_pair R]
    unfolding guards_ok_def l by simp
  have b: "being_closed st port \<Longrightarrow> port \<noteq> ?port \<Longrightarrow> being_closed ?st port" for port
  proof -
    assume "being_closed st port" "port \<noteq> ?port"
    then obtain x where "x \<in> set (closing st)" "fg_port x = port" "x \<noteq> d"
      by (auto simp: being_closed_def)
    then have "x \<in> set (remove1 d (closing st))"
      by simp
    then show "being_closed ?st port"
      using \<open>fg_port x = port\<close> by (auto simp: being_closed_def)
  qed
  have dR: "(?port, ?p) \<in> R"
    using inv d by (auto simp: fw_inv_def guards_ok_def guard_pair_def)
  show ?thesis
  proof (cases "upgrade ?st (weak (port_ctrl st ?port)) = None \<and> is_open (port_ctrl st ?port)")
    case True
    let ?c = "(port_ctrl st ?port)\<lparr>is_open := False\<rparr>"
    let ?st' = "set_ctrl ?port ?c (?st\<lparr>rules := removeAll (?port, ?p) (rules st)\<rparr>)"
    have eq: "run_destructor F d st = ?st'"
      using True inv tools_rules(2) [OF rel, of ?st]
      by (simp add: run_destructor_def do_drop_close_alt Let_def fw_inv_def rules_ok_def)
    have nh: "\<not> held st ?port"
      using True upgrade_None [OF g, of ?port] l by simp
    have l': "live ?st' = live st" "held ?st' = held st"
      by (simp_all add: live_def held_def fun_eq_iff)
    have w: "weak (port_ctrl ?st' q) = weak (port_ctrl st q)"
        "is_open (port_ctrl ?st' q) \<longleftrightarrow> is_open (port_ctrl st q) \<and> q \<noteq> ?port" for q
      by simp_all
    have "guards_ok R ?st'"
      using g unfolding guards_ok_def l l' w by simp
    moreover have "rules_ok R ?st'"
      using fw_invD(2) [OF inv] R dR unfolding rules_ok_def w single_protocol_def by (auto simp: distinct_removeAll)
    moreover have "held ?st' port \<Longrightarrow> is_open (port_ctrl ?st' port)" for port
      using fw_invD(3) [OF inv, of port] nh unfolding l' by auto
    moreover have "is_open (port_ctrl ?st' port) \<Longrightarrow> held ?st' port \<or> being_closed ?st' port" for port
      using fw_invD(4) [OF inv, of port] b [of port] unfolding l' by (auto simp: being_closed_def split: if_splits)
    ultimately show ?thesis
      unfolding eq by (intro fw_invI)
  next
    case False
    then have eq: "run_destructor F d st = ?st"
      by (auto simp: run_destructor_def do_drop_close_alt Let_def)
    have "is_open (port_ctrl st ?port) \<Longrightarrow> held st ?port"
      using False upgrade_None [OF g, of ?port] l by auto
    then have "is_open (port_ctrl st port) \<Longrightarrow> held st port \<or> being_closed ?st port" for port
      using fw_invD(4) [OF inv, of port] b [of port] by blast
    then show ?thesis
      unfolding eq using g fw_invD(2,3) [OF inv] l by (intro fw_invI) (simp_all add: rules_ok_def)
  qed
qed

lemma new_object_inv:
  assumes inv: "fw_inv R st" and nh: "\<not> held st port" and R: "(port, protocol) \<in> R"
    and rules: "rules_ok R (set_ctrl port \<lparr>weak = w, is_open = True\<rparr> (st\<lparr>rules := rs\<rparr>))"
  shows "fw_inv R (set_ctrl port \<lparr>weak = Some (length (objects st)), is_open = True\<rparr>
    (st\<lparr>objects := objects st @ [FirewallGuard port protocol], strong := strong st @ [1], rules := rs\<rparr>))"
    (is "fw_inv R ?st")
proof -
  note g = fw_invD(1) [OF inv, unfolded guards_ok_def]
  have l: "live ?st h \<longleftrightarrow> live st h \<or> h = length (objects st)" for h
    using g by (auto simp: live_def nth_append)
  have ob: "live st h \<Longrightarrow> objects ?st ! h = objects st ! h" "live st h \<Longrightarrow> h < length (objects st)" for h
    using g by (auto simp: live_def nth_append)
  have h: "held ?st q \<longleftrightarrow> held st q \<or> q = port" for q
    unfolding held_def l using ob by auto
  have "guards_ok R ?st"
    using g R nh ob unfolding guards_ok_def l held_def
    by (auto simp: guard_pair_def nth_append intro: less_SucI)
  moreover have "is_open (port_ctrl ?st q) = is_open (port_ctrl (set_ctrl port \<lparr>weak = w, is_open = True\<rparr> (st\<lparr>rules := rs\<rparr>)) q)" for q
    by simp
  then have "rules_ok R ?st"
    using rules unfolding rules_ok_def by simp
  moreover have "held ?st q \<Longrightarrow> is_open (port_ctrl ?st q)" for q
    using fw_invD(3) [OF inv, of q] unfolding h by auto
  moreover have "is_open (port_ctrl ?st q) \<Longrightarrow> held ?st q \<or> being_closed ?st q" for q
    using fw_invD(4) [OF inv, of q] unfolding h by (auto simp: being_closed_def split: if_splits)
  ultimately show ?thesis
    by (rule fw_invI)
qed

lemma set_same_ctrl_inv:
  assumes "fw_inv R st"
  shows "fw_inv R (set_ctrl port (port_ctrl st port) st)"
proof -
  have "port_ctrl (set_ctrl port (port_ctrl st port) st) = port_ctrl st"
    by (simp add: fun_eq_iff)
  then show ?thesis
    using assms by (simp add: fw_inv_def guards_ok_def rules_ok_def held_def being_closed_def)
qed

lemma FirewallGuard_new_inv:
  assumes inv0: "fw_inv R st0" and rel: "fw_reliable F" and R: "single_protocol R" "(port, protocol) \<in> R"
    and new: "FirewallGuard_new F port protocol st0 = (r, st')"
  shows "fw_inv R st'"
proof -
  let ?c = "port_ctrl st0 port" and ?st = "set_ctrl port (port_ctrl st0 port) st0"
  note inv = set_same_ctrl_inv [OF inv0, of port]
  have c: "port_ctrl ?st port = ?c" and same: "?st\<lparr>objects := os, strong := ss, rules := rules st0\<rparr> = ?st\<lparr>objects := os, strong := ss\<rparr>"
    and perm: "?st\<lparr>rules := rs, objects := os, strong := ss\<rparr> = ?st\<lparr>objects := os, strong := ss, rules := rs\<rparr>" for os ss rs
    by (auto intro: fw.equality simp: set_ctrl_def port_ctrl_def update_conv' split: option.split)
  note g = fw_invD(1) [OF inv]
  show ?thesis
  proof (cases "upgrade ?st (weak ?c)")
    case (Some e)
    let ?s = "?st\<lparr>strong := (strong ?st)[e := Suc (strong ?st ! e)]\<rparr>"
    have "live ?s = live ?st"
      using upgrade_Some(1) [OF g, of port e] Some c by (auto simp: live_def fun_eq_iff nth_list_update)
    then have "fw_inv R ?s"
      using inv by (simp add: fw_inv_def guards_ok_def rules_ok_def held_def being_closed_def)
    then show ?thesis
      using new Some by (simp add: FirewallGuard_new_def Let_def)
  next
    case None
    then have nh: "\<not> held ?st port"
      using upgrade_None [OF g, of port] c by simp
    show ?thesis
    proof (cases "is_open ?c")
      case True
      have "rules_ok R (set_ctrl port \<lparr>weak = None, is_open = True\<rparr> (?st\<lparr>rules := rules ?st\<rparr>))"
        using fw_invD(2) [OF inv] True by (auto simp: rules_ok_def)
      from new_object_inv [OF inv nh R(2) this] show ?thesis
        using new None True same by (simp add: FirewallGuard_new_def Let_def)
    next
      case False
      then have n: "(port, protocol) \<notin> set (rules ?st)"
        using fw_invD(2) [OF inv] c by (auto simp: rules_ok_def)
      have "rules_ok R (set_ctrl port \<lparr>weak = None, is_open = True\<rparr> (?st\<lparr>rules := (port, protocol) # rules ?st\<rparr>))"
        using fw_invD(2) [OF inv] False n R by (auto simp: rules_ok_def single_protocol_def split: if_splits)
      from new_object_inv [OF inv nh R(2) this] show ?thesis
        using new None False tools_rules(1) [OF rel n] perm by (simp add: FirewallGuard_new_def Let_def)
    qed
  qed
qed

lemma fw_reachable_inv:
  assumes "fw_reachable F R st" "fw_reliable F" "single_protocol R"
  shows "fw_inv R st"
  using assms(1)
proof induction
  case fw_start
  show ?case
    by (simp add: fw_init_def fw_inv_def guards_ok_def rules_ok_def held_def being_closed_def live_def port_ctrl_def)
next
  case (fw_next st st')
  from fw_next.hyps(2) show ?case
    by cases (use fw_next.IH assms(2,3) in \<open>auto intro: FirewallGuard_new_inv drop_reference_inv run_destructor_inv\<close>)
qed

text \<open>What taking and giving up a guard change.\<close>

lemma drop_guard_reachable:
  assumes "fw_reachable F R st" "live st g"
  shows "fw_reachable F R (drop_guard F g st)"
proof -
  let ?st = "drop_reference g st"
  have r: "fw_reachable F R ?st"
    using assms by (auto intro: fw_next fw_drop)
  show ?thesis
  proof (cases "live ?st g")
    case False
    then have "objects ?st ! g \<in> set (closing ?st)"
      using assms(2) by (auto simp: drop_reference_def Let_def live_def split: if_splits)
    then show ?thesis
      using r False assms(2) by (auto simp: drop_guard_def Let_def intro: fw_next fw_close)
  qed (use r in \<open>simp add: drop_guard_def Let_def\<close>)
qed

lemma run_destructor_frame:
  "live (run_destructor F d st) = live st" "objects (run_destructor F d st) = objects st"
  "closing (run_destructor F d st) = remove1 d (closing st)"
proof -
  have c: "strong (snd (close_port F port p s)) = strong s \<and> objects (snd (close_port F port p s)) = objects s \<and>
      closing (snd (close_port F port p s)) = closing s" for port p s
    by (simp add: close_port_def run_firewalld_port_action_def split: fw_status.split)
  then show "live (run_destructor F d st) = live st" "objects (run_destructor F d st) = objects st"
    "closing (run_destructor F d st) = remove1 d (closing st)"
    by (simp_all add: run_destructor_def do_drop_close_alt Let_def live_def fun_eq_iff)
qed

lemma drop_reference_frame:
  assumes "live st g"
  shows "live (drop_reference g st) h \<longleftrightarrow> live st h \<and> (h = g \<longrightarrow> 1 < strong st ! g)"
    and "objects (drop_reference g st) = objects st"
    and "closing (drop_reference g st) = closing st @ (if 1 < strong st ! g then [] else [objects st ! g])"
proof -
  let ?st = "st\<lparr>strong := (strong st)[g := strong st ! g - 1]\<rparr>"
  have c: "live (?st\<lparr>closing := x\<rparr>) = live ?st" for x
    by (simp add: live_def fun_eq_iff)
  have "drop_reference g st = (if 1 < strong st ! g then ?st else ?st\<lparr>closing := closing st @ [objects st ! g]\<rparr>)"
    using assms live_drop [of st g g] by (simp add: drop_reference_def Let_def)
  note eq = this
  show "live (drop_reference g st) h \<longleftrightarrow> live st h \<and> (h = g \<longrightarrow> 1 < strong st ! g)"
    unfolding eq if_distrib [of live] c using live_drop [of st g h] by simp
  show "objects (drop_reference g st) = objects st"
      "closing (drop_reference g st) = closing st @ (if 1 < strong st ! g then [] else [objects st ! g])"
    unfolding eq by simp_all
qed

lemma drop_guard_frame:
  assumes "live st g"
  shows "live (drop_guard F g st) h \<longleftrightarrow> live st h \<and> (h = g \<longrightarrow> 1 < strong st ! g)"
    and "objects (drop_guard F g st) = objects st" and "set (closing (drop_guard F g st)) \<subseteq> set (closing st)"
proof -
  note f = drop_reference_frame [OF assms]
  have "drop_guard F g st = (if 1 < strong st ! g then drop_reference g st else run_destructor F (objects st ! g) (drop_reference g st))"
    using assms f by (simp add: drop_guard_def Let_def)
  moreover have "set (remove1 d (xs @ [d])) \<subseteq> set xs" for d :: firewall_guard and xs
    by (auto simp: remove1_append dest: subsetD [OF set_remove1_subset])
  ultimately show "live (drop_guard F g st) h \<longleftrightarrow> live st h \<and> (h = g \<longrightarrow> 1 < strong st ! g)"
      "objects (drop_guard F g st) = objects st" "set (closing (drop_guard F g st)) \<subseteq> set (closing st)"
    using f by (simp_all add: run_destructor_frame)
qed

lemma guard_new_cases:
  assumes "FirewallGuard_new F port protocol st0 = (Inr g, st)"
  obtains (shared) "live st0 g" "strong st = (strong st0)[g := Suc (strong st0 ! g)]" "objects st = objects st0"
      "closing st = closing st0"
    | (fresh) "g = length (objects st0)" "strong st = strong st0 @ [1]" "objects st = objects st0 @ [FirewallGuard port protocol]"
      "closing st = closing st0"
proof -
  let ?ctrl = "port_ctrl st0 port"
  let ?st = "set_ctrl port ?ctrl st0"
  have o: "strong (snd (open_port F port protocol s)) = strong s" "objects (snd (open_port F port protocol s)) = objects s"
      "closing (snd (open_port F port protocol s)) = closing s" for s
    by (simp_all add: open_port_def run_firewalld_port_action_def split: fw_status.split)
  show ?thesis
  proof (cases "upgrade ?st (weak ?ctrl)")
    case (Some e)
    then have "live st0 e"
      by (auto simp: upgrade_def split: option.splits if_splits)
    then show ?thesis
      using Some assms shared by (auto simp: FirewallGuard_new_def Let_def)
  next
    case None
    show ?thesis
    proof (cases "is_open ?ctrl")
      case True
      then show ?thesis
        using None assms fresh by (auto simp: FirewallGuard_new_def Let_def)
    next
      case False
      obtain r s where "open_port F port protocol ?st = (r, s)"
        by (meson surj_pair)
      then show ?thesis
        using None False assms fresh o [of ?st] by (auto simp: FirewallGuard_new_def Let_def split: sum.splits)
    qed
  qed
qed

lemma guard_round_trip:
  assumes inv: "fw_inv R st0" and new: "FirewallGuard_new F port protocol st0 = (Inr g, st)"
  shows "live st g" "held (drop_guard F g st) q \<Longrightarrow> held st0 q"
    "set (closing (drop_guard F g st)) \<subseteq> set (closing st0)"
proof -
  have len: "length (strong st0) = length (objects st0)"
    using inv by (simp add: fw_inv_def guards_ok_def)
  have "live st g \<and> (held (drop_guard F g st) q \<longrightarrow> held st0 q) \<and> set (closing (drop_guard F g st)) \<subseteq> set (closing st0)"
    using new
  proof (cases rule: guard_new_cases)
    case shared
    have l: "live st = live st0"
      using shared by (auto simp: live_def fun_eq_iff nth_list_update)
    then show ?thesis
      using shared drop_guard_frame [of st g F] by (auto simp: held_def)
  next
    case fresh
    have l: "live st h \<longleftrightarrow> live st0 h \<or> h = g" for h
      using fresh len by (auto simp: live_def nth_append)
    moreover have "live st0 h \<Longrightarrow> objects st ! h = objects st0 ! h" "live st0 h \<Longrightarrow> h \<noteq> g" "strong st ! g = 1" for h
      using fresh len by (auto simp: live_def nth_append)
    ultimately show ?thesis
      using fresh drop_guard_frame [of st g F] by (auto simp: held_def)
  qed
  then show "live st g" "held (drop_guard F g st) q \<Longrightarrow> held st0 q"
      "set (closing (drop_guard F g st)) \<subseteq> set (closing st0)"
    by blast+
qed

lemma guard_new_succeeds:
  assumes "fw_reliable F"
  shows "\<exists>g st. FirewallGuard_new F port protocol st0 = (Inr g, st)"
  using assms
  by (auto simp: FirewallGuard_new_def Let_def fw_reliable_def open_port_def run_firewalld_port_action_def split: option.split)

lemma live_port_open:
  assumes inv: "fw_inv R st" and "live st g"
  shows "guard_pair (objects st ! g) \<in> R" "guard_pair (objects st ! g) \<in> set (rules st)"
proof -
  show "guard_pair (objects st ! g) \<in> R"
    using fw_invD(1) [OF inv] assms(2) by (auto simp: guards_ok_def live_def)
  moreover have "is_open (port_ctrl st (fg_port (objects st ! g)))"
    using fw_invD(3) [OF inv] assms(2) by (auto simp: held_def)
  ultimately show "guard_pair (objects st ! g) \<in> set (rules st)"
    using fw_invD(2) [OF inv] by (auto simp: rules_ok_def guard_pair_def)
qed

lemma unheld_port_closed:
  assumes inv: "fw_inv R st" and "closing st = []" "\<not> held st port"
  shows "(port, p) \<notin> set (rules st)"
  using fw_invD(4) [OF inv, of port] fw_invD(2) [OF inv] assms(2,3) by (auto simp: rules_ok_def being_closed_def)

section \<open>Properties\<close>

text \<open>
  C26. A port is open exactly while it is in use. In every state the sharing threads can reach, with
  tools that work and one protocol per port, the port of every live guard is open in the packet
  filter; once nobody holds a guard for a port and no destructor is left to run, it is closed again,
  also when a new guard is created between the last release and the destructor.
\<close>

theorem firewall_open_exactly_while_held:
  assumes "fw_reliable F" "single_protocol R" "fw_reachable F R st"
  shows "(\<forall>g. live st g \<longrightarrow> guard_pair (objects st ! g) \<in> set (rules st)) \<and>
    (\<forall>port p. closing st = [] \<and> \<not> held st port \<longrightarrow> (port, p) \<notin> set (rules st))"
  using live_port_open(2) unheld_port_closed fw_reachable_inv [OF assms(3,1,2)] by blast

definition demo_fw_env :: fw_env where
  "demo_fw_env = \<lparr>firewalld_running = False, firewall_cmd = (\<lambda>_ _ _. StatusOk), iptables = (\<lambda>_ _ _. StatusOk)\<rparr>"

definition demo_fw :: fw where
  "demo_fw = snd (FirewallGuard_new demo_fw_env 36692 Udp fw_init)"

lemma demo_fw_reachable: "fw_reachable demo_fw_env {(36692, Udp)} demo_fw"
  unfolding demo_fw_def by (rule fw_next [OF fw_start], rule fw_new) (simp, rule prod.collapse [symmetric])

lemma demo_fw_reliable: "fw_reliable demo_fw_env" "single_protocol {(36692, Udp)}"
  by (simp_all add: fw_reliable_def single_protocol_def demo_fw_env_def)

lemma demo_fw_eval: "demo_fw = \<lparr>guards = [(36692, \<lparr>weak = Some 0, is_open = True\<rparr>)],
    objects = [FirewallGuard 36692 Udp], strong = [1], closing = [], rules = [(36692, Udp)]\<rparr>"
  by (simp add: demo_fw_def FirewallGuard_new_def fw_init_def demo_fw_env_def open_port_def port_ctrl_def set_ctrl_def
      upgrade_def Let_def)

theorem firewall_open_exactly_while_held_witness:
  "(36692, Udp) \<in> set (rules demo_fw) \<and> (80, Tcp) \<notin> set (rules demo_fw)"
  using firewall_open_exactly_while_held [OF demo_fw_reliable demo_fw_reachable]
  by (auto simp: demo_fw_eval live_def guard_pair_def held_def nth_Cons split: nat.splits)

text \<open>
  The guard map confuses protocols. A guard for a port that is held with another protocol is
  granted at once, and the port is not opened for the protocol that was asked for: guards are
  looked up by port number alone. (The daemon's UDP port lies in the range from which the kernel
  takes the TCP port of a pairing session.)
\<close>

theorem second_protocol_not_opened:
  assumes "fw_reliable F" "single_protocol R" "fw_reachable F R st" "held st port" "(port, p) \<notin> R"
  shows "\<exists>g st'. FirewallGuard_new F port p st = (Inr g, st') \<and> (port, p) \<notin> set (rules st') \<and>
    fg_port (objects st' ! g) = port \<and> fg_protocol (objects st' ! g) \<noteq> p"
proof -
  note inv = fw_reachable_inv [OF assms(3,1,2)]
  let ?st = "set_ctrl port (port_ctrl st port) st"
  have "upgrade st (weak (port_ctrl st port)) \<noteq> None"
    using upgrade_None [OF fw_invD(1) [OF inv]] assms(4) by blast
  then obtain g where g: "upgrade st (weak (port_ctrl st port)) = Some g"
    by blast
  have up: "upgrade ?st = upgrade st"
    by (rule ext) (simp add: upgrade_def split: option.split)
  have l: "live st g" "fg_port (objects st ! g) = port"
    using upgrade_Some [OF fw_invD(1) [OF inv] g] by blast+
  then have "(port, fg_protocol (objects st ! g)) \<in> R"
    using fw_invD(1) [OF inv] by (auto simp: guards_ok_def live_def guard_pair_def)
  then have "fg_protocol (objects st ! g) \<noteq> p"
    using assms(5) by auto
  moreover have "(port, p) \<notin> set (rules st)"
    using fw_invD(2) [OF inv] assms(5) by (auto simp: rules_ok_def)
  ultimately show ?thesis
    using g l(2) by (simp add: FirewallGuard_new_def Let_def up)
qed

theorem second_protocol_not_opened_witness:
  "\<exists>g st'. FirewallGuard_new demo_fw_env 36692 Tcp demo_fw = (Inr g, st') \<and> (36692, Tcp) \<notin> set (rules st')"
  using second_protocol_not_opened [OF demo_fw_reliable demo_fw_reachable, of 36692 Tcp]
  by (auto simp: held_def demo_fw_eval live_def)

end
