(* ===== verification/Ipc.thy ===== *)
theory Ipc
  imports Framing
begin

text \<open>
  The messages between the daemon and its local clients, \<^verbatim>\<open>src/proto/ipc.proto\<close>. The codec is
  generated from that file and is the parameter \<open>ipc_codec\<close>; what the code relies on is that a
  decoded encoding is the message itself. Enumerations travel as 32-bit integers, so that a number
  outside the enumeration can arrive.
\<close>

section \<open>Messages\<close>

datatype pam_outcome = PamSuccess | PamDenied | PamTimeout | PamIgnore | PamError

fun outcome_number :: "pam_outcome \<Rightarrow> i32" where
  "outcome_number PamSuccess = 0"
| "outcome_number PamDenied = 1"
| "outcome_number PamTimeout = 2"
| "outcome_number PamIgnore = 3"
| "outcome_number PamError = 4"

record pam_authenticate_request =
  par_username :: string
  tty_present :: bool
  timeout_seconds :: u32
  par_request_id :: string

record pam_cancel_request =
  pcr_reason :: string
  pcr_request_id :: string

record pam_authenticate_response =
  resp_outcome :: i32
  resp_detail :: string
  resp_challenge :: bytes

datatype admin_status = AdminSuccess | AdminUnauthorized | AdminError

fun status_number :: "admin_status \<Rightarrow> i32" where
  "status_number AdminSuccess = 0"
| "status_number AdminUnauthorized = 1"
| "status_number AdminError = 2"

record paired_server_info =
  psi_name :: string
  psi_public_key :: string
  psi_allowed_users :: "string list"
  psi_paired_at :: string

record save_config_request =
  scr_hostname :: string
  scr_udp_port :: u32
  scr_enable_ble :: "bool option"
  scr_enable_network :: "bool option"

datatype admin_request =
    GetServers | StartPairing | WaitForPairing u32 | CompletePairing u32 | RemoveDevice string
  | RotateCsk | SaveConfig save_config_request | RecoverTpm | GetConfig | GetDaemonStatus

datatype admin_payload =
    ServersResponse "paired_server_info list"
  | StartPairingResponse string u32
  | WaitForPairingResponse string u32
  | CompletePairingResponse string
  | ConfigResponse string u32 bool bool
  | DaemonStatusResponse bool string

record admin_response =
  adm_status :: i32
  adm_error_message :: string
  adm_payload :: "admin_payload option"

text \<open>An administrative request may come without a payload.\<close>

datatype ipc_msg =
    PamAuthenticate pam_authenticate_request
  | PamCancel pam_cancel_request
  | PamResponse pam_authenticate_response
  | AdminRequest "admin_request option"
  | AdminResponse admin_response

type_synonym ipc_envelope = "ipc_msg option"

record ipc_codec =
  enc_envelope :: "ipc_envelope \<Rightarrow> bytes"
  dec_envelope :: "bytes \<Rightarrow> ipc_envelope option"

definition ipc_codec_ok :: "ipc_codec \<Rightarrow> bool" where
  "ipc_codec_ok I \<longleftrightarrow> (\<forall>m. dec_envelope I (enc_envelope I m) = Some m)"

section \<open>A concrete codec\<close>

text \<open>An instance of \<open>ipc_codec\<close> on which the witnesses run.\<close>

definition bool_field :: "bool \<Rightarrow> bytes" where
  "bool_field b = (if b then [1] else [])"

definition opt_bool_field :: "bool option \<Rightarrow> bytes" where
  "opt_bool_field b = (case b of None \<Rightarrow> [] | Some v \<Rightarrow> 1 # bool_field v)"

definition field_opt_bool :: "bytes \<Rightarrow> bool option" where
  "field_opt_bool f = (case f of [] \<Rightarrow> None | _ # v \<Rightarrow> Some (v \<noteq> []))"

fun request_fields :: "admin_request \<Rightarrow> bytes list" where
  "request_fields GetServers = [[1]]"
| "request_fields StartPairing = [[2]]"
| "request_fields (WaitForPairing p) = [[3], word_field p]"
| "request_fields (CompletePairing p) = [[4], word_field p]"
| "request_fields (RemoveDevice k) = [[5], str_bytes k]"
| "request_fields RotateCsk = [[6]]"
| "request_fields (SaveConfig c) = [[7], str_bytes (scr_hostname c), word_field (scr_udp_port c),
     opt_bool_field (scr_enable_ble c), opt_bool_field (scr_enable_network c)]"
| "request_fields RecoverTpm = [[8]]"
| "request_fields GetConfig = [[9]]"
| "request_fields GetDaemonStatus = [[10]]"

fun fields_request :: "bytes list \<Rightarrow> admin_request" where
  "fields_request [t] = (if t = [1] then GetServers else if t = [2] then StartPairing else if t = [6] then RotateCsk
     else if t = [8] then RecoverTpm else if t = [9] then GetConfig else GetDaemonStatus)"
| "fields_request [t, x] = (if t = [3] then WaitForPairing (field_word x) else if t = [4] then CompletePairing (field_word x)
     else RemoveDevice (field_str x))"
| "fields_request [t, h, p, b, n] = SaveConfig \<lparr>scr_hostname = field_str h, scr_udp_port = field_word p,
     scr_enable_ble = field_opt_bool b, scr_enable_network = field_opt_bool n\<rparr>"
| "fields_request _ = GetServers"

definition info_field :: "paired_server_info \<Rightarrow> bytes" where
  "info_field i = put_fields [str_bytes (psi_name i), str_bytes (psi_public_key i),
     put_fields (map str_bytes (psi_allowed_users i)), str_bytes (psi_paired_at i)]"

definition field_info :: "bytes \<Rightarrow> paired_server_info" where
  "field_info f = (let fs = get_fields f in \<lparr>psi_name = field_str (fs ! 0), psi_public_key = field_str (fs ! 1),
     psi_allowed_users = map field_str (get_fields (fs ! 2)), psi_paired_at = field_str (fs ! 3)\<rparr>)"

fun payload_resp_fields :: "admin_payload option \<Rightarrow> bytes list" where
  "payload_resp_fields None = []"
| "payload_resp_fields (Some (ServersResponse l)) = [[1], put_fields (map info_field l)]"
| "payload_resp_fields (Some (StartPairingResponse u p)) = [[2], str_bytes u, word_field p]"
| "payload_resp_fields (Some (WaitForPairingResponse u p)) = [[3], str_bytes u, word_field p]"
| "payload_resp_fields (Some (CompletePairingResponse h)) = [[4], str_bytes h]"
| "payload_resp_fields (Some (ConfigResponse h p b n)) = [[5], str_bytes h, word_field p, bool_field b, bool_field n]"
| "payload_resp_fields (Some (DaemonStatusResponse b e)) = [[6], bool_field b, str_bytes e]"

fun fields_payload_resp :: "bytes list \<Rightarrow> admin_payload option" where
  "fields_payload_resp [t, x] = Some (if t = [1] then ServersResponse (map field_info (get_fields x))
     else CompletePairingResponse (field_str x))"
| "fields_payload_resp [t, x, y] = Some (if t = [2] then StartPairingResponse (field_str x) (field_word y)
     else if t = [3] then WaitForPairingResponse (field_str x) (field_word y)
     else DaemonStatusResponse (x \<noteq> []) (field_str y))"
| "fields_payload_resp [t, h, p, b, n] = Some (ConfigResponse (field_str h) (field_word p) (b \<noteq> []) (n \<noteq> []))"
| "fields_payload_resp _ = None"

fun msg_fields :: "ipc_envelope \<Rightarrow> bytes list" where
  "msg_fields None = []"
| "msg_fields (Some (PamAuthenticate r)) = [[1], str_bytes (par_username r), bool_field (tty_present r),
     word_field (timeout_seconds r), str_bytes (par_request_id r)]"
| "msg_fields (Some (PamCancel r)) = [[2], str_bytes (pcr_reason r), str_bytes (pcr_request_id r)]"
| "msg_fields (Some (PamResponse r)) = [[3], int_field (resp_outcome r), str_bytes (resp_detail r), resp_challenge r]"
| "msg_fields (Some (AdminRequest None)) = [[4]]"
| "msg_fields (Some (AdminRequest (Some q))) = [[5], put_fields (request_fields q)]"
| "msg_fields (Some (AdminResponse r)) = [[6], int_field (adm_status r), str_bytes (adm_error_message r),
     put_fields (payload_resp_fields (adm_payload r)), [], []]"

fun fields_msg :: "bytes list \<Rightarrow> ipc_envelope option" where
  "fields_msg [] = Some None"
| "fields_msg [t] = Some (Some (AdminRequest None))"
| "fields_msg [t, q] = Some (Some (AdminRequest (Some (fields_request (get_fields q)))))"
| "fields_msg [t, r, i] = Some (Some (PamCancel \<lparr>pcr_reason = field_str r, pcr_request_id = field_str i\<rparr>))"
| "fields_msg [t, a, d, c] = Some (Some (PamResponse
     \<lparr>resp_outcome = field_int a, resp_detail = field_str d, resp_challenge = c\<rparr>))"
| "fields_msg [t, u, b, s, i] = Some (Some (PamAuthenticate \<lparr>par_username = field_str u, tty_present = (b \<noteq> []),
     timeout_seconds = field_word s, par_request_id = field_str i\<rparr>))"
| "fields_msg [t, a, e, p, x, y] = Some (Some (AdminResponse \<lparr>adm_status = field_int a, adm_error_message = field_str e,
     adm_payload = fields_payload_resp (get_fields p)\<rparr>))"
| "fields_msg _ = None"

definition demo_ipc_codec :: ipc_codec where
  "demo_ipc_codec = \<lparr>enc_envelope = (\<lambda>m. put_fields (msg_fields m)), dec_envelope = (\<lambda>b. fields_msg (get_fields b))\<rparr>"

lemma field_opt_bool_field [simp]: "field_opt_bool (opt_bool_field b) = b"
  by (cases b) (simp_all add: opt_bool_field_def field_opt_bool_def bool_field_def)

lemma bool_field_nonempty [simp]: "(bool_field b \<noteq> []) = b"
  by (simp add: bool_field_def)

lemma field_info_field [simp]: "field_info (info_field i) = i"
  by (simp add: field_info_def info_field_def Let_def comp_def)

lemma fields_request_fields [simp]: "fields_request (request_fields q) = q"
  by (cases q) simp_all

lemma fields_payload_resp_fields [simp]: "fields_payload_resp (payload_resp_fields p) = p"
  by (cases p rule: payload_resp_fields.cases) (simp_all add: comp_def)

lemma demo_ipc_codec_ok: "ipc_codec_ok demo_ipc_codec"
  unfolding ipc_codec_ok_def
proof
  fix m show "dec_envelope demo_ipc_codec (enc_envelope demo_ipc_codec m) = Some m"
    by (cases m rule: msg_fields.cases) (simp_all add: demo_ipc_codec_def)
qed

end
