(* ===== verification/Text.thy ===== *)
theory Text
  imports Prelude
begin

text \<open>
  What the program uses of the text functions of Rust's standard library: parsing and printing of
  integers, white space, lower case, searching, and the textual forms of IP addresses. Strings are
  lists of UTF-8 bytes, so the characters outside ASCII that matter are byte sequences.
\<close>

section \<open>Integers\<close>

datatype int_parse_error = IntEmpty | IntInvalidDigit | IntPosOverflow

fun show_int_parse_error :: "int_parse_error \<Rightarrow> string" where
  "show_int_parse_error IntEmpty = ''cannot parse integer from empty string''"
| "show_int_parse_error IntInvalidDigit = ''invalid digit found in string''"
| "show_int_parse_error IntPosOverflow = ''number too large to fit in target type''"

definition show_int :: "int \<Rightarrow> string" where
  "show_int i = (if i < 0 then ''-'' @ decimal (nat (- i)) else decimal (nat i))"

text \<open>\<^verbatim>\<open>char::to_digit\<close> for the radix 10 and 16.\<close>

definition to_digit :: "nat \<Rightarrow> char \<Rightarrow> nat option" where
  "to_digit radix c =
     (let n = of_char c :: nat;
          d = (if 48 \<le> n \<and> n \<le> 57 then n - 48
               else if 97 \<le> n \<and> n \<le> 122 then n - 87
               else if 65 \<le> n \<and> n \<le> 90 then n - 55 else radix)
      in if d < radix then Some d else None)"

primrec parse_digits :: "nat \<Rightarrow> nat \<Rightarrow> string \<Rightarrow> int_parse_error + nat" where
  "parse_digits bound acc [] = Inr acc"
| "parse_digits bound acc (c # cs) =
     (case to_digit 10 c of
        None \<Rightarrow> Inl IntInvalidDigit
      | Some x \<Rightarrow> if bound \<le> acc * 10 + x then Inl IntPosOverflow else parse_digits bound (acc * 10 + x) cs)"

text \<open>\<^verbatim>\<open>str::parse\<close> for an unsigned type with \<open>bound\<close> values.\<close>

definition parse_unsigned :: "nat \<Rightarrow> string \<Rightarrow> int_parse_error + nat" where
  "parse_unsigned bound s =
     (case s of
        [] \<Rightarrow> Inl IntEmpty
      | [c] \<Rightarrow> if c = CHR ''+'' \<or> c = CHR ''-'' then Inl IntInvalidDigit else parse_digits bound 0 s
      | c # cs \<Rightarrow> parse_digits bound 0 (if c = CHR ''+'' then cs else s))"

section \<open>White space, lower case, searching\<close>

text \<open>The characters with the Unicode property \<^verbatim>\<open>White_Space\<close>, in UTF-8.\<close>

definition whitespace_chars :: "string list" where
  "whitespace_chars = map (map char_of)
     ([[9], [10], [11], [12], [13], [32], [0xC2, 0x85], [0xC2, 0xA0], [0xE1, 0x9A, 0x80],
       [0xE2, 0x80, 0xA8], [0xE2, 0x80, 0xA9], [0xE2, 0x80, 0xAF], [0xE2, 0x81, 0x9F], [0xE3, 0x80, 0x80 :: nat]] @
      map (\<lambda>n. [0xE2, 0x80, n]) [0x80..<0x8B])"

text \<open>The number of bytes of the white-space character a string starts or ends with, or 0.\<close>

definition whitespace_prefix :: "string \<Rightarrow> nat" where
  "whitespace_prefix s =
     (case find (\<lambda>w. take (length w) s = w) whitespace_chars of Some w \<Rightarrow> length w | None \<Rightarrow> 0)"

definition whitespace_suffix :: "string \<Rightarrow> nat" where
  "whitespace_suffix s =
     (case find (\<lambda>w. length w \<le> length s \<and> drop (length s - length w) s = w) whitespace_chars of
        Some w \<Rightarrow> length w | None \<Rightarrow> 0)"

function trim_start :: "string \<Rightarrow> string" where
  "trim_start s = (if whitespace_prefix s = 0 \<or> s = [] then s else trim_start (drop (whitespace_prefix s) s))"
  by pat_completeness auto
termination
  by (relation "measure length") auto

function trim_end :: "string \<Rightarrow> string" where
  "trim_end s = (if whitespace_suffix s = 0 \<or> s = [] then s else trim_end (take (length s - whitespace_suffix s) s))"
  by pat_completeness auto
termination
  by (relation "measure length") auto

declare trim_start.simps [simp del] trim_end.simps [simp del]

definition trim :: "string \<Rightarrow> string" where
  "trim s = trim_end (trim_start s)"

function split_whitespace_from :: "string \<Rightarrow> string \<Rightarrow> string list" where
  "split_whitespace_from word s =
     (let n = whitespace_prefix s; done_word = (if word = [] then [] else [word])
      in case s of
           [] \<Rightarrow> done_word
         | c # cs \<Rightarrow> if n = 0 then split_whitespace_from (word @ [c]) cs
                     else done_word @ split_whitespace_from [] (drop n s))"
  by pat_completeness auto
termination
  by (relation "measure (\<lambda>(w, s). length s)") auto

declare split_whitespace_from.simps [simp del]

definition split_whitespace :: "string \<Rightarrow> string list" where
  "split_whitespace s = split_whitespace_from [] s"

text \<open>
  Lower case as far as ASCII text can be searched in the result: besides A to Z, the only characters
  whose lower case contains an ASCII letter are the Kelvin sign and the dotted capital I.
\<close>

fun to_lowercase :: "string \<Rightarrow> string" where
  "to_lowercase [] = []"
| "to_lowercase (c # s) =
     (let n = of_char c :: nat
      in if 65 \<le> n \<and> n \<le> 90 then char_of (n + 32) # to_lowercase s
         else if n = 0xE2 \<and> take 2 s = map char_of [0x84, 0xAA :: nat] then CHR ''k'' # to_lowercase (drop 2 s)
         else if n = 0xC4 \<and> take 1 s = [char_of (0xB0 :: nat)]
           then CHR ''i'' # char_of (0xCC :: nat) # char_of (0x87 :: nat) # to_lowercase (drop 1 s)
         else c # to_lowercase s)"

fun starts_with :: "string \<Rightarrow> string \<Rightarrow> bool" where
  "starts_with [] s = True"
| "starts_with (c # p) [] = False"
| "starts_with (c # p) (d # s) = (c = d \<and> starts_with p s)"

fun contains :: "string \<Rightarrow> string \<Rightarrow> bool" where
  "contains p [] = (p = [])"
| "contains p (c # s) = (starts_with p (c # s) \<or> contains p s)"

text \<open>What follows the last occurrence of a character, if it occurs.\<close>

definition after_last :: "char \<Rightarrow> string \<Rightarrow> string option" where
  "after_last c s = (if c \<in> set s then Some (rev (takeWhile (\<lambda>d. d \<noteq> c) (rev s))) else None)"

text \<open>\<^verbatim>\<open>str::split\<close> at a character: always at least one part.\<close>

fun split_at :: "char \<Rightarrow> string \<Rightarrow> string list" where
  "split_at c [] = [[]]"
| "split_at c (d # s) =
     (if d = c then [] # split_at c s
      else case split_at c s of [] \<Rightarrow> [[d]] | p # ps \<Rightarrow> (d # p) # ps)"

section \<open>IP addresses\<close>

text \<open>
  The textual forms of \<^verbatim>\<open>Ipv4Addr\<close> and \<^verbatim>\<open>Ipv6Addr\<close>: \<^verbatim>\<open>Display\<close> and the
  parser of \<^verbatim>\<open>FromStr\<close>. A reader takes a prefix of the string or fails without consuming.
\<close>

definition hex_char :: "nat \<Rightarrow> char" where
  "hex_char d = (if d < 10 then char_of (48 + d) else char_of (87 + d))"

fun hexadecimal :: "nat \<Rightarrow> string" where
  "hexadecimal n = (if n < 16 then [hex_char n] else hexadecimal (n div 16) @ [hex_char (n mod 16)])"

declare hexadecimal.simps [simp del]

fun join_with :: "string \<Rightarrow> string list \<Rightarrow> string" where
  "join_with sep [] = []"
| "join_with sep [x] = x"
| "join_with sep (x # xs) = x @ sep @ join_with sep xs"

text \<open>The digits of a number in a base, most significant first, and back.\<close>

fun base_digits :: "nat \<Rightarrow> nat \<Rightarrow> nat \<Rightarrow> nat list" where
  "base_digits b 0 v = []"
| "base_digits b (Suc n) v = base_digits b n (v div b) @ [v mod b]"

definition from_base :: "nat \<Rightarrow> nat list \<Rightarrow> nat" where
  "from_base b ds = foldl (\<lambda>a d. a * b + d) 0 ds"

definition octets :: "32 word \<Rightarrow> nat list" where
  "octets a = base_digits 256 4 (unat a)"

definition segments :: "128 word \<Rightarrow> nat list" where
  "segments a = base_digits 65536 8 (unat a)"

definition show_ipv4 :: "32 word \<Rightarrow> string" where
  "show_ipv4 a = join_with ''.'' (map decimal (octets a))"

text \<open>The longest run of zero segments, the first of them if several: its start and length.\<close>

fun zero_span :: "nat \<Rightarrow> nat \<times> nat \<Rightarrow> nat \<times> nat \<Rightarrow> nat list \<Rightarrow> nat \<times> nat" where
  "zero_span i cur longest [] = longest"
| "zero_span i cur longest (x # xs) =
     (if x = 0
      then let cur = (if snd cur = 0 then (i, 1) else (fst cur, Suc (snd cur)))
           in zero_span (Suc i) cur (if snd longest < snd cur then cur else longest) xs
      else zero_span (Suc i) (0, 0) longest xs)"

definition fmt_segments :: "nat list \<Rightarrow> string" where
  "fmt_segments xs = join_with '':'' (map hexadecimal xs)"

definition show_ipv6 :: "128 word \<Rightarrow> string" where
  "show_ipv6 a =
     (let xs = segments a; (start, len) = zero_span 0 (0, 0) (0, 0) xs
      in if take 6 xs = [0, 0, 0, 0, 0, 65535]
         then ''::ffff:'' @ show_ipv4 (of_nat (from_base 65536 (drop 6 xs)))
         else if 1 < len
         then fmt_segments (take start xs) @ ''::'' @ fmt_segments (drop (start + len) xs)
         else fmt_segments xs)"

fun read_digits :: "nat \<Rightarrow> nat \<Rightarrow> nat \<Rightarrow> nat \<Rightarrow> nat \<Rightarrow> string \<Rightarrow> (nat \<times> nat \<times> string) option" where
  "read_digits radix bound max_digits v n [] = Some (v, n, [])"
| "read_digits radix bound max_digits v n (c # s) =
     (case to_digit radix c of
        None \<Rightarrow> Some (v, n, c # s)
      | Some d \<Rightarrow>
          if bound \<le> v * radix + d \<or> max_digits < Suc n then None
          else read_digits radix bound max_digits (v * radix + d) (Suc n) s)"

definition read_number :: "nat \<Rightarrow> nat \<Rightarrow> nat \<Rightarrow> bool \<Rightarrow> string \<Rightarrow> (nat \<times> string) option" where
  "read_number radix bound max_digits allow_zero_prefix s =
     (case read_digits radix bound max_digits 0 0 s of
        None \<Rightarrow> None
      | Some (v, n, r) \<Rightarrow>
          if n = 0 \<or> (\<not> allow_zero_prefix \<and> take 1 s = ''0'' \<and> 1 < n) then None else Some (v, r))"

text \<open>\<open>read_separator c i\<close> reads the character before every element but the first.\<close>

definition read_separator :: "char \<Rightarrow> nat \<Rightarrow> (string \<Rightarrow> ('a \<times> string) option) \<Rightarrow> string \<Rightarrow> ('a \<times> string) option" where
  "read_separator c i rd s =
     (if i = 0 then rd s else case s of d # r \<Rightarrow> if d = c then rd r else None | [] \<Rightarrow> None)"

fun read_octets :: "nat \<Rightarrow> nat \<Rightarrow> string \<Rightarrow> (nat list \<times> string) option" where
  "read_octets i 0 s = Some ([], s)"
| "read_octets i (Suc k) s =
     (case read_separator CHR ''.'' i (read_number 10 256 3 False) s of
        None \<Rightarrow> None
      | Some (o1, r) \<Rightarrow> (case read_octets (Suc i) k r of None \<Rightarrow> None | Some (os, r) \<Rightarrow> Some (o1 # os, r)))"

definition read_ipv4 :: "string \<Rightarrow> (nat list \<times> string) option" where
  "read_ipv4 s = read_octets 0 4 s"

definition parse_ipv4 :: "string \<Rightarrow> 32 word option" where
  "parse_ipv4 s =
     (if 15 < length s then None
      else case read_ipv4 s of Some (os, []) \<Rightarrow> Some (of_nat (from_base 256 os)) | _ \<Rightarrow> None)"

text \<open>\<open>read_groups i k\<close> reads up to \<open>k\<close> further groups after the first \<open>i\<close>; the flag tells
  whether the last two came from an embedded IPv4 address.\<close>

fun read_groups :: "nat \<Rightarrow> nat \<Rightarrow> string \<Rightarrow> nat list \<times> bool \<times> string" where
  "read_groups i 0 s = ([], False, s)"
| "read_groups i (Suc k) s =
     (case (if 0 < k then read_separator CHR '':'' i read_ipv4 s else None) of
        Some (os, r) \<Rightarrow> ([os ! 0 * 256 + os ! 1, os ! 2 * 256 + os ! 3], True, r)
      | None \<Rightarrow>
          (case read_separator CHR '':'' i (read_number 16 65536 4 True) s of
             None \<Rightarrow> ([], False, s)
           | Some (g, r) \<Rightarrow> (case read_groups (Suc i) k r of (gs, e, r) \<Rightarrow> (g # gs, e, r))))"

definition parse_ipv6 :: "string \<Rightarrow> 128 word option" where
  "parse_ipv6 s =
     (case read_groups 0 8 s of
        (head, head_ipv4, r) \<Rightarrow>
          if length head = 8 then (if r = [] then Some (of_nat (from_base 65536 head)) else None)
          else if head_ipv4 then None
          else if take 2 r \<noteq> ''::'' then None
          else (case read_groups 0 (7 - length head) (drop 2 r) of
                  (back, _, r) \<Rightarrow>
                    if r = []
                    then Some (of_nat (from_base 65536 (head @ replicate (8 - length head - length back) 0 @ back)))
                    else None))"

section \<open>Lemmas\<close>

lemma to_digit_digit_char: "d < 10 \<Longrightarrow> to_digit 10 (digit_char d) = Some d"
  by (simp add: to_digit_def digit_char_def)

lemma to_digit_hex_char: "d < 16 \<Longrightarrow> to_digit 16 (hex_char d) = Some d"
  by (auto simp: to_digit_def hex_char_def Let_def)

text \<open>The printed form of a number is the list of its digits.\<close>

fun digits_of :: "nat \<Rightarrow> nat \<Rightarrow> nat list" where
  "digits_of b n = (if n < b \<or> b < 2 then [n] else digits_of b (n div b) @ [n mod b])"

declare digits_of.simps [simp del]

lemma decimal_digits_of: "decimal n = map digit_char (digits_of 10 n)"
  by (induction n rule: decimal.induct) (simp add: decimal.simps digits_of.simps)

lemma hexadecimal_digits_of: "hexadecimal n = map hex_char (digits_of 16 n)"
  by (induction n rule: hexadecimal.induct) (simp add: hexadecimal.simps digits_of.simps)

lemma from_base_snoc [simp]: "from_base b (ds @ [d]) = from_base b ds * b + d"
  by (simp add: from_base_def)

lemma digits_of_props:
  assumes "2 \<le> b"
  shows "from_base b (digits_of b n) = n" "d \<in> set (digits_of b n) \<Longrightarrow> d < b" "digits_of b n \<noteq> []"
proof -
  have "from_base b (digits_of b n) = n \<and> (\<forall>d \<in> set (digits_of b n). d < b) \<and> digits_of b n \<noteq> []"
    using assms
  proof (induction n rule: less_induct)
    case (less n)
    have "\<not> n < b \<Longrightarrow> n div b < n"
      using less.prems by (cases "n = 0") auto
    then show ?case
      using less.IH [of "n div b"] less.prems by (cases "n < b") (auto simp: digits_of.simps [of b n] from_base_def)
  qed
  then show "from_base b (digits_of b n) = n" "d \<in> set (digits_of b n) \<Longrightarrow> d < b" "digits_of b n \<noteq> []"
    by auto
qed

lemma length_digits_of:
  assumes "2 \<le> b" "n < b ^ k" "0 < k"
  shows "length (digits_of b n) \<le> k"
  using assms(2,3)
proof (induction k arbitrary: n)
  case (Suc k)
  show ?case
  proof (cases "n < b")
    case False
    then have "n div b < b ^ k" "0 < k"
      using Suc.prems assms(1) by (auto simp: less_mult_imp_div_less mult.commute intro: Suc_leI gr0I)
    then show ?thesis
      using Suc.IH [of "n div b"] False assms(1) by (simp add: digits_of.simps [of b n])
  qed (simp add: digits_of.simps)
qed simp

lemma digits_of_no_leading_zero: "2 \<le> b \<Longrightarrow> 0 < n \<Longrightarrow> hd (digits_of b n) \<noteq> 0"
proof (induction n rule: less_induct)
  case (less n)
  have "\<not> n < b \<Longrightarrow> n div b < n \<and> 0 < n div b"
    using less.prems by (auto simp: div_greater_zero_iff)
  then show ?case
    using less digits_of_props(3) [of b "n div b"] by (cases "n < b") (auto simp: digits_of.simps [of b n])
qed

lemma from_base_mono: "a \<le> foldl (\<lambda>a d. a * b + d) a ds" if "1 \<le> b" for a b :: nat
proof (induction ds arbitrary: a)
  case (Cons d ds)
  have "a \<le> a * b + d"
    using that by (simp add: trans_le_add1)
  then show ?case
    using Cons [of "a * b + d"] by simp
qed simp

lemma read_digits_exact:
  assumes "\<And>d. d \<in> set ds \<Longrightarrow> to_digit radix (f d) = Some d" "1 \<le> radix"
    and "foldl (\<lambda>a d. a * radix + d) v ds < bound" "n + length ds \<le> max_digits"
    and "r = [] \<or> to_digit radix (hd r) = None"
  shows "read_digits radix bound max_digits v n (map f ds @ r) = Some (foldl (\<lambda>a d. a * radix + d) v ds, n + length ds, r)"
  using assms(1,3,4)
proof (induction ds arbitrary: v n)
  case Nil
  then show ?case
    using assms(5) by (cases r) simp_all
next
  case (Cons d ds)
  have "v * radix + d < bound"
    using Cons.prems(2) from_base_mono [OF assms(2), of "v * radix + d" ds] by simp
  then show ?case
    using Cons by simp
qed

lemma decimal_leading_zero: "take 1 (decimal n @ r) = ''0'' \<Longrightarrow> length (digits_of 10 n) = 1"
proof (cases "n = 0")
  case False
  obtain d ds where d: "digits_of 10 n = d # ds" "d \<noteq> 0" "d < 10"
    using digits_of_no_leading_zero [of 10 n] digits_of_props(2) [of 10 _ n] digits_of_props(3) [of 10 n] False
    by (cases "digits_of 10 n") auto
  assume "take 1 (decimal n @ r) = ''0''"
  then have "to_digit 10 (digit_char d) = to_digit 10 CHR ''0''"
    using d by (simp add: decimal_digits_of)
  then show ?thesis
    using d by (simp add: to_digit_digit_char) (simp add: to_digit_def)
qed (simp add: digits_of.simps)

lemma read_number_decimal:
  assumes "n < bound" "bound \<le> 10 ^ k" "0 < k" "r = [] \<or> to_digit 10 (hd r) = None"
  shows "read_number 10 bound k z (decimal n @ r) = Some (n, r)"
proof -
  let ?ds = "digits_of 10 n"
  have "length ?ds \<le> k"
    using length_digits_of [of 10 n k] assms by simp
  then have "read_digits 10 bound k 0 0 (decimal n @ r) = Some (n, length ?ds, r)"
    using read_digits_exact [of ?ds 10 digit_char 0 bound 0 k r] assms digits_of_props(1) [of 10 n] digits_of_props(2) [of 10 _ n]
    by (simp add: decimal_digits_of to_digit_digit_char from_base_def [symmetric])
  then show ?thesis
    using decimal_leading_zero [of n r] digits_of_props(3) [of 10 n] by (auto simp: read_number_def)
qed

lemma read_number_hexadecimal:
  assumes "n < 65536" "r = [] \<or> to_digit 16 (hd r) = None"
  shows "read_number 16 65536 4 True (hexadecimal n @ r) = Some (n, r)"
proof -
  let ?ds = "digits_of 16 n"
  have "length ?ds \<le> 4"
    using length_digits_of [of 16 n 4] assms by simp
  then have "read_digits 16 65536 4 0 0 (hexadecimal n @ r) = Some (n, length ?ds, r)"
    using read_digits_exact [of ?ds 16 hex_char 0 65536 0 4 r] assms digits_of_props(1) [of 16 n] digits_of_props(2) [of 16 _ n]
    by (simp add: hexadecimal_digits_of to_digit_hex_char from_base_def [symmetric])
  then show ?thesis
    using digits_of_props(3) [of 16 n] by (auto simp: read_number_def)
qed

lemma length_base_digits [simp]: "length (base_digits b n v) = n"
  by (induction n arbitrary: v) simp_all

lemma base_digits_less: "0 < b \<Longrightarrow> d \<in> set (base_digits b n v) \<Longrightarrow> d < b"
  by (induction n arbitrary: v) auto

lemma from_base_base_digits: "v < b ^ n \<Longrightarrow> from_base b (base_digits b n v) = v"
proof (induction n arbitrary: v)
  case (Suc n)
  then have "v div b < b ^ n"
    by (simp add: less_mult_imp_div_less mult.commute)
  then show ?case
    using Suc.IH [of "v div b"] by simp
qed (simp add: from_base_def)

lemma read_octets_exact:
  assumes "\<And>d. d \<in> set ds \<Longrightarrow> d < 256" "r = [] \<or> to_digit 10 (hd r) = None"
  shows "read_octets (Suc i) (length ds) (concat (map (\<lambda>d. CHR ''.'' # decimal d) ds) @ r) = Some (ds, r)"
  using assms(1)
proof (induction ds arbitrary: i)
  case (Cons d ds)
  let ?r = "concat (map (\<lambda>d. CHR ''.'' # decimal d) ds) @ r"
  have "?r = [] \<or> to_digit 10 (hd ?r) = None"
    using assms(2) by (cases ds) (simp_all add: to_digit_def)
  then have "read_number 10 256 3 False (decimal d @ ?r) = Some (d, ?r)"
    using Cons.prems by (intro read_number_decimal) auto
  then show ?case
    using Cons by (simp add: read_separator_def)
qed simp

lemma join_with_concat: "join_with sep (x # xs) = x @ concat (map (\<lambda>y. sep @ y) xs)"
  by (induction xs arbitrary: x) simp_all

lemma read_ipv4_show:
  assumes "r = [] \<or> to_digit 10 (hd r) = None"
  shows "read_ipv4 (show_ipv4 a @ r) = Some (octets a, r)"
proof -
  obtain o1 os where o: "octets a = o1 # os" "length os = 3"
    using length_base_digits [of 256 4 "unat a"] unfolding octets_def
    by (cases "base_digits 256 4 (unat a)") auto
  have less: "d < 256" if "d \<in> set (o1 # os)" for d
    using base_digits_less [of 256 d 4 "unat a"] that o(1) by (simp add: octets_def)
  let ?r = "concat (map (\<lambda>d. CHR ''.'' # decimal d) os) @ r"
  have "?r = [] \<or> to_digit 10 (hd ?r) = None"
    using assms by (cases os) (simp_all add: to_digit_def)
  then have "read_number 10 256 3 False (decimal o1 @ ?r) = Some (o1, ?r)"
    using less by (intro read_number_decimal) auto
  moreover have "show_ipv4 a @ r = decimal o1 @ ?r"
    by (simp add: show_ipv4_def o(1) join_with_concat comp_def)
  moreover have "read_octets 1 3 ?r = Some (os, r)"
    using read_octets_exact [of os r 0] less assms o(2) by simp
  ultimately show ?thesis
    by (simp add: read_ipv4_def o(1) read_separator_def numeral_eq_Suc)
qed

lemma length_show_ipv4: "length (show_ipv4 a) \<le> 15"
proof -
  have "length (decimal d) \<le> 3" if "d \<in> set (octets a)" for d
    using base_digits_less [of 256 d 4 "unat a"] that length_decimal_le [of d 3] by (simp add: octets_def)
  moreover have "length (octets a) = 4"
    by (simp add: octets_def)
  then obtain o1 o2 o3 o4 where "octets a = [o1, o2, o3, o4]"
    by (auto simp: numeral_eq_Suc length_Suc_conv)
  ultimately have "octets a = [o1, o2, o3, o4]" "length (decimal o1) \<le> 3" "length (decimal o2) \<le> 3"
      "length (decimal o3) \<le> 3" "length (decimal o4) \<le> 3"
    by simp_all
  then show ?thesis
    by (simp add: show_ipv4_def)
qed

lemma parse_show_ipv4 [simp]: "parse_ipv4 (show_ipv4 a) = Some a"
proof -
  have "unat a < 2 ^ 32"
    using unsigned_less [of a] by simp
  then have "from_base 256 (octets a) = unat a"
    by (simp add: octets_def from_base_base_digits)
  then show ?thesis
    using read_ipv4_show [of "[]" a] length_show_ipv4 [of a] by (simp add: parse_ipv4_def)
qed

lemma read_digits_suffix: "read_digits radix bound m v n s = Some (v', n', r) \<Longrightarrow> set r \<subseteq> set s"
  by (induction radix bound m v n s rule: read_digits.induct) (auto split: option.splits if_splits)

lemma read_octets_dot: "CHR ''.'' \<notin> set s \<Longrightarrow> read_octets (Suc i) (Suc k) s = None"
  by (cases s) (auto simp: read_separator_def)

lemma read_ipv4_needs_dot:
  assumes "CHR ''.'' \<notin> set s"
  shows "read_ipv4 s = None"
proof (cases "read_number 10 256 3 False s")
  case (Some x)
  obtain v r where x: "x = (v, r)"
    by (cases x)
  then have "set r \<subseteq> set s"
    using Some read_digits_suffix [of 10 256 3 0 0 s] by (auto simp: read_number_def split: option.splits prod.splits if_splits)
  then have "read_octets 1 3 r = None"
    using assms read_octets_dot [of r 0 2] by (auto simp: numeral_eq_Suc)
  then show ?thesis
    using Some x by (simp add: read_ipv4_def read_separator_def numeral_eq_Suc)
qed (simp add: read_ipv4_def read_separator_def numeral_eq_Suc)

lemma read_number_none: "s = [] \<or> to_digit radix (hd s) = None \<Longrightarrow> read_number radix bound m z s = None"
  by (cases s) (simp_all add: read_number_def)

lemma read_ipv4_none: "s = [] \<or> to_digit 10 (hd s) = None \<Longrightarrow> read_ipv4 s = None"
  by (simp add: read_ipv4_def numeral_eq_Suc read_separator_def read_number_none)

lemma hexadecimal_no_dot: "CHR ''.'' \<notin> set (hexadecimal n)"
proof
  assume "CHR ''.'' \<in> set (hexadecimal n)"
  then obtain d where "d \<in> set (digits_of 16 n)" "CHR ''.'' = hex_char d"
    by (auto simp: hexadecimal_digits_of)
  then have "to_digit 16 CHR ''.'' = Some d"
    using to_digit_hex_char [of d] digits_of_props(2) [of 16 d n] by simp
  then show False
    by (simp add: to_digit_def)
qed

text \<open>What may follow the groups of an address without embedded IPv4 part.\<close>

definition group_end :: "string \<Rightarrow> bool" where
  "group_end r \<longleftrightarrow> CHR ''.'' \<notin> set r \<and> (r = [] \<or> take 2 r = ''::'')"

lemma group_end_colon: "group_end r \<Longrightarrow> r = [] \<or> (\<exists>q. r = CHR '':'' # CHR '':'' # q)"
  unfolding group_end_def by (cases r; cases "tl r") auto

lemma colon_no_digit [simp]: "to_digit 16 CHR '':'' = None" "to_digit 10 CHR '':'' = None"
  by (simp_all add: to_digit_def)

lemma read_groups_stop:
  assumes "group_end r"
  shows "read_groups i k r = ([], False, r)"
  using group_end_colon [OF assms]
  by (cases k) (auto simp: read_separator_def read_ipv4_none read_number_none)

lemma read_groups_later:
  assumes "\<And>g. g \<in> set gs \<Longrightarrow> g < 65536" "length gs \<le> k" "group_end r"
  shows "read_groups (Suc i) k (concat (map (\<lambda>g. CHR '':'' # hexadecimal g) gs) @ r) = (gs, False, r)"
  using assms(1,2)
proof (induction gs arbitrary: i k)
  case Nil
  then show ?case
    using read_groups_stop [OF assms(3)] by simp
next
  case (Cons g gs)
  obtain k' where k: "k = Suc k'"
    using Cons.prems by (cases k) auto
  let ?r = "concat (map (\<lambda>g. CHR '':'' # hexadecimal g) gs) @ r"
  have "?r = [] \<or> to_digit 16 (hd ?r) = None"
    using group_end_colon [OF assms(3)] by (cases gs) auto
  then have "read_number 16 65536 4 True (hexadecimal g @ ?r) = Some (g, ?r)"
    using Cons.prems by (intro read_number_hexadecimal) auto
  moreover have "read_ipv4 (hexadecimal g @ ?r) = None"
    using assms(3) by (intro read_ipv4_needs_dot) (auto simp: hexadecimal_no_dot group_end_def)
  ultimately show ?case
    using Cons k by (auto simp: read_separator_def)
qed

lemma read_groups_fmt:
  assumes "\<And>g. g \<in> set gs \<Longrightarrow> g < 65536" "length gs \<le> k" "group_end r"
  shows "read_groups 0 k (fmt_segments gs @ r) = (gs, False, r)"
proof (cases gs)
  case Nil
  then show ?thesis
    using read_groups_stop [OF assms(3)] by (simp add: fmt_segments_def)
next
  case (Cons g hs)
  then obtain k' where k: "k = Suc k'" "length hs \<le> k'"
    using assms(2) by (cases k) auto
  let ?r = "concat (map (\<lambda>g. CHR '':'' # hexadecimal g) hs) @ r"
  have s: "fmt_segments gs @ r = hexadecimal g @ ?r"
    by (simp add: fmt_segments_def Cons join_with_concat comp_def)
  have "?r = [] \<or> to_digit 16 (hd ?r) = None"
    using group_end_colon [OF assms(3)] by (cases hs) auto
  then have "read_number 16 65536 4 True (hexadecimal g @ ?r) = Some (g, ?r)"
    using assms(1) Cons by (intro read_number_hexadecimal) auto
  moreover have "read_ipv4 (hexadecimal g @ ?r) = None"
    using assms(3) by (intro read_ipv4_needs_dot) (auto simp: hexadecimal_no_dot group_end_def)
  ultimately show ?thesis
    using read_groups_later [of hs k' r 0] assms(1,3) Cons k unfolding s by (auto simp: read_separator_def)
qed

definition span_ok :: "nat list \<Rightarrow> nat \<times> nat \<Rightarrow> bool" where
  "span_ok ys sp \<longleftrightarrow> fst sp + snd sp \<le> length ys \<and> take (snd sp) (drop (fst sp) ys) = replicate (snd sp) 0"

lemma span_ok_append: "span_ok ys sp \<Longrightarrow> span_ok (ys @ zs) sp"
  by (auto simp: span_ok_def)

lemma zero_span_ok:
  assumes "i = length ys" "span_ok ys longest" "span_ok ys cur" "snd cur \<noteq> 0 \<Longrightarrow> fst cur + snd cur = length ys"
  shows "span_ok (ys @ xs) (zero_span i cur longest xs)"
  using assms
proof (induction i cur longest xs arbitrary: ys rule: zero_span.induct)
  case (2 i cur longest x xs)
  let ?cur = "if snd cur = 0 then (i, 1) else (fst cur, Suc (snd cur))"
  have c: "x = 0 \<Longrightarrow> span_ok (ys @ [x]) ?cur"
    using "2.prems" by (cases "snd cur = 0") (auto simp: span_ok_def replicate_append_same)
  have l: "span_ok (ys @ [x]) longest" "span_ok (ys @ [x]) (0, 0)"
    using "2.prems"(2) span_ok_append [of ys longest "[x]"] by (simp_all add: span_ok_def)
  show ?case
  proof (cases "x = 0")
    case True
    have "span_ok ((ys @ [x]) @ xs) (zero_span (Suc i) ?cur (if snd longest < snd ?cur then ?cur else longest) xs)"
      using True c l "2.prems" by (intro "2.IH"(1)) auto
    then show ?thesis
      by (simp only: True zero_span.simps Let_def simp_thms if_True append_assoc append.simps)
  next
    case False
    have "span_ok ((ys @ [x]) @ xs) (zero_span (Suc i) (0, 0) longest xs)"
      using False l "2.prems" by (intro "2.IH"(2)) auto
    then show ?thesis
      using False by simp
  qed
qed simp

lemma segments_props: "length (segments a) = 8" "d \<in> set (segments a) \<Longrightarrow> d < 65536" "from_base 65536 (segments a) = unat a"
proof -
  have "unat a < 65536 ^ 8"
    using unsigned_less [of a] by simp
  then show "length (segments a) = 8" "d \<in> set (segments a) \<Longrightarrow> d < 65536" "from_base 65536 (segments a) = unat a"
    using base_digits_less [of 65536 d 8 "unat a"] by (simp_all add: segments_def from_base_base_digits)
qed

lemma base_digits_4: "base_digits b 4 v = [v div b div b div b mod b, v div b div b mod b, v div b mod b, v mod b]"
  by (simp add: numeral_eq_Suc)

lemma octets_of_pair:
  assumes "x < 65536" "y < 65536"
  shows "octets (of_nat (from_base 65536 [x, y])) = [x div 256, x mod 256, y div 256, y mod 256]"
proof -
  have "x * 65536 + y < 2 ^ 32"
    using assms by simp
  then have "unat (of_nat (x * 65536 + y) :: 32 word) = x * 65536 + y"
    by (simp only: unat_of_nat) simp
  moreover have "base_digits 256 4 (x * 65536 + y) = [x div 256, x mod 256, y div 256, y mod 256]"
  proof -
    have "(x * 65536 + y) div 256 = x * 256 + y div 256" "(x * 65536 + y) mod 256 = y mod 256"
      using div_mult_self3 [of 256 "x * 256" y] mod_mult_self3 [of "x * 256" 256 y] by (simp_all add: mult.assoc)
    moreover have "(x * 256 + y div 256) div 256 = x" "(x * 256 + y div 256) mod 256 = y div 256"
      using assms(2) by auto
    moreover have "x div 256 mod 256 = x div 256"
      using assms(1) by auto
    ultimately show ?thesis
      unfolding base_digits_4 by simp
  qed
  ultimately show ?thesis
    by (simp add: octets_def from_base_def)
qed

text \<open>The three forms of a printed IPv6 address are read back.\<close>

lemma parse_ipv6_full:
  assumes "length xs = 8" "\<And>d. d \<in> set xs \<Longrightarrow> d < 65536"
  shows "parse_ipv6 (fmt_segments xs) = Some (of_nat (from_base 65536 xs))"
  using read_groups_fmt [of xs 8 "[]"] assms by (simp add: parse_ipv6_def group_end_def)

lemma fmt_segments_no_dot: "CHR ''.'' \<notin> set (fmt_segments xs)"
  by (cases xs) (auto simp: fmt_segments_def join_with_concat hexadecimal_no_dot)

lemma parse_ipv6_compressed:
  assumes "length xs = 8" "\<And>d. d \<in> set xs \<Longrightarrow> d < 65536" "span_ok xs (start, len)" "1 < len"
  shows "parse_ipv6 (fmt_segments (take start xs) @ ''::'' @ fmt_segments (drop (start + len) xs)) =
    Some (of_nat (from_base 65536 xs))"
proof -
  let ?h = "take start xs" and ?t = "drop (start + len) xs"
  have se: "start + len \<le> 8" "xs = ?h @ replicate len 0 @ ?t"
    using assms(1,3) append_take_drop_id [of start xs] append_take_drop_id [of len "drop start xs"]
    by (auto simp: span_ok_def add.commute)
  have less: "d < 65536" if "d \<in> set ?h \<or> d \<in> set ?t" for d
    using that assms(2) in_set_takeD in_set_dropD by metis
  have "read_groups 0 8 (fmt_segments ?h @ (''::'' @ fmt_segments ?t)) = (?h, False, ''::'' @ fmt_segments ?t)"
    using less se assms(1) fmt_segments_no_dot [of ?t] by (intro read_groups_fmt) (auto simp: group_end_def)
  moreover have "read_groups 0 (7 - start) (fmt_segments ?t) = (?t, False, [])"
    using read_groups_fmt [of ?t "7 - start" "[]"] less assms(1,4) se(1) by (simp add: group_end_def)
  moreover have "length ?h = start" "length ?t = 8 - start - len" "start < 8"
    using assms(1,4) se(1) by auto
  ultimately show ?thesis
    using se by (simp add: parse_ipv6_def)
qed

lemma hexadecimal_ffff: "hexadecimal 65535 = ''ffff''"
proof -
  have "hex_char 15 = CHR ''f''"
    by code_simp
  then show ?thesis
    by (simp add: hexadecimal.simps [of 65535] hexadecimal.simps [of 4095] hexadecimal.simps [of 255] hexadecimal.simps [of 15])
qed

lemma read_groups_stuck:
  "s = [] \<or> (to_digit 10 (hd s) = None \<and> to_digit 16 (hd s) = None) \<Longrightarrow> read_groups 0 k s = ([], False, s)"
  by (cases k) (auto simp: read_separator_def read_ipv4_none read_number_none)

lemma read_groups_ipv4:
  "read_ipv4 s = Some (os, r) \<Longrightarrow>
   read_groups (Suc i) (Suc (Suc k)) (CHR '':'' # s) = ([os ! 0 * 256 + os ! 1, os ! 2 * 256 + os ! 3], True, r)"
  by (simp add: read_separator_def)

lemma read_groups_first:
  "read_ipv4 s = None \<Longrightarrow> read_number 16 65536 4 True s = Some (g, r) \<Longrightarrow> read_groups (Suc 0) k r = (gs, e, q) \<Longrightarrow>
   read_groups 0 (Suc k) s = (g # gs, e, q)"
  by (cases k) (simp_all add: read_separator_def)

lemma parse_ipv6_mapped:
  assumes "x < 65536" "y < 65536"
  shows "parse_ipv6 (''::ffff:'' @ show_ipv4 (of_nat (from_base 65536 [x, y]))) =
    Some (of_nat (from_base 65536 [0, 0, 0, 0, 0, 65535, x, y]))"
proof -
  let ?v4 = "show_ipv4 (of_nat (from_base 65536 [x, y]))"
  have h: "read_groups 0 8 (''::ffff:'' @ ?v4) = ([], False, ''::ffff:'' @ ?v4)"
    by (rule read_groups_stuck) simp
  have n: "read_number 16 65536 4 True (''ffff:'' @ ?v4) = Some (65535, '':'' @ ?v4)"
    using read_number_hexadecimal [of 65535 "'':'' @ ?v4"] by (simp add: hexadecimal_ffff)
  have "read_ipv4 ?v4 = Some ([x div 256, x mod 256, y div 256, y mod 256], [])"
    using read_ipv4_show [of "[]"] octets_of_pair [OF assms] by simp
  then have "read_groups (Suc 0) (Suc (Suc 4)) ('':'' @ ?v4) = ([x, y], True, [])"
    using read_groups_ipv4 [of ?v4 _ _ 0 4] by simp
  moreover have "read_ipv4 (''ffff:'' @ ?v4) = None"
    by (rule read_ipv4_none) (simp add: to_digit_def)
  ultimately have "read_groups 0 (Suc (Suc (Suc 4))) (''ffff:'' @ ?v4) = ([65535, x, y], True, [])"
    using n read_groups_first by blast
  then have "read_groups 0 7 (''ffff:'' @ ?v4) = ([65535, x, y], True, [])"
    by simp
  moreover have "replicate 5 (0 :: nat) = [0, 0, 0, 0, 0]"
    by code_simp
  ultimately show ?thesis
    using h by (simp add: parse_ipv6_def)
qed

lemma parse_show_ipv6 [simp]: "parse_ipv6 (show_ipv6 a) = Some a"
proof -
  let ?xs = "segments a"
  note p = segments_props(1,3) [of a] segments_props(2) [of _ a]
  obtain start len where sp: "zero_span 0 (0, 0) (0, 0) ?xs = (start, len)"
    by (cases "zero_span 0 (0, 0) (0, 0) ?xs")
  have sp_ok: "span_ok ?xs (start, len)"
    using zero_span_ok [of 0 "[]" "(0, 0)" "(0, 0)" ?xs] sp by (simp add: span_ok_def)
  have mapped: "show_ipv6 a = ''::ffff:'' @ show_ipv4 (of_nat (from_base 65536 [?xs ! 6, ?xs ! 7]))"
      "?xs = [0, 0, 0, 0, 0, 65535, ?xs ! 6, ?xs ! 7]" if t: "take 6 ?xs = [0, 0, 0, 0, 0, 65535]"
  proof -
    have "drop 6 ?xs = [?xs ! 6, ?xs ! 7]"
      using p(1) Cons_nth_drop_Suc [of 6 ?xs] Cons_nth_drop_Suc [of 7 ?xs] by simp
    then show "show_ipv6 a = ''::ffff:'' @ show_ipv4 (of_nat (from_base 65536 [?xs ! 6, ?xs ! 7]))"
        "?xs = [0, 0, 0, 0, 0, 65535, ?xs ! 6, ?xs ! 7]"
      using t append_take_drop_id [of 6 ?xs] by (simp_all add: show_ipv6_def Let_def)
  qed
  have eqa: "(of_nat (from_base 65536 ?xs) :: 128 word) = a"
    using p(2) by simp
  show ?thesis
  proof (cases "take 6 ?xs = [0, 0, 0, 0, 0, 65535]")
    case True
    have "?xs ! 6 < 65536" "?xs ! 7 < 65536"
      using p(1) by (simp_all add: p(3))
    from parse_ipv6_mapped [OF this] show ?thesis
      unfolding mapped(1) [OF True] using mapped(2) [OF True] eqa by metis
  next
    case False
    show ?thesis
    proof (cases "1 < len")
      case True
      then have "show_ipv6 a = fmt_segments (take start ?xs) @ ''::'' @ fmt_segments (drop (start + len) ?xs)"
        using False sp by (simp add: show_ipv6_def Let_def)
      then show ?thesis
        using parse_ipv6_compressed [OF p(1,3) sp_ok True] eqa by metis
    next
      case small: False
      then have "show_ipv6 a = fmt_segments ?xs"
        using False sp by (simp add: show_ipv6_def Let_def)
      then show ?thesis
        using parse_ipv6_full [OF p(1,3)] eqa by metis
    qed
  qed
qed

text \<open>Which characters printed numbers and addresses consist of.\<close>

definition address_char :: "char \<Rightarrow> bool" where
  "address_char c \<longleftrightarrow> to_digit 16 c \<noteq> None \<or> c = CHR ''.'' \<or> c = CHR '':''"

lemma decimal_address_chars: "c \<in> set (decimal n) \<Longrightarrow> address_char c"
  using digits_of_props(2) [of 10 _ n] by (force simp: decimal_digits_of address_char_def digit_char_def to_digit_def)

lemma hexadecimal_address_chars: "c \<in> set (hexadecimal n) \<Longrightarrow> address_char c"
  using digits_of_props(2) [of 16 _ n] by (auto simp: hexadecimal_digits_of address_char_def to_digit_hex_char)

lemma join_with_chars: "c \<in> set (join_with sep xs) \<Longrightarrow> c \<in> set sep \<or> (\<exists>x \<in> set xs. c \<in> set x)"
  by (induction sep xs rule: join_with.induct) auto

lemma show_ipv4_chars: "c \<in> set (show_ipv4 a) \<Longrightarrow> address_char c"
  by (auto simp: show_ipv4_def dest!: join_with_chars dest: decimal_address_chars) (simp add: address_char_def)

lemma fmt_segments_chars: "c \<in> set (fmt_segments xs) \<Longrightarrow> address_char c"
  by (auto simp: fmt_segments_def dest!: join_with_chars dest: hexadecimal_address_chars) (simp add: address_char_def)

lemma show_ipv6_chars: "c \<in> set (show_ipv6 a) \<Longrightarrow> address_char c"
proof -
  have "address_char CHR '':''" "address_char CHR ''f''"
    by (simp_all add: address_char_def to_digit_def)
  then show "c \<in> set (show_ipv6 a) \<Longrightarrow> address_char c"
    by (auto simp: show_ipv6_def Let_def split: if_splits prod.splits dest: show_ipv4_chars fmt_segments_chars)
qed

lemma parse_digits_exact:
  assumes "\<And>d. d \<in> set ds \<Longrightarrow> d < 10" "foldl (\<lambda>a d. a * 10 + d) v ds < bound"
  shows "parse_digits bound v (map digit_char ds) = Inr (foldl (\<lambda>a d. a * 10 + d) v ds)"
  using assms
proof (induction ds arbitrary: v)
  case (Cons d ds)
  have "v * 10 + d < bound"
    using Cons.prems(2) from_base_mono [of 10 "v * 10 + d" ds] by simp
  then show ?case
    using Cons by (simp add: to_digit_digit_char)
qed simp

lemma parse_unsigned_decimal:
  assumes "n < bound"
  shows "parse_unsigned bound (decimal n) = Inr n"
proof -
  have d: "parse_digits bound 0 (decimal n) = Inr n"
    using parse_digits_exact [of "digits_of 10 n" 0 bound] digits_of_props(1) [of 10 n] digits_of_props(2) [of 10 _ n] assms
    by (simp add: decimal_digits_of from_base_def)
  have "c \<noteq> CHR ''+'' \<and> c \<noteq> CHR ''-''" if "c \<in> set (decimal n)" for c
    using decimal_digits [OF that] by (auto simp: is_digit_def)
  moreover have "decimal n \<noteq> []"
    using digits_of_props(3) [of 10 n] by (simp add: decimal_digits_of)
  ultimately show ?thesis
    using d by (cases "decimal n"; cases "tl (decimal n)") (auto simp: parse_unsigned_def)
qed

text \<open>Splitting what was joined.\<close>

lemma split_at_plain: "c \<notin> set s \<Longrightarrow> split_at c s = [s]"
  by (induction s) auto

lemma split_at_append: "c \<notin> set s \<Longrightarrow> split_at c (s @ c # r) = s # split_at c r"
  by (induction s) auto

lemma starts_with_append [simp]: "starts_with p (p @ s)"
  by (induction p) simp_all

text \<open>Words of printable ASCII characters separated by single blanks.\<close>

definition printable :: "char \<Rightarrow> bool" where
  "printable c \<longleftrightarrow> 33 \<le> (of_char c :: nat) \<and> (of_char c :: nat) < 127"

lemma whitespace_first_byte:
  "list_all (\<lambda>w. w \<noteq> [] \<and> ((of_char (hd w) :: nat) < 33 \<or> 127 \<le> (of_char (hd w) :: nat))) whitespace_chars"
  by (simp add: whitespace_chars_def)

lemma whitespace_prefix_printable:
  assumes "printable c"
  shows "whitespace_prefix (c # s) = 0"
proof -
  have "take (length w) (c # s) \<noteq> w" if "w \<in> set whitespace_chars" for w
  proof
    assume "take (length w) (c # s) = w"
    moreover have "w \<noteq> []" "(of_char (hd w) :: nat) < 33 \<or> 127 \<le> (of_char (hd w) :: nat)"
      using whitespace_first_byte that by (auto simp: list_all_iff)
    ultimately show False
      using assms by (cases w) (auto simp: printable_def)
  qed
  then have "find (\<lambda>w. take (length w) (c # s) = w) whitespace_chars = None"
    by (auto simp: find_None_iff)
  then show ?thesis
    by (simp add: whitespace_prefix_def)
qed

lemma whitespace_prefix_ascii:
  assumes "[c] \<in> set whitespace_chars"
  shows "whitespace_prefix (c # s) = 1"
proof -
  let ?P = "\<lambda>w. take (length w) (c # s) = w"
  have one: "list_all (\<lambda>w. w \<noteq> [] \<and> ((of_char (hd w) :: nat) < 33 \<longleftrightarrow> length w = 1)) whitespace_chars"
    by (simp add: whitespace_chars_def)
  have "?P [c]"
    by simp
  then obtain w where w: "find ?P whitespace_chars = Some w"
    using find_None_iff [of ?P whitespace_chars] assms by fast
  then have m: "w \<in> set whitespace_chars" "?P w"
    using find_Some_iff [of ?P whitespace_chars w] nth_mem by auto
  then have "w \<noteq> []"
    using one by (auto simp: list_all_iff)
  then have "hd w = c"
    using m(2) by (cases w) simp_all
  moreover have "(of_char c :: nat) < 33"
    using one assms by (auto simp: list_all_iff)
  ultimately have "length w = 1"
    using one m(1) by (auto simp: list_all_iff)
  then show ?thesis
    using w by (simp add: whitespace_prefix_def)
qed

lemma blank_newline_whitespace: "'' '' \<in> set whitespace_chars" "[CHR 0x0A] \<in> set whitespace_chars"
proof -
  have c: "char_of (32 :: nat) = CHR '' ''" "char_of (10 :: nat) = CHR 0x0A"
    by code_simp+
  have "map char_of [32 :: nat] \<in> set whitespace_chars" "map char_of [10 :: nat] \<in> set whitespace_chars"
    unfolding whitespace_chars_def set_map by (rule imageI, simp)+
  then show "'' '' \<in> set whitespace_chars" "[CHR 0x0A] \<in> set whitespace_chars"
    by (simp_all only: list.map c)
qed

lemma split_whitespace_from_word:
  "list_all printable f \<Longrightarrow> split_whitespace_from w (f @ s) = split_whitespace_from (w @ f) s"
proof (induction f arbitrary: w)
  case (Cons c f)
  then have "split_whitespace_from w ((c # f) @ s) = split_whitespace_from (w @ [c]) (f @ s)"
    by (subst split_whitespace_from.simps) (simp add: whitespace_prefix_printable)
  then show ?case
    using Cons by simp
qed simp

lemma split_whitespace_blank:
  "split_whitespace_from w (CHR '' '' # s) = (if w = [] then [] else [w]) @ split_whitespace_from [] s"
  by (subst split_whitespace_from.simps) (simp add: whitespace_prefix_ascii blank_newline_whitespace)

lemma split_whitespace_words:
  assumes "\<And>f. f \<in> set fs \<Longrightarrow> f \<noteq> [] \<and> list_all printable f" "nl = [] \<or> nl = [CHR 0x0A]"
  shows "split_whitespace_from w (concat (map (\<lambda>f. CHR '' '' # f) fs) @ nl) = (if w = [] then [] else [w]) @ fs"
  using assms(1)
proof (induction fs arbitrary: w)
  case Nil
  have "split_whitespace_from [] [] = []" "split_whitespace_from w [] = (if w = [] then [] else [w])"
    by (subst split_whitespace_from.simps, simp)+
  then have "split_whitespace_from w [CHR 0x0A] = (if w = [] then [] else [w])"
    by (subst split_whitespace_from.simps) (simp add: whitespace_prefix_ascii blank_newline_whitespace)
  then show ?case
    using assms(2) \<open>split_whitespace_from w [] = (if w = [] then [] else [w])\<close> by auto
next
  case (Cons f fs)
  then show ?case
    by (simp add: split_whitespace_blank split_whitespace_from_word)
qed

lemma after_last_append: "c \<notin> set r \<Longrightarrow> after_last c (p @ c # r) = Some r"
  by (simp add: after_last_def takeWhile_append)

lemma whitespace_last_byte:
  "list_all (\<lambda>w. w \<noteq> [] \<and> ((of_char (last w) :: nat) < 33 \<or> 127 \<le> (of_char (last w) :: nat))) whitespace_chars"
  by (simp add: whitespace_chars_def)

lemma whitespace_suffix_printable:
  assumes "printable c"
  shows "whitespace_suffix (s @ [c]) = 0"
proof -
  let ?P = "\<lambda>w. length w \<le> length (s @ [c]) \<and> drop (length (s @ [c]) - length w) (s @ [c]) = w"
  have "\<not> ?P w" if "w \<in> set whitespace_chars" for w
  proof
    assume w: "?P w"
    have "w \<noteq> []" "(of_char (last w) :: nat) < 33 \<or> 127 \<le> (of_char (last w) :: nat)"
      using whitespace_last_byte that by (auto simp: list_all_iff)
    moreover from this have "last w = c"
      using w last_drop [of "length (s @ [c]) - length w" "s @ [c]"] by auto
    ultimately show False
      using assms by (auto simp: printable_def)
  qed
  then have "find ?P whitespace_chars = None"
    by (simp only: find_None_iff) blast
  then show ?thesis
    by (simp only: whitespace_suffix_def option.case)
qed

text \<open>Trimming a word with a blank before it.\<close>

lemma trim_word:
  assumes "list_all printable (c # s)"
  shows "trim (CHR '' '' # c # s) = c # s" "trim (c # s) = c # s"
proof -
  have "whitespace_suffix (butlast (c # s) @ [last (c # s)]) = 0"
    using assms last_in_set [of "c # s"] by (intro whitespace_suffix_printable) (simp only: list_all_iff, blast)
  then have e: "trim_end (c # s) = c # s"
    unfolding append_butlast_last_id [OF list.distinct(2)] by (subst trim_end.simps) simp
  have p: "trim_start (c # s) = c # s"
    using assms by (subst trim_start.simps) (simp add: whitespace_prefix_printable)
  then have "trim_start (CHR '' '' # c # s) = c # s"
    by (subst trim_start.simps) (simp add: whitespace_prefix_ascii blank_newline_whitespace)
  then show "trim (CHR '' '' # c # s) = c # s" "trim (c # s) = c # s"
    using e p by (simp_all add: trim_def)
qed

end
