(* ===== verification/PairingUrl.thy ===== *)
theory PairingUrl
  imports Text
begin

text \<open>
  The pairing URL of \<^verbatim>\<open>src/shared/src/models.rs\<close>, which the daemon shows as a QR code and the
  phone parses: \<^verbatim>\<open>generate_pairing_url\<close> and \<^verbatim>\<open>PairingInfo::parse\<close>.
\<close>

section \<open>The URL\<close>

datatype pairing_info_error =
    UrlInvalidScheme | UrlInvalidQuery | UrlInvalidVersion | UrlInvalidPort | UrlInvalidIpv4 | UrlInvalidIpv6
  | UrlMissingField string

definition generate_pairing_url :: "string \<Rightarrow> u16 \<Rightarrow> 32 word option \<Rightarrow> 128 word option \<Rightarrow> string" where
  "generate_pairing_url public_key_hex port ipv4 ipv6 =
     ''tapauth://pair?v=1&pk='' @ public_key_hex @ ''&p='' @ decimal (unat port) @
     (case ipv4 of Some ip \<Rightarrow> ''&ip4='' @ show_ipv4 ip | None \<Rightarrow> []) @
     (case ipv6 of Some ip \<Rightarrow> ''&ip6='' @ show_ipv6 ip | None \<Rightarrow> [])"

record pairing_info =
  pi_version :: u32
  pi_public_key_hex :: string
  pi_port :: u16
  pi_ipv4 :: "32 word option"
  pi_ipv6 :: "128 word option"

text \<open>The variables of the parsing loop.\<close>

record pairing_params =
  pp_version :: "u32 option"
  pp_key :: "string option"
  pp_p :: "u16 option"
  pp_ip4 :: "32 word option"
  pp_ip6 :: "128 word option"

definition parse_pair :: "string \<Rightarrow> pairing_params \<Rightarrow> pairing_info_error + pairing_params" where
  "parse_pair pair st =
     (case split_at CHR ''='' pair of
        key # value # _ \<Rightarrow>
          if key = ''v'' then
            rbind (map_err (\<lambda>_. UrlInvalidVersion) (parse_unsigned (2 ^ 32) value)) (\<lambda>v. Inr (st\<lparr>pp_version := Some (of_nat v)\<rparr>))
          else if key = ''pk'' then Inr (st\<lparr>pp_key := Some value\<rparr>)
          else if key = ''p'' then
            rbind (map_err (\<lambda>_. UrlInvalidPort) (parse_unsigned (2 ^ 16) value)) (\<lambda>v. Inr (st\<lparr>pp_p := Some (of_nat v)\<rparr>))
          else if key = ''ip4'' then
            rbind (ok_or UrlInvalidIpv4 (parse_ipv4 value)) (\<lambda>a. Inr (st\<lparr>pp_ip4 := Some a\<rparr>))
          else if key = ''ip6'' then
            rbind (ok_or UrlInvalidIpv6 (parse_ipv6 value)) (\<lambda>a. Inr (st\<lparr>pp_ip6 := Some a\<rparr>))
          else Inr st
      | _ \<Rightarrow> Inl UrlInvalidQuery)"

primrec parse_pairs :: "string list \<Rightarrow> pairing_params \<Rightarrow> pairing_info_error + pairing_params" where
  "parse_pairs [] st = Inr st"
| "parse_pairs (p # ps) st = rbind (parse_pair p st) (parse_pairs ps)"

definition no_params :: pairing_params where
  "no_params = \<lparr>pp_version = None, pp_key = None, pp_p = None, pp_ip4 = None, pp_ip6 = None\<rparr>"

definition PairingInfo_parse :: "string \<Rightarrow> pairing_info_error + pairing_info" where
  "PairingInfo_parse url =
     (if \<not> starts_with ''tapauth://pair?'' url then Inl UrlInvalidScheme
      else
        rbind (parse_pairs (split_at CHR ''&'' (drop 15 url)) no_params) (\<lambda>st.
        rbind (ok_or (UrlMissingField ''version'') (pp_version st)) (\<lambda>v.
        rbind (ok_or (UrlMissingField ''public key'') (pp_key st)) (\<lambda>k.
        rbind (ok_or (UrlMissingField ''port'') (pp_p st)) (\<lambda>p.
          Inr \<lparr>pi_version = v, pi_public_key_hex = k, pi_port = p, pi_ipv4 = pp_ip4 st, pi_ipv6 = pp_ip6 st\<rparr>)))))"

section \<open>Lemmas\<close>

lemma parse_pair_split:
  assumes "CHR ''='' \<notin> set k" "CHR ''='' \<notin> set v"
  shows "split_at CHR ''='' (k @ CHR ''='' # v) = [k, v]"
  using assms by (simp add: split_at_append split_at_plain)

lemma address_no_separator: "address_char c \<Longrightarrow> c \<noteq> CHR ''&'' \<and> c \<noteq> CHR ''=''"
  by (auto simp: address_char_def to_digit_def)

lemma printed_no_separator [simp]:
  "CHR ''&'' \<notin> set (decimal n)" "CHR ''='' \<notin> set (decimal n)" "CHR ''&'' \<notin> set (show_ipv4 a)"
  "CHR ''='' \<notin> set (show_ipv4 a)" "CHR ''&'' \<notin> set (show_ipv6 b)" "CHR ''='' \<notin> set (show_ipv6 b)"
  using address_no_separator decimal_address_chars show_ipv4_chars show_ipv6_chars by metis+

text \<open>What each parameter of a generated URL parses to.\<close>

lemma parse_pair_params:
  "CHR ''='' \<notin> set k \<Longrightarrow> parse_pair (''pk='' @ k) st = Inr (st\<lparr>pp_key := Some k\<rparr>)"
  "parse_pair (''p='' @ decimal (unat p)) st = Inr (st\<lparr>pp_p := Some p\<rparr>)"
  "parse_pair (''ip4='' @ show_ipv4 a) st = Inr (st\<lparr>pp_ip4 := Some a\<rparr>)"
  "parse_pair (''ip6='' @ show_ipv6 b) st = Inr (st\<lparr>pp_ip6 := Some b\<rparr>)"
  "parse_pair ''v=1'' st = Inr (st\<lparr>pp_version := Some 1\<rparr>)"
proof -
  show "CHR ''='' \<notin> set k \<Longrightarrow> parse_pair (''pk='' @ k) st = Inr (st\<lparr>pp_key := Some k\<rparr>)"
    using parse_pair_split [of "''pk''" k] by (simp add: parse_pair_def)
  have "unat p < 2 ^ 16"
    using unsigned_less [of p] by simp
  then show "parse_pair (''p='' @ decimal (unat p)) st = Inr (st\<lparr>pp_p := Some p\<rparr>)"
    using parse_pair_split [of "''p''" "decimal (unat p)"] by (simp add: parse_pair_def parse_unsigned_decimal)
  show "parse_pair (''ip4='' @ show_ipv4 a) st = Inr (st\<lparr>pp_ip4 := Some a\<rparr>)"
    using parse_pair_split [of "''ip4''" "show_ipv4 a"] by (simp add: parse_pair_def)
  show "parse_pair (''ip6='' @ show_ipv6 b) st = Inr (st\<lparr>pp_ip6 := Some b\<rparr>)"
    using parse_pair_split [of "''ip6''" "show_ipv6 b"] by (simp add: parse_pair_def)
  show "parse_pair ''v=1'' st = Inr (st\<lparr>pp_version := Some 1\<rparr>)"
    using parse_pair_split [of "''v''" "''1''"] by (simp add: parse_pair_def parse_unsigned_def to_digit_def)
qed

lemma split_generated:
  assumes "CHR ''&'' \<notin> set k"
  shows "split_at CHR ''&'' (drop 15 (generate_pairing_url k port v4 v6)) =
    [''v=1'', ''pk='' @ k, ''p='' @ decimal (unat port)] @
    (case v4 of Some a \<Rightarrow> [''ip4='' @ show_ipv4 a] | None \<Rightarrow> []) @
    (case v6 of Some b \<Rightarrow> [''ip6='' @ show_ipv6 b] | None \<Rightarrow> [])"
  using assms
  by (simp add: generate_pairing_url_def split_at_append split_at_plain split: option.split)

section \<open>Properties\<close>

text \<open>
  C23. The URL in the QR code can be read back. For every hexadecimal key (indeed every key text without
  the two separators), port and addresses, parsing the generated URL gives version 1 and exactly
  these values; the textual forms of IPv4 and IPv6 addresses, with the run of zeros compressed and
  IPv4-mapped addresses in dotted form, are part of the round trip.
\<close>

theorem pairing_url_round_trip:
  assumes "CHR ''&'' \<notin> set k" "CHR ''='' \<notin> set k"
  shows "PairingInfo_parse (generate_pairing_url k port v4 v6) =
    Inr \<lparr>pi_version = 1, pi_public_key_hex = k, pi_port = port, pi_ipv4 = v4, pi_ipv6 = v6\<rparr>"
proof -
  have "starts_with ''tapauth://pair?'' (generate_pairing_url k port v4 v6)"
    by (simp add: generate_pairing_url_def)
  then show ?thesis
    using parse_pair_params assms
    by (cases v4; cases v6) (simp_all add: PairingInfo_parse_def split_generated no_params_def)
qed

theorem pairing_url_round_trip_witness:
  "PairingInfo_parse (generate_pairing_url ''aabb'' 40000 (Some 0xC0A80002) (Some 0xFE800000000000000000000000000001)) =
    Inr \<lparr>pi_version = 1, pi_public_key_hex = ''aabb'', pi_port = 40000, pi_ipv4 = Some 0xC0A80002,
      pi_ipv6 = Some 0xFE800000000000000000000000000001\<rparr>"
  by (rule pairing_url_round_trip) simp_all

end
