(* ===== verification/Peer.thy ===== *)
theory Peer
  imports Text FileSystem
begin

text \<open>
  Who may administer the daemon, \<^verbatim>\<open>src/tapauthd/src/peer_identity.rs\<close>: the identity of the
  process at the other end of the socket and the question to PolKit. Parameters are the user
  database and the system bus; \<^verbatim>\<open>/proc\<close> is part of the file system. The branch for the
  development feature \<^verbatim>\<open>dev-polkit-bypass\<close>, which is compiled out of production builds, is not modelled.
\<close>

section \<open>The identity of the peer\<close>

definition POLKIT_ACTION_ID :: string where
  "POLKIT_ACTION_ID = ''dev.rourunisen.tapauth.config.admin''"

datatype peer_identity_error =
    InvalidPid i32 | ResolveFailed | ProcStatRead i32 io_error | ProcStatMalformed i32 string
  | DBusUnavailable string | AuthorizationDenied | PolKitUnavailable string | PolKitError string

text \<open>The messages; \<open>show_io\<close> prints an I/O error.\<close>

fun show_peer_identity_error :: "(io_error \<Rightarrow> string) \<Rightarrow> peer_identity_error \<Rightarrow> string" where
  "show_peer_identity_error show_io (InvalidPid pid) = ''invalid peer PID '' @ show_int pid"
| "show_peer_identity_error show_io ResolveFailed = ''failed to resolve peer identity''"
| "show_peer_identity_error show_io (ProcStatRead pid e) = ''cannot read /proc/'' @ show_int pid @ ''/stat: '' @ show_io e"
| "show_peer_identity_error show_io (ProcStatMalformed pid d) = ''malformed /proc/'' @ show_int pid @ ''/stat: '' @ d"
| "show_peer_identity_error show_io (DBusUnavailable s) = ''D-Bus connection failed: '' @ s"
| "show_peer_identity_error show_io AuthorizationDenied = ''authorization denied by PolKit''"
| "show_peer_identity_error show_io (PolKitUnavailable r) = ''PolKit unavailable ('' @ r @ '') and caller is not root''"
| "show_peer_identity_error show_io (PolKitError s) = ''PolKit authorization failed: '' @ s"

record peer_identity =
  peer_pid :: i32
  peer_uid :: u32
  peer_username :: string
  start_time :: u64

text \<open>
  The user database answers with an error, no user, or a name. The question to PolKit is the record
  the daemon sends; the answer is a failed call, a reply that cannot be read, or the decision.
\<close>

record polkit_query =
  pq_subject :: string
  pq_pid :: u32
  pq_start_time :: u64
  pq_uid :: u32
  pq_action :: string
  pq_flags :: u32

record peer_env =
  user_from_uid :: "u32 \<Rightarrow> unit + string option"
  bus_error :: "string option"
  check_authorization_call :: "polkit_query \<Rightarrow> string + (string + bool)"
  show_io_error :: "io_error \<Rightarrow> string"

definition read_process_start_time :: "i32 \<Rightarrow> os \<Rightarrow> peer_identity_error + u64" where
  "read_process_start_time pid s =
     rbind (map_err (ProcStatRead pid) (fs_read_to_string (''/proc/'' @ show_int pid @ ''/stat'') s)) (\<lambda>stat_content.
     rbind (ok_or (ProcStatMalformed pid ''no closing parenthesis'') (after_last CHR '')'' (field_str stat_content))) (\<lambda>after_comm.
       let fields = split_whitespace after_comm
       in if length fields < 20
          then Inl (ProcStatMalformed pid (''only '' @ decimal (length fields) @ '' fields after comm''))
          else rbind (map_err (\<lambda>e. ProcStatMalformed pid (''failed to parse start_time: '' @ show_int_parse_error e))
                 (parse_unsigned (2 ^ 64) (fields ! 19))) (\<lambda>n. Inr (of_nat n))))"

definition resolve_peer :: "peer_env \<Rightarrow> i32 \<Rightarrow> u32 \<Rightarrow> os \<Rightarrow> peer_identity_error + peer_identity" where
  "resolve_peer V pid uid s =
     (if pid \<le> 0 then Inl (InvalidPid pid)
      else
        rbind (map_err (\<lambda>_. ResolveFailed) (user_from_uid V uid)) (\<lambda>u.
        rbind (ok_or ResolveFailed u) (\<lambda>username.
        rbind (read_process_start_time pid s) (\<lambda>start.
          Inr \<lparr>peer_pid = pid, peer_uid = uid, peer_username = username, start_time = start\<rparr>))))"

section \<open>Authorization\<close>

definition polkit_request :: "peer_identity \<Rightarrow> polkit_query" where
  "polkit_request identity =
     \<lparr>pq_subject = ''unix-process'', pq_pid = of_int (peer_pid identity), pq_start_time = start_time identity,
      pq_uid = peer_uid identity, pq_action = POLKIT_ACTION_ID, pq_flags = 1\<rparr>"

definition check_polkit :: "peer_env \<Rightarrow> peer_identity \<Rightarrow> peer_identity_error + bool" where
  "check_polkit V identity =
     (case bus_error V of
        Some e \<Rightarrow> Inl (DBusUnavailable e)
      | None \<Rightarrow>
          rbind (map_err PolKitError (check_authorization_call V (polkit_request identity))) (\<lambda>reply.
            map_err (\<lambda>e. PolKitError (''response parse failed: '' @ e)) reply))"

definition is_unavailable :: "peer_identity_error \<Rightarrow> bool" where
  "is_unavailable e =
     (case e of
        DBusUnavailable _ \<Rightarrow> True
      | PolKitError s \<Rightarrow>
          let s_lower = to_lowercase s
          in contains ''not found'' s_lower \<or> contains ''no such'' s_lower \<or>
             contains ''serviceunknown'' s_lower \<or> contains ''not registered'' s_lower
      | _ \<Rightarrow> False)"

definition check_authorization :: "peer_env \<Rightarrow> peer_identity \<Rightarrow> peer_identity_error + unit" where
  "check_authorization V identity =
     (case check_polkit V identity of
        Inr True \<Rightarrow> Inr ()
      | Inr False \<Rightarrow> Inl AuthorizationDenied
      | Inl e \<Rightarrow>
          if is_unavailable e then
            (if peer_uid identity = 0 then Inr ()
             else Inl (PolKitUnavailable (''PolKit unavailable ('' @ show_peer_identity_error (show_io_error V) e @
                    '') and caller is not root. Install PolicyKit or run as root.'')))
          else Inl e)"

section \<open>Lemmas\<close>

text \<open>PolKit could not be asked.\<close>

definition polkit_missing :: "peer_env \<Rightarrow> peer_identity \<Rightarrow> bool" where
  "polkit_missing V identity \<longleftrightarrow> (\<exists>e. check_polkit V identity = Inl e \<and> is_unavailable e)"

lemma check_authorization_ok:
  "check_authorization V identity = Inr () \<longleftrightarrow>
   check_polkit V identity = Inr True \<or> polkit_missing V identity \<and> peer_uid identity = 0"
  by (auto simp: check_authorization_def polkit_missing_def split: sum.split bool.split)

lemma resolve_peer_ok:
  assumes "resolve_peer V pid uid s = Inr identity"
  shows "0 < pid" "peer_pid identity = pid" "peer_uid identity = uid" "user_from_uid V uid = Inr (Some (peer_username identity))"
    "read_process_start_time pid s = Inr (start_time identity)"
  using assms by (auto simp: resolve_peer_def result_simps split: if_splits)

lemma start_time_after_name:
  assumes "fs_read_to_string (''/proc/'' @ show_int pid @ ''/stat'') s =
      Inr (str_bytes (name @ '')'' @ concat (map (\<lambda>f. CHR '' '' # f) fs) @ nl))"
    and "nl = [] \<or> nl = [CHR 0x0A]"
    and "\<forall>f \<in> set fs. f \<noteq> [] \<and> list_all printable f \<and> CHR '')'' \<notin> set f" "20 \<le> length fs"
    and "fs ! 19 = decimal (unat t)"
  shows "read_process_start_time pid s = Inr t"
proof -
  have "after_last CHR '')'' (name @ '')'' @ concat (map (\<lambda>f. CHR '' '' # f) fs) @ nl) =
      Some (concat (map (\<lambda>f. CHR '' '' # f) fs) @ nl)"
    using after_last_append [of "CHR '')''" "concat (map (\<lambda>f. CHR '' '' # f) fs) @ nl" name] assms(2,3) by auto
  moreover have "split_whitespace (concat (map (\<lambda>f. CHR '' '' # f) fs) @ nl) = fs"
    using split_whitespace_words [of fs nl "[]"] assms(2,3) by (simp add: split_whitespace_def)
  moreover have "unat t < 2 ^ 64"
    using unsigned_less [of t] by simp
  then have "parse_unsigned (2 ^ 64) (fs ! 19) = Inr (unat t)"
    unfolding assms(5) by (rule parse_unsigned_decimal)
  ultimately show ?thesis
    using assms(1,4) by (simp add: read_process_start_time_def)
qed

section \<open>A concrete process\<close>

lemma utf8_valid_ascii_string: "list_all (\<lambda>c. (of_char c :: nat) < 128) s \<Longrightarrow> utf8_valid (str_bytes s)"
proof (rule utf8_valid_ascii, unfold list_all_iff, rule ballI)
  fix b assume "\<forall>c \<in> set s. (of_char c :: nat) < 128" "b \<in> set (str_bytes s)"
  then obtain n :: nat where "n < 128" "b = word_of_nat n"
    by (auto simp: str_bytes_def)
  then show "b \<le> 127"
    by (simp add: word_le_nat_alt unsigned_of_nat take_bit_nat_eq_self)
qed

definition demo_stat :: fs_node where
  "demo_stat = \<lparr>is_dir = False,
     contents = str_bytes (''7 (a) 1 b'' @ '')'' @ concat (map (\<lambda>f. CHR '' '' # f) (replicate 20 ''5'')) @ [CHR 0x0A]),
     owner = 0, mode = 292\<rparr>"

definition demo_proc :: os where
  "demo_proc = \<lparr>nodes = [''/proc/7/stat'' \<mapsto> demo_stat], fault = (\<lambda>_ _. None), euid = 0, tapauthd_user = Some 990\<rparr>"

lemma demo_stat_read:
  assumes "nodes s ''/proc/7/stat'' = Some demo_stat" "fault s = (\<lambda>_ _. None)"
  shows "fs_read_to_string (''/proc/'' @ show_int 7 @ ''/stat'') s =
    Inr (str_bytes (''7 (a) 1 b'' @ '')'' @ concat (map (\<lambda>f. CHR '' '' # f) (replicate 20 ''5'')) @ [CHR 0x0A]))"
proof -
  have "show_int 7 = ''7''"
    by code_simp
  moreover have "utf8_valid (contents demo_stat)"
    unfolding demo_stat_def by simp (rule utf8_valid_ascii_string, simp add: list_all_iff)
  ultimately show ?thesis
    using assms by (simp add: fs_read_to_string_def fs_read_def demo_stat_def)
qed

lemma demo_stat_fields: "list_all printable ''5''" "decimal (unat (5 :: u64)) = ''5''"
  by (simp add: printable_def) code_simp

lemma demo_start_time:
  assumes "nodes s ''/proc/7/stat'' = Some demo_stat" "fault s = (\<lambda>_ _. None)"
  shows "read_process_start_time 7 s = Inr 5"
  using start_time_after_name [OF demo_stat_read [OF assms], of 5] demo_stat_fields by simp

section \<open>Properties\<close>

text \<open>
  Who is authorized. A caller passes the check exactly when PolKit, asked over the system bus about
  the caller's process (its number, start time and user) and the administration action with
  interaction allowed, says yes; or when PolKit could not be asked at all and the caller is root. A
  refusal, a failing call of another kind and an unreadable reply never authorize.
\<close>

theorem authorization_exact:
  "check_authorization V identity = Inr () \<longleftrightarrow>
   (bus_error V = None \<and>
    (\<exists>reply. check_authorization_call V
       \<lparr>pq_subject = ''unix-process'', pq_pid = of_int (peer_pid identity), pq_start_time = start_time identity,
        pq_uid = peer_uid identity, pq_action = ''dev.rourunisen.tapauth.config.admin'', pq_flags = 1\<rparr> = Inr reply \<and>
       reply = Inr True)) \<or>
   (polkit_missing V identity \<and> peer_uid identity = 0)"
  unfolding check_authorization_ok
  by (auto simp: check_polkit_def polkit_request_def POLKIT_ACTION_ID_def result_simps split: option.splits)

text \<open>
  A process cannot forge its start time by its name. Whatever the kernel prints before the last
  closing parenthesis of \<^verbatim>\<open>/proc/<pid>/stat\<close>, thus also for a process name with blanks and
  parentheses, the start time read is the twentieth field after it, as PolKit's subject needs it.
\<close>

theorem start_time_ignores_process_name:
  assumes "fs_read_to_string (''/proc/'' @ show_int pid @ ''/stat'') s =
      Inr (str_bytes (name @ '')'' @ concat (map (\<lambda>f. CHR '' '' # f) fs) @ nl))"
    and "nl = [] \<or> nl = [CHR 0x0A]"
    and "\<forall>f \<in> set fs. f \<noteq> [] \<and> list_all printable f \<and> CHR '')'' \<notin> set f" "20 \<le> length fs"
    and "fs ! 19 = decimal (unat t)"
  shows "read_process_start_time pid s = Inr t"
  using assms by (rule start_time_after_name)

theorem start_time_ignores_process_name_witness: "read_process_start_time 7 demo_proc = Inr 5"
  using start_time_ignores_process_name [OF demo_stat_read [of demo_proc], of 5] demo_stat_fields by (simp add: demo_proc_def)

end
