(* ===== verification/Admin.thy ===== *)
theory Admin
  imports Pairing Auth Firewall Ipc PairingUrl Peer
begin

text \<open>
  Administration of the daemon, \<^verbatim>\<open>src/tapauthd/src/admin_handler.rs\<close>: every request of the
  configuration tool, the authorization before it, the reload after it, and the pairing of a phone,
  which spans three requests and is kept in a slot shared by all connections.

  The record \<open>admin_env\<close> is what one request meets: the crates, the host, the readings of clock and
  random generator in the order of use, and the connection a phone makes. The record \<open>admin_state\<close>
  is what requests share: the daemon's state, the file system, the firewall, the pairing slot with
  the generation counter, and the timers that clean the slot. Error texts of other crates are
  printed by functions of the environment. The build modelled has no \<^verbatim>\<open>dev-firewall-bypass\<close>.
\<close>

section \<open>Responses\<close>

definition err_resp :: "admin_status \<Rightarrow> string \<Rightarrow> admin_response" where
  "err_resp status msg = \<lparr>adm_status = status_number status, adm_error_message = msg, adm_payload = None\<rparr>"

definition empty_success :: admin_response where
  "empty_success = \<lparr>adm_status = status_number AdminSuccess, adm_error_message = [], adm_payload = None\<rparr>"

definition success_with :: "admin_payload \<Rightarrow> admin_response" where
  "success_with p = \<lparr>adm_status = status_number AdminSuccess, adm_error_message = [], adm_payload = Some p\<rparr>"

definition get_servers_success :: "paired_server_info list \<Rightarrow> admin_response" where
  "get_servers_success servers = success_with (ServersResponse servers)"

definition start_pairing_success :: "string \<Rightarrow> u32 \<Rightarrow> admin_response" where
  "start_pairing_success url port = success_with (StartPairingResponse url port)"

definition wait_pairing_success :: "string \<Rightarrow> u32 \<Rightarrow> admin_response" where
  "wait_pairing_success sas_code port = success_with (WaitForPairingResponse sas_code port)"

definition complete_pairing_success :: "string \<Rightarrow> admin_response" where
  "complete_pairing_success server_hex = success_with (CompletePairingResponse server_hex)"

definition get_config_success :: "string \<Rightarrow> u32 \<Rightarrow> bool \<Rightarrow> bool \<Rightarrow> admin_response" where
  "get_config_success hostname port ble network = success_with (ConfigResponse hostname port ble network)"

definition daemon_status_success :: "bool \<Rightarrow> string \<Rightarrow> admin_response" where
  "daemon_status_success tpm_enabled tpm_err = success_with (DaemonStatusResponse tpm_enabled tpm_err)"

section \<open>State\<close>

record pending_pairing =
  pp_guard :: "nat option"
  pp_session :: client_pairing_session
  pp_url :: string
  pp_port :: u16
  pp_generation :: u64

record active_pairing =
  ap_stream :: byte_stream
  ap_session :: client_pairing_session
  ap_server_public_key :: bytes
  ap_server_device_name :: string
  ap_port :: u16
  ap_guard :: "nat option"
  ap_generation :: u64

datatype pairing_state = Pending pending_pairing | Active active_pairing

datatype pairing_timer = PendingTimer u64 | ActiveTimer u64

record admin_state =
  am_daemon :: daemon_state
  am_os :: os
  am_fw :: fw
  am_pairing :: "pairing_state option"
  am_generation :: u64
  am_timers :: "(instant \<times> pairing_timer) list"
  am_clock :: instant

record admin_env =
  ad_crypto :: crypto_lib
  ad_codec :: pairing_codec
  ad_hex :: hex_lib
  ad_conf :: config_codec
  ad_tpm :: tpm_tools
  ad_tpm_feature :: bool
  ad_peer :: peer_env
  ad_fw :: fw_env
  ad_hostname :: "string option"
  ad_local_ip :: "ip_addr option"
  ad_netifas :: "(string \<times> ip_addr) list option"
  ad_bind_error :: "io_error option"
  ad_local_port :: "io_error + u16"
  ad_key_rnd :: "bytes option"
  ad_session_rnd :: "bytes option"
  ad_csk_rnd :: "bytes option"
  ad_nonce_rnd :: "bytes option"
  ad_accept :: "duration \<times> (io_error + byte_stream)"
  ad_now :: int
  ad_rfc3339 :: "int \<Rightarrow> string"
  ad_show_config :: "config_error \<Rightarrow> string"
  ad_show_firewall :: "firewall_error \<Rightarrow> string"
  ad_show_crypto :: "crypto_error \<Rightarrow> string"
  ad_show_protocol :: "protocol_error \<Rightarrow> string"

abbreviation ad_show_io :: "admin_env \<Rightarrow> io_error \<Rightarrow> string" where
  "ad_show_io E \<equiv> show_io_error (ad_peer E)"

text \<open>Dropping a session gives up its firewall guard.\<close>

definition release :: "admin_env \<Rightarrow> nat option \<Rightarrow> admin_state \<Rightarrow> admin_state" where
  "release E g st = (case g of Some n \<Rightarrow> st\<lparr>am_fw := drop_guard (ad_fw E) n (am_fw st)\<rparr> | None \<Rightarrow> st)"

text \<open>\<^verbatim>\<open>fetch_add\<close> returns the old value; the counter wraps.\<close>

definition next_generation :: "admin_state \<Rightarrow> u64 \<times> admin_state" where
  "next_generation st = (am_generation st, st\<lparr>am_generation := am_generation st + 1\<rparr>)"

section \<open>Reading requests\<close>

definition handle_get_servers :: "admin_env \<Rightarrow> string \<Rightarrow> admin_state \<Rightarrow> admin_response" where
  "handle_get_servers E username st =
     (case load_paired_servers (ad_conf E) CONFIG_DIR (am_os st) of
        Inr servers \<Rightarrow>
          get_servers_success
            (map (\<lambda>(pk, s). \<lparr>psi_name = ps_name s, psi_public_key = pk, psi_allowed_users = allowed_users s,
                             psi_paired_at = ad_rfc3339 E (paired_at s)\<rparr>)
               (filter (\<lambda>(_, s). is_user_allowed s username) servers))
      | Inl e \<Rightarrow> err_resp AdminError (''Failed to load servers: '' @ ad_show_config E e))"

definition handle_get_config :: "admin_env \<Rightarrow> admin_state \<Rightarrow> admin_response" where
  "handle_get_config E st =
     (let client_config = (case load_config (ad_conf E) CONFIG_DIR (ad_hostname E) (am_os st) of
                             Inr c \<Rightarrow> c | Inl _ \<Rightarrow> ClientConfig_default (ad_hostname E));
          toml_config = TapAuthConfig_load (ad_conf E) (am_os st)
      in get_config_success (cc_hostname client_config) (ucast (udp_port toml_config))
           (enable_ble toml_config) (enable_network toml_config))"

definition handle_get_daemon_status :: "admin_env \<Rightarrow> daemon_state \<Rightarrow> admin_response" where
  "handle_get_daemon_status E daemon =
     daemon_status_success (ad_tpm_feature E)
       (if ad_tpm_feature E \<and> ds_keypair daemon = None
        then (case init_error daemon of Some e \<Rightarrow> e | None \<Rightarrow> ''TPM key unseal failed'') else [])"

section \<open>Pairing\<close>

definition find_non_loopback_ipv4 :: "(string \<times> ip_addr) list option \<Rightarrow> u32 option" where
  "find_non_loopback_ipv4 interfaces =
     (case interfaces of
        None \<Rightarrow> None
      | Some l \<Rightarrow> (case List.map_filter (\<lambda>(_, ip). case ip of IpV4 a \<Rightarrow> if ip_is_loopback ip then None else Some a | _ \<Rightarrow> None) l of
                     [] \<Rightarrow> None | a # _ \<Rightarrow> Some a))"

definition find_non_loopback_ipv6 :: "(string \<times> ip_addr) list option \<Rightarrow> 128 word option" where
  "find_non_loopback_ipv6 interfaces =
     (case interfaces of
        None \<Rightarrow> None
      | Some l \<Rightarrow> (case List.map_filter (\<lambda>(_, ip). case ip of IpV6 a \<Rightarrow> if ip_is_loopback ip \<or> a = 0 then None else Some a | _ \<Rightarrow> None) l of
                     [] \<Rightarrow> None | a # _ \<Rightarrow> Some a))"

text \<open>The persistent key pair, made on the first pairing.\<close>

definition pairing_keypair :: "admin_env \<Rightarrow> (string, ed25519_keypair) osm" where
  "pairing_keypair E s =
     (case load_keypair (ad_crypto E) (ad_conf E) (ad_tpm E) CONFIG_DIR s of
        (Inr kp, s) \<Rightarrow> (Inr kp, s)
      | (Inl InvalidConfig, s) \<Rightarrow>
          smap_err (\<lambda>e. ''Keypair generation failed: '' @ ad_show_config E e)
            (generate_and_save_keypair (ad_crypto E) (ad_conf E) (ad_tpm E) CONFIG_DIR (ad_key_rnd E)) s
      | (Inl e, s) \<Rightarrow> (Inl (''Failed to load keypair: '' @ ad_show_config E e), s))"

definition spawn_pairing_timeout :: "u64 \<Rightarrow> admin_state \<Rightarrow> admin_state" where
  "spawn_pairing_timeout g st = st\<lparr>am_timers := (am_clock st + from_secs 300, PendingTimer g) # am_timers st\<rparr>"

definition spawn_active_pairing_timeout :: "u64 \<Rightarrow> admin_state \<Rightarrow> admin_state" where
  "spawn_active_pairing_timeout g st = st\<lparr>am_timers := (am_clock st + from_secs 300, ActiveTimer g) # am_timers st\<rparr>"

text \<open>What the timer of either kind does when its sleep is over.\<close>

fun timer_fires :: "admin_env \<Rightarrow> pairing_timer \<Rightarrow> admin_state \<Rightarrow> admin_state" where
  "timer_fires E (PendingTimer g) st =
     (case am_pairing st of
        Some (Pending p) \<Rightarrow> if pp_generation p = g then release E (pp_guard p) (st\<lparr>am_pairing := None\<rparr>) else st
      | _ \<Rightarrow> st)"
| "timer_fires E (ActiveTimer g) st =
     (case am_pairing st of
        Some (Active a) \<Rightarrow> if ap_generation a = g then release E (ap_guard a) (st\<lparr>am_pairing := None\<rparr>) else st
      | _ \<Rightarrow> st)"

text \<open>The lock of the slot is taken at the end only; what was made before is dropped when it is occupied.\<close>

definition store_pending :: "admin_env \<Rightarrow> pending_pairing \<Rightarrow> admin_state \<Rightarrow> admin_response \<times> admin_state" where
  "store_pending E pending st =
     (if am_pairing st \<noteq> None
      then (err_resp AdminError ''A pairing session is already in progress. Cancel or complete it first.'',
            release E (pp_guard pending) st)
      else (start_pairing_success (pp_url pending) (ucast (pp_port pending)),
            spawn_pairing_timeout (pp_generation pending) (st\<lparr>am_pairing := Some (Pending pending)\<rparr>)))"

definition handle_start_pairing :: "admin_env \<Rightarrow> admin_state \<Rightarrow> admin_response \<times> admin_state" where
  "handle_start_pairing E st =
     (case pairing_keypair E (am_os st) of
        (Inl msg, s) \<Rightarrow> (err_resp AdminError msg, st\<lparr>am_os := s\<rparr>)
      | (Inr keypair, s) \<Rightarrow>
          let st = st\<lparr>am_os := s\<rparr>;
              ipv4 = (case ad_local_ip E of
                        Some (IpV4 ip) \<Rightarrow> if \<not> ip_is_loopback (IpV4 ip) then Some ip else find_non_loopback_ipv4 (ad_netifas E)
                      | _ \<Rightarrow> find_non_loopback_ipv4 (ad_netifas E));
              ipv6 = find_non_loopback_ipv6 (ad_netifas E)
          in (case ad_bind_error E of
                Some e \<Rightarrow> (err_resp AdminError (''Failed to bind TCP listener: '' @ ad_show_io E e), st)
              | None \<Rightarrow>
                  (case ad_local_port E of
                     Inl e \<Rightarrow> (err_resp AdminError (''Failed to get port: '' @ ad_show_io E e), st)
                   | Inr port \<Rightarrow>
                       (case FirewallGuard_new (ad_fw E) port Tcp (am_fw st) of
                          (Inl e, w) \<Rightarrow> (err_resp AdminError (''Firewall error: '' @ ad_show_firewall E e), st\<lparr>am_fw := w\<rparr>)
                        | (Inr g, w) \<Rightarrow>
                            let st = st\<lparr>am_fw := w\<rparr>
                            in (case ClientPairingSession_new (ad_crypto E) (ad_session_rnd E) keypair of
                                  Inl e \<Rightarrow> (err_resp AdminError (''Session creation failed: '' @ ad_show_crypto E e),
                                            release E (Some g) st)
                                | Inr session \<Rightarrow>
                                    let x25519_pubkey_hex = hex_encode (ad_hex E) (x_public_key (c_x25519_keypair session));
                                        url = generate_pairing_url x25519_pubkey_hex port ipv4 ipv6;
                                        (gen, st) = next_generation st
                                    in store_pending E \<lparr>pp_guard = Some g, pp_session = session, pp_url = url,
                                         pp_port = port, pp_generation = gen\<rparr> st)))))"

text \<open>The first critical section of \<^verbatim>\<open>handle_wait_for_pairing\<close>: the session leaves the slot.\<close>

definition wait_take :: "u32 \<Rightarrow> admin_state \<Rightarrow> (admin_response + pending_pairing) \<times> admin_state" where
  "wait_take req_port st =
     (case am_pairing st of
        Some (Pending p) \<Rightarrow>
          if req_port \<noteq> 0 \<and> req_port \<noteq> ucast (pp_port p)
          then (Inl (err_resp AdminError (''Port mismatch: expected '' @ decimal (unat (pp_port p)) @ '', got '' @ decimal (unat req_port))), st)
          else (Inr p, st\<lparr>am_pairing := None\<rparr>)
      | Some (Active _) \<Rightarrow> (Inl (err_resp AdminError ''Pairing already in active phase''), st)
      | None \<Rightarrow> (Inl (err_resp AdminError ''No pending pairing session''), st))"

text \<open>The second one: the slot must still be empty.\<close>

definition store_active :: "admin_env \<Rightarrow> string \<Rightarrow> active_pairing \<Rightarrow> admin_state \<Rightarrow> admin_response \<times> admin_state" where
  "store_active E sas_display active st =
     (if am_pairing st \<noteq> None
      then (err_resp AdminError ''Pairing session was superseded by a newer request'', release E (ap_guard active) st)
      else (wait_pairing_success sas_display (ucast (ap_port active)),
            spawn_active_pairing_timeout (ap_generation active) (st\<lparr>am_pairing := Some (Active active)\<rparr>)))"

definition daemon_hostname :: "admin_env \<Rightarrow> string" where
  "daemon_hostname E = (case ad_hostname E of Some h \<Rightarrow> h | None \<Rightarrow> ''Unknown'')"

text \<open>
  The rest of the handler once the wait is over. An authentication string always has six digits
  (\<open>derive_sas_shape\<close>), so it is always formatted.
\<close>

definition wait_finish :: "admin_env \<Rightarrow> pending_pairing \<Rightarrow> admin_state \<Rightarrow> admin_response \<times> admin_state" where
  "wait_finish E pending st =
     (case ad_accept E of
        (d, r) \<Rightarrow>
          if from_secs 300 < d
          then (err_resp AdminError ''Timeout waiting for connection'', release E (pp_guard pending) st)
          else (case r of
             Inl e \<Rightarrow> (err_resp AdminError (''Accept error: '' @ ad_show_io E e), release E (pp_guard pending) st)
           | Inr stream \<Rightarrow>
               (case initiate_pairing (ad_crypto E) (ad_codec E) (pp_session pending) stream (daemon_hostname E) of
                  (session, Inr (stream, server_public_key, server_device_name, sas)) \<Rightarrow>
                    store_active E (case format_sas sas of Some s \<Rightarrow> s | None \<Rightarrow> sas)
                      \<lparr>ap_stream = stream, ap_session = session, ap_server_public_key = server_public_key,
                       ap_server_device_name = server_device_name, ap_port = pp_port pending,
                       ap_guard = pp_guard pending, ap_generation = pp_generation pending\<rparr> st
                | (_, Inl e) \<Rightarrow>
                    (err_resp AdminError (''Pairing initiation failed: '' @ ad_show_protocol E e),
                     release E (pp_guard pending) st))))"

text \<open>\<open>others\<close> is what other requests and the timers do while this one waits for the phone.\<close>

definition handle_wait_for_pairing ::
  "admin_env \<Rightarrow> (admin_state \<Rightarrow> admin_state) \<Rightarrow> u32 \<Rightarrow> admin_state \<Rightarrow> admin_response \<times> admin_state"
where
  "handle_wait_for_pairing E others req_port st =
     (case wait_take req_port st of
        (Inl r, st) \<Rightarrow> (r, st)
      | (Inr pending, st) \<Rightarrow> wait_finish E pending (others st))"

definition complete_take :: "u32 \<Rightarrow> admin_state \<Rightarrow> (admin_response + active_pairing) \<times> admin_state" where
  "complete_take req_port st =
     (case am_pairing st of
        Some (Active a) \<Rightarrow>
          if req_port \<noteq> 0 \<and> req_port \<noteq> ucast (ap_port a)
          then (Inl (err_resp AdminError (''Port mismatch: expected '' @ decimal (unat (ap_port a)) @ '', got '' @ decimal (unat req_port))), st)
          else (Inr a, st\<lparr>am_pairing := None\<rparr>)
      | Some (Pending _) \<Rightarrow> (Inl (err_resp AdminError ''Pairing still pending, wait for connection first''), st)
      | None \<Rightarrow> (Inl (err_resp AdminError ''No active pairing session''), st))"

text \<open>The symmetric key the phone is given: the stored one, or a new one when there is none.\<close>

definition pairing_csk :: "admin_env \<Rightarrow> os \<Rightarrow> string + client_symmetric_key" where
  "pairing_csk E s =
     (case load_csk CONFIG_DIR s of
        Inr c \<Rightarrow> Inr c
      | Inl InvalidConfig \<Rightarrow>
          if has_csk_file CONFIG_DIR s
          then Inl (''CSK file is corrupt.  Use `Rotate CSK` in settings to regenerate '' @
                    ''(this will invalidate all existing pairings).'')
          else map_err (\<lambda>e. ''CSK generation failed: '' @ ad_show_crypto E e) (generate_csk (ad_csk_rnd E))
      | Inl e \<Rightarrow> Inl (''Failed to load CSK: '' @ ad_show_config E e))"

definition store_pairing :: "admin_env \<Rightarrow> string \<Rightarrow> active_pairing \<Rightarrow> client_symmetric_key \<Rightarrow> (string, string) osm" where
  "store_pairing E username active csk =
     sbind (smap_err (\<lambda>e. ''Paired on phone, but saving local key failed: '' @ ad_show_config E e @
              ''. Ensure tapauthd is installed and the 'tapauthd' user and group exist, then retry pairing.'')
            (save_csk CONFIG_DIR csk)) (\<lambda>_.
       let server_hex = hex_encode (ad_hex E) (ap_server_public_key active);
           paired_server = \<lparr>ps_name = ap_server_device_name active, ps_public_key = server_hex,
                            allowed_users = [username], paired_at = ad_now E\<rparr>
       in sbind (smap_err (\<lambda>e. ''Failed to save paired server: '' @ ad_show_config E e)
                  (add_paired_server (ad_conf E) CONFIG_DIR server_hex paired_server)) (\<lambda>_. sret server_hex))"

definition handle_complete_pairing ::
  "admin_env \<Rightarrow> string \<Rightarrow> u32 \<Rightarrow> admin_state \<Rightarrow> admin_response \<times> admin_state"
where
  "handle_complete_pairing E username req_port st =
     (case complete_take req_port st of
        (Inl r, st) \<Rightarrow> (r, st)
      | (Inr active, st) \<Rightarrow>
          (case pairing_csk E (am_os st) of
             Inl msg \<Rightarrow> (err_resp AdminError msg, release E (ap_guard active) st)
           | Inr csk \<Rightarrow>
               (case fst (finish_pairing (ad_crypto E) (ad_codec E) (ap_session active) (ap_stream active)
                       (ad_nonce_rnd E) csk username) of
                  Inl e \<Rightarrow> (err_resp AdminError (''Pairing completion failed: '' @ ad_show_protocol E e),
                            release E (ap_guard active) st)
                | Inr _ \<Rightarrow>
                    (case store_pairing E username active csk (am_os st) of
                       (r, s) \<Rightarrow>
                         ((case r of Inr server_hex \<Rightarrow> complete_pairing_success server_hex | Inl msg \<Rightarrow> err_resp AdminError msg),
                          release E (ap_guard active) (st\<lparr>am_os := s\<rparr>))))))"

section \<open>Requests that change the configuration\<close>

text \<open>A configuration operation as a request: success or its error text.\<close>

definition config_request :: "(config_error \<Rightarrow> string) \<Rightarrow> (config_error, 'a) osm \<Rightarrow> admin_state \<Rightarrow> admin_response \<times> admin_state" where
  "config_request msg m st =
     (case m (am_os st) of
        (Inr _, s) \<Rightarrow> (empty_success, st\<lparr>am_os := s\<rparr>)
      | (Inl e, s) \<Rightarrow> (err_resp AdminError (msg e), st\<lparr>am_os := s\<rparr>))"

definition handle_remove_device :: "admin_env \<Rightarrow> string \<Rightarrow> string \<Rightarrow> admin_state \<Rightarrow> admin_response \<times> admin_state" where
  "handle_remove_device E username public_key =
     config_request (\<lambda>e. ''Failed to remove device: '' @ ad_show_config E e)
       (remove_user_from_pairing (ad_conf E) CONFIG_DIR public_key username)"

definition handle_rotate_csk :: "admin_env \<Rightarrow> admin_state \<Rightarrow> admin_response \<times> admin_state" where
  "handle_rotate_csk E =
     config_request (\<lambda>e. ''Failed to rotate CSK: '' @ ad_show_config E e) (rotate_csk CONFIG_DIR (ad_csk_rnd E))"

definition handle_recover_tpm :: "admin_env \<Rightarrow> admin_state \<Rightarrow> admin_response \<times> admin_state" where
  "handle_recover_tpm E st =
     (if ad_tpm_feature E
      then config_request (\<lambda>e. ''TPM recovery failed: '' @ ad_show_config E e)
             (recover_from_tpm_failure (ad_crypto E) (ad_conf E) (ad_tpm E) CONFIG_DIR (ad_key_rnd E) (ad_csk_rnd E)) st
      else (err_resp AdminError ''TPM support not compiled in'', st))"

definition requested_config :: "save_config_request \<Rightarrow> tapauth_config \<Rightarrow> tapauth_config" where
  "requested_config req config =
     (let config = config\<lparr>udp_port := ucast (scr_udp_port req)\<rparr>;
          config = (case scr_enable_ble req of Some b \<Rightarrow> config\<lparr>enable_ble := b\<rparr> | None \<Rightarrow> config)
      in case scr_enable_network req of Some b \<Rightarrow> config\<lparr>enable_network := b\<rparr> | None \<Rightarrow> config)"

definition handle_save_config :: "admin_env \<Rightarrow> save_config_request \<Rightarrow> admin_state \<Rightarrow> admin_response \<times> admin_state" where
  "handle_save_config E req st =
     (if scr_udp_port req = 0 \<or> 65535 < scr_udp_port req
      then (err_resp AdminError ''Invalid UDP port: must be 1-65535'', st)
      else
        let hostname = trim (scr_hostname req)
        in if hostname = [] then (err_resp AdminError ''Hostname must not be empty'', st)
           else
             (case TapAuthConfig_save (ad_conf E) (requested_config req (TapAuthConfig_load (ad_conf E) (am_os st))) (am_os st) of
                (Inl e, s) \<Rightarrow> (err_resp AdminError (''Failed to save TOML config: '' @ ad_show_io E e), st\<lparr>am_os := s\<rparr>)
              | (Inr _, s) \<Rightarrow>
                  config_request (\<lambda>e. ''Failed to save client config: '' @ ad_show_config E e)
                    (save_config (ad_conf E) CONFIG_DIR (ClientConfig hostname)) (st\<lparr>am_os := s\<rparr>)))"

section \<open>The dispatcher\<close>

definition dispatch_admin ::
  "admin_env \<Rightarrow> (admin_state \<Rightarrow> admin_state) \<Rightarrow> daemon_state \<Rightarrow> string \<Rightarrow> admin_request option \<Rightarrow> admin_state \<Rightarrow>
   (admin_response \<times> admin_state) \<times> bool"
where
  "dispatch_admin E others daemon username request st =
     (case request of
        Some GetServers \<Rightarrow> ((handle_get_servers E username st, st), False)
      | Some StartPairing \<Rightarrow> (handle_start_pairing E st, False)
      | Some (WaitForPairing port) \<Rightarrow> (handle_wait_for_pairing E others port st, False)
      | Some (CompletePairing port) \<Rightarrow> (handle_complete_pairing E username port st, True)
      | Some (RemoveDevice public_key) \<Rightarrow> (handle_remove_device E username public_key st, True)
      | Some RotateCsk \<Rightarrow> (handle_rotate_csk E st, True)
      | Some (SaveConfig req) \<Rightarrow> (handle_save_config E req st, True)
      | Some RecoverTpm \<Rightarrow> (handle_recover_tpm E st, True)
      | Some GetConfig \<Rightarrow> ((handle_get_config E st, st), False)
      | Some GetDaemonStatus \<Rightarrow> ((handle_get_daemon_status E daemon, st), False)
      | None \<Rightarrow> ((err_resp AdminError ''Empty admin request'', st), False))"

definition reload_daemon :: "admin_env \<Rightarrow> daemon_state \<Rightarrow> admin_state \<Rightarrow> admin_state" where
  "reload_daemon E daemon st =
     (case reload (ad_crypto E) (ad_conf E) (ad_tpm E) (ad_hostname E) daemon (am_os st) of
        (d, s) \<Rightarrow> st\<lparr>am_daemon := d, am_os := s\<rparr>)"

definition handle_admin_request ::
  "admin_env \<Rightarrow> (admin_state \<Rightarrow> admin_state) \<Rightarrow> admin_request option \<Rightarrow> i32 \<Rightarrow> u32 \<Rightarrow> admin_state \<Rightarrow>
   admin_response \<times> admin_state"
where
  "handle_admin_request E others request caller_pid caller_uid st =
     (let daemon = am_daemon st
      in case resolve_peer (ad_peer E) caller_pid caller_uid (am_os st) of
           Inl e \<Rightarrow> (err_resp AdminError (show_peer_identity_error (ad_show_io E) e), st)
         | Inr identity \<Rightarrow>
             (case check_authorization (ad_peer E) identity of
                Inl e \<Rightarrow> (err_resp AdminUnauthorized (show_peer_identity_error (ad_show_io E) e), st)
              | Inr _ \<Rightarrow>
                  (case dispatch_admin E others daemon (peer_username identity) request st of
                     ((response, st), needs_reload) \<Rightarrow>
                       (response, if needs_reload then reload_daemon E daemon st else st))))"

end
