(* ===== verification/AdminLaws.thy ===== *)
theory AdminLaws
  imports Admin
begin

text \<open>
  What administrative requests guarantee: nothing happens without authorization, a completed pairing
  is stored and used, and the validation of the settings.
\<close>

section \<open>Requests\<close>

lemma release_sel [simp]:
  "am_daemon (release E g st) = am_daemon st" "am_os (release E g st) = am_os st"
  "am_pairing (release E g st) = am_pairing st" "am_generation (release E g st) = am_generation st"
  "am_timers (release E g st) = am_timers st" "am_clock (release E g st) = am_clock st"
  by (simp_all add: release_def split: option.split)

lemma response_status [simp]:
  "adm_status (err_resp status msg) = status_number status" "adm_status empty_success = 0"
  "adm_status (success_with p) = 0" "adm_payload (err_resp status msg) = None" "adm_payload (success_with p) = Some p"
  by (simp_all add: err_resp_def empty_success_def success_with_def)

lemma admin_authorized:
  assumes "handle_admin_request E others request pid uid st = (resp, st')" "st' \<noteq> st \<or> adm_status resp = 0"
  obtains identity st1 needs_reload where
    "resolve_peer (ad_peer E) pid uid (am_os st) = Inr identity" "check_authorization (ad_peer E) identity = Inr ()"
    "dispatch_admin E others (am_daemon st) (peer_username identity) request st = ((resp, st1), needs_reload)"
    "st' = (if needs_reload then reload_daemon E (am_daemon st) st1 else st1)"
proof (cases "resolve_peer (ad_peer E) pid uid (am_os st)")
  case (Inl e)
  then show ?thesis
    using assms by (auto simp: handle_admin_request_def)
next
  case (Inr identity)
  show ?thesis
  proof (cases "check_authorization (ad_peer E) identity")
    case (Inl e)
    then show ?thesis
      using assms Inr by (auto simp: handle_admin_request_def)
  next
    case ok: (Inr u)
    obtain response st1 needs_reload where "dispatch_admin E others (am_daemon st) (peer_username identity) request st
        = ((response, st1), needs_reload)"
      by (metis prod.exhaust)
    then show ?thesis
      using assms(1) Inr ok that by (simp add: handle_admin_request_def)
  qed
qed

section \<open>A completed pairing\<close>

lemma save_servers_saved:
  assumes "config_codec_ok J" "healthy D s" "distinct (map fst m)"
  shows "\<exists>b s'. save_paired_servers J D m s = (Inr (), s') \<and> saved D PAIRED_SERVERS_FILE b s s'"
proof -
  obtain b where "json_enc_servers J m = Some b"
    using json_servers [OF assms(1,3)] by blast
  then show ?thesis
    using save_healthy [OF assms(2), of PAIRED_SERVERS_FILE b] by (auto simp: save_paired_servers_def sbind_def split: prod.splits sum.splits)
qed

lemma load_csk_frame:
  assumes "saved D PAIRED_SERVERS_FILE b s s'"
  shows "load_csk D s' = load_csk D s"
  using saved_frame [OF assms, of "path_join D CLIENT_SYMMETRIC_KEY_FILE"] state_files_distinct(5) [symmetric]
  by (simp add: load_csk_def Let_def)

lemma load_servers_frame:
  assumes "saved D CLIENT_SYMMETRIC_KEY_FILE b s s'"
  shows "load_paired_servers J D s' = load_paired_servers J D s"
  using saved_frame [OF assms, of "path_join D PAIRED_SERVERS_FILE"] by (simp add: load_paired_servers_def Let_def)

lemma saved_touches: "saved D f d s s' \<Longrightarrow> touches_only {D, path_join D f} s s'"
  by (auto simp: saved_def touches_only_def)

definition paired_entry :: "admin_env \<Rightarrow> string \<Rightarrow> active_pairing \<Rightarrow> paired_server" where
  "paired_entry E username active =
     \<lparr>ps_name = ap_server_device_name active, ps_public_key = hex_encode (ad_hex E) (ap_server_public_key active),
      allowed_users = [username], paired_at = ad_now E\<rparr>"

lemma store_pairing_good:
  assumes good: "store_good (ad_conf E) CONFIG_DIR s" and len: "length (csk_bytes csk) = 32"
  obtains s' where
    "store_pairing E username active csk s = (Inr (hex_encode (ad_hex E) (ap_server_public_key active)), s')"
    "servers_of (ad_conf E) CONFIG_DIR s' = (servers_of (ad_conf E) CONFIG_DIR s)
       (hex_encode (ad_hex E) (ap_server_public_key active) \<mapsto> paired_entry E username active)"
    "store_good (ad_conf E) CONFIG_DIR s'" "load_csk CONFIG_DIR s' = Inr csk"
    "TapAuthConfig_load (ad_conf E) s' = TapAuthConfig_load (ad_conf E) s"
proof -
  let ?J = "ad_conf E" and ?hex = "hex_encode (ad_hex E) (ap_server_public_key active)"
  let ?entry = "paired_entry E username active"
  have h: "healthy CONFIG_DIR s" "config_codec_ok ?J"
    using good by (simp_all add: store_good_def)
  obtain s1 where s1: "save_csk CONFIG_DIR csk s = (Inr (), s1)" "saved CONFIG_DIR CLIENT_SYMMETRIC_KEY_FILE (csk_bytes csk) s s1"
      "healthy CONFIG_DIR s1"
    using save_healthy [OF h(1), of CLIENT_SYMMETRIC_KEY_FILE "csk_bytes csk"] by (auto simp: save_csk_def)
  note same = load_servers_frame [OF s1(2), of ?J]
  have good1: "store_good ?J CONFIG_DIR s1" "servers_of ?J CONFIG_DIR s1 = servers_of ?J CONFIG_DIR s"
    using good same s1(3) by (simp_all add: store_good_def servers_of_def)
  obtain s2 where s2: "add_paired_server ?J CONFIG_DIR ?hex ?entry s1 = (Inr (), s2)" "store_good ?J CONFIG_DIR s2"
      "servers_of ?J CONFIG_DIR s2 = (servers_of ?J CONFIG_DIR s1)(?hex \<mapsto> ?entry)"
    using add_paired_server_good [OF good1(1)] .
  obtain m where m: "load_paired_servers ?J CONFIG_DIR s1 = Inr m" "distinct (map fst m)"
    using store_goodE [OF good1(1)] .
  then obtain b where b: "saved CONFIG_DIR PAIRED_SERVERS_FILE b s1 s2"
    using save_servers_saved [OF h(2) s1(3), of "AList.update ?hex ?entry m"] s2(1)
    by (auto simp: add_paired_server_def sbind_def distinct_update)
  have "load_csk CONFIG_DIR s2 = Inr csk"
    using csk_slot.load_after_save [OF h(1), of csk] s1(1) len load_csk_frame [OF b] by simp
  moreover have "TapAuthConfig_load ?J s2 = TapAuthConfig_load ?J s1" "TapAuthConfig_load ?J s1 = TapAuthConfig_load ?J s"
    by (rule TapAuthConfig_load_frame [OF saved_touches [OF b]], simp add: DEFAULT_CONFIG_PATH_def CONFIG_DIR_def path_join_def PAIRED_SERVERS_FILE_def)
      (rule TapAuthConfig_load_frame [OF saved_touches [OF s1(2)]], simp add: DEFAULT_CONFIG_PATH_def CONFIG_DIR_def path_join_def)
  moreover have "store_pairing E username active csk s = (Inr ?hex, s2)"
    using s1(1) s2(1) by (simp add: store_pairing_def sbind_def smap_err_def Let_def paired_entry_def)
  ultimately show ?thesis
    using that s2(2,3) good1(2) by simp
qed

lemma pairing_csk_length:
  assumes "pairing_csk E s = Inr csk" "\<And>r. ad_csk_rnd E = Some r \<Longrightarrow> length r = 32"
  shows "length (csk_bytes csk) = 32"
  using assms
  by (auto simp: pairing_csk_def load_csk_def generate_csk_def Let_def result_simps
      split: sum.splits config_error.splits if_splits option.splits)

lemma reload_plain:
  assumes "\<not> use_tpm (TapAuthConfig_load (ad_conf E) (am_os st))" "load_csk CONFIG_DIR (am_os st) = Inr csk"
    "load_paired_servers (ad_conf E) CONFIG_DIR (am_os st) = Inr m"
  shows "am_os (reload_daemon E daemon st) = am_os st" "ds_csk (am_daemon (reload_daemon E daemon st)) = Some csk"
    "paired_servers (am_daemon (reload_daemon E daemon st)) = m" "am_pairing (reload_daemon E daemon st) = am_pairing st"
  using assms by (simp_all add: reload_daemon_def reload_def Let_def load_keypair_def split: prod.split)

lemma complete_take_cases:
  obtains (err) msg where "complete_take port st = (Inl (err_resp AdminError msg), st)"
  | (took) a where "complete_take port st = (Inr a, st\<lparr>am_pairing := None\<rparr>)" "am_pairing st = Some (Active a)"
proof (cases "am_pairing st")
  case (Some x)
  show ?thesis
  proof (cases x)
    case (Active a)
    show ?thesis
    proof (cases "port \<noteq> 0 \<and> port \<noteq> ucast (ap_port a)")
      case True
      then show ?thesis
        using Some Active by (intro err) (simp add: complete_take_def)
    next
      case False
      show ?thesis
        by (rule took [of a]) (use False Some Active in \<open>auto simp: complete_take_def\<close>)
    qed
  qed (use Some err in \<open>simp add: complete_take_def\<close>)
qed (use err in \<open>simp add: complete_take_def\<close>)

section \<open>A concrete request\<close>

definition demo_peer :: peer_env where
  "demo_peer = \<lparr>user_from_uid = (\<lambda>_. Inr (Some ''alice'')), bus_error = None,
     check_authorization_call = (\<lambda>_. Inr (Inr True)), show_io_error = (\<lambda>_. ''io'')\<rparr>"

definition demo_admin_env :: admin_env where
  "demo_admin_env = \<lparr>ad_crypto = demo_crypto, ad_codec = demo_pairing_codec, ad_hex = demo_hex, ad_conf = demo_config_codec,
     ad_tpm = demo_tpm_tools, ad_tpm_feature = False, ad_peer = demo_peer, ad_fw = demo_fw_env, ad_hostname = Some ''laptop'',
     ad_local_ip = Some (IpV4 0xC0A80002), ad_netifas = Some [], ad_bind_error = None, ad_local_port = Inr 40000,
     ad_key_rnd = Some (replicate 32 6), ad_session_rnd = Some (replicate 32 1), ad_csk_rnd = Some (replicate 32 8),
     ad_nonce_rnd = Some (replicate 12 0), ad_accept = (0, Inl TimedOut), ad_now = 0, ad_rfc3339 = (\<lambda>_. ''now''),
     ad_show_config = (\<lambda>_. ''config''), ad_show_firewall = (\<lambda>_. ''firewall''), ad_show_crypto = (\<lambda>_. ''crypto''),
     ad_show_protocol = (\<lambda>_. ''protocol'')\<rparr>"

definition demo_admin_os :: os where
  "demo_admin_os = demo_os\<lparr>nodes := (nodes demo_os)(''/proc/7/stat'' \<mapsto> demo_stat)\<rparr>"

definition demo_admin :: "pairing_state option \<Rightarrow> admin_state" where
  "demo_admin sl = \<lparr>am_daemon = \<lparr>paired_servers = [], ds_keypair = None, ds_csk = None, ds_hostname = ''laptop'', init_error = None\<rparr>,
     am_os = demo_admin_os, am_fw = fw_init, am_pairing = sl, am_generation = 0, am_timers = [], am_clock = 0\<rparr>"

lemma demo_admin_env_sel [simp]:
  "ad_crypto demo_admin_env = demo_crypto" "ad_codec demo_admin_env = demo_pairing_codec" "ad_hex demo_admin_env = demo_hex"
  "ad_conf demo_admin_env = demo_config_codec" "ad_peer demo_admin_env = demo_peer" "ad_csk_rnd demo_admin_env = Some (replicate 32 8)"
  "ad_nonce_rnd demo_admin_env = Some (replicate 12 0)" "am_os (demo_admin sl) = demo_admin_os" "am_pairing (demo_admin sl) = sl"
  by (simp_all add: demo_admin_env_def demo_admin_def)

lemma demo_admin_files:
  "path_exists (path_join CONFIG_DIR f) demo_admin_os = path_exists (path_join CONFIG_DIR f) demo_os"
  "read_secure_file (path_join CONFIG_DIR f) demo_admin_os = read_secure_file (path_join CONFIG_DIR f) demo_os"
  by (rule access_frame; simp add: demo_admin_os_def CONFIG_DIR_def path_join_def)+

lemma demo_admin_good: "store_good demo_config_codec CONFIG_DIR demo_admin_os"
proof -
  have "healthy CONFIG_DIR demo_admin_os"
    using demo_os_healthy by (simp add: healthy_def demo_admin_os_def CONFIG_DIR_def path_join_def)
  then show ?thesis
    using demo_store_good by (simp add: store_good_def load_paired_servers_def demo_admin_files Let_def split: if_splits)
qed

lemma demo_resolved:
  "\<exists>identity. resolve_peer demo_peer 7 1000 demo_admin_os = Inr identity \<and> peer_username identity = ''alice'' \<and>
     check_authorization demo_peer identity = Inr ()"
proof -
  have "read_process_start_time 7 demo_admin_os = Inr 5"
    by (rule demo_start_time) (simp_all add: demo_admin_os_def demo_os_def)
  then show ?thesis
    by (simp add: resolve_peer_def demo_peer_def check_authorization_def check_polkit_def)
qed

section \<open>Properties\<close>

text \<open>
  C18. Nothing without authorization. If an administrative request changes any part of the daemon's state,
  its files, the firewall or the pairing slot, or is answered with success, then the caller's user and
  process were identified and PolKit authorized this very process for administration, or the system
  has no PolKit and the caller is root.
\<close>

theorem admin_needs_authorization:
  assumes "handle_admin_request E others request pid uid st = (resp, st')" "st' \<noteq> st \<or> adm_status resp = status_number AdminSuccess"
  shows "\<exists>identity. resolve_peer (ad_peer E) pid uid (am_os st) = Inr identity \<and> peer_uid identity = uid \<and> peer_pid identity = pid \<and>
    (check_polkit (ad_peer E) identity = Inr True \<or> polkit_missing (ad_peer E) identity \<and> uid = 0)"
proof -
  obtain identity where i: "resolve_peer (ad_peer E) pid uid (am_os st) = Inr identity"
      "check_authorization (ad_peer E) identity = Inr ()"
    using admin_authorized [OF assms(1)] assms(2) by auto
  show ?thesis
    using resolve_peer_ok [OF i(1)] check_authorization_ok [of "ad_peer E" identity] i by blast
qed

theorem admin_needs_authorization_witness:
  "\<exists>resp st' identity. handle_admin_request demo_admin_env id (Some GetDaemonStatus) 7 1000 (demo_admin None) = (resp, st') \<and>
     adm_status resp = 0 \<and> resolve_peer demo_peer 7 1000 demo_admin_os = Inr identity \<and> check_polkit demo_peer identity = Inr True"
proof -
  obtain resp st' where run: "handle_admin_request demo_admin_env id (Some GetDaemonStatus) 7 1000 (demo_admin None) = (resp, st')"
      "adm_status resp = 0"
    using demo_resolved
    by (auto simp: handle_admin_request_def dispatch_admin_def handle_get_daemon_status_def daemon_status_success_def Let_def)
  from admin_needs_authorization [OF run(1)] show ?thesis
    using run by auto
qed

text \<open>
  C19. A completed pairing is stored and in force. If \<^verbatim>\<open>CompletePairing\<close> is answered with success, the
  slot held a connected phone, the phone confirmed the symmetric key, the key is the one on disk and
  in the daemon's state afterwards, and the list of paired servers on disk and in the daemon's state
  is the old one with the entry of this phone, replaced if it was paired before: its list of
  allowed users is the caller alone, also when the old entry allowed others. The slot is free again.
\<close>

theorem completed_pairing_is_stored:
  assumes "handle_admin_request E others (Some (CompletePairing port)) pid uid st = (resp, st')" "adm_status resp = status_number AdminSuccess"
    and "store_good (ad_conf E) CONFIG_DIR (am_os st)" "\<not> use_tpm (TapAuthConfig_load (ad_conf E) (am_os st))"
    and "\<And>r. ad_csk_rnd E = Some r \<Longrightarrow> length r = 32"
  shows "\<exists>identity active csk.
    resolve_peer (ad_peer E) pid uid (am_os st) = Inr identity \<and> am_pairing st = Some (Active active) \<and>
    pairing_csk E (am_os st) = Inr csk \<and>
    fst (finish_pairing (ad_crypto E) (ad_codec E) (ap_session active) (ap_stream active) (ad_nonce_rnd E) csk (peer_username identity))
      = Inr () \<and>
    am_pairing st' = None \<and> load_csk CONFIG_DIR (am_os st') = Inr csk \<and> ds_csk (am_daemon st') = Some csk \<and>
    servers_of (ad_conf E) CONFIG_DIR (am_os st') = (servers_of (ad_conf E) CONFIG_DIR (am_os st))
      (hex_encode (ad_hex E) (ap_server_public_key active) \<mapsto> paired_entry E (peer_username identity) active) \<and>
    map_of (paired_servers (am_daemon st')) = servers_of (ad_conf E) CONFIG_DIR (am_os st')"
proof -
  obtain identity st1 where i: "resolve_peer (ad_peer E) pid uid (am_os st) = Inr identity"
      "handle_complete_pairing E (peer_username identity) port st = (resp, st1)" "st' = reload_daemon E (am_daemon st) st1"
    by (rule admin_authorized [OF assms(1)]) (use assms(2) in \<open>auto simp: dispatch_admin_def\<close>)
  obtain active where a: "complete_take port st = (Inr active, st\<lparr>am_pairing := None\<rparr>)" "am_pairing st = Some (Active active)"
    using i(2) assms(2) by (cases rule: complete_take_cases [of port st]) (auto simp: handle_complete_pairing_def)
  obtain csk where csk: "pairing_csk E (am_os st) = Inr csk"
      "fst (finish_pairing (ad_crypto E) (ad_codec E) (ap_session active) (ap_stream active) (ad_nonce_rnd E) csk (peer_username identity)) = Inr ()"
    using i(2) assms(2) a by (auto simp: handle_complete_pairing_def split: sum.splits)
  obtain s' where s': "store_pairing E (peer_username identity) active csk (am_os st) =
      (Inr (hex_encode (ad_hex E) (ap_server_public_key active)), s')"
      "servers_of (ad_conf E) CONFIG_DIR s' = (servers_of (ad_conf E) CONFIG_DIR (am_os st))
         (hex_encode (ad_hex E) (ap_server_public_key active) \<mapsto> paired_entry E (peer_username identity) active)"
      "store_good (ad_conf E) CONFIG_DIR s'" "load_csk CONFIG_DIR s' = Inr csk"
      "TapAuthConfig_load (ad_conf E) s' = TapAuthConfig_load (ad_conf E) (am_os st)"
    using store_pairing_good [OF assms(3) pairing_csk_length [OF csk(1) assms(5)]] by metis
  have st1: "am_os st1 = s'" "am_pairing st1 = None"
    using i(2) a csk s'(1) by (auto simp: handle_complete_pairing_def)
  obtain m where m: "load_paired_servers (ad_conf E) CONFIG_DIR s' = Inr m" "servers_of (ad_conf E) CONFIG_DIR s' = map_of m"
    using store_goodE [OF s'(3)] .
  have "\<not> use_tpm (TapAuthConfig_load (ad_conf E) (am_os st1))" "load_csk CONFIG_DIR (am_os st1) = Inr csk"
      "load_paired_servers (ad_conf E) CONFIG_DIR (am_os st1) = Inr m"
    using assms(4) s'(4,5) m(1) st1 by simp_all
  note r = reload_plain [OF this, of "am_daemon st"]
  show ?thesis
    using i(1,3) a(2) csk s'(2,4) r st1 m(2) by auto
qed

definition demo_active :: "byte_stream \<Rightarrow> active_pairing" where
  "demo_active s = \<lparr>ap_stream = s, ap_session = demo_client, ap_server_public_key = replicate 32 4,
     ap_server_device_name = ''phone'', ap_port = 40000, ap_guard = None, ap_generation = 0\<rparr>"

lemma demo_admin_csk: "pairing_csk demo_admin_env demo_admin_os = Inr (ClientSymmetricKey (replicate 32 8))"
proof -
  have "\<not> path_exists (path_join CONFIG_DIR CLIENT_SYMMETRIC_KEY_FILE) demo_os"
    by (simp add: path_exists_def metadata_def demo_os_def CONFIG_DIR_def path_join_def)
  then show ?thesis
    by (simp add: pairing_csk_def load_csk_def has_csk_file_def generate_csk_def demo_admin_files)
qed

lemma demo_complete_pairing:
  "\<exists>s resp st'. handle_admin_request demo_admin_env id (Some (CompletePairing 0)) 7 1000 (demo_admin (Some (Active (demo_active s))))
      = (resp, st') \<and> adm_status resp = 0"
proof -
  obtain s out where f: "finish_pairing demo_crypto demo_pairing_codec demo_client s (Some (replicate 12 0))
      (ClientSymmetricKey (replicate 32 8)) ''alice'' = (Inr (), out)"
    using demo_finish_run by blast
  let ?st = "demo_admin (Some (Active (demo_active s)))"
  obtain s' where "store_pairing demo_admin_env ''alice'' (demo_active s) (ClientSymmetricKey (replicate 32 8)) demo_admin_os =
      (Inr (hex_encode demo_hex (ap_server_public_key (demo_active s))), s')"
    by (rule store_pairing_good [of demo_admin_env demo_admin_os "ClientSymmetricKey (replicate 32 8)" "''alice''" "demo_active s"])
      (use demo_admin_good in simp_all)
  then have "adm_status (fst (handle_complete_pairing demo_admin_env ''alice'' 0 ?st)) = 0"
    using f demo_admin_csk
    by (simp add: handle_complete_pairing_def complete_take_def demo_active_def complete_pairing_success_def)
  then have "adm_status (fst (handle_admin_request demo_admin_env id (Some (CompletePairing 0)) 7 1000 ?st)) = 0"
    using demo_resolved by (auto simp: handle_admin_request_def dispatch_admin_def split: prod.splits)
  then show ?thesis
    by (metis prod.collapse)
qed

lemma demo_admin_toml: "TapAuthConfig_load demo_config_codec demo_admin_os = TapAuthConfig_default"
  by (simp add: TapAuthConfig_load_def load_from_path_def fs_read_to_string_def fs_read_def demo_admin_os_def demo_os_def
      DEFAULT_CONFIG_PATH_def CONFIG_DIR_def)

lemma demo_admin_no_tpm: "\<not> use_tpm (TapAuthConfig_load demo_config_codec demo_admin_os)"
  by (simp add: demo_admin_toml TapAuthConfig_default_def)

theorem completed_pairing_is_stored_witness:
  "\<exists>s resp st' server. handle_admin_request demo_admin_env id (Some (CompletePairing 0)) 7 1000 (demo_admin (Some (Active (demo_active s))))
      = (resp, st') \<and> adm_status resp = 0 \<and> map_of (paired_servers (am_daemon st')) (hex_encode demo_hex (replicate 32 4)) = Some server \<and>
      allowed_users server = [''alice''] \<and> ds_csk (am_daemon st') = Some (ClientSymmetricKey (replicate 32 8))"
proof -
  obtain s resp st' where run: "handle_admin_request demo_admin_env id (Some (CompletePairing 0)) 7 1000
      (demo_admin (Some (Active (demo_active s)))) = (resp, st')" "adm_status resp = 0"
    using demo_complete_pairing by blast
  let ?hex = "hex_encode demo_hex (replicate 32 4)"
  have "map_of (paired_servers (am_daemon st')) ?hex = Some (paired_entry demo_admin_env ''alice'' (demo_active s)) \<and>
      ds_csk (am_daemon st') = Some (ClientSymmetricKey (replicate 32 8))"
    using completed_pairing_is_stored [OF run(1)] run(2) demo_admin_good demo_admin_no_tpm demo_admin_csk demo_resolved
    by (auto simp: demo_active_def)
  moreover have "allowed_users (paired_entry demo_admin_env ''alice'' (demo_active s)) = [''alice'']"
    by (simp add: paired_entry_def)
  ultimately show ?thesis
    using run by blast
qed

section \<open>The settings\<close>

definition toml_paths :: "path set" where
  "toml_paths = {''/etc'', ''/etc/tapauth'', DEFAULT_CONFIG_PATH}"

lemma toml_dirs:
  "path_parent DEFAULT_CONFIG_PATH = ''/etc/tapauth''"
  "path_prefixes ''/etc/tapauth'' = [''/etc'', ''/etc/tapauth'']"
proof -
  show "path_parent DEFAULT_CONFIG_PATH = ''/etc/tapauth''"
    by (simp add: path_parent_def DEFAULT_CONFIG_PATH_def)
  show "path_prefixes ''/etc/tapauth'' = [''/etc'', ''/etc/tapauth'']"
    by (simp add: path_prefixes_def upt_rec)
qed

lemma toml_prefixes: "set (path_prefixes (path_parent DEFAULT_CONFIG_PATH)) \<subseteq> toml_paths"
  by (simp add: toml_dirs toml_paths_def)

lemma toml_paths_elsewhere: "CONFIG_DIR \<notin> toml_paths" "path_join CONFIG_DIR f \<notin> toml_paths"
  by (simp_all add: toml_paths_def CONFIG_DIR_def DEFAULT_CONFIG_PATH_def path_join_def)

lemma create_dirs_touches: "set ps \<subseteq> P \<Longrightarrow> touches_only P s (snd (create_dirs ps s))"
proof (induction ps arbitrary: s)
  case (Cons p ps)
  then show ?case
    by (auto split: option.split intro: touches_only_trans [OF touches_only_node])
qed simp

lemma healthy_frame:
  assumes "healthy CONFIG_DIR s" "touches_only toml_paths s s'"
  shows "healthy CONFIG_DIR s'"
proof -
  have n: "nodes s' CONFIG_DIR = nodes s CONFIG_DIR" "nodes s' (path_join CONFIG_DIR f) = nodes s (path_join CONFIG_DIR f)" for f
    using touches_only_access(1) [OF assms(2)] toml_paths_elsewhere by blast+
  have f: "fault s' = fault s" "tapauthd_user s' = tapauthd_user s" "euid s' = euid s"
    using assms(2) by (simp_all add: touches_only_def)
  show ?thesis
    using assms(1) unfolding healthy_def is_euid_privileged_for_writes_def is_euid_tapauthd_def owner_ok_def n f by simp
qed

lemma toml_save_load:
  assumes "TapAuthConfig_save J c s = (Inr (), s')" "config_codec_ok J" "fault s OpRead DEFAULT_CONFIG_PATH = None"
  shows "TapAuthConfig_load J s' = c" "touches_only toml_paths s s'"
proof -
  let ?p = DEFAULT_CONFIG_PATH
  obtain s1 b s2 where c: "create_dir_all (path_parent ?p) s = (Inr (), s1)" "toml_enc J c = Some b"
      "fs_write ?p b s1 = (Inr (), s2)" "fs_set_mode ?p 420 s2 = (Inr (), s')"
    using assms(1) by (auto simp: TapAuthConfig_save_def save_to_path_def result_simps)
  have b: "utf8_valid b" "toml_dec J b = Some c"
    using toml_config [OF assms(2), of c] c(2) by auto
  have t1: "touches_only toml_paths s s1"
    using create_dirs_touches [OF toml_prefixes, of s] c(1) by (simp add: create_dir_all_def)
  have p: "?p \<in> toml_paths"
    by (simp add: toml_paths_def)
  have t2: "touches_only toml_paths s1 s2"
    using touches_only_ops(1) [OF p, of s1 b] c(3) by simp
  obtain n where n: "nodes s2 ?p = Some n" "contents n = b" "\<not> is_dir n"
    using c(3) by (auto simp: fs_write_def split: option.splits if_splits)
  then have s': "s' = s2\<lparr>nodes := (nodes s2)(?p \<mapsto> n\<lparr>mode := 420\<rparr>)\<rparr>"
    using c(4) by (auto simp: fs_set_mode_def split: option.splits)
  then have t3: "touches_only toml_paths s2 s'"
    using touches_only_node [OF p] by simp
  show t: "touches_only toml_paths s s'"
    using t1 t2 t3 touches_only_trans by blast
  have "fault s' = fault s"
    using t by (simp add: touches_only_def)
  then have "fs_read_to_string ?p s' = Inr b"
    using assms(3) s' n b(1) by (simp add: fs_read_to_string_def fs_read_def)
  then show "TapAuthConfig_load J s' = c"
    using b(2) by (simp add: TapAuthConfig_load_def load_from_path_def)
qed

lemma config_request_ok:
  assumes "config_request msg m st = (resp, st')" "adm_status resp = 0"
  obtains x s where "m (am_os st) = (Inr x, s)" "st' = st\<lparr>am_os := s\<rparr>"
  using assms by (cases "m (am_os st)"; cases "fst (m (am_os st))") (auto simp: config_request_def)

lemma save_config_ok:
  assumes run: "handle_save_config E req st = (resp, st')" "adm_status resp = 0"
    and ok: "config_codec_ok (ad_conf E)" "healthy CONFIG_DIR (am_os st)" "fault (am_os st) OpRead DEFAULT_CONFIG_PATH = None"
  shows "scr_udp_port req \<noteq> 0 \<and> scr_udp_port req \<le> 65535 \<and> trim (scr_hostname req) \<noteq> []"
    and "TapAuthConfig_load (ad_conf E) (am_os st') = requested_config req (TapAuthConfig_load (ad_conf E) (am_os st))"
    and "load_config (ad_conf E) CONFIG_DIR hn (am_os st') = Inr (ClientConfig (trim (scr_hostname req)))"
proof -
  let ?J = "ad_conf E" and ?h = "trim (scr_hostname req)"
  show v: "scr_udp_port req \<noteq> 0 \<and> scr_udp_port req \<le> 65535 \<and> ?h \<noteq> []"
    using run by (auto simp: handle_save_config_def Let_def not_less split: if_splits)
  let ?c = "requested_config req (TapAuthConfig_load ?J (am_os st))"
  obtain s1 where s1: "TapAuthConfig_save ?J ?c (am_os st) = (Inr (), s1)"
      "config_request (\<lambda>e. ''Failed to save client config: '' @ ad_show_config E e) (save_config ?J CONFIG_DIR (ClientConfig ?h))
         (st\<lparr>am_os := s1\<rparr>) = (resp, st')"
    using run v by (auto simp: handle_save_config_def Let_def not_less split: if_splits prod.splits sum.splits)
  note l = toml_save_load [OF s1(1) ok(1,3)]
  obtain s2 where s2: "save_config ?J CONFIG_DIR (ClientConfig ?h) s1 = (Inr (), s2)" "am_os st' = s2"
    by (rule config_request_ok [OF s1(2) run(2)]) (use that in auto)
  have h: "healthy CONFIG_DIR s1"
    using healthy_frame [OF ok(2) l(2)] .
  obtain b where "json_enc_config ?J (ClientConfig ?h) = Some b"
    using json_config [OF ok(1)] by blast
  then have "saved CONFIG_DIR CLIENT_CONFIG_FILE b s1 s2"
    using save_healthy [OF h, of CLIENT_CONFIG_FILE b] s2(1) by (auto simp: save_config_def sbind_def split: prod.splits sum.splits)
  then have "TapAuthConfig_load ?J s2 = TapAuthConfig_load ?J s1"
    by (rule TapAuthConfig_load_frame [OF saved_touches])
      (simp add: DEFAULT_CONFIG_PATH_def CONFIG_DIR_def path_join_def)
  then show "TapAuthConfig_load ?J (am_os st') = ?c"
    using l(1) s2(2) by simp
  show "load_config ?J CONFIG_DIR hn (am_os st') = Inr (ClientConfig ?h)"
    using config_slot.load_after_save [where J = ?J and D = CONFIG_DIR and s = s1 and v = "ClientConfig ?h" and hn = hn] h ok(1) s2 by auto
qed

lemma saved_settings:
  assumes "handle_admin_request E others (Some (SaveConfig req)) pid uid st = (resp, st')" "adm_status resp = status_number AdminSuccess"
    and "config_codec_ok (ad_conf E)" "healthy CONFIG_DIR (am_os st)" "fault (am_os st) OpRead DEFAULT_CONFIG_PATH = None"
    and "\<not> use_tpm (TapAuthConfig_load (ad_conf E) (am_os st))"
  shows "1 \<le> unat (scr_udp_port req) \<and> unat (scr_udp_port req) \<le> 65535 \<and> trim (scr_hostname req) \<noteq> [] \<and>
    handle_get_config E st' = get_config_success (trim (scr_hostname req)) (scr_udp_port req)
      (case scr_enable_ble req of Some b \<Rightarrow> b | None \<Rightarrow> enable_ble (TapAuthConfig_load (ad_conf E) (am_os st)))
      (case scr_enable_network req of Some b \<Rightarrow> b | None \<Rightarrow> enable_network (TapAuthConfig_load (ad_conf E) (am_os st))) \<and>
    ds_hostname (am_daemon st') = trim (scr_hostname req)"
proof -
  let ?c = "requested_config req (TapAuthConfig_load (ad_conf E) (am_os st))" and ?p = "scr_udp_port req"
  obtain identity st1 where i: "handle_save_config E req st = (resp, st1)" "st' = reload_daemon E (am_daemon st) st1"
    by (rule admin_authorized [OF assms(1)]) (use assms(2) in \<open>auto simp: dispatch_admin_def\<close>)
  note s = save_config_ok [OF i(1) _ assms(3-5)]
  have p: "?p \<noteq> 0" "?p \<le> 65535" "trim (scr_hostname req) \<noteq> []"
    using s(1) assms(2) by simp_all
  then have u: "1 \<le> unat ?p" "unat ?p \<le> 65535"
    by (simp_all add: word_le_nat_alt unat_gt_0 Suc_leI)
  then have wide: "ucast (ucast ?p :: u16) = ?p"
    by (simp add: word_unat_eq_iff unsigned_ucast_eq unsigned_take_bit_eq take_bit_nat_eq_self)
  have c: "udp_port ?c = ucast ?p" "use_tpm ?c = use_tpm (TapAuthConfig_load (ad_conf E) (am_os st))"
      "enable_ble ?c = (case scr_enable_ble req of Some b \<Rightarrow> b | None \<Rightarrow> enable_ble (TapAuthConfig_load (ad_conf E) (am_os st)))"
      "enable_network ?c = (case scr_enable_network req of Some b \<Rightarrow> b | None \<Rightarrow> enable_network (TapAuthConfig_load (ad_conf E) (am_os st)))"
    by (simp_all add: requested_config_def Let_def split: option.split)
  have l: "TapAuthConfig_load (ad_conf E) (am_os st1) = ?c"
      "load_config (ad_conf E) CONFIG_DIR (ad_hostname E) (am_os st1) = Inr (ClientConfig (trim (scr_hostname req)))"
    using s(2,3) assms(2) by simp_all
  then have r: "am_os st' = am_os st1" "ds_hostname (am_daemon st') = trim (scr_hostname req)"
    using i(2) c(2) assms(6) by (simp_all add: reload_daemon_def reload_def Let_def load_keypair_def split: prod.split)
  then show ?thesis
    using p(3) u l c wide by (simp add: handle_get_config_def)
qed

text \<open>
  C20. Saved settings are checked and take effect. A \<^verbatim>\<open>SaveConfig\<close> request that is answered with
  success had a port between 1 and 65535 and a host name that is not blank; a following
  \<^verbatim>\<open>GetConfig\<close> shows the host name without surrounding white space, the port, and each transport
  switch as requested, or as before when the request left it out, and sessions from then on use them.
\<close>

theorem saved_settings_take_effect:
  assumes "handle_admin_request E others (Some (SaveConfig req)) pid uid st = (resp, st')" "adm_status resp = status_number AdminSuccess"
    and "config_codec_ok (ad_conf E)" "healthy CONFIG_DIR (am_os st)" "fault (am_os st) OpRead DEFAULT_CONFIG_PATH = None"
    and "\<not> use_tpm (TapAuthConfig_load (ad_conf E) (am_os st))"
  shows "1 \<le> unat (scr_udp_port req) \<and> unat (scr_udp_port req) \<le> 65535 \<and> trim (scr_hostname req) \<noteq> [] \<and>
    handle_get_config E st' = get_config_success (trim (scr_hostname req)) (scr_udp_port req)
      (case scr_enable_ble req of Some b \<Rightarrow> b | None \<Rightarrow> enable_ble (TapAuthConfig_load (ad_conf E) (am_os st)))
      (case scr_enable_network req of Some b \<Rightarrow> b | None \<Rightarrow> enable_network (TapAuthConfig_load (ad_conf E) (am_os st))) \<and>
    ds_hostname (am_daemon st') = trim (scr_hostname req)"
  using saved_settings [OF assms] .

lemma demo_admin_host: "config_codec_ok demo_config_codec" "healthy CONFIG_DIR demo_admin_os" "fault demo_admin_os = (\<lambda>_ _. None)"
  using demo_admin_good by (auto simp: store_good_def demo_admin_os_def demo_os_def)

definition demo_settings :: save_config_request where
  "demo_settings = \<lparr>scr_hostname = '' desk'', scr_udp_port = 40001, scr_enable_ble = Some False, scr_enable_network = None\<rparr>"

lemma demo_save_ok:
  assumes "scr_udp_port req \<noteq> 0" "scr_udp_port req \<le> 65535" "trim (scr_hostname req) \<noteq> []"
  shows "\<exists>st'. handle_admin_request demo_admin_env id (Some (SaveConfig req)) 7 1000 (demo_admin None) = (empty_success, st')"
proof -
  let ?c = "requested_config req (TapAuthConfig_load demo_config_codec demo_admin_os)"
  obtain b where b: "toml_enc demo_config_codec ?c = Some b"
    using toml_config [OF demo_admin_host(1)] by blast
  have "\<exists>s. TapAuthConfig_save demo_config_codec ?c demo_admin_os = (Inr (), s)"
    using b toml_dirs demo_admin_host(3)
    by (simp add: TapAuthConfig_save_def save_to_path_def create_dir_all_def sbind_def fs_write_def metadata_def fs_set_mode_def
        demo_admin_os_def demo_os_def DEFAULT_CONFIG_PATH_def CONFIG_DIR_def)
  then obtain s where s: "TapAuthConfig_save demo_config_codec ?c demo_admin_os = (Inr (), s)"
    by blast
  have "touches_only toml_paths demo_admin_os s"
    by (rule toml_save_load(2) [OF s]) (simp_all add: demo_admin_host)
  then have h: "healthy CONFIG_DIR s"
    using healthy_frame demo_admin_host(2) by blast
  have "fst (handle_save_config demo_admin_env req (demo_admin None)) = empty_success"
    using assms s config_slot.save_succeeds [where J = demo_config_codec and D = CONFIG_DIR and s = s and v = "ClientConfig (trim (scr_hostname req))"]
      h demo_admin_host(1)
    by (auto simp: handle_save_config_def config_request_def Let_def split: prod.splits)
  then have "fst (handle_admin_request demo_admin_env id (Some (SaveConfig req)) 7 1000 (demo_admin None)) = empty_success"
    using demo_resolved by (auto simp: handle_admin_request_def dispatch_admin_def split: prod.splits)
  then show ?thesis
    by (metis prod.collapse)
qed

theorem saved_settings_take_effect_witness:
  "\<exists>resp st'. handle_admin_request demo_admin_env id (Some (SaveConfig demo_settings)) 7 1000 (demo_admin None) = (resp, st') \<and>
     handle_get_config demo_admin_env st' = get_config_success ''desk'' 40001 False True"
proof -
  have t: "trim '' desk'' = ''desk''"
    using trim_word(1) [of "CHR ''d''" "''esk''"] by (simp add: printable_def)
  then obtain st' where run: "handle_admin_request demo_admin_env id (Some (SaveConfig demo_settings)) 7 1000 (demo_admin None) =
      (empty_success, st')"
    using demo_save_ok [of demo_settings] by (auto simp: demo_settings_def)
  then show ?thesis
    using saved_settings_take_effect [OF run] demo_admin_host demo_admin_toml t
    by (auto simp: demo_settings_def TapAuthConfig_default_def)
qed

end
