(* ===== verification/PairingSlot.thy ===== *)
theory PairingSlot
  imports AdminLaws "HOL-Library.Multiset"
begin

text \<open>
  The pairing slot under concurrency. Requests of several connections, the timers, the clock and
  authentication sessions share the slot, the generation counter and the firewall; each lock of the
  code protects one step of the relation \<open>slot_step\<close>. A request that waits for the phone has taken its
  session out of the slot in one step and puts it back in another; in between it is in
  \<open>pw_waiting\<close>. \<open>pw_auth\<close> are the guards that authentication sessions hold.
\<close>

section \<open>Steps\<close>

record pairing_world =
  pw_admin :: admin_state
  pw_waiting :: "pending_pairing list"
  pw_auth :: "nat list"

text \<open>All requests run on the same firewall, and the kernel hands out TCP ports of \<open>R\<close>.\<close>

definition slot_env :: "fw_env \<Rightarrow> (u16 \<times> protocol) set \<Rightarrow> admin_env \<Rightarrow> bool" where
  "slot_env F R E \<longleftrightarrow> ad_fw E = F \<and> (\<forall>port. ad_local_port E = Inr port \<longrightarrow> (port, Tcp) \<in> R)"

inductive slot_step :: "fw_env \<Rightarrow> (u16 \<times> protocol) set \<Rightarrow> pairing_world \<Rightarrow> pairing_world \<Rightarrow> bool" for F R where
  step_start: "slot_env F R E \<Longrightarrow> handle_start_pairing E (pw_admin w) = (resp, st) \<Longrightarrow>
    slot_step F R w (w\<lparr>pw_admin := st\<rparr>)"
| step_take: "wait_take port (pw_admin w) = (Inr p, st) \<Longrightarrow>
    slot_step F R w (w\<lparr>pw_admin := st, pw_waiting := p # pw_waiting w\<rparr>)"
| step_finish: "slot_env F R E \<Longrightarrow> p \<in> set (pw_waiting w) \<Longrightarrow> wait_finish E p (pw_admin w) = (resp, st) \<Longrightarrow>
    slot_step F R w (w\<lparr>pw_admin := st, pw_waiting := remove1 p (pw_waiting w)\<rparr>)"
| step_complete: "slot_env F R E \<Longrightarrow> handle_complete_pairing E user port (pw_admin w) = (resp, st) \<Longrightarrow>
    slot_step F R w (w\<lparr>pw_admin := st\<rparr>)"
| step_timer: "slot_env F R E \<Longrightarrow> (t, k) \<in> set (am_timers (pw_admin w)) \<Longrightarrow> t \<le> am_clock (pw_admin w) \<Longrightarrow>
    slot_step F R w (w\<lparr>pw_admin := timer_fires E k
      ((pw_admin w)\<lparr>am_timers := remove1 (t, k) (am_timers (pw_admin w))\<rparr>)\<rparr>)"
| step_clock: "slot_step F R w (w\<lparr>pw_admin := (pw_admin w)\<lparr>am_clock := am_clock (pw_admin w) + d\<rparr>\<rparr>)"
| step_other: "slot_step F R w (w\<lparr>pw_admin := (pw_admin w)\<lparr>am_daemon := daemon, am_os := s\<rparr>\<rparr>)"
| step_auth: "(port, Udp) \<in> R \<Longrightarrow> FirewallGuard_new F port Udp (am_fw (pw_admin w)) = (Inr g, fw) \<Longrightarrow>
    slot_step F R w (w\<lparr>pw_admin := (pw_admin w)\<lparr>am_fw := fw\<rparr>, pw_auth := g # pw_auth w\<rparr>)"
| step_auth_end: "g \<in> set (pw_auth w) \<Longrightarrow>
    slot_step F R w (w\<lparr>pw_admin := (pw_admin w)\<lparr>am_fw := drop_guard F g (am_fw (pw_admin w))\<rparr>, pw_auth := remove1 g (pw_auth w)\<rparr>)"

definition slot_init :: "pairing_world \<Rightarrow> bool" where
  "slot_init w \<longleftrightarrow> am_fw (pw_admin w) = fw_init \<and> am_pairing (pw_admin w) = None \<and> am_generation (pw_admin w) = 0 \<and>
     am_timers (pw_admin w) = [] \<and> pw_waiting w = [] \<and> pw_auth w = []"

text \<open>Reachable in at most so many steps: the 64-bit generation counter must not wrap.\<close>

inductive slot_reachable :: "fw_env \<Rightarrow> (u16 \<times> protocol) set \<Rightarrow> nat \<Rightarrow> pairing_world \<Rightarrow> bool" for F R where
  slot_start: "slot_init w \<Longrightarrow> slot_reachable F R 0 w"
| slot_next: "slot_reachable F R n w \<Longrightarrow> slot_step F R w w' \<Longrightarrow> slot_reachable F R (Suc n) w'"

section \<open>Guards and their holders\<close>

definition opt_mset :: "'a option \<Rightarrow> 'a multiset" where
  "opt_mset x = (case x of Some a \<Rightarrow> {#a#} | None \<Rightarrow> {#})"

definition slot_guard :: "pairing_state option \<Rightarrow> nat option" where
  "slot_guard sl = (case sl of Some (Pending p) \<Rightarrow> pp_guard p | Some (Active a) \<Rightarrow> ap_guard a | None \<Rightarrow> None)"

definition holders :: "pairing_world \<Rightarrow> nat multiset" where
  "holders w = opt_mset (slot_guard (am_pairing (pw_admin w))) +
     (\<Sum>p \<in># mset (pw_waiting w). opt_mset (pp_guard p)) + mset (pw_auth w)"

text \<open>The reference counts are the numbers of holders, and no destructor is left to run.\<close>

definition counted :: "fw_env \<Rightarrow> (u16 \<times> protocol) set \<Rightarrow> fw \<Rightarrow> nat multiset \<Rightarrow> bool" where
  "counted F R fw H \<longleftrightarrow> fw_reachable F R fw \<and> closing fw = [] \<and> set_mset H \<subseteq> {..<length (strong fw)} \<and>
     (\<forall>g < length (strong fw). strong fw ! g = count H g)"

lemma counted_live: "counted F R fw H \<Longrightarrow> live fw g \<longleftrightarrow> g \<in># H"
  by (auto simp: counted_def live_def)

lemma counted_init: "counted F R fw_init {#}"
  by (auto simp: counted_def fw_init_def intro: fw_start [unfolded fw_init_def])

lemma counted_acquire:
  assumes "counted F R fw H" "(port, p) \<in> R" "FirewallGuard_new F port p fw = (Inr g, fw')" "fw_reliable F" "single_protocol R"
  shows "counted F R fw' (add_mset g H)"
proof -
  have r: "fw_reachable F R fw'"
    using assms(1-3) by (auto simp: counted_def intro: fw_next fw_new)
  have len: "length (strong fw) = length (objects fw)"
    using fw_reachable_inv [of F R fw] assms(1,4,5) by (simp add: counted_def fw_inv_def guards_ok_def)
  show ?thesis
    using assms(3)
  proof (cases rule: guard_new_cases)
    case shared
    then show ?thesis
      using assms(1) r by (auto simp: counted_def live_def nth_list_update)
  next
    case fresh
    have "length (strong fw) \<notin># H"
      using assms(1) by (auto simp: counted_def)
    then show ?thesis
      using assms(1) r fresh len by (auto simp: counted_def nth_append not_in_iff less_Suc_eq)
  qed
qed

lemma run_destructor_strong: "strong (run_destructor F d st) = strong st"
  by (simp add: run_destructor_def do_drop_close_alt Let_def close_port_def run_firewalld_port_action_def split: fw_status.split)

lemma drop_guard_strong: "strong (drop_guard F g st) = (strong st)[g := strong st ! g - 1]"
  by (simp add: drop_guard_def drop_reference_def Let_def run_destructor_strong)

lemma counted_release:
  assumes c: "counted F R fw H" and g: "g \<in># H"
  shows "counted F R (drop_guard F g fw) (H - {#g#})"
proof -
  have l: "live fw g"
    using counted_live [OF c] g by simp
  have "closing (drop_guard F g fw) = []"
    using drop_guard_frame(3) [OF l, of F] c by (simp add: counted_def)
  then show ?thesis
    using c drop_guard_reachable [of F R fw g] l
    by (auto simp: counted_def drop_guard_strong nth_list_update dest: in_diffD)
qed

lemma counted_release_opt:
  assumes "counted F R fw (opt_mset og + H)"
  shows "counted F R (case og of Some g \<Rightarrow> drop_guard F g fw | None \<Rightarrow> fw) H"
  using assms counted_release [of F R fw "opt_mset og + H" "the og"]
  by (auto simp: opt_mset_def split: option.splits)

lemma counted_borrow:
  assumes "counted F R fw H" "(port, p) \<in> R" "FirewallGuard_new F port p fw = (Inr g, fw')" "fw_reliable F" "single_protocol R"
  shows "counted F R (drop_guard F g fw') H"
  using counted_release [OF counted_acquire [OF assms], of g] by simp

section \<open>What the handlers do to the slot\<close>

lemma release_fw: "am_fw (release E og st) = (case og of Some g \<Rightarrow> drop_guard (ad_fw E) g (am_fw st) | None \<Rightarrow> am_fw st)"
  by (simp add: release_def split: option.split)

lemma release_slot [simp]:
  "am_pairing (release E og st) = am_pairing st" "am_generation (release E og st) = am_generation st"
  "am_timers (release E og st) = am_timers st" "am_clock (release E og st) = am_clock st"
  by (simp_all add: release_def split: option.split)

definition same_slot :: "admin_state \<Rightarrow> admin_state \<Rightarrow> bool" where
  "same_slot st st' \<longleftrightarrow> am_pairing st' = am_pairing st \<and> am_timers st' = am_timers st \<and> am_clock st' = am_clock st"

lemma start_pairing_cases:
  assumes "handle_start_pairing E st = (resp, st')" "fw_reliable (ad_fw E)"
  obtains (unchanged) "same_slot st st'" "am_fw st' = am_fw st" "am_generation st' = am_generation st"
    | (dropped) port g fw where "ad_local_port E = Inr port" "FirewallGuard_new (ad_fw E) port Tcp (am_fw st) = (Inr g, fw)"
        "same_slot st st'" "am_fw st' = drop_guard (ad_fw E) g fw" "am_generation st' \<in> {am_generation st, am_generation st + 1}"
    | (stored) port g fw p where "ad_local_port E = Inr port" "FirewallGuard_new (ad_fw E) port Tcp (am_fw st) = (Inr g, fw)"
        "am_pairing st = None" "am_pairing st' = Some (Pending p)" "pp_guard p = Some g" "pp_generation p = am_generation st"
        "am_fw st' = fw" "am_generation st' = am_generation st + 1" "am_clock st' = am_clock st"
        "am_timers st' = (am_clock st + from_secs 300, PendingTimer (am_generation st)) # am_timers st"
proof -
  obtain k s where k: "pairing_keypair E (am_os st) = (k, s)"
    by (meson surj_pair)
  show ?thesis
  proof (cases "(\<exists>e. k = Inl e) \<or> ad_bind_error E \<noteq> None \<or> (\<exists>e. ad_local_port E = Inl e)")
    case True
    then show ?thesis
      using assms(1) k unchanged
      by (auto simp: handle_start_pairing_def same_slot_def Let_def split: sum.splits option.splits)
  next
    case False
    then obtain kp port where kp: "k = Inr kp" "ad_bind_error E = None" "ad_local_port E = Inr port"
      by (metis sum.exhaust)
    obtain g fw where g: "FirewallGuard_new (ad_fw E) port Tcp (am_fw st) = (Inr g, fw)"
      using guard_new_succeeds [OF assms(2)] by meson
    show ?thesis
    proof (cases "\<exists>e. ClientPairingSession_new (ad_crypto E) (ad_session_rnd E) kp = Inl e")
      case True
      then show ?thesis
        using assms(1) k kp g dropped [of port g fw]
        by (auto simp: handle_start_pairing_def same_slot_def Let_def release_fw)
    next
      case False
      then obtain session where "ClientPairingSession_new (ad_crypto E) (ad_session_rnd E) kp = Inr session"
        by (metis sum.exhaust)
      then show ?thesis
        using assms(1) k kp g dropped [of port g fw] stored [of port g fw]
        by (auto simp: handle_start_pairing_def same_slot_def Let_def release_fw next_generation_def store_pending_def
            spawn_pairing_timeout_def split: if_splits)
    qed
  qed
qed

lemma wait_take_Inr:
  "wait_take port st = (Inr p, st') \<Longrightarrow> am_pairing st = Some (Pending p) \<and> st' = st\<lparr>am_pairing := None\<rparr>"
  by (auto simp: wait_take_def split: option.splits pairing_state.splits if_splits)

lemma wait_finish_cases:
  assumes "wait_finish E p st = (resp, st')"
  obtains (dropped) "st' = release E (pp_guard p) st"
    | (stored) a where "am_pairing st = None" "ap_guard a = pp_guard p" "ap_generation a = pp_generation p"
        "st' = st\<lparr>am_pairing := Some (Active a), am_timers := (am_clock st + from_secs 300, ActiveTimer (pp_generation p)) # am_timers st\<rparr>"
proof (cases "st' = release E (pp_guard p) st")
  case False
  then obtain sas a where a: "store_active E sas a st = (resp, st')" "ap_guard a = pp_guard p" "ap_generation a = pp_generation p"
    using assms unfolding wait_finish_def
    by (auto split: prod.splits sum.splits if_splits)
  then show ?thesis
    using stored [of a] False
    by (simp add: store_active_def spawn_active_pairing_timeout_def split: if_splits)
qed (rule dropped)

lemma complete_pairing_cases:
  assumes "handle_complete_pairing E user port st = (resp, st')"
  obtains (refused) "st' = st"
    | (taken) a s where "am_pairing st = Some (Active a)" "st' = release E (ap_guard a) (st\<lparr>am_pairing := None, am_os := s\<rparr>)"
proof (cases "complete_take port st")
  case (Pair r st1)
  show ?thesis
  proof (cases r)
    case (Inl e)
    then have "st1 = st"
      using Pair by (auto simp: complete_take_def split: option.splits pairing_state.splits if_splits)
    then show ?thesis
      using Pair Inl assms refused by (simp add: handle_complete_pairing_def)
  next
    case (Inr a)
    then have a: "am_pairing st = Some (Active a)" "st1 = st\<lparr>am_pairing := None\<rparr>"
      using Pair by (auto simp: complete_take_def split: option.splits pairing_state.splits if_splits)
    then have "\<exists>s. st' = release E (ap_guard a) (st\<lparr>am_pairing := None, am_os := s\<rparr>)"
      using Pair Inr assms by (cases st) (force simp: handle_complete_pairing_def split: sum.splits prod.splits)
    then show ?thesis
      using a(1) taken by blast
  qed
qed

lemma timer_fires_cases:
  obtains (ignored) "timer_fires E k st = st"
    | (pending) p where "k = PendingTimer (pp_generation p)" "am_pairing st = Some (Pending p)"
        "timer_fires E k st = release E (pp_guard p) (st\<lparr>am_pairing := None\<rparr>)"
    | (active) a where "k = ActiveTimer (ap_generation a)" "am_pairing st = Some (Active a)"
        "timer_fires E k st = release E (ap_guard a) (st\<lparr>am_pairing := None\<rparr>)"
proof (cases "am_pairing st")
  case (Some sl)
  then show ?thesis
    using that by (cases k; cases sl) (simp_all, metis+)
qed (use that in \<open>cases k; simp\<close>)

section \<open>Every open port has a holder\<close>

lemma counted_drop:
  assumes "counted F R (am_fw st) (opt_mset og + H)" "slot_env F R E"
  shows "counted F R (am_fw (release E og st)) H"
  using counted_release_opt [OF assms(1)] assms(2) by (cases og) (auto simp: release_fw slot_env_def)

lemma waiting_split:
  fixes f :: "'a \<Rightarrow> 'b multiset"
  assumes "p \<in> set ws"
  shows "(\<Sum>q \<in># mset ws. f q) = f p + (\<Sum>q \<in># mset (remove1 p ws). f q)"
proof -
  have "mset ws = add_mset p (mset (remove1 p ws))"
    using assms by simp
  then show ?thesis
    by (metis image_mset_add_mset sum_mset.add_mset)
qed

lemma holders_emptied:
  "am_pairing (pw_admin w) = Some sl \<Longrightarrow> am_pairing st = None \<Longrightarrow>
    holders w = opt_mset (slot_guard (Some sl)) + holders (w\<lparr>pw_admin := st\<rparr>)"
  by (simp add: holders_def slot_guard_def opt_mset_def)

lemma start_counted:
  assumes c: "counted F R (am_fw (pw_admin w)) (holders w)" and E: "slot_env F R E"
    and h: "handle_start_pairing E (pw_admin w) = (resp, st)" and F: "fw_reliable F" "single_protocol R"
  shows "counted F R (am_fw st) (holders (w\<lparr>pw_admin := st\<rparr>))"
proof -
  have e: "ad_fw E = F" "\<And>port. ad_local_port E = Inr port \<Longrightarrow> (port, Tcp) \<in> R"
    using E by (auto simp: slot_env_def)
  have "fw_reliable (ad_fw E)"
    using e F by simp
  with h show ?thesis
  proof (cases rule: start_pairing_cases)
    case unchanged
    then show ?thesis using c by (simp add: holders_def same_slot_def)
  next
    case (dropped port g fw)
    then show ?thesis
      using counted_borrow [OF c e(2) _ F, of port g fw] e(1) by (simp add: holders_def same_slot_def)
  next
    case (stored port g fw p)
    then show ?thesis
      using counted_acquire [OF c e(2) _ F, of port g fw] e(1)
      by (simp add: holders_def slot_guard_def opt_mset_def)
  qed
qed

lemma finish_counted:
  assumes c: "counted F R (am_fw (pw_admin w)) (holders w)" and E: "slot_env F R E" and p: "p \<in> set (pw_waiting w)"
    and h: "wait_finish E p (pw_admin w) = (resp, st)"
  shows "counted F R (am_fw st) (holders (w\<lparr>pw_admin := st, pw_waiting := remove1 p (pw_waiting w)\<rparr>))"
proof -
  have split: "holders w = opt_mset (pp_guard p) + holders (w\<lparr>pw_waiting := remove1 p (pw_waiting w)\<rparr>)"
    using waiting_split [OF p, of "\<lambda>q. opt_mset (pp_guard q)"] by (simp add: holders_def)
  from h show ?thesis
  proof (cases rule: wait_finish_cases)
    case dropped
    then show ?thesis
      using counted_drop [OF c [unfolded split] E] by (simp add: holders_def)
  next
    case (stored a)
    then show ?thesis
      using c split by (simp add: holders_def slot_guard_def opt_mset_def)
  qed
qed

lemma emptied_counted:
  assumes c: "counted F R (am_fw (pw_admin w)) (holders w)" and E: "slot_env F R E"
    and "am_pairing (pw_admin w) = Some sl" "am_pairing st = None" "am_fw st = am_fw (pw_admin w)" "og = slot_guard (Some sl)"
  shows "counted F R (am_fw (release E og st)) (holders (w\<lparr>pw_admin := release E og st\<rparr>))"
  using counted_drop [of F R st og "holders (w\<lparr>pw_admin := st\<rparr>)" E] c E holders_emptied [OF assms(3,4)] assms(4-6)
  by (simp add: holders_def add.assoc)

lemma slot_step_counted:
  assumes "slot_step F R w w'" and c: "counted F R (am_fw (pw_admin w)) (holders w)" and F: "fw_reliable F" "single_protocol R"
  shows "counted F R (am_fw (pw_admin w')) (holders w')"
  using assms(1)
proof cases
  case (step_start E resp st)
  then show ?thesis using start_counted [OF c _ _ F] by simp
next
  case (step_take port p st)
  then show ?thesis
    using c wait_take_Inr [OF step_take(2)] by (simp add: holders_def slot_guard_def opt_mset_def)
next
  case (step_finish E p resp st)
  then show ?thesis using finish_counted [OF c] by simp
next
  case (step_complete E user port resp st)
  from step_complete(3) show ?thesis
  proof (cases rule: complete_pairing_cases)
    case (taken a s)
    then show ?thesis
      using emptied_counted [OF c step_complete(2), of "Active a"] step_complete(1) by (simp add: slot_guard_def)
  qed (use c step_complete(1) in simp)
next
  case (step_timer E t k)
  let ?st = "(pw_admin w)\<lparr>am_timers := remove1 (t, k) (am_timers (pw_admin w))\<rparr>"
  show ?thesis
  proof (cases rule: timer_fires_cases [of E k ?st])
    case ignored
    then show ?thesis using c step_timer(1) by (simp add: holders_def)
  next
    case (pending p)
    then show ?thesis
      using emptied_counted [OF c step_timer(2), of "Pending p"] step_timer(1) by (simp add: slot_guard_def)
  next
    case (active a)
    then show ?thesis
      using emptied_counted [OF c step_timer(2), of "Active a"] step_timer(1) by (simp add: slot_guard_def)
  qed
next
  case (step_auth port g fw)
  then show ?thesis
    using counted_acquire [OF c _ _ F, of port Udp g fw] by (simp add: holders_def)
next
  case (step_auth_end g)
  then show ?thesis
    using counted_release [OF c, of g] by (simp add: holders_def)
qed (use c in \<open>simp_all add: holders_def\<close>)

section \<open>Every session in the slot has its timer\<close>

fun timer_generation :: "pairing_timer \<Rightarrow> u64" where
  "timer_generation (PendingTimer g) = g"
| "timer_generation (ActiveTimer g) = g"

fun slot_timer :: "pairing_state \<Rightarrow> pairing_timer" where
  "slot_timer (Pending p) = PendingTimer (pp_generation p)"
| "slot_timer (Active a) = ActiveTimer (ap_generation a)"

definition unconnected :: "pairing_state option \<Rightarrow> pending_pairing list \<Rightarrow> u64 list" where
  "unconnected sl ws = (case sl of Some (Pending p) \<Rightarrow> [pp_generation p] | _ \<Rightarrow> []) @ map pp_generation ws"

lemma unconnected_simps [simp]:
  "unconnected None ws = map pp_generation ws" "unconnected (Some (Active a)) ws = map pp_generation ws"
  "unconnected (Some (Pending p)) ws = pp_generation p # map pp_generation ws"
  by (simp_all add: unconnected_def)

definition timers_ok :: "u64 \<Rightarrow> instant \<Rightarrow> (instant \<times> pairing_timer) list \<Rightarrow> bool" where
  "timers_ok gen now ts \<longleftrightarrow> distinct (map snd ts) \<and>
     (\<forall>(t, k) \<in> set ts. t \<le> now + from_secs 300 \<and> unat (timer_generation k) < unat gen)"

definition slot_inv :: "nat \<Rightarrow> admin_state \<Rightarrow> pending_pairing list \<Rightarrow> bool" where
  "slot_inv n st ws \<longleftrightarrow> unat (am_generation st) \<le> n \<and> timers_ok (am_generation st) (am_clock st) (am_timers st) \<and>
     distinct (unconnected (am_pairing st) ws) \<and>
     (\<forall>g \<in> set (unconnected (am_pairing st) ws). unat g < unat (am_generation st) \<and> ActiveTimer g \<notin> snd ` set (am_timers st)) \<and>
     (\<forall>sl. am_pairing st = Some sl \<longrightarrow> slot_timer sl \<in> snd ` set (am_timers st))"

lemma unat_next: "unat g < 18446744073709551615 \<Longrightarrow> unat (g + 1) = Suc (unat g)" for g :: u64
  by (simp add: unat_word_ariths)

lemma timers_ok_mono: "timers_ok gen now ts \<Longrightarrow> unat gen \<le> unat gen' \<Longrightarrow> now \<le> now' \<Longrightarrow> timers_ok gen' now' ts"
  by (force simp: timers_ok_def)

lemma timers_ok_remove: "timers_ok gen now ts \<Longrightarrow> timers_ok gen now (remove1 x ts)"
  using set_remove1_subset [of x ts] by (auto simp: timers_ok_def distinct_map intro: inj_on_subset)

lemma slot_inv_start:
  assumes inv: "slot_inv n st ws" and n: "n < 18446744073709551615" and h: "handle_start_pairing E st = (resp, st')" "fw_reliable (ad_fw E)"
  shows "slot_inv (Suc n) st' ws"
proof -
  have u: "unat (am_generation st + 1) = Suc (unat (am_generation st))"
    using inv n by (intro unat_next) (simp add: slot_inv_def)
  have t: "timers_ok (am_generation st + 1) (am_clock st) (am_timers st)"
    using inv u timers_ok_mono [of "am_generation st" "am_clock st" "am_timers st"] by (simp add: slot_inv_def)
  from h show ?thesis
  proof (cases rule: start_pairing_cases)
    case unchanged
    then show ?thesis using inv by (simp add: slot_inv_def same_slot_def)
  next
    case (dropped port g fw)
    then show ?thesis using inv t u by (auto simp: slot_inv_def same_slot_def less_Suc_eq)
  next
    case (stored port g fw p)
    have "k \<notin> snd ` set (am_timers st)" if "timer_generation k = am_generation st" for k
      using inv that by (force simp: slot_inv_def timers_ok_def)
    moreover have "am_generation st \<notin> set (unconnected None ws)"
      using inv stored by (auto simp: slot_inv_def)
    ultimately show ?thesis
      using inv stored t u by (auto simp: slot_inv_def unconnected_def timers_ok_def less_Suc_eq image_iff)
  qed
qed

lemma slot_inv_emptied:
  assumes "slot_inv n st ws" "am_pairing st' = None" "am_generation st' = am_generation st" "am_clock st' = am_clock st"
    "am_timers st' = am_timers st \<or> am_timers st' = remove1 x (am_timers st)"
  shows "slot_inv (Suc n) st' ws"
proof -
  have "set (am_timers st') \<subseteq> set (am_timers st)" "timers_ok (am_generation st) (am_clock st) (am_timers st')"
    using assms(1,5) set_remove1_subset [of x "am_timers st"] timers_ok_remove [of _ _ _ x] by (auto simp: slot_inv_def)
  moreover have "set (unconnected None ws) \<subseteq> set (unconnected sl ws)" "distinct (unconnected sl ws) \<Longrightarrow> distinct (unconnected None ws)" for sl
    by (auto simp: unconnected_def)
  ultimately show ?thesis
    using assms(1-4) unfolding slot_inv_def by (metis image_mono le_SucI option.distinct(1) subsetD)
qed

lemma slot_inv_finish:
  assumes inv: "slot_inv n st ws" and p: "p \<in> set ws" and h: "wait_finish E p st = (resp, st')"
  shows "slot_inv (Suc n) st' (remove1 p ws)"
proof -
  have d: "distinct (unconnected sl (remove1 p ws))" "pp_generation p \<notin> set (map pp_generation (remove1 p ws))"
    if "distinct (unconnected sl ws)" for sl
  proof -
    have "distinct (map pp_generation (remove1 p ws))" "pp_generation p \<notin> set (map pp_generation (remove1 p ws))"
      using that p set_remove1_subset [of p ws]
      by (auto simp: unconnected_def distinct_map intro: inj_on_subset dest: inj_onD)
    then show "distinct (unconnected sl (remove1 p ws))" "pp_generation p \<notin> set (map pp_generation (remove1 p ws))"
      using that set_remove1_subset [of p ws]
      by (auto simp: unconnected_def split: option.splits pairing_state.splits)
  qed
  have sub: "set (unconnected sl (remove1 p ws)) \<subseteq> set (unconnected sl ws)" for sl
    using set_remove1_subset [of p ws] by (auto simp: unconnected_def)
  from h show ?thesis
  proof (cases rule: wait_finish_cases)
    case dropped
    then show ?thesis
      using inv d(1) subsetD [OF sub] by (simp add: slot_inv_def)
  next
    case (stored a)
    then show ?thesis
      using inv d [of None] sub [of None] p
      by (auto simp: slot_inv_def timers_ok_def) (metis image_eqI)
  qed
qed

lemma slot_inv_frame:
  assumes "slot_inv n st ws" "same_slot st st'" "am_generation st' = am_generation st"
  shows "slot_inv (Suc n) st' ws"
  using assms by (simp add: slot_inv_def same_slot_def)

lemma slot_inv_timer:
  assumes inv: "slot_inv n st ws" and t: "(t, k) \<in> set (am_timers st)"
  shows "slot_inv (Suc n) (timer_fires E k (st\<lparr>am_timers := remove1 (t, k) (am_timers st)\<rparr>)) ws"
proof (cases rule: timer_fires_cases [of E k "st\<lparr>am_timers := remove1 (t, k) (am_timers st)\<rparr>"])
  case ignored
  have "k \<noteq> slot_timer sl" if "am_pairing st = Some sl" for sl
    using ignored that by (cases sl) (auto dest: arg_cong [of _ _ am_pairing])
  then have "slot_timer sl \<in> snd ` set (remove1 (t, k) (am_timers st))" if "am_pairing st = Some sl" for sl
    using inv that by (force simp: slot_inv_def image_iff)
  then show ?thesis
    using inv ignored timers_ok_remove image_mono [OF set_remove1_subset [of "(t, k)" "am_timers st"], of snd]
    by (simp add: slot_inv_def) blast
qed (auto intro!: slot_inv_emptied [OF inv, where x = "(t, k)"])

lemma slot_step_inv:
  assumes "slot_step F R w w'" "slot_inv n (pw_admin w) (pw_waiting w)" "n < 18446744073709551615" "fw_reliable F"
  shows "slot_inv (Suc n) (pw_admin w') (pw_waiting w')"
  using assms(1)
proof cases
  case (step_start E resp st)
  then show ?thesis
    using slot_inv_start [OF assms(2,3) step_start(3)] assms(4) by (simp add: slot_env_def)
next
  case (step_take port p st)
  then show ?thesis
    using wait_take_Inr [OF step_take(2)] assms(2) by (simp add: slot_inv_def)
next
  case (step_finish E p resp st)
  then show ?thesis
    using slot_inv_finish [OF assms(2) step_finish(3,4)] by simp
next
  case (step_complete E user port resp st)
  from step_complete(3) show ?thesis
    by (cases rule: complete_pairing_cases)
      (use step_complete(1) assms(2) in \<open>auto intro: slot_inv_frame slot_inv_emptied simp: same_slot_def\<close>)
next
  case (step_timer E t k)
  then show ?thesis
    using slot_inv_timer [OF assms(2) step_timer(3)] by simp
next
  case (step_clock d)
  then show ?thesis
    using assms(2) timers_ok_mono [of "am_generation (pw_admin w)" "am_clock (pw_admin w)" "am_timers (pw_admin w)"]
    by (simp add: slot_inv_def)
qed (use assms(2) in \<open>simp_all add: slot_inv_frame same_slot_def\<close>)

lemma slot_reachable_inv:
  assumes "slot_reachable F R n w" "fw_reliable F" "single_protocol R"
  shows "counted F R (am_fw (pw_admin w)) (holders w)"
    and "n < 18446744073709551616 \<Longrightarrow> slot_inv n (pw_admin w) (pw_waiting w)"
proof -
  show "counted F R (am_fw (pw_admin w)) (holders w)"
    using assms
  proof (induction rule: slot_reachable.induct)
    case (slot_start w)
    then show ?case
      using counted_init by (simp add: slot_init_def holders_def slot_guard_def opt_mset_def)
  qed (blast intro: slot_step_counted)
  show "n < 18446744073709551616 \<Longrightarrow> slot_inv n (pw_admin w) (pw_waiting w)"
    using assms
  proof (induction rule: slot_reachable.induct)
    case (slot_start w)
    then show ?case
      by (simp add: slot_init_def slot_inv_def timers_ok_def)
  next
    case (slot_next n w w')
    then show ?case
      using slot_step_inv [of F R w w' n] by simp
  qed
qed

lemma filter_key:
  assumes "(t, k) \<in> set ts" "distinct (map snd ts)"
  shows "filter (\<lambda>(_, k'). k' = k) ts = [(t, k)]"
  using assms
proof (induction ts)
  case (Cons x ts)
  have "filter (\<lambda>(_, k'). k' = k) ts = []" if "k \<notin> snd ` set ts"
    using that by (auto simp: filter_empty_conv image_iff)
  then show ?case
    using Cons by (auto simp: image_iff split: prod.splits)
qed simp

section \<open>A concrete run\<close>

lemma demo_start_pairing:
  "\<exists>resp st p. handle_start_pairing demo_admin_env (demo_admin None) = (resp, st) \<and> am_pairing st = Some (Pending p) \<and>
     pp_guard p \<noteq> None"
proof -
  let ?kp = "\<lparr>signing_key_bytes = replicate 32 6, verifying_key = ed_public demo_crypto (replicate 32 6)\<rparr>"
  obtain s where "save_keypair demo_config_codec demo_tpm_tools CONFIG_DIR ?kp demo_admin_os = (Inr (), s)"
    using save_keypair_plain [OF demo_admin_host(2) demo_admin_no_tpm] by blast
  moreover have "load_keypair demo_crypto demo_config_codec demo_tpm_tools CONFIG_DIR demo_admin_os = (Inl InvalidConfig, demo_admin_os)"
    using demo_admin_no_tpm demo_admin_files(1) [of CLIENT_KEY_FILE]
    by (simp add: load_keypair_def Let_def path_exists_def metadata_def demo_os_def CONFIG_DIR_def path_join_def)
  ultimately have "pairing_keypair demo_admin_env demo_admin_os = (Inr ?kp, s)"
    by (simp add: pairing_keypair_def demo_admin_env_def generate_and_save_keypair_def generate_ed25519_def sbind_def smap_err_def)
  moreover have "\<exists>g fw. FirewallGuard_new demo_fw_env 40000 Tcp fw_init = (Inr g, fw)"
    using guard_new_succeeds [OF demo_fw_reliable(1)] .
  ultimately show ?thesis
    by (auto simp: handle_start_pairing_def demo_admin_env_def demo_admin_def ClientPairingSession_new_def generate_x25519_def
        next_generation_def store_pending_def spawn_pairing_timeout_def Let_def)
qed

definition demo_world :: "admin_state \<Rightarrow> pairing_world" where
  "demo_world st = \<lparr>pw_admin = st, pw_waiting = [], pw_auth = []\<rparr>"

lemma demo_slot_reachable:
  "\<exists>st p. slot_reachable demo_fw_env {(40000, Tcp)} 1 (demo_world st) \<and> am_pairing st = Some (Pending p) \<and>
     pp_guard p \<noteq> None"
proof -
  obtain resp st p where st: "handle_start_pairing demo_admin_env (demo_admin None) = (resp, st)" "am_pairing st = Some (Pending p)"
      "pp_guard p \<noteq> None"
    using demo_start_pairing by blast
  have "slot_step demo_fw_env {(40000, Tcp)} (demo_world (demo_admin None)) (demo_world (demo_admin None)\<lparr>pw_admin := st\<rparr>)"
    by (rule step_start [of _ _ demo_admin_env]) (use st in \<open>simp_all add: slot_env_def demo_admin_env_def demo_world_def\<close>)
  moreover have "slot_init (demo_world (demo_admin None))"
    by (simp add: slot_init_def demo_world_def demo_admin_def)
  ultimately have "slot_reachable demo_fw_env {(40000, Tcp)} (Suc 0) (demo_world (demo_admin None)\<lparr>pw_admin := st\<rparr>)"
    by (blast intro: slot_start slot_next)
  then show ?thesis
    using st(2,3) by (auto simp: demo_world_def)
qed

section \<open>Properties\<close>





end
