(* ===== verification/Session.thy ===== *)
theory Session
  imports Auth Firewall Ipc
begin

text \<open>
  The authentication session, the rest of \<^verbatim>\<open>src/tapauthd/src/auth_handler.rs\<close>: the checks
  before an attempt, the firewall guard around it, both transports run in parallel, and the race of
  their results against a cancel and the session's timeout.

  What the session meets is the record \<open>session_env\<close>: the crates, the configuration on disk, the
  network and the Bluetooth stack with the packets phones will send, the readings of the clocks and
  of the random generator in the order of use, and \<open>ticks\<close>, the order and times (since the
  attempt began) in which the branches of the \<^verbatim>\<open>select!\<close> in \<^verbatim>\<open>await_auth_result\<close> become ready. The results of
  the two tasks are those of \<^verbatim>\<open>authenticate_with_transport\<close>; a task may also panic. What the
  session does to the outside is a list of \<open>effect\<close>s. The build modelled has the \<^verbatim>\<open>ble\<close> feature.
\<close>

section \<open>The session\<close>

datatype tick = BleTick | UdpTick | CancelTick

datatype effect =
    FirewallOpened nat | FirewallClosed nat | RegisteredCancel string
  | BleStarted | UdpStarted | AbortBle | AbortUdp
  | UdpCancel encrypted_packet | BleCancelAndFinalize encrypted_packet | BleFinalize

datatype task_result = TaskOk "auth_error + unit" | TaskPanic

record session_env =
  se_crypto :: crypto_lib
  se_codec :: pb_codec
  se_hex :: hex_lib
  se_conf :: config_codec
  se_os :: os
  se_fw :: fw_env
  se_net_env :: net_env
  se_net :: net
  se_bluez :: bluez
  se_ble_env :: ble_env
  se_gatt :: "(instant \<times> string \<times> bytes) list"
  se_ble_rnd :: "bytes option list"
  se_request_now :: "u64 option"
  se_packet_now :: "u64 option"
  se_packet_rnd :: "bytes option"
  se_ble_now :: "u64 option"
  se_cancel_now :: "u64 option"
  se_cancel_rnd :: "bytes option"
  se_timeout_now :: "u64 option"
  se_timeout_rnd :: "bytes option"
  se_show :: "auth_error \<Rightarrow> string"
  se_ble_panics :: bool
  se_udp_panics :: bool
  se_ticks :: "(instant \<times> tick) list"

record auth_session =
  as_state :: daemon_state
  as_username :: string
  as_challenge :: bytes
  as_transports :: transports_enabled
  as_request_id :: "string option"

definition AuthSession_new :: "daemon_state \<Rightarrow> string \<Rightarrow> bytes option \<Rightarrow> io_error + auth_session" where
  "AuthSession_new state username rnd =
     (case rnd of
        None \<Rightarrow> Inl (OtherIo ''random generation failed'')
      | Some chal \<Rightarrow> Inr \<lparr>as_state = state, as_username = username, as_challenge = chal,
          as_transports = \<lparr>te_network = True, te_ble = True\<rparr>, as_request_id = None\<rparr>)"

text \<open>
  The keys of a healthy daemon. The code that reads them runs only after the health check
  (\<^verbatim>\<open>unreachable!\<close> otherwise).
\<close>

definition session_keypair :: "auth_session \<Rightarrow> ed25519_keypair" where
  "session_keypair sess = the (ds_keypair (as_state sess))"

definition session_csk :: "auth_session \<Rightarrow> client_symmetric_key" where
  "session_csk sess = the (ds_csk (as_state sess))"

definition create_cancel_packet ::
  "session_env \<Rightarrow> u64 option \<Rightarrow> bytes option \<Rightarrow> auth_session \<Rightarrow> auth_error + encrypted_packet"
where
  "create_cancel_packet E now rnd sess =
     map_err AeProtocol
       (rbind (create_auth_cancel (as_challenge sess)) (\<lambda>msg.
        rbind (sign_wrapper_message (se_crypto E) (se_codec E) (wrap_auth_cancel msg) (session_keypair sess)) (\<lambda>wrapper.
          create_encrypted_packet_with_csk_nonce (se_crypto E) (se_codec E) now rnd (session_csk sess) wrapper)))"

definition initialize_transports :: "session_env \<Rightarrow> auth_session \<Rightarrow> ble option" where
  "initialize_transports E sess =
     (if \<not> te_ble (as_transports sess) then None
      else case BleTransport_new (se_bluez E) 0 (se_ble_rnd E) of
             Inr ble \<Rightarrow> Some (ble\<lparr>gatt_writes := se_gatt E\<rparr>)
           | Inl _ \<Rightarrow> None)"

text \<open>The registry maps a request to the sender of its session's cancel channel.\<close>

type_synonym cancel_registry = "(string \<times> nat) list"

definition register_cancel_handler :: "nat \<Rightarrow> auth_session \<Rightarrow> cancel_registry \<Rightarrow> cancel_registry" where
  "register_cancel_handler chan sess reg =
     (case as_request_id sess of Some i \<Rightarrow> AList.update i chan reg | None \<Rightarrow> reg)"

definition task_outcome :: "((auth_error + unit) \<times> bool \<times> 'w) option \<Rightarrow> bool \<Rightarrow> task_result" where
  "task_outcome r panics = (if panics then TaskPanic else case r of Some (x, _, _) \<Rightarrow> TaskOk x | None \<Rightarrow> TaskPanic)"

text \<open>
  The two tasks. The fuel is what \<open>authentication_returns\<close> needs, so \<open>None\<close> does not occur.
\<close>

definition spawn_auth_tasks ::
  "session_env \<Rightarrow> auth_session \<Rightarrow> bytes \<Rightarrow> ble option \<Rightarrow> encrypted_packet \<Rightarrow>
   task_result \<times> task_result"
where
  "spawn_auth_tasks E sess temporal_id ble packet =
     (let csk = session_csk sess; servers = paired_servers (as_state sess); L = se_crypto E; K = se_codec E; H = se_hex E in
      (case ble of
         None \<Rightarrow> TaskOk (Inl TransportDisabled)
       | Some b \<Rightarrow>
           task_outcome
             (authenticate_with_transport (ble_pending b + 601) L K H
               (BleTransport L K (se_ble_env E) \<lparr>bc_temporal_id = temporal_id, bc_csk = csk, bc_keypair = session_keypair sess,
                  bc_challenge = as_challenge sess\<rparr>) packet csk (as_challenge sess) servers b)
             (se_ble_panics E),
       if te_network (as_transports sess)
       then task_outcome
              (authenticate_with_transport (length (inbox (se_net E)) + 601) L K H
                (UdpTransport (se_net_env E) K (udp_port (TapAuthConfig_load (se_conf E) (se_os E))))
                packet csk (as_challenge sess) servers (se_net E))
              (se_udp_panics E)
       else TaskOk (Inl TransportDisabled)))"

section \<open>Waiting for the result\<close>

definition multicast_cancel_on_success :: "bool \<Rightarrow> bool \<Rightarrow> encrypted_packet \<Rightarrow> effect list" where
  "multicast_cancel_on_success ble network cancel_packet =
     (if ble then [BleCancelAndFinalize cancel_packet] else []) @ (if network then [UdpCancel cancel_packet] else [])"

definition cleanup_transports :: "bool \<Rightarrow> bool \<Rightarrow> encrypted_packet \<Rightarrow> effect list" where
  "cleanup_transports ble network cancel_packet =
     (if ble then [BleFinalize] else []) @ (if network then [UdpCancel cancel_packet] else [])"

text \<open>
  A cancel: what happens at once, then 100 ms of sleep, then the aborts. When the session's
  deadline falls into the sleep, the future is dropped there.
\<close>

definition handle_cancellation ::
  "instant \<Rightarrow> instant \<Rightarrow> bool \<Rightarrow> bool \<Rightarrow> encrypted_packet \<Rightarrow> effect list \<times> (auth_error + unit) option"
where
  "handle_cancellation deadline now ble network cancel_packet =
     (let sent = (if network then [UdpCancel cancel_packet] else []) @ (if ble then [BleFinalize] else [])
      in if now + from_millis 100 \<le> deadline then (sent @ [AbortBle, AbortUdp], Some (Inl Denied))
         else (sent, None))"

fun await_auth_result ::
  "instant \<Rightarrow> bool \<Rightarrow> bool \<Rightarrow> encrypted_packet \<Rightarrow> task_result \<Rightarrow> task_result \<Rightarrow> bool \<Rightarrow> bool \<Rightarrow>
   (instant \<times> tick) list \<Rightarrow> effect list \<times> (auth_error + unit) option"
where
  "await_auth_result deadline ble network cancel_packet rb ru ble_failed udp_failed ticks =
     (if ble_failed \<and> udp_failed then ([], Some (Inl Denied))
      else case ticks of
        [] \<Rightarrow> ([], None)
      | (now, tick) # rest \<Rightarrow>
          if deadline < now then ([], None)
          else (case tick of
             BleTick \<Rightarrow>
               if ble_failed
               then await_auth_result deadline ble network cancel_packet rb ru ble_failed udp_failed rest
               else (case rb of
                  TaskOk (Inr _) \<Rightarrow> (AbortUdp # multicast_cancel_on_success ble network cancel_packet, Some (Inr ()))
                | TaskOk (Inl ExplicitDenial) \<Rightarrow>
                    (AbortUdp # cleanup_transports ble network cancel_packet, Some (Inl ExplicitDenial))
                | _ \<Rightarrow> await_auth_result deadline ble network cancel_packet rb ru True udp_failed rest)
           | UdpTick \<Rightarrow>
               if udp_failed
               then await_auth_result deadline ble network cancel_packet rb ru ble_failed udp_failed rest
               else (case ru of
                  TaskOk (Inr _) \<Rightarrow> (AbortBle # multicast_cancel_on_success ble network cancel_packet, Some (Inr ()))
                | TaskOk (Inl ExplicitDenial) \<Rightarrow>
                    (AbortBle # cleanup_transports ble network cancel_packet, Some (Inl ExplicitDenial))
                | _ \<Rightarrow> await_auth_result deadline ble network cancel_packet rb ru ble_failed True rest)
           | CancelTick \<Rightarrow> handle_cancellation deadline now ble network cancel_packet))"

declare await_auth_result.simps [simp del]

definition try_parallel_authentication ::
  "session_env \<Rightarrow> instant \<Rightarrow> encrypted_packet \<Rightarrow> nat \<Rightarrow> auth_session \<Rightarrow> cancel_registry \<Rightarrow>
   (auth_error + unit) option \<times> effect list \<times> cancel_registry"
where
  "try_parallel_authentication E deadline packet chan sess reg =
     (case generate_current_temporal_identifier_ble (se_crypto E) (session_csk sess) (se_ble_now E) of
        Inl e \<Rightarrow> (Some (Inl (AeCrypto e)), [], reg)
      | Inr temporal_id \<Rightarrow>
          let ble = initialize_transports E sess;
              reg = register_cancel_handler chan sess reg;
              registered = (case as_request_id sess of Some i \<Rightarrow> [RegisteredCancel i] | None \<Rightarrow> [])
          in (case create_cancel_packet E (se_cancel_now E) (se_cancel_rnd E) sess of
                Inl e \<Rightarrow> (Some (Inl e), registered, reg)
              | Inr cancel_packet \<Rightarrow>
                  let (rb, ru) = spawn_auth_tasks E sess temporal_id ble packet;
                      network = te_network (as_transports sess);
                      (effs, r) = await_auth_result deadline (ble \<noteq> None) network cancel_packet rb ru False False (se_ticks E)
                  in (r, registered @ (if ble \<noteq> None then [BleStarted] else []) @
                         (if network then [UdpStarted] else []) @ effs, reg)))"

definition response :: "pam_outcome \<Rightarrow> string \<Rightarrow> bytes \<Rightarrow> pam_authenticate_response" where
  "response outcome detail chal =
     \<lparr>resp_outcome = outcome_number outcome, resp_detail = detail, resp_challenge = chal\<rparr>"

definition create_request_packet :: "session_env \<Rightarrow> auth_session \<Rightarrow> auth_error + encrypted_packet" where
  "create_request_packet E sess =
     map_err AeProtocol
       (rbind (create_auth_request_with_challenge (as_username sess) (ds_hostname (as_state sess)) (as_challenge sess)
                (se_request_now E)) (\<lambda>request.
        rbind (sign_wrapper_message (se_crypto E) (se_codec E) (wrap_auth_request request) (session_keypair sess)) (\<lambda>wrapper.
          create_encrypted_packet_with_csk_nonce (se_crypto E) (se_codec E) (se_packet_now E) (se_packet_rnd E)
            (session_csk sess) wrapper)))"

text \<open>The attempt itself, from the request packet to the answer for the PAM module.\<close>

definition run_attempt ::
  "session_env \<Rightarrow> u32 option \<Rightarrow> nat \<Rightarrow> auth_session \<Rightarrow> cancel_registry \<Rightarrow>
   (auth_error + pam_authenticate_response) \<times> effect list \<times> cancel_registry"
where
  "run_attempt E timeout chan sess reg =
     (case create_request_packet E sess of
        Inl e \<Rightarrow> (Inl e, [], reg)
      | Inr packet \<Rightarrow>
          let deadline = from_secs (unat (case timeout of Some t \<Rightarrow> t | None \<Rightarrow> 30));
              chal = as_challenge sess;
              (r, effs, reg) = try_parallel_authentication E deadline packet chan sess reg
          in (case r of
                Some (Inr _) \<Rightarrow>
                  (Inr (response PamSuccess (''Authenticated user '' @ as_username sess @ '' successfully'') chal), effs, reg)
              | Some (Inl ExplicitDenial) \<Rightarrow>
                  (Inr (response PamDenied ''Authentication explicitly denied by user'' chal), effs, reg)
              | Some (Inl e) \<Rightarrow>
                  (Inr (response PamIgnore (''Authentication failed: '' @ se_show E e) chal), effs, reg)
              | None \<Rightarrow>
                  (Inr (response PamTimeout ''Authentication timeout'' chal),
                   effs @ (case create_cancel_packet E (se_timeout_now E) (se_timeout_rnd E) sess of
                             Inr p \<Rightarrow> if te_network (as_transports sess) then [UdpCancel p] else []
                           | Inl _ \<Rightarrow> []), reg)))"

definition handle_authenticate ::
  "session_env \<Rightarrow> u32 option \<Rightarrow> string option \<Rightarrow> nat \<Rightarrow> auth_session \<Rightarrow> cancel_registry \<Rightarrow> fw \<Rightarrow>
   (auth_error + pam_authenticate_response) \<times> effect list \<times> cancel_registry \<times> fw"
where
  "handle_authenticate E timeout request_id chan sess reg fw =
     (let sess = sess\<lparr>as_request_id := request_id,
                      as_transports := TransportsEnabled_from_config (se_conf E) (se_os E)\<rparr>;
          state = as_state sess;
          chal = as_challenge sess
      in if \<not> transports_any (as_transports sess)
         then (Inr (response PamIgnore ''All transports (BLE and Local Network) are disabled'' chal), [], reg, fw)
         else if paired_servers state = []
         then (Inr (response PamIgnore ''No paired devices configured'' chal), [], reg, fw)
         else if \<not> is_healthy state
         then (Inr (response PamError
                 (case init_error state of Some e \<Rightarrow> e
                  | None \<Rightarrow> ''Keypair unavailable. Please run tapauth-config to regenerate keys.'') chal), [], reg, fw)
         else if filter (\<lambda>(_, server). is_user_allowed server (as_username sess)) (paired_servers state) = []
         then (Inr (response PamIgnore (''No servers authorized for user '' @ as_username sess) chal), [], reg, fw)
         else
           let port = (case local_port (se_net_env E) of
                         Some p \<Rightarrow> p | None \<Rightarrow> udp_port (TapAuthConfig_load (se_conf E) (se_os E)));
               (guard, fw) =
                 (if te_network (as_transports sess)
                  then (case FirewallGuard_new (se_fw E) port Udp fw of
                          (Inr g, fw) \<Rightarrow> (Some g, fw)
                        | (Inl _, fw) \<Rightarrow> (None, fw))
                  else (None, fw));
               (r, effs, reg) = run_attempt E timeout chan sess reg
           in (case guard of
                 Some g \<Rightarrow> (r, FirewallOpened g # effs @ [FirewallClosed g], reg, drop_guard (se_fw E) g fw)
               | None \<Rightarrow> (r, effs, reg, fw)))"

section \<open>Lemmas\<close>

definition terminal_result :: "task_result \<Rightarrow> bool" where
  "terminal_result r \<longleftrightarrow> r = TaskOk (Inr ()) \<or> r = TaskOk (Inl ExplicitDenial)"

text \<open>One turn of the loop, by the tick that is ready.\<close>

lemma await_both_failed [simp]: "await_auth_result d b n p rb ru True True ticks = ([], Some (Inl Denied))"
  by (subst await_auth_result.simps) simp

lemma await_Nil: "\<not> (bf \<and> uf) \<Longrightarrow> await_auth_result d b n p rb ru bf uf [] = ([], None)"
  by (subst await_auth_result.simps) simp

lemma await_late: "\<not> (bf \<and> uf) \<Longrightarrow> d < now \<Longrightarrow> await_auth_result d b n p rb ru bf uf ((now, k) # ts) = ([], None)"
  by (subst await_auth_result.simps) simp

lemma await_ble_ignored:
  "now \<le> d \<Longrightarrow> \<not> uf \<Longrightarrow> await_auth_result d b n p rb ru True uf ((now, BleTick) # ts) = await_auth_result d b n p rb ru True uf ts"
  by (subst await_auth_result.simps) simp

lemma await_udp_ignored:
  "now \<le> d \<Longrightarrow> \<not> bf \<Longrightarrow> await_auth_result d b n p rb ru bf True ((now, UdpTick) # ts) = await_auth_result d b n p rb ru bf True ts"
  by (subst await_auth_result.simps) simp

lemma await_ble:
  "now \<le> d \<Longrightarrow> await_auth_result d b n p rb ru False uf ((now, BleTick) # ts) =
    (if rb = TaskOk (Inr ()) then (AbortUdp # multicast_cancel_on_success b n p, Some (Inr ()))
     else if rb = TaskOk (Inl ExplicitDenial) then (AbortUdp # cleanup_transports b n p, Some (Inl ExplicitDenial))
     else await_auth_result d b n p rb ru True uf ts)"
  by (subst await_auth_result.simps) (simp split: task_result.split sum.split auth_error.split)

lemma await_udp:
  "now \<le> d \<Longrightarrow> await_auth_result d b n p rb ru bf False ((now, UdpTick) # ts) =
    (if ru = TaskOk (Inr ()) then (AbortBle # multicast_cancel_on_success b n p, Some (Inr ()))
     else if ru = TaskOk (Inl ExplicitDenial) then (AbortBle # cleanup_transports b n p, Some (Inl ExplicitDenial))
     else await_auth_result d b n p rb ru bf True ts)"
  by (subst await_auth_result.simps) (simp split: task_result.split sum.split auth_error.split)

lemma await_cancel:
  "now \<le> d \<Longrightarrow> \<not> (bf \<and> uf) \<Longrightarrow>
   await_auth_result d b n p rb ru bf uf ((now, CancelTick) # ts) = handle_cancellation d now b n p"
  by (subst await_auth_result.simps) auto

lemmas await_steps = await_Nil await_late await_ble_ignored await_udp_ignored await_ble await_udp await_cancel

text \<open>An invariant of the loop is checked on the four ways out.\<close>

lemma await_induct:
  assumes "P ([], Some (Inl Denied))" "P ([], None)"
    and "rb = TaskOk (Inr ()) \<Longrightarrow> P (AbortUdp # multicast_cancel_on_success b n p, Some (Inr ()))"
    and "rb = TaskOk (Inl ExplicitDenial) \<Longrightarrow> P (AbortUdp # cleanup_transports b n p, Some (Inl ExplicitDenial))"
    and "ru = TaskOk (Inr ()) \<Longrightarrow> P (AbortBle # multicast_cancel_on_success b n p, Some (Inr ()))"
    and "ru = TaskOk (Inl ExplicitDenial) \<Longrightarrow> P (AbortBle # cleanup_transports b n p, Some (Inl ExplicitDenial))"
    and "\<And>now. now \<le> d \<Longrightarrow> P (handle_cancellation d now b n p)"
  shows "P (await_auth_result d b n p rb ru bf uf ticks)"
proof (induction ticks arbitrary: bf uf)
  case Nil
  then show ?case
    using assms(1,2) by (cases "bf \<and> uf") (auto simp: await_Nil)
next
  case (Cons x ts)
  obtain now k where x: "x = (now, k)"
    by (cases x)
  show ?case
  proof (cases "bf \<and> uf \<or> d < now")
    case True
    then show ?thesis
      using assms(1,2) x by (cases bf; cases uf) (auto simp: await_late)
  next
    case False
    then have "now \<le> d" "\<not> (bf \<and> uf)"
      by auto
    then show ?thesis
      using assms(1,3-7) Cons.IH x by (cases k; cases bf; cases uf) (auto simp: await_steps)
  qed
qed

lemma await_result:
  assumes "await_auth_result d b n p rb ru bf uf ticks = (effs, Some r)"
  shows "(r = Inr () \<longrightarrow> rb = TaskOk (Inr ()) \<or> ru = TaskOk (Inr ())) \<and>
    (r = Inl ExplicitDenial \<longrightarrow> rb = TaskOk (Inl ExplicitDenial) \<or> ru = TaskOk (Inl ExplicitDenial))"
proof -
  have "case await_auth_result d b n p rb ru bf uf ticks of (effs, r) \<Rightarrow>
      (r = Some (Inr ()) \<longrightarrow> rb = TaskOk (Inr ()) \<or> ru = TaskOk (Inr ())) \<and>
      (r = Some (Inl ExplicitDenial) \<longrightarrow> rb = TaskOk (Inl ExplicitDenial) \<or> ru = TaskOk (Inl ExplicitDenial))"
    by (rule await_induct) (simp_all add: handle_cancellation_def Let_def)
  then show ?thesis
    using assms by simp
qed

lemma await_timeout_aborts_nothing:
  assumes "await_auth_result d b n p rb ru bf uf ticks = (effs, None)"
  shows "AbortBle \<notin> set effs \<and> AbortUdp \<notin> set effs"
proof -
  have "case await_auth_result d b n p rb ru bf uf ticks of (effs, r) \<Rightarrow>
      r = None \<longrightarrow> AbortBle \<notin> set effs \<and> AbortUdp \<notin> set effs"
    by (rule await_induct) (simp_all add: handle_cancellation_def Let_def)
  then show ?thesis
    using assms by simp
qed

text \<open>What a session that gives an answer has gone through.\<close>

lemma try_parallel_cases:
  assumes "try_parallel_authentication E d packet chan sess reg = (r, effs, reg')"
  obtains (failed) e where "r = Some (Inl e)" "e \<noteq> ExplicitDenial" "set effs \<subseteq> range RegisteredCancel"
  | (ran) tid p rb ru pre effs1 where
      "spawn_auth_tasks E sess tid (initialize_transports E sess) packet = (rb, ru)"
      "await_auth_result d (initialize_transports E sess \<noteq> None) (te_network (as_transports sess)) p rb ru False False (se_ticks E)
         = (effs1, r)"
      "effs = pre @ effs1" "AbortBle \<notin> set pre" "AbortUdp \<notin> set pre"
      "create_cancel_packet E (se_cancel_now E) (se_cancel_rnd E) sess = Inr p"
proof (cases "generate_current_temporal_identifier_ble (se_crypto E) (session_csk sess) (se_ble_now E)")
  case (Inl e)
  then show ?thesis
    using assms failed [of "AeCrypto e"] by (simp add: try_parallel_authentication_def)
next
  case tid: (Inr tid)
  show ?thesis
  proof (cases "create_cancel_packet E (se_cancel_now E) (se_cancel_rnd E) sess")
    case (Inl e)
    then have "e \<noteq> ExplicitDenial"
      by (auto simp: create_cancel_packet_def map_err_def split: sum.splits)
    then show ?thesis
      using assms tid Inl failed [of e] by (auto simp: try_parallel_authentication_def Let_def split: option.splits)
  next
    case (Inr p)
    obtain rb ru where s: "spawn_auth_tasks E sess tid (initialize_transports E sess) packet = (rb, ru)"
      by (meson surj_pair)
    obtain effs1 r1 where a: "await_auth_result d (initialize_transports E sess \<noteq> None) (te_network (as_transports sess)) p
        rb ru False False (se_ticks E) = (effs1, r1)"
      by (meson surj_pair)
    let ?pre = "(case as_request_id sess of Some i \<Rightarrow> [RegisteredCancel i] | None \<Rightarrow> []) @
        (if initialize_transports E sess \<noteq> None then [BleStarted] else []) @
        (if te_network (as_transports sess) then [UdpStarted] else [])"
    have "r1 = r" "effs = ?pre @ effs1"
      using assms tid Inr s a by (simp_all add: try_parallel_authentication_def Let_def)
    moreover have "AbortBle \<notin> set ?pre" "AbortUdp \<notin> set ?pre"
      by (simp_all split: option.split)
    ultimately show ?thesis
      using ran [OF s] a Inr by blast
  qed
qed

definition attempt_session :: "session_env \<Rightarrow> string option \<Rightarrow> auth_session \<Rightarrow> auth_session" where
  "attempt_session E request_id sess =
     sess\<lparr>as_request_id := request_id, as_transports := TransportsEnabled_from_config (se_conf E) (se_os E)\<rparr>"

definition session_port :: "session_env \<Rightarrow> u16" where
  "session_port E = (case local_port (se_net_env E) of
     Some p \<Rightarrow> p | None \<Rightarrow> udp_port (TapAuthConfig_load (se_conf E) (se_os E)))"

lemma attempt_session_sel [simp]:
  "as_state (attempt_session E i sess) = as_state sess" "as_username (attempt_session E i sess) = as_username sess"
  "as_challenge (attempt_session E i sess) = as_challenge sess" "as_request_id (attempt_session E i sess) = i"
  "as_transports (attempt_session E i sess) = TransportsEnabled_from_config (se_conf E) (se_os E)"
  by (simp_all add: attempt_session_def)

text \<open>The checks a session has to pass before it touches anything.\<close>

definition session_admitted :: "session_env \<Rightarrow> auth_session \<Rightarrow> bool" where
  "session_admitted E sess \<longleftrightarrow>
     transports_any (TransportsEnabled_from_config (se_conf E) (se_os E)) \<and> is_healthy (as_state sess) \<and>
     (\<exists>(sid, server) \<in> set (paired_servers (as_state sess)). is_user_allowed server (as_username sess))"

lemma handle_refused:
  assumes "\<not> session_admitted E sess"
  shows "\<exists>oc d. handle_authenticate E timeout i chan sess reg fw = (Inr (response oc d (as_challenge sess)), [], reg, fw) \<and>
    oc \<in> {PamIgnore, PamError}"
proof -
  have "filter (\<lambda>(_, server). is_user_allowed server (as_username sess)) (paired_servers (as_state sess)) = []"
    if "transports_any (TransportsEnabled_from_config (se_conf E) (se_os E))" "is_healthy (as_state sess)"
    using assms that by (auto simp: session_admitted_def filter_empty_conv)
  then show ?thesis
    unfolding handle_authenticate_def Let_def by auto
qed

lemma handle_admitted:
  assumes "session_admitted E sess" and "run_attempt E timeout chan (attempt_session E i sess) reg = (r, effs1, reg')"
  shows "handle_authenticate E timeout i chan sess reg fw =
    (if te_network (TransportsEnabled_from_config (se_conf E) (se_os E))
     then (case FirewallGuard_new (se_fw E) (session_port E) Udp fw of
             (Inr g, fw) \<Rightarrow> (r, FirewallOpened g # effs1 @ [FirewallClosed g], reg', drop_guard (se_fw E) g fw)
           | (Inl _, fw) \<Rightarrow> (r, effs1, reg', fw))
     else (r, effs1, reg', fw))"
proof -
  have ne: "paired_servers (as_state sess) \<noteq> []"
    "filter (\<lambda>(_, server). is_user_allowed server (as_username sess)) (paired_servers (as_state sess)) \<noteq> []"
    using assms(1) by (auto simp: session_admitted_def filter_empty_conv)
  have h: "transports_any (TransportsEnabled_from_config (se_conf E) (se_os E))" "is_healthy (as_state sess)"
    using assms(1) by (simp_all add: session_admitted_def)
  show ?thesis
    unfolding handle_authenticate_def attempt_session_def [symmetric] Let_def
    using ne h assms(2)
    by (simp add: session_port_def [symmetric] split: prod.split sum.split)
qed

lemma handle_cases:
  assumes "handle_authenticate E timeout i chan sess reg fw = (r, effs, reg', fw')"
  obtains (refused) oc d where "r = Inr (response oc d (as_challenge sess))" "oc \<in> {PamIgnore, PamError}"
      "effs = []" "reg' = reg" "fw' = fw" "\<not> session_admitted E sess"
  | (attempted) effs1 where "session_admitted E sess"
      "run_attempt E timeout chan (attempt_session E i sess) reg = (r, effs1, reg')"
      "set effs - range FirewallOpened - range FirewallClosed = set effs1 - range FirewallOpened - range FirewallClosed"
proof (cases "session_admitted E sess")
  case True
  obtain r1 effs1 reg1 where run: "run_attempt E timeout chan (attempt_session E i sess) reg = (r1, effs1, reg1)"
    by (metis prod_cases3)
  have "r1 = r \<and> reg1 = reg' \<and>
      set effs - range FirewallOpened - range FirewallClosed = set effs1 - range FirewallOpened - range FirewallClosed"
    using assms handle_admitted [OF True run, of fw] by (auto split: if_splits prod.splits sum.splits)
  then show ?thesis
    using attempted True run by blast
next
  case False
  then show ?thesis
    using handle_refused [OF False, of timeout i chan reg fw] refused assms False by auto
qed

text \<open>The packets phones send in a session, over either transport.\<close>

definition session_packets :: "session_env \<Rightarrow> encrypted_packet set" where
  "session_packets E = udp_deliverable (se_codec E) (se_net E) \<union>
     {p. \<exists>t dev b. (t, dev, b) \<in> set (se_gatt E) \<and> dec_packet (se_codec E) b = Some p}"

lemma initialize_transports_packets:
  assumes "initialize_transports E sess = Some b"
  shows "ble_deliverable (se_codec E) b \<subseteq> session_packets E"
proof -
  have "gatt_writes b = se_gatt E" "response_queue b = []"
    using assms by (auto simp: initialize_transports_def BleTransport_new_def result_simps split: if_splits sum.splits)
  then show ?thesis
    unfolding ble_deliverable_def ble_bytes_def session_packets_def by fastforce
qed

lemma task_outcome_ok: "task_outcome r pan = TaskOk x \<longleftrightarrow> \<not> pan \<and> (\<exists>c w. r = Some (x, c, w))"
  by (auto simp: task_outcome_def split: option.splits)

lemma tasks_evidence:
  assumes "spawn_auth_tasks E sess tid (initialize_transports E sess) packet = (rb, ru)"
  shows "rb = TaskOk (Inr ()) \<or> ru = TaskOk (Inr ()) \<Longrightarrow>
      grant_evidence (se_crypto E) (se_codec E) (se_hex E) (session_csk sess) (as_challenge sess)
        (paired_servers (as_state sess)) (session_packets E)"
    and "rb = TaskOk (Inl ExplicitDenial) \<or> ru = TaskOk (Inl ExplicitDenial) \<Longrightarrow>
      denial_evidence (se_crypto E) (se_codec E) (se_hex E) (session_csk sess) (as_challenge sess)
        (paired_servers (as_state sess)) (session_packets E)"
proof -
  let ?ok = "\<lambda>x. (x = Inr () \<longrightarrow> grant_evidence (se_crypto E) (se_codec E) (se_hex E) (session_csk sess) (as_challenge sess)
        (paired_servers (as_state sess)) (session_packets E)) \<and>
      (x = Inl ExplicitDenial \<longrightarrow> denial_evidence (se_crypto E) (se_codec E) (se_hex E) (session_csk sess) (as_challenge sess)
        (paired_servers (as_state sess)) (session_packets E))"
  have fsts: "rb = fst (spawn_auth_tasks E sess tid (initialize_transports E sess) packet)"
    and snds: "ru = snd (spawn_auth_tasks E sess tid (initialize_transports E sess) packet)"
    using assms by simp_all
  note fsts = fsts [unfolded spawn_auth_tasks_def Let_def fst_conv] and snds = snds [unfolded spawn_auth_tasks_def Let_def snd_conv]
  have u: "?ok x" if r: "ru = TaskOk x" for x
  proof (cases "te_network (as_transports sess)")
    case True
    then obtain c w where "authenticate_with_transport (length (inbox (se_net E)) + 601) (se_crypto E) (se_codec E) (se_hex E)
        (UdpTransport (se_net_env E) (se_codec E) (udp_port (TapAuthConfig_load (se_conf E) (se_os E)))) packet
        (session_csk sess) (as_challenge sess) (paired_servers (as_state sess)) (se_net E) = Some (x, c, w)"
      using snds unfolding r by (auto simp: task_outcome_ok eq_commute [of "TaskOk x"])
    from udp_laws.authenticate_sound [OF this] show ?thesis
      using evidence_mono [of "udp_deliverable (se_codec E) (se_net E)" "session_packets E"]
      by (auto simp: session_packets_def)
  next
    case False
    then show ?thesis
      using assms that unfolding spawn_auth_tasks_def Let_def by auto
  qed
  have b: "?ok x" if r: "rb = TaskOk x" for x
  proof (cases "initialize_transports E sess")
    case (Some ble)
    then obtain c w where "authenticate_with_transport (ble_pending ble + 601) (se_crypto E) (se_codec E) (se_hex E)
        (BleTransport (se_crypto E) (se_codec E) (se_ble_env E) \<lparr>bc_temporal_id = tid, bc_csk = session_csk sess,
           bc_keypair = session_keypair sess, bc_challenge = as_challenge sess\<rparr>) packet (session_csk sess)
        (as_challenge sess) (paired_servers (as_state sess)) ble = Some (x, c, w)"
      using fsts unfolding r by (auto simp: task_outcome_ok eq_commute [of "TaskOk x"])
    from ble_laws.authenticate_sound [OF this] show ?thesis
      using evidence_mono [OF initialize_transports_packets [OF Some]] by blast
  next
    case None
    then show ?thesis
      using assms that unfolding spawn_auth_tasks_def Let_def by auto
  qed
  show "rb = TaskOk (Inr ()) \<or> ru = TaskOk (Inr ()) \<Longrightarrow>
      grant_evidence (se_crypto E) (se_codec E) (se_hex E) (session_csk sess) (as_challenge sess)
        (paired_servers (as_state sess)) (session_packets E)"
    using u [of "Inr ()"] b [of "Inr ()"] by blast
  show "rb = TaskOk (Inl ExplicitDenial) \<or> ru = TaskOk (Inl ExplicitDenial) \<Longrightarrow>
      denial_evidence (se_crypto E) (se_codec E) (se_hex E) (session_csk sess) (as_challenge sess)
        (paired_servers (as_state sess)) (session_packets E)"
    using u [of "Inl ExplicitDenial"] b [of "Inl ExplicitDenial"] by blast
qed

lemma response_outcome [simp]: "resp_outcome (response oc d c) = outcome_number oc"
  by (simp add: response_def)

lemma run_attempt_result:
  assumes "run_attempt E timeout chan sess reg = (Inr resp, effs, reg')"
  obtains packet r effs1 where "create_request_packet E sess = Inr packet"
    "try_parallel_authentication E (from_secs (unat (case timeout of Some t \<Rightarrow> t | None \<Rightarrow> 30))) packet chan sess reg
       = (r, effs1, reg')"
    "resp_outcome resp = 0 \<longleftrightarrow> r = Some (Inr ())" "resp_outcome resp = 1 \<longleftrightarrow> r = Some (Inl ExplicitDenial)"
    "resp_outcome resp = 2 \<longleftrightarrow> r = None" "resp_outcome resp = 3 \<longleftrightarrow> (\<exists>e. r = Some (Inl e) \<and> e \<noteq> ExplicitDenial)"
    "resp_challenge resp = as_challenge sess"
    "r \<noteq> None \<Longrightarrow> effs = effs1"
    "\<exists>post. effs = effs1 @ post \<and> set post \<subseteq> range UdpCancel"
proof (cases "create_request_packet E sess")
  case (Inl e)
  then show ?thesis
    using assms by (simp add: run_attempt_def)
next
  case (Inr packet)
  obtain r effs1 reg1 where t: "try_parallel_authentication E (from_secs (unat (case timeout of Some t \<Rightarrow> t | None \<Rightarrow> 30)))
      packet chan sess reg = (r, effs1, reg1)"
    by (metis prod_cases3)
  have "reg1 = reg'"
    using assms Inr t by (auto simp: run_attempt_def Let_def split: option.splits sum.splits auth_error.splits)
  moreover have "(resp_outcome resp = 0 \<longleftrightarrow> r = Some (Inr ())) \<and> (resp_outcome resp = 1 \<longleftrightarrow> r = Some (Inl ExplicitDenial)) \<and>
      (resp_outcome resp = 2 \<longleftrightarrow> r = None) \<and>
      (resp_outcome resp = 3 \<longleftrightarrow> (\<exists>e. r = Some (Inl e) \<and> e \<noteq> ExplicitDenial)) \<and> resp_challenge resp = as_challenge sess"
    using assms Inr t by (auto simp: run_attempt_def Let_def response_def split: option.splits sum.splits auth_error.splits)
  moreover have "(r \<noteq> None \<longrightarrow> effs = effs1) \<and> (\<exists>post. effs = effs1 @ post \<and> set post \<subseteq> range UdpCancel)"
    using assms Inr t by (auto simp: run_attempt_def Let_def split: option.splits sum.splits auth_error.splits if_splits)
  ultimately show ?thesis
    using that Inr t by blast
qed

lemma session_evidence:
  assumes "handle_authenticate E timeout i chan sess reg fw = (Inr resp, effs, reg', fw')"
  shows "(resp_outcome resp = outcome_number PamSuccess \<longrightarrow>
      (\<exists>csk. ds_csk (as_state sess) = Some csk \<and>
         grant_evidence (se_crypto E) (se_codec E) (se_hex E) csk (as_challenge sess) (paired_servers (as_state sess)) (session_packets E)) \<and>
      (\<exists>(sid, server) \<in> set (paired_servers (as_state sess)). as_username sess \<in> set (allowed_users server))) \<and>
    (resp_outcome resp = outcome_number PamDenied \<longrightarrow>
      (\<exists>csk. ds_csk (as_state sess) = Some csk \<and>
         denial_evidence (se_crypto E) (se_codec E) (se_hex E) csk (as_challenge sess) (paired_servers (as_state sess)) (session_packets E)))"
  using assms
proof (cases rule: handle_cases)
  case (refused oc d)
  then show ?thesis
    by auto
next
  case (attempted effs1)
  let ?s = "attempt_session E i sess"
  have csk: "ds_csk (as_state sess) = Some (session_csk ?s)"
    using attempted(1) by (auto simp: session_admitted_def is_healthy_def session_csk_def)
  have user: "\<exists>(sid, server) \<in> set (paired_servers (as_state sess)). as_username sess \<in> set (allowed_users server)"
    using attempted(1) by (auto simp: session_admitted_def is_user_allowed_def list_ex_iff)
  obtain packet r effs2 where run: "try_parallel_authentication E (from_secs (unat (case timeout of Some t \<Rightarrow> t | None \<Rightarrow> 30)))
      packet chan ?s reg = (r, effs2, reg')" "resp_outcome resp = 0 \<longleftrightarrow> r = Some (Inr ())"
      "resp_outcome resp = 1 \<longleftrightarrow> r = Some (Inl ExplicitDenial)"
    by (rule run_attempt_result [OF attempted(2)]) blast
  from run(1) show ?thesis
  proof (cases rule: try_parallel_cases)
    case (failed e)
    then show ?thesis
      using run(2,3) by simp
  next
    case (ran tid p rb ru pre effs3)
    then show ?thesis
      using await_result [of _ _ _ p rb ru False False "se_ticks E" effs3] tasks_evidence [OF ran(1)] run(2,3) csk user by auto
  qed
qed

section \<open>A concrete session\<close>

definition no_bluez :: bluez where
  "no_bluez = \<lparr>bz_session = Inl ''no bus'', bz_adapter_names = Inr [], bz_adapter = (\<lambda>_. Inr ()),
     bz_is_powered = Inr True, bz_set_powered = Inr ()\<rparr>"

definition demo_env :: "payload \<Rightarrow> (instant \<times> tick) list \<Rightarrow> session_env" where
  "demo_env pl ticks = \<lparr>se_crypto = demo_crypto, se_codec = demo_codec, se_hex = demo_hex, se_conf = demo_config_codec,
     se_os = demo_os, se_fw = demo_fw_env, se_net_env = quiet_env, se_net = demo_net (enc_packet demo_codec (demo_answer pl)),
     se_bluez = no_bluez, se_ble_env = demo_ble_env, se_gatt = [], se_ble_rnd = [], se_request_now = Some 1000,
     se_packet_now = Some 1000, se_packet_rnd = Some (replicate 12 4), se_ble_now = Some 1000, se_cancel_now = Some 1000,
     se_cancel_rnd = Some (replicate 12 5), se_timeout_now = Some 1030, se_timeout_rnd = Some (replicate 12 6),
     se_show = (\<lambda>_. ''error''), se_ble_panics = False, se_udp_panics = False, se_ticks = ticks\<rparr>"

definition demo_state :: "server_map \<Rightarrow> daemon_state" where
  "demo_state servers = \<lparr>paired_servers = servers, ds_keypair = Some demo_phone, ds_csk = Some demo_csk,
     ds_hostname = ''laptop'', init_error = None\<rparr>"

definition demo_session :: "string \<Rightarrow> server_map \<Rightarrow> auth_session" where
  "demo_session user servers = \<lparr>as_state = demo_state servers, as_username = user, as_challenge = demo_challenge,
     as_transports = \<lparr>te_network = True, te_ble = True\<rparr>, as_request_id = None\<rparr>"

lemma demo_env_sel [simp]:
  "se_crypto (demo_env pl ticks) = demo_crypto" "se_codec (demo_env pl ticks) = demo_codec"
  "se_hex (demo_env pl ticks) = demo_hex" "se_conf (demo_env pl ticks) = demo_config_codec"
  "se_os (demo_env pl ticks) = demo_os" "se_fw (demo_env pl ticks) = demo_fw_env"
  "se_net_env (demo_env pl ticks) = quiet_env" "se_ticks (demo_env pl ticks) = ticks"
  "se_net (demo_env pl ticks) = demo_net (demo_enc_packet (demo_answer pl))" "se_gatt (demo_env pl ticks) = []"
  by (simp_all add: demo_env_def)

lemma demo_session_sel [simp]:
  "as_state (demo_session u sv) = demo_state sv" "as_username (demo_session u sv) = u"
  "as_challenge (demo_session u sv) = demo_challenge" "paired_servers (demo_state sv) = sv"
  "session_csk (attempt_session E i (demo_session u sv)) = demo_csk"
  "session_keypair (attempt_session E i (demo_session u sv)) = demo_phone" "is_healthy (demo_state sv)"
  by (simp_all add: demo_session_def demo_state_def session_csk_def session_keypair_def is_healthy_def)

lemma demo_os_config: "TapAuthConfig_load demo_config_codec demo_os = TapAuthConfig_default"
  by (simp add: TapAuthConfig_load_def load_from_path_def fs_read_to_string_def fs_read_def demo_os_def
      DEFAULT_CONFIG_PATH_def CONFIG_DIR_def result_simps)

lemma demo_transports:
  "TransportsEnabled_from_config demo_config_codec demo_os = \<lparr>te_network = True, te_ble = True\<rparr>"
  by (simp add: TransportsEnabled_from_config_def demo_os_config TapAuthConfig_default_def Let_def)

lemma demo_request_packet:
  assumes "length u \<le> 1000"
  shows "\<exists>p. create_request_packet (demo_env pl ticks) (attempt_session E i (demo_session u sv)) = Inr p"
proof -
  obtain w where w: "sign_wrapper_message demo_crypto demo_codec (wrap_auth_request \<lparr>req_challenge = demo_challenge,
      req_username = u, req_hostname = ''laptop'', timestamp_unix_seconds = 1000\<rparr>) demo_phone = Inr w"
    using sign_wrapper_message_total by blast
  then have "length (demo_enc_wrapper w) \<le> aes_max"
    using assms
    by (auto simp: sign_wrapper_message_def wrap_auth_request_def Let_def length_demo_enc_wrapper length_sign_demo
        ED25519_def demo_challenge_def aes_max_def word_field_def)
  then obtain p where "create_encrypted_packet_with_csk_nonce demo_crypto demo_codec (Some 1000) (Some (replicate 12 4)) demo_csk w = Inr p"
    using seal_packet_total [OF demo_crypto_ok, of demo_codec w 1000 "replicate 12 4" demo_csk] by auto
  then show ?thesis
    using w by (simp add: create_request_packet_def create_auth_request_with_challenge_def demo_challenge_def demo_state_def
        demo_env_def map_err_def)
qed

lemma demo_cancel_packet:
  "\<exists>p. create_cancel_packet (demo_env pl ticks) (Some t) (Some r) (attempt_session E i (demo_session u sv)) = Inr p"
proof -
  obtain w where w: "sign_wrapper_message demo_crypto demo_codec (wrap_auth_cancel (AuthenticationCancel demo_challenge)) demo_phone = Inr w"
    using sign_wrapper_message_total by blast
  then have "length (demo_enc_wrapper w) \<le> aes_max"
    by (auto simp: sign_wrapper_message_def wrap_auth_cancel_def Let_def length_demo_enc_wrapper length_sign_demo
        ED25519_def demo_challenge_def aes_max_def)
  then obtain p where "create_encrypted_packet_with_csk_nonce demo_crypto demo_codec (Some t) (Some r) demo_csk w = Inr p"
    using seal_packet_total [OF demo_crypto_ok, of demo_codec w t r demo_csk] by auto
  then show ?thesis
    using w by (simp add: create_cancel_packet_def create_auth_cancel_def demo_challenge_def map_err_def)
qed

lemma demo_no_ble: "initialize_transports (demo_env pl ticks) sess = None"
  by (simp add: initialize_transports_def BleTransport_new_def demo_env_def no_bluez_def map_err_def)

lemma demo_readings:
  "se_cancel_now (demo_env pl ticks) = Some 1000" "se_cancel_rnd (demo_env pl ticks) = Some (replicate 12 5)"
  "se_timeout_now (demo_env pl ticks) = Some 1030" "se_timeout_rnd (demo_env pl ticks) = Some (replicate 12 6)"
  by (simp_all add: demo_env_def)

lemma demo_udp_task:
  assumes "(sid, demo_server) \<in> set sv"
  shows "spawn_auth_tasks (demo_env demo_grant ticks) (attempt_session (demo_env pl' ticks') i (demo_session u sv)) tid None packet
    = (TaskOk (Inl TransportDisabled), TaskOk (Inr ()))"
proof -
  have "length (inbox (demo_net b)) + 601 = Suc 601" for b
    by (simp add: demo_net_def)
  then show ?thesis
    using demo_first [OF demo_grant_small assms demo_grant_accepted [OF assms], of 601 "udp_port TapAuthConfig_default" packet]
    by (auto simp: spawn_auth_tasks_def Let_def task_outcome_def demo_transports demo_os_config) (auto simp: demo_env_def)
qed

lemma demo_temporal_id: "\<exists>tid. generate_current_temporal_identifier_ble demo_crypto csk (se_ble_now (demo_env pl ticks)) = Inr tid"
  using temporal_identifier_total [OF demo_crypto_ok, of csk "1000 div 60"]
  by (auto simp: generate_current_temporal_identifier_ble_def current_time_window_def TIME_WINDOW_SECONDS_def demo_env_def)

lemma demo_try:
  assumes "(sid, demo_server) \<in> set sv"
  shows "\<exists>p effs reg'. try_parallel_authentication (demo_env demo_grant ticks) d packet chan
      (attempt_session (demo_env demo_grant ticks) i (demo_session u sv)) reg =
      (snd (await_auth_result d False True p (TaskOk (Inl TransportDisabled)) (TaskOk (Inr ())) False False ticks), effs, reg')"
proof -
  obtain tid where "generate_current_temporal_identifier_ble demo_crypto demo_csk (se_ble_now (demo_env demo_grant ticks)) = Inr tid"
    using demo_temporal_id by blast
  moreover obtain p where "create_cancel_packet (demo_env demo_grant ticks) (se_cancel_now (demo_env demo_grant ticks))
      (se_cancel_rnd (demo_env demo_grant ticks)) (attempt_session (demo_env demo_grant ticks) i (demo_session u sv)) = Inr p"
    unfolding demo_readings using demo_cancel_packet by blast
  ultimately show ?thesis
    by (simp add: try_parallel_authentication_def Let_def demo_no_ble demo_udp_task [OF assms] demo_transports split: prod.split)
      (metis snd_conv)
qed

lemma demo_admitted:
  "(sid, s) \<in> set sv \<Longrightarrow> u \<in> set (allowed_users s) \<Longrightarrow> session_admitted (demo_env pl ticks) (demo_session u sv)"
  by (auto simp: session_admitted_def demo_transports transports_any_def is_user_allowed_def list_ex_iff)

lemma demo_success_in:
  assumes "(sid, demo_server) \<in> set sv" "(sid', s) \<in> set sv" "u \<in> set (allowed_users s)" "length u \<le> 1000" "0 < t"
  shows "\<exists>effs reg' fw'. handle_authenticate (demo_env demo_grant [(5, UdpTick)]) (Some t) i chan (demo_session u sv) reg fw
    = (Inr (response PamSuccess (''Authenticated user '' @ u @ '' successfully'') demo_challenge), effs, reg', fw')"
proof -
  let ?E = "demo_env demo_grant [(5, UdpTick)]"
  let ?s = "attempt_session ?E i (demo_session u sv)"
  obtain packet where packet: "create_request_packet ?E ?s = Inr packet"
    using demo_request_packet [OF assms(4)] by blast
  have "1 \<le> unat t"
    using assms(5) by (metis One_nat_def Suc_leI unat_gt_0 word_gt_0)
  then have "5 \<le> from_secs (unat t)"
    by (simp add: from_secs_def)
  then have "snd (await_auth_result (from_secs (unat t)) False True p (TaskOk (Inl TransportDisabled)) (TaskOk (Inr ()))
      False False [(5, UdpTick)]) = Some (Inr ())" for p
    by (simp add: await_udp)
  then obtain effs reg' where "try_parallel_authentication ?E (from_secs (unat t)) packet chan ?s reg
      = (Some (Inr ()), effs, reg')"
    using demo_try [OF assms(1), of "[(5, UdpTick)]" "from_secs (unat t)" packet chan i u reg] by metis
  then have "run_attempt ?E (Some t) chan ?s reg =
      (Inr (response PamSuccess (''Authenticated user '' @ u @ '' successfully'') demo_challenge), effs, reg')"
    using packet by (simp add: run_attempt_def Let_def)
  from handle_admitted [OF demo_admitted [OF assms(2,3)] this, of fw] show ?thesis
    by (auto split: if_splits prod.splits sum.splits)
qed

lemma demo_success:
  assumes "(sid, demo_server) \<in> set sv" "(sid', s) \<in> set sv" "u \<in> set (allowed_users s)" "length u \<le> 1000"
  shows "\<exists>resp effs reg' fw'. handle_authenticate (demo_env demo_grant [(5, UdpTick)]) (Some 30) i chan (demo_session u sv) reg fw
    = (Inr resp, effs, reg', fw') \<and> resp_outcome resp = 0"
  using demo_success_in [OF assms, of 30 i chan reg fw] by auto

lemma demo_server_users [simp]: "allowed_users demo_server = [''alice'']"
  by (simp add: demo_server_def)

section \<open>Properties\<close>

text \<open>
  C2. The daemon reports success only for a signed grant. If \<^verbatim>\<open>handle_authenticate\<close> answers with
  the outcome SUCCESS, the user is allowed by some paired server, the daemon holds its keys, and one
  of the packets phones sent in this session, over UDP or Bluetooth LE, opens under the symmetric key
  and carries a grant for this session's challenge that verifies under a paired server's key. An
  explicit denial is answered only for a signed denial of the same challenge.
\<close>

theorem daemon_success_needs_grant:
  assumes "handle_authenticate E timeout i chan sess reg fw = (Inr resp, effs, reg', fw')"
  shows "(resp_outcome resp = outcome_number PamSuccess \<longrightarrow>
      (\<exists>csk. ds_csk (as_state sess) = Some csk \<and>
         grant_evidence (se_crypto E) (se_codec E) (se_hex E) csk (as_challenge sess) (paired_servers (as_state sess)) (session_packets E)) \<and>
      (\<exists>(sid, server) \<in> set (paired_servers (as_state sess)). as_username sess \<in> set (allowed_users server))) \<and>
    (resp_outcome resp = outcome_number PamDenied \<longrightarrow>
      (\<exists>csk. ds_csk (as_state sess) = Some csk \<and>
         denial_evidence (se_crypto E) (se_codec E) (se_hex E) csk (as_challenge sess) (paired_servers (as_state sess)) (session_packets E)))"
  using session_evidence [OF assms] .

theorem daemon_success_needs_grant_witness:
  "grant_evidence demo_crypto demo_codec demo_hex demo_csk demo_challenge [(''phone'', demo_server)]
     (session_packets (demo_env demo_grant [(5, UdpTick)]))"
proof -
  obtain resp effs reg' fw' where run: "handle_authenticate (demo_env demo_grant [(5, UdpTick)]) (Some 30) (Some ''r1'') 0
      (demo_session ''alice'' [(''phone'', demo_server)]) [] fw_init = (Inr resp, effs, reg', fw')" "resp_outcome resp = 0"
    using demo_success [of "''phone''" "[(''phone'', demo_server)]" "''phone''" demo_server "''alice''" "Some ''r1''" 0 "[]" fw_init]
    by auto
  then show ?thesis
    using daemon_success_needs_grant [OF run(1)] by (auto simp: demo_state_def)
qed

text \<open>
  C27. A user no paired phone may unlock is never prompted. If the transports are all switched off,
  or no paired server lists the user, the session ends with IGNORE or ERROR at once: nothing is
  sent, no firewall port is opened and no cancel handler is registered.
\<close>

theorem unlisted_user_is_ignored:
  assumes "\<not> transports_any (TransportsEnabled_from_config (se_conf E) (se_os E)) \<or>
    (\<forall>(sid, server) \<in> set (paired_servers (as_state sess)). as_username sess \<notin> set (allowed_users server))"
  shows "\<exists>resp. handle_authenticate E timeout i chan sess reg fw = (Inr resp, [], reg, fw) \<and>
    resp_outcome resp \<in> {outcome_number PamIgnore, outcome_number PamError} \<and> resp_challenge resp = as_challenge sess"
proof -
  have "\<not> session_admitted E sess"
    using assms by (auto simp: session_admitted_def is_user_allowed_def list_ex_iff)
  from handle_refused [OF this, of timeout i chan reg fw] show ?thesis
    by (auto simp: response_def)
qed

theorem unlisted_user_is_ignored_witness:
  "\<exists>resp. handle_authenticate (demo_env demo_grant [(5, UdpTick)]) (Some 30) (Some ''r1'') 0
      (demo_session ''mallory'' [(''phone'', demo_server)]) [] fw_init = (Inr resp, [], [], fw_init)"
  using unlisted_user_is_ignored [of "demo_env demo_grant [(5, UdpTick)]" "demo_session ''mallory'' [(''phone'', demo_server)]"
      "Some 30" "Some ''r1''" 0 "[]" fw_init]
  by auto

end
