(* ===== verification/SessionLaws.thy ===== *)
theory SessionLaws
  imports Session
begin

text \<open>
  What a whole authentication session of the daemon keeps and what it does not: the role of the lists
  of allowed users, cancellation, the timeout, and the firewall rule.
\<close>

section \<open>Sessions that differ in the lists of allowed users\<close>

lemma key_list_ex:
  "list_ex (\<lambda>(sid, server). case paired_key H server of Some pk \<Rightarrow> P pk | None \<Rightarrow> False) sv =
   list_ex (\<lambda>k. case hex_decode H k of Some pk \<Rightarrow> length pk = 32 \<and> P pk | None \<Rightarrow> False) (map (ps_public_key \<circ> snd) sv)"
proof (induction sv)
  case (Cons x sv)
  then show ?case
    by (cases x; cases "hex_decode H (ps_public_key (snd x))") (simp_all add: paired_key_def)
qed simp

lemma authenticate_servers_cong:
  assumes "map (ps_public_key \<circ> snd) sv = map (ps_public_key \<circ> snd) sv'"
  shows "authenticate_with_transport fuel L K H T packet csk chal sv w = authenticate_with_transport fuel L K H T packet csk chal sv' w"
proof -
  have w: "wait_for_response L K H T d csk sv cache w = wait_for_response L K H T d csk sv' cache w" for d cache w
    unfolding wait_for_response_def verify_response_signature_def key_list_ex assms ..
  have p: "process_auth_response L K H wrapper chal sv = process_auth_response L K H wrapper chal sv'" for wrapper
    unfolding process_auth_response_def handle_auth_grant_def Let_def key_list_ex assms ..
  have "authenticate_round L K H T packet csk chal sv start n cache w = authenticate_round L K H T packet csk chal sv' start n cache w"
    for start n cache w
    unfolding authenticate_round_def w p ..
  then have "authenticate_loop fuel L K H T packet csk chal sv start n cache w = authenticate_loop fuel L K H T packet csk chal sv' start n cache w"
    for start n cache w
    by (induction fuel arbitrary: n cache w) (auto split: round.split)
  then show ?thesis
    by (simp add: authenticate_with_transport_def)
qed

definition with_servers :: "server_map \<Rightarrow> auth_session \<Rightarrow> auth_session" where
  "with_servers sv sess = sess\<lparr>as_state := (as_state sess)\<lparr>paired_servers := sv\<rparr>\<rparr>"

lemma with_servers_sel [simp]:
  "as_username (with_servers sv s) = as_username s" "as_challenge (with_servers sv s) = as_challenge s"
  "as_transports (with_servers sv s) = as_transports s" "as_request_id (with_servers sv s) = as_request_id s"
  "paired_servers (as_state (with_servers sv s)) = sv" "ds_hostname (as_state (with_servers sv s)) = ds_hostname (as_state s)"
  "session_keypair (with_servers sv s) = session_keypair s" "session_csk (with_servers sv s) = session_csk s"
  "is_healthy (as_state (with_servers sv s)) = is_healthy (as_state s)"
  "attempt_session E i (with_servers sv s) = with_servers sv (attempt_session E i s)"
  by (simp_all add: with_servers_def session_keypair_def session_csk_def is_healthy_def attempt_session_def)

lemma run_attempt_servers_cong:
  assumes "map (ps_public_key \<circ> snd) sv = map (ps_public_key \<circ> snd) (paired_servers (as_state s))"
  shows "run_attempt E timeout chan (with_servers sv s) reg = run_attempt E timeout chan s reg"
proof -
  have tasks: "spawn_auth_tasks E (with_servers sv s) tid ble packet = spawn_auth_tasks E s tid ble packet" for tid ble packet
    unfolding spawn_auth_tasks_def Let_def with_servers_sel authenticate_servers_cong [OF assms] ..
  have cancel: "create_cancel_packet E now rnd (with_servers sv s) = create_cancel_packet E now rnd s" for now rnd
    by (simp add: create_cancel_packet_def)
  have init: "initialize_transports E (with_servers sv s) = initialize_transports E s"
    by (simp add: initialize_transports_def)
  have handler: "register_cancel_handler chan (with_servers sv s) reg = register_cancel_handler chan s reg"
    by (simp add: register_cancel_handler_def)
  have try_parallel: "try_parallel_authentication E d packet chan (with_servers sv s) reg = try_parallel_authentication E d packet chan s reg"
    for d packet
    unfolding try_parallel_authentication_def with_servers_sel tasks cancel init handler ..
  have request: "create_request_packet E (with_servers sv s) = create_request_packet E s"
    by (simp add: create_request_packet_def)
  show ?thesis
    unfolding run_attempt_def with_servers_sel request try_parallel cancel ..
qed

text \<open>
  C35. Which phones may unlock which user is not checked on the answer. Among the paired servers the
  lists of allowed users decide only whether the session starts: replacing the lists in any way that
  still lets somebody unlock the user changes nothing, so the grant of a phone that is paired for
  other users only is accepted as well.
\<close>

theorem allowed_users_not_checked_on_answer:
  assumes "map (ps_public_key \<circ> snd) sv = map (ps_public_key \<circ> snd) (paired_servers (as_state sess))"
    and "session_admitted E sess" "session_admitted E (with_servers sv sess)"
  shows "handle_authenticate E timeout i chan (with_servers sv sess) reg fw = handle_authenticate E timeout i chan sess reg fw"
proof -
  obtain r effs reg' where run: "run_attempt E timeout chan (attempt_session E i sess) reg = (r, effs, reg')"
    by (metis prod_cases3)
  moreover have "run_attempt E timeout chan (attempt_session E i (with_servers sv sess)) reg = (r, effs, reg')"
    using run run_attempt_servers_cong [of sv "attempt_session E i sess"] assms(1) by simp
  ultimately show ?thesis
    using handle_admitted [OF assms(2)] handle_admitted [OF assms(3)] by simp
qed

theorem allowed_users_not_checked_on_answer_witness:
  "let tablet = \<lparr>ps_name = ''Tablet'', ps_public_key = ''key'', allowed_users = [''bob''], paired_at = 0\<rparr>;
       E = demo_env demo_grant [(5, UdpTick)];
       run = handle_authenticate E (Some 30) (Some ''r1'') 0
         (demo_session ''bob'' [(''phone'', demo_server), (''tablet'', tablet)]) [] fw_init
   in handle_authenticate E (Some 30) (Some ''r1'') 0
         (demo_session ''bob'' [(''phone'', demo_server\<lparr>allowed_users := [''bob'']\<rparr>), (''tablet'', tablet)]) [] fw_init = run \<and>
      (\<exists>resp effs reg' fw'. run = (Inr resp, effs, reg', fw') \<and> resp_outcome resp = 0) \<and> ''bob'' \<notin> set (allowed_users demo_server)"
proof -
  let ?tablet = "\<lparr>ps_name = ''Tablet'', ps_public_key = ''key'', allowed_users = [''bob''], paired_at = 0\<rparr>"
  let ?E = "demo_env demo_grant [(5, UdpTick)]"
  let ?sv = "[(''phone'', demo_server), (''tablet'', ?tablet)]"
  let ?sv' = "[(''phone'', demo_server\<lparr>allowed_users := [''bob'']\<rparr>), (''tablet'', ?tablet)]"
  have w: "with_servers ?sv' (demo_session ''bob'' ?sv) = demo_session ''bob'' ?sv'"
    by (simp add: with_servers_def demo_session_def demo_state_def)
  have a: "session_admitted ?E (demo_session ''bob'' ?sv)" "session_admitted ?E (demo_session ''bob'' ?sv')"
    by (rule demo_admitted [of "''tablet''" ?tablet]; simp)+
  have "handle_authenticate ?E (Some 30) (Some ''r1'') 0 (demo_session ''bob'' ?sv') [] fw_init =
      handle_authenticate ?E (Some 30) (Some ''r1'') 0 (demo_session ''bob'' ?sv) [] fw_init"
    using allowed_users_not_checked_on_answer [of ?sv' "demo_session ''bob'' ?sv" ?E] a w by simp
  then show ?thesis
    using demo_success [of "''phone''" ?sv "''tablet''" ?tablet "''bob''" "Some ''r1''" 0 "[]" fw_init] by (simp add: Let_def)
qed

section \<open>Cancellation and timeout\<close>

text \<open>A cancel that comes in time always ends the wait, whatever else happens before or after it.\<close>

lemma await_cancelled:
  assumes "sorted (map fst ticks)" "(t, CancelTick) \<in> set ticks" "t + from_millis 100 \<le> d"
  shows "snd (await_auth_result d b n p rb ru bf uf ticks) \<noteq> None"
  using assms
proof (induction ticks arbitrary: bf uf)
  case (Cons x ts)
  obtain now k where x: "x = (now, k)"
    by (cases x)
  have now: "now \<le> t" "now \<le> d"
    using Cons.prems x by auto
  then have c: "snd (handle_cancellation d now b n p) \<noteq> None"
    using Cons.prems(3) by (simp add: handle_cancellation_def Let_def)
  have IH: "k \<noteq> CancelTick \<Longrightarrow> snd (await_auth_result d b n p rb ru bf' uf' ts) \<noteq> None" for bf' uf'
    using Cons x by auto
  show ?case
    using now c IH x by (cases k; cases bf; cases uf) (simp_all add: await_steps)
qed simp

lemma try_parallel_cancelled:
  assumes "try_parallel_authentication E d packet chan sess reg = (r, effs, reg')"
    and "sorted (map fst (se_ticks E))" "(t, CancelTick) \<in> set (se_ticks E)" "t + from_millis 100 \<le> d"
  shows "r \<noteq> None"
  using assms(1)
proof (cases rule: try_parallel_cases)
  case (ran tid p rb ru pre effs1)
  then show ?thesis
    using await_cancelled [OF assms(2-4), of "initialize_transports E sess \<noteq> None" "te_network (as_transports sess)"
        p rb ru False False] by simp
qed simp

lemma try_parallel_cancel_first:
  assumes "try_parallel_authentication E d packet chan sess reg = (r, effs, reg')"
    and ticks: "se_ticks E = (t, CancelTick) # rest" "t + from_millis 100 \<le> d"
  shows "(\<exists>e. r = Some (Inl e) \<and> e \<noteq> ExplicitDenial) \<and>
    (BleStarted \<in> set effs \<or> UdpStarted \<in> set effs \<longrightarrow> AbortBle \<in> set effs \<and> AbortUdp \<in> set effs)"
  using assms(1)
proof (cases rule: try_parallel_cases)
  case (failed e)
  then show ?thesis
    by auto
next
  case (ran tid p rb ru pre effs1)
  then show ?thesis
    using ticks by (auto simp: await_cancel handle_cancellation_def Let_def)
qed

text \<open>
  C24. A cancel ends the session. When the cancel channel of a session fires at least 100 ms before
  the session's timeout, the answer is never TIMEOUT; and when no transport had a result before the
  cancel, the answer is IGNORE, so the login goes on with the password, and both tasks are aborted
  if they were started.
\<close>

theorem cancel_ends_session:
  assumes run: "handle_authenticate E (Some secs) i chan sess reg fw = (Inr resp, effs, reg', fw')" "session_admitted E sess"
    and ticks: "sorted (map fst (se_ticks E))" "(t, CancelTick) \<in> set (se_ticks E)"
      "t + from_millis 100 \<le> from_secs (unat secs)"
  shows "resp_outcome resp \<noteq> outcome_number PamTimeout \<and>
    (snd (hd (se_ticks E)) = CancelTick \<longrightarrow>
      resp_outcome resp = outcome_number PamIgnore \<and>
      (BleStarted \<in> set effs \<or> UdpStarted \<in> set effs \<longrightarrow> AbortBle \<in> set effs \<and> AbortUdp \<in> set effs))"
  using run(1)
proof (cases rule: handle_cases)
  case (refused oc d)
  then show ?thesis
    using run(2) by simp
next
  case (attempted effs1)
  have same: "x \<in> set effs \<longleftrightarrow> x \<in> set effs1" if "x \<in> {BleStarted, UdpStarted, AbortBle, AbortUdp}" for x
    using attempted(3) that by auto
  obtain packet r effs2 where *:
      "try_parallel_authentication E (from_secs (unat secs)) packet chan (attempt_session E i sess) reg = (r, effs2, reg')"
      "resp_outcome resp = 0 \<longleftrightarrow> r = Some (Inr ())" "resp_outcome resp = 1 \<longleftrightarrow> r = Some (Inl ExplicitDenial)"
      "resp_outcome resp = 2 \<longleftrightarrow> r = None" "r \<noteq> None \<Longrightarrow> effs1 = effs2"
      "resp_outcome resp = 3 \<longleftrightarrow> (\<exists>e. r = Some (Inl e) \<and> e \<noteq> ExplicitDenial)"
    by (rule run_attempt_result [OF attempted(2)]) auto
  show ?thesis
  proof (cases "snd (hd (se_ticks E)) = CancelTick")
    case True
    then obtain t0 rest where ts: "se_ticks E = (t0, CancelTick) # rest"
      using ticks(2) by (cases "se_ticks E") auto
    then have "t0 + from_millis 100 \<le> from_secs (unat secs)"
      using ticks by auto
    from try_parallel_cancel_first [OF *(1) ts this] show ?thesis
      using * same by auto
  next
    case False
    then show ?thesis
      using try_parallel_cancelled [OF *(1) ticks] * by simp
  qed
qed

lemma run_attempt_responds:
  assumes "create_request_packet E s = Inr packet"
    and "try_parallel_authentication E (from_secs (unat (case timeout of Some t \<Rightarrow> t | None \<Rightarrow> 30))) packet chan s reg
      = (r, effs, reg')"
  shows "\<exists>resp effs'. run_attempt E timeout chan s reg = (Inr resp, effs', reg')"
proof (cases r)
  case (Some x)
  then show ?thesis
    using assms by (cases x) (auto simp: run_attempt_def Let_def split: auth_error.split)
qed (use assms in \<open>simp add: run_attempt_def Let_def\<close>)

lemma demo_responds:
  assumes "(sid, demo_server) \<in> set sv" "u \<in> set (allowed_users demo_server)" "length u \<le> 1000"
  shows "\<exists>p resp effs reg' fw'. handle_authenticate (demo_env demo_grant ticks) (Some 30) i chan (demo_session u sv) reg fw
      = (Inr resp, effs, reg', fw') \<and>
    (resp_outcome resp = 2 \<longleftrightarrow> snd (await_auth_result (from_secs 30) False True p (TaskOk (Inl TransportDisabled))
      (TaskOk (Inr ())) False False ticks) = None)"
proof -
  let ?E = "demo_env demo_grant ticks"
  let ?s = "attempt_session ?E i (demo_session u sv)"
  obtain packet where packet: "create_request_packet ?E ?s = Inr packet"
    using demo_request_packet [OF assms(3)] by blast
  obtain p effs reg' where t: "try_parallel_authentication ?E (from_secs 30) packet chan ?s reg =
      (snd (await_auth_result (from_secs 30) False True p (TaskOk (Inl TransportDisabled)) (TaskOk (Inr ())) False False ticks),
       effs, reg')"
    using demo_try [OF assms(1)] by blast
  have "unat (30 :: u32) = 30"
    by simp
  then obtain resp effs' where run: "run_attempt ?E (Some 30) chan ?s reg = (Inr resp, effs', reg')"
    using run_attempt_responds [OF packet, of "Some 30"] t by (metis option.simps(5))
  then have out: "resp_outcome resp = 2 \<longleftrightarrow> snd (await_auth_result (from_secs 30) False True p (TaskOk (Inl TransportDisabled))
      (TaskOk (Inr ())) False False ticks) = None"
    using t packet \<open>unat (30 :: u32) = 30\<close> by (auto elim!: run_attempt_result)
  obtain effs fw' where h: "handle_authenticate ?E (Some 30) i chan (demo_session u sv) reg fw = (Inr resp, effs, reg', fw')"
  proof -
    have "fst (handle_authenticate ?E (Some 30) i chan (demo_session u sv) reg fw) = Inr resp \<and>
        fst (snd (snd (handle_authenticate ?E (Some 30) i chan (demo_session u sv) reg fw))) = reg'"
      unfolding handle_admitted [OF demo_admitted [OF assms(1,2)] run] by (simp split: prod.split sum.split)
    then show ?thesis
      using that by (metis prod.collapse)
  qed
  show ?thesis
    by (intro exI conjI) (rule h, rule out)
qed

theorem cancel_ends_session_witness:
  "\<exists>resp effs reg' fw'. handle_authenticate (demo_env demo_grant [(5, CancelTick), (7, UdpTick)]) (Some 30) (Some ''r1'') 0
      (demo_session ''alice'' [(''phone'', demo_server)]) [] fw_init = (Inr resp, effs, reg', fw') \<and> resp_outcome resp = 3"
proof -
  let ?E = "demo_env demo_grant [(5, CancelTick), (7, UdpTick)]" and ?s = "demo_session ''alice'' [(''phone'', demo_server)]"
  obtain resp effs reg' fw' where run: "handle_authenticate ?E (Some 30) (Some ''r1'') 0 ?s [] fw_init = (Inr resp, effs, reg', fw')"
    using demo_responds [of "''phone''" "[(''phone'', demo_server)]" "''alice''" "[(5, CancelTick), (7, UdpTick)]"
        "Some ''r1''" 0 "[]" fw_init] by auto
  have "session_admitted ?E ?s"
    by (rule demo_admitted [of "''phone''" demo_server]) simp_all
  from cancel_ends_session [OF run this, of 5] show ?thesis
    using run by (simp add: from_millis_def from_secs_def)
qed

text \<open>
  C36. A session that ends by its timeout aborts neither of its two tasks. The timeout drops the wait
  for the results with the handles of the tasks, which detaches them, so their loops go on until
  they end by themselves; only the wait for the result is over.
\<close>

theorem timeout_leaves_tasks_running:
  assumes "handle_authenticate E timeout i chan sess reg fw = (Inr resp, effs, reg', fw')"
    and "resp_outcome resp = outcome_number PamTimeout"
  shows "AbortBle \<notin> set effs \<and> AbortUdp \<notin> set effs"
  using assms(1)
proof (cases rule: handle_cases)
  case (refused oc d)
  then show ?thesis
    by simp
next
  case (attempted effs1)
  have same: "x \<in> set effs \<longleftrightarrow> x \<in> set effs1" if "x \<in> {AbortBle, AbortUdp}" for x
    using attempted(3) that by auto
  obtain packet effs2 post where *: "try_parallel_authentication E (from_secs (unat (case timeout of Some t \<Rightarrow> t | None \<Rightarrow> 30)))
      packet chan (attempt_session E i sess) reg = (None, effs2, reg')" "effs1 = effs2 @ post" "set post \<subseteq> range UdpCancel"
    by (rule run_attempt_result [OF attempted(2)]) (use assms(2) in auto)
  from *(1) have "AbortBle \<notin> set effs2 \<and> AbortUdp \<notin> set effs2"
    by (cases rule: try_parallel_cases) (auto dest: await_timeout_aborts_nothing)
  then show ?thesis
    using * same by auto
qed

theorem timeout_leaves_tasks_running_witness:
  "\<exists>resp effs reg' fw'. handle_authenticate (demo_env demo_grant []) (Some 30) (Some ''r1'') 0
      (demo_session ''alice'' [(''phone'', demo_server)]) [] fw_init = (Inr resp, effs, reg', fw') \<and>
     resp_outcome resp = 2 \<and> AbortUdp \<notin> set effs"
proof -
  obtain resp effs reg' fw' where run: "handle_authenticate (demo_env demo_grant []) (Some 30) (Some ''r1'') 0
      (demo_session ''alice'' [(''phone'', demo_server)]) [] fw_init = (Inr resp, effs, reg', fw')" "resp_outcome resp = 2"
    using demo_responds [of "''phone''" "[(''phone'', demo_server)]" "''alice''" "[]" "Some ''r1''" 0 "[]" fw_init]
    by (auto simp: await_Nil)
  from timeout_leaves_tasks_running [OF run(1)] run show ?thesis
    by simp
qed

section \<open>The firewall rule\<close>

text \<open>
  C25. An authentication session leaves the firewall as it found it. With tools that work, a
  session starting in a state the sharing threads can reach ends in such a state, nothing it opened
  is left in use, and the port of the session is closed again when nobody else was using it,
  whatever the result of the session is.
\<close>

theorem session_closes_port:
  assumes F: "fw_reliable (se_fw E)" and R: "single_protocol R" "(session_port E, Udp) \<in> R"
    and fw: "fw_reachable (se_fw E) R fw"
    and run: "handle_authenticate E timeout i chan sess reg fw = (r, effs, reg', fw')"
  shows "fw_reachable (se_fw E) R fw' \<and> (\<forall>port. held fw' port \<longrightarrow> held fw port) \<and>
    (closing fw = [] \<and> \<not> held fw (session_port E) \<longrightarrow> (session_port E, Udp) \<notin> set (rules fw'))"
proof -
  note inv = fw_reachable_inv [OF fw F R(1)]
  obtain g st where new: "FirewallGuard_new (se_fw E) (session_port E) Udp fw = (Inr g, st)"
    using guard_new_succeeds [OF F] by blast
  have fw': "fw' = fw \<or> fw' = drop_guard (se_fw E) g st"
  proof (cases "session_admitted E sess")
    case True
    obtain r1 effs1 reg1 where "run_attempt E timeout chan (attempt_session E i sess) reg = (r1, effs1, reg1)"
      by (metis prod_cases3)
    from handle_admitted [OF True this, of fw] show ?thesis
      using run new by (simp split: if_splits)
  next
    case False
    then show ?thesis
      using handle_refused [OF False, of timeout i chan reg fw] run by auto
  qed
  have "fw_reachable (se_fw E) R st"
    using fw fw_new [OF R(2) new] by (rule fw_next)
  then have "fw_reachable (se_fw E) R fw'"
    using fw fw' drop_guard_reachable guard_round_trip(1) [OF inv new] by blast
  moreover have "held fw' port \<Longrightarrow> held fw port" "set (closing fw') \<subseteq> set (closing fw)" for port
    using fw' guard_round_trip(2,3) [OF inv new] by auto
  moreover have "is_open (port_ctrl fw' port) \<Longrightarrow> held fw' port \<or> being_closed fw' port" "rules_ok R fw'" for port
    using fw_invD [OF fw_reachable_inv [OF \<open>fw_reachable (se_fw E) R fw'\<close> F R(1)]] by blast+
  ultimately show ?thesis
    by (auto simp: rules_ok_def being_closed_def)
qed

theorem session_closes_port_witness:
  "\<exists>r effs reg' fw'. handle_authenticate (demo_env demo_grant [(5, UdpTick)]) (Some 30) (Some ''r1'') 0
      (demo_session ''alice'' [(''phone'', demo_server)]) [] fw_init = (r, effs, reg', fw') \<and>
     (session_port (demo_env demo_grant [(5, UdpTick)]), Udp) \<notin> set (rules fw')"
proof -
  let ?E = "demo_env demo_grant [(5, UdpTick)]"
  obtain r effs reg' fw' where run: "handle_authenticate ?E (Some 30) (Some ''r1'') 0
      (demo_session ''alice'' [(''phone'', demo_server)]) [] fw_init = (r, effs, reg', fw')"
    by (cases "handle_authenticate ?E (Some 30) (Some ''r1'') 0 (demo_session ''alice'' [(''phone'', demo_server)]) [] fw_init")
  from session_closes_port [OF _ _ _ fw_start run, of "{(session_port ?E, Udp)}"] show ?thesis
    using run demo_fw_reliable(1) by (simp add: single_protocol_def fw_init_def held_def live_def)
qed

end
