(* ===== verification/Daemon.thy ===== *)
theory Daemon
  imports AdminLaws SessionLaws
begin

text \<open>
  The daemon's process and its local socket, \<^verbatim>\<open>src/tapauthd/src/main.rs\<close>: startup, reading one
  framed request per connection, dispatch to authentication, cancellation and administration, and the
  framed answer. The server's shared state is the record \<open>server_state\<close>; the senders of the cancel
  registry are numbered channels, and \<open>sv_fired\<close> are those a cancel request has been sent to.
  The environment of one connection is \<open>conn_env\<close>: the peer's credentials, how long the request
  takes to arrive, the clock and the random challenge, what other requests do while an
  administrative one waits, and the environments of the session and of the administration.
\<close>

section \<open>State\<close>

datatype daemon_error = DIo io_error | DProst | DAuthHandler auth_error

record server_state =
  sv_admin :: admin_state
  sv_registry :: cancel_registry
  sv_recent :: "(string \<times> instant) list"
  sv_channels :: nat
  sv_fired :: "nat list"

record conn_env =
  cn_admin :: admin_env
  cn_session :: session_env
  cn_ipc :: ipc_codec
  cn_creds :: "(i32 \<times> u32) option"
  cn_read :: duration
  cn_now :: instant
  cn_rnd :: "bytes option"
  cn_others :: "admin_state \<Rightarrow> admin_state"

section \<open>Frames\<close>

definition MAX_REQUEST :: nat where
  "MAX_REQUEST = 10 * 1024 * 1024"

definition read_framed :: "bytes \<Rightarrow> daemon_error + bytes \<times> bytes" where
  "read_framed s =
     rbind (map_err DIo (read_exact 4 s)) (\<lambda>(len_buf, s).
       if from_be len_buf > MAX_REQUEST then Inl (DIo InvalidData)
       else map_err DIo (read_exact (from_be len_buf) s))"

definition write_framed :: "ipc_codec \<Rightarrow> byte_stream \<Rightarrow> ipc_envelope \<Rightarrow> daemon_error + byte_stream" where
  "write_framed I stream msg = map_err DIo (write_all stream (frame (enc_envelope I msg)))"

text \<open>A client that has gone away is not an error.\<close>

definition write_response :: "ipc_codec \<Rightarrow> byte_stream \<Rightarrow> ipc_envelope \<Rightarrow> (daemon_error + unit) \<times> byte_stream" where
  "write_response I stream msg =
     (case write_framed I stream msg of
        Inr stream \<Rightarrow> (Inr (), stream)
      | Inl e \<Rightarrow>
          (if e \<in> {DIo BrokenPipe, DIo ConnectionReset, DIo UnexpectedEof} then Inr () else Inl e, stream))"

definition envelope_pam_response :: "pam_authenticate_response \<Rightarrow> ipc_envelope" where
  "envelope_pam_response resp = Some (PamResponse resp)"

definition envelope_admin_response :: "admin_response \<Rightarrow> ipc_envelope" where
  "envelope_admin_response resp = Some (AdminResponse resp)"

section \<open>Requests of the PAM module\<close>

definition DEDUP_WINDOW :: duration where
  "DEDUP_WINDOW = from_secs 1"

text \<open>A session reads the configuration that is on disk when it runs.\<close>

definition session_of :: "conn_env \<Rightarrow> server_state \<Rightarrow> session_env" where
  "session_of C st = (cn_session C)\<lparr>se_os := am_os (sv_admin st)\<rparr>"

definition handle_pam_authenticate ::
  "conn_env \<Rightarrow> daemon_state \<Rightarrow> pam_authenticate_request \<Rightarrow> server_state \<Rightarrow>
   pam_authenticate_response \<times> effect list \<times> server_state"
where
  "handle_pam_authenticate C daemon req st =
     (let now = cn_now C;
          recent_requests = filter (\<lambda>(_, timestamp). now - timestamp < from_secs 2) (sv_recent st);
          is_duplicate = (case map_of recent_requests (par_username req) of
                            Some timestamp \<Rightarrow> now - timestamp < DEDUP_WINDOW | None \<Rightarrow> False)
      in if is_duplicate
         then (response PamIgnore ''Duplicate request - another authentication is in progress'' [], [],
               st\<lparr>sv_recent := recent_requests\<rparr>)
         else
           let st = st\<lparr>sv_recent := AList.update (par_username req) now recent_requests\<rparr>
           in (case AuthSession_new daemon (par_username req) (cn_rnd C) of
                 Inl e \<Rightarrow> (response PamError (''Internal error: '' @ ad_show_io (cn_admin C) e) [], [], st)
               | Inr sess \<Rightarrow>
                   (case handle_authenticate (session_of C st) (Some (timeout_seconds req)) (Some (par_request_id req))
                           (sv_channels st) sess (sv_registry st) (am_fw (sv_admin st)) of
                      (r, effs, reg, w) \<Rightarrow>
                        ((case r of
                            Inr resp \<Rightarrow> resp
                          | Inl e \<Rightarrow> response PamError (''Internal error: '' @ se_show (cn_session C) e) []),
                         effs,
                         st\<lparr>sv_registry := reg, sv_channels := Suc (sv_channels st),
                            sv_admin := (sv_admin st)\<lparr>am_fw := w\<rparr>\<rparr>))))"

definition handle_pam_cancel :: "pam_cancel_request \<Rightarrow> server_state \<Rightarrow> pam_authenticate_response \<times> server_state" where
  "handle_pam_cancel req st =
     (case map_of (sv_registry st) (pcr_request_id req) of
        Some chan \<Rightarrow>
          (response PamIgnore ''Cancel forwarded'' [],
           st\<lparr>sv_registry := AList.delete (pcr_request_id req) (sv_registry st), sv_fired := chan # sv_fired st\<rparr>)
      | None \<Rightarrow> (response PamIgnore ''No matching request to cancel'' [], st))"

section \<open>A connection\<close>

text \<open>
  What a request is answered with; \<open>daemon\<close> is the state read when the connection was accepted.
  A message that does not decode, an empty one and one that is itself an answer are unknown.
\<close>

definition dispatch_conn ::
  "conn_env \<Rightarrow> daemon_state \<Rightarrow> i32 \<Rightarrow> u32 \<Rightarrow> ipc_envelope option \<Rightarrow> server_state \<Rightarrow> ipc_envelope \<times> effect list \<times> server_state"
where
  "dispatch_conn C daemon caller_pid caller_uid envelope st =
     (case envelope of
        Some (Some (PamAuthenticate auth_req)) \<Rightarrow>
          (case handle_pam_authenticate C daemon auth_req st of (resp, effs, st) \<Rightarrow> (envelope_pam_response resp, effs, st))
      | Some (Some (PamCancel cancel_req)) \<Rightarrow>
          (case handle_pam_cancel cancel_req st of (resp, st) \<Rightarrow> (envelope_pam_response resp, [], st))
      | Some (Some (AdminRequest admin_req)) \<Rightarrow>
          (case handle_admin_request (cn_admin C) (cn_others C) admin_req caller_pid caller_uid (sv_admin st) of
             (admin_resp, a) \<Rightarrow> (envelope_admin_response admin_resp, [], st\<lparr>sv_admin := a\<rparr>))
      | _ \<Rightarrow> (envelope_pam_response (response PamError ''Unknown IPC message'' []), [], st))"

text \<open>The result is the error that is logged, the stream with the answer, and what an authentication session did.\<close>

definition handle_conn ::
  "conn_env \<Rightarrow> byte_stream \<Rightarrow> daemon_state \<Rightarrow> server_state \<Rightarrow>
   (daemon_error + unit) \<times> byte_stream \<times> effect list \<times> server_state"
where
  "handle_conn C stream daemon st =
     (case cn_creds C of
        None \<Rightarrow> (Inl (DIo PermissionDenied), stream, [], st)
      | Some (caller_pid, caller_uid) \<Rightarrow>
          if from_secs 3 < cn_read C then (Inl (DIo TimedOut), stream, [], st)
          else
            (case read_framed (rx stream) of
               Inl e \<Rightarrow> (Inl e, stream, [], st)
             | Inr (req_bytes, rest) \<Rightarrow>
                 let stream = stream\<lparr>rx := rest\<rparr>
                 in if req_bytes = [] then (Inr (), stream, [], st)
                    else
                      (case dispatch_conn C daemon caller_pid caller_uid (dec_envelope (cn_ipc C) req_bytes) st of
                         (msg, effs, st) \<Rightarrow>
                           (case write_response (cn_ipc C) stream msg of (r, stream) \<Rightarrow> (r, stream, effs, st)))))"

text \<open>The accept loop, for connections that do not overlap: each starts from the state the last one left.\<close>

primrec serve :: "(conn_env \<times> byte_stream) list \<Rightarrow> server_state \<Rightarrow> byte_stream list \<times> server_state" where
  "serve [] st = ([], st)"
| "serve (c # cs) st =
     (case handle_conn (fst c) (snd c) (am_daemon (sv_admin st)) st of
        (_, stream, _, st) \<Rightarrow> (case serve cs st of (streams, st) \<Rightarrow> (stream # streams, st)))"

section \<open>Startup\<close>

text \<open>\<^verbatim>\<open>str::parse\<close> for \<^verbatim>\<open>i32\<close>, where only success matters.\<close>

definition parse_i32 :: "string \<Rightarrow> i32 option" where
  "parse_i32 s =
     (case s of
        CHR ''-'' # d # ds \<Rightarrow> (case parse_digits 2147483649 0 (d # ds) of Inr n \<Rightarrow> Some (- int n) | Inl _ \<Rightarrow> None)
      | _ \<Rightarrow> (case parse_unsigned 2147483648 s of Inr n \<Rightarrow> Some (int n) | Inl _ \<Rightarrow> None))"

text \<open>
  What the process finds when it starts: the sockets it creates or adopts, the variables systemd
  sets, its number, the user database and its own identity, and whether the kernel lets it change it.
\<close>

record start_env =
  sn_udp_error :: "string option"
  sn_listen_fds :: "string option"
  sn_listen_pid :: "string option"
  sn_pid :: "32 word"
  sn_adopt_error :: "io_error option"
  sn_tapauthd :: "string + (u32 \<times> u32) option"
  sn_setgid_error :: "string option"
  sn_setuid_error :: "string option"

record process_ids =
  proc_euid :: u32
  proc_egid :: u32

definition adopt_systemd_socket :: "start_env \<Rightarrow> io_error + bool" where
  "adopt_systemd_socket N =
     (case Option.bind (sn_listen_fds N) parse_i32 of
        Some listen_fds \<Rightarrow>
          if listen_fds > 0 then
            (let listen_pid = (case Option.bind (sn_listen_pid N) parse_i32 of Some p \<Rightarrow> p | None \<Rightarrow> 0)
             in if listen_pid \<noteq> sint (sn_pid N) then Inr False
                else if listen_fds \<ge> 1 then (case sn_adopt_error N of Some e \<Rightarrow> Inl e | None \<Rightarrow> Inr True)
                else Inr False)
          else Inr False
      | None \<Rightarrow> Inr False)"

definition drop_privileges_to_tapauthd :: "start_env \<Rightarrow> process_ids \<Rightarrow> (string + unit) \<times> process_ids" where
  "drop_privileges_to_tapauthd N ids =
     (case sn_tapauthd N of
        Inl e \<Rightarrow> (Inl (''Failed to query user database: '' @ e), ids)
      | Inr None \<Rightarrow> (Inl ''User 'tapauthd' not found'', ids)
      | Inr (Some (target_uid, target_gid)) \<Rightarrow>
          if proc_euid ids = target_uid then (Inr (), ids)
          else
            (case sn_setgid_error N of
               Some e \<Rightarrow> (Inl (''setgid failed: '' @ e), ids)
             | None \<Rightarrow>
                 let ids = ids\<lparr>proc_egid := target_gid\<rparr>
                 in (case sn_setuid_error N of
                       Some e \<Rightarrow> (Inl (''setuid failed: '' @ e), ids)
                     | None \<Rightarrow> (Inr (), ids\<lparr>proc_euid := target_uid\<rparr>))))"

text \<open>How \<^verbatim>\<open>main\<close> begins. A failure to give up privileges is only logged.\<close>

datatype startup = StartFailed string | ExitOne | Serving server_state process_ids

definition main :: "admin_env \<Rightarrow> start_env \<Rightarrow> instant \<Rightarrow> os \<Rightarrow> process_ids \<Rightarrow> startup \<times> os" where
  "main E N now s ids =
     (case sn_udp_error N of
        Some e \<Rightarrow> (StartFailed e, s)
      | None \<Rightarrow>
          (case DaemonState_new (ad_crypto E) (ad_conf E) (ad_tpm E) (ad_show_config E) (ad_hostname E) s of
             (Inl _, s) \<Rightarrow> (ExitOne, s)
           | (Inr daemon_state, s) \<Rightarrow>
               (case adopt_systemd_socket N of
                  Inl e \<Rightarrow> (StartFailed (ad_show_io E e), s)
                | Inr False \<Rightarrow> (StartFailed ''Systemd socket activation required - see systemd/tapauthd.socket'', s)
                | Inr True \<Rightarrow>
                    (Serving
                       \<lparr>sv_admin = \<lparr>am_daemon = daemon_state, am_os = s, am_fw = fw_init, am_pairing = None,
                                     am_generation = 0, am_timers = [], am_clock = now\<rparr>,
                        sv_registry = [], sv_recent = [], sv_channels = 0, sv_fired = []\<rparr>
                       (snd (drop_privileges_to_tapauthd N ids)), s))))"

section \<open>Lemmas\<close>

interpretation ipc_requests: frame_reader read_framed MAX_REQUEST
proof
  show "MAX_REQUEST < 2 ^ 32"
    by (simp add: MAX_REQUEST_def)
  show "read_framed (frame m @ r) = Inr (m, r)" if "length m \<le> MAX_REQUEST" for m r
    using that header_body_reads [OF that] by (simp add: read_framed_def MAX_REQUEST_def)
  show "s = frame m @ r \<and> length m \<le> MAX_REQUEST" if "read_framed s = Inr (m, r)" for s m r
    using that header_body_sound [of s _ _ m r]
    by (auto simp: read_framed_def result_simps split: if_splits)
qed

lemma enc_envelope_inj: "ipc_codec_ok I \<Longrightarrow> enc_envelope I m = enc_envelope I m' \<longleftrightarrow> m = m'"
  by (metis ipc_codec_ok_def option.inject)

lemma write_response_cases:
  obtains (sent) "wr_err stream = None" "write_response I stream msg = (Inr (), stream\<lparr>tx := tx stream @ frame (enc_envelope I msg)\<rparr>)"
    | (failed) e where "wr_err stream = Some e" "write_response I stream msg = (if e \<in> {BrokenPipe, ConnectionReset, UnexpectedEof} then Inr () else Inl (DIo e), stream)"
  using that by (cases "wr_err stream") (auto simp: write_response_def write_framed_def write_all_def map_err_def)

definition conn_ready :: "conn_env \<Rightarrow> bool" where
  "conn_ready C \<longleftrightarrow> cn_creds C \<noteq> None \<and> cn_read C \<le> from_secs 3"

lemma handle_conn_cases:
  assumes "handle_conn C stream daemon st = (r, stream', effs, st')"
  obtains (rejected) e where "r = Inl e" "stream' = stream" "effs = []" "st' = st"
      "\<not> conn_ready C \<or> \<not> is_ok (read_framed (rx stream))"
    | (health_check) rest where "conn_ready C" "read_framed (rx stream) = Inr ([], rest)" "r = Inr ()" "stream' = stream\<lparr>rx := rest\<rparr>"
      "effs = []" "st' = st"
    | (answered) pid uid m rest msg where "conn_ready C" "cn_creds C = Some (pid, uid)" "read_framed (rx stream) = Inr (m, rest)" "m \<noteq> []"
      "dispatch_conn C daemon pid uid (dec_envelope (cn_ipc C) m) st = (msg, effs, st')"
      "(r, stream') = write_response (cn_ipc C) (stream\<lparr>rx := rest\<rparr>) msg"
proof (cases "conn_ready C \<and> is_ok (read_framed (rx stream))")
  case False
  then have "\<exists>e. r = Inl e" "stream' = stream" "effs = []" "st' = st"
    using assms by (auto simp: handle_conn_def conn_ready_def is_ok_def split: option.splits if_splits sum.splits)
  then show ?thesis
    using False rejected by blast
next
  case True
  then obtain pid uid m rest where ready: "cn_creds C = Some (pid, uid)" "\<not> from_secs 3 < cn_read C" "read_framed (rx stream) = Inr (m, rest)"
    by (auto simp: conn_ready_def is_ok_def split: sum.splits)
  show ?thesis
  proof (cases "m = []")
    case True
    then show ?thesis
      using \<open>conn_ready C \<and> _\<close> ready assms health_check by (simp add: handle_conn_def Let_def)
  next
    case False
    obtain msg effs1 st1 where d: "dispatch_conn C daemon pid uid (dec_envelope (cn_ipc C) m) st = (msg, effs1, st1)"
      by (metis prod_cases3)
    then show ?thesis
      using \<open>conn_ready C \<and> _\<close> ready False assms answered [of pid uid m rest msg]
      by (simp add: handle_conn_def Let_def split: prod.splits)
  qed
qed

lemma session_of_sel [simp]:
  "se_crypto (session_of C st) = se_crypto (cn_session C)" "se_codec (session_of C st) = se_codec (cn_session C)"
  "se_hex (session_of C st) = se_hex (cn_session C)" "se_ticks (session_of C st) = se_ticks (cn_session C)"
  "session_packets (session_of C st) = session_packets (cn_session C)" "se_conf (session_of C st) = se_conf (cn_session C)"
  "se_os (session_of C st) = am_os (sv_admin st)"
  by (simp_all add: session_of_def session_packets_def)

lemma AuthSession_new_Inr:
  "AuthSession_new daemon user rnd = Inr sess \<Longrightarrow> as_state sess = daemon \<and> as_username sess = user \<and> rnd = Some (as_challenge sess)"
  by (auto simp: AuthSession_new_def split: option.splits)

text \<open>Whether a request counts as a repetition.\<close>

definition repeated :: "instant \<Rightarrow> string \<Rightarrow> server_state \<Rightarrow> bool" where
  "repeated now user st \<longleftrightarrow> (\<exists>t. map_of (filter (\<lambda>(_, t). now - t < from_secs 2) (sv_recent st)) user = Some t \<and> now - t < from_secs 1)"

lemma map_of_filter_value:
  "map_of m k = Some v \<Longrightarrow> P v \<Longrightarrow> map_of (filter (\<lambda>(_, v). P v) m) k = Some v"
  by (induction m) (auto split: if_splits)

lemma map_of_filter_distinct:
  "distinct (map fst m) \<Longrightarrow> map_of (filter (\<lambda>(_, v). P v) m) k = Some v \<Longrightarrow> map_of m k = Some v"
  by (induction m) (auto split: if_splits simp: image_iff dest: map_of_SomeD)

lemma authenticate_cases:
  assumes "handle_pam_authenticate C daemon req st = (resp, effs, st')"
  obtains (duplicate) "repeated (cn_now C) (par_username req) st" "effs = []"
      "resp = response PamIgnore ''Duplicate request - another authentication is in progress'' []"
      "st' = st\<lparr>sv_recent := filter (\<lambda>(_, t). cn_now C - t < from_secs 2) (sv_recent st)\<rparr>"
    | (no_challenge) "\<not> repeated (cn_now C) (par_username req) st" "cn_rnd C = None" "effs = []" "resp_outcome resp = outcome_number PamError"
        "map_of (sv_recent st') (par_username req) = Some (cn_now C)" "sv_registry st' = sv_registry st" "sv_admin st' = sv_admin st"
    | (ran) sess r w where "\<not> repeated (cn_now C) (par_username req) st"
        "AuthSession_new daemon (par_username req) (cn_rnd C) = Inr sess"
        "handle_authenticate (session_of C st) (Some (timeout_seconds req)) (Some (par_request_id req)) (sv_channels st) sess
           (sv_registry st) (am_fw (sv_admin st)) = (r, effs, sv_registry st', w)"
        "case r of Inr x \<Rightarrow> resp = x | Inl _ \<Rightarrow> resp_outcome resp = outcome_number PamError"
        "map_of (sv_recent st') (par_username req) = Some (cn_now C)" "sv_admin st' = (sv_admin st)\<lparr>am_fw := w\<rparr>"
        "sv_channels st' = Suc (sv_channels st)" "sv_fired st' = sv_fired st"
proof -
  let ?recent = "filter (\<lambda>(_, t). cn_now C - t < from_secs 2) (sv_recent st)"
  have rep: "(case map_of ?recent (par_username req) of Some t \<Rightarrow> cn_now C - t < DEDUP_WINDOW | None \<Rightarrow> False) \<longleftrightarrow>
      repeated (cn_now C) (par_username req) st"
    by (auto simp: repeated_def DEDUP_WINDOW_def split: option.splits)
  show ?thesis
  proof (cases "repeated (cn_now C) (par_username req) st")
    case True
    then show ?thesis
      using assms duplicate by (simp add: handle_pam_authenticate_def Let_def rep)
  next
    case False
    let ?st = "st\<lparr>sv_recent := AList.update (par_username req) (cn_now C) ?recent\<rparr>"
    show ?thesis
    proof (cases "AuthSession_new daemon (par_username req) (cn_rnd C)")
      case (Inl e)
      then show ?thesis
        using False assms no_challenge
        by (simp add: handle_pam_authenticate_def Let_def rep update_conv AuthSession_new_def split: option.splits)
          (auto simp: update_conv)
    next
      case (Inr sess)
      obtain r e reg w where h: "handle_authenticate (session_of C st) (Some (timeout_seconds req)) (Some (par_request_id req))
          (sv_channels st) sess (sv_registry st) (am_fw (sv_admin st)) = (r, e, reg, w)"
        by (metis prod_cases4)
      have "session_of C ?st = session_of C st"
        by (simp add: session_of_def)
      then show ?thesis
        using False Inr h assms ran [of sess r w]
        by (cases r) (auto simp: handle_pam_authenticate_def Let_def rep update_conv)
    qed
  qed
qed

lemma distinct_recent: "distinct (map fst m) \<Longrightarrow> distinct (map fst (AList.update k v (filter P m)))"
  by (intro distinct_update) (auto simp: distinct_map inj_on_def)

lemma authenticate_recent_distinct:
  assumes "handle_pam_authenticate C daemon req st = (resp, effs, st')" "distinct (map fst (sv_recent st))"
  shows "distinct (map fst (sv_recent st'))"
proof -
  have "distinct (map fst (filter P (sv_recent st)))" for P
    using assms(2) by (auto simp: distinct_map inj_on_def)
  then show ?thesis
    using assms distinct_recent [OF assms(2)]
    by (auto simp: handle_pam_authenticate_def Let_def split: if_splits sum.splits prod.splits)
qed

lemma registered_channel:
  assumes "handle_authenticate E timeout (Some i) chan sess reg fw = (r, effs, reg', fw')" "RegisteredCancel i \<in> set effs"
  shows "map_of reg' i = Some chan"
  using assms(1)
proof (cases rule: handle_cases)
  case (attempted effs1)
  let ?s = "attempt_session E (Some i) sess"
  have mem: "RegisteredCancel i \<in> set effs1"
    using attempted(3) assms(2) by blast
  obtain packet where packet: "create_request_packet E ?s = Inr packet"
    using attempted(2) mem by (cases "create_request_packet E ?s") (auto simp: run_attempt_def)
  define d where "d = from_secs (unat (case timeout of Some t \<Rightarrow> t | None \<Rightarrow> 30))"
  obtain x e1 reg1 where t: "try_parallel_authentication E d packet chan ?s reg = (x, e1, reg1)"
    by (metis prod_cases3)
  have "reg1 = reg'" "RegisteredCancel i \<in> set e1"
    using attempted(2) packet t mem
    by (auto simp: run_attempt_def Let_def d_def split: option.splits sum.splits auth_error.splits if_splits)
  then show ?thesis
    using t
    by (auto simp: try_parallel_authentication_def register_cancel_handler_def Let_def update_conv
        split: sum.splits prod.splits if_splits)
qed (use assms(2) in auto)

lemma success_registered:
  assumes "handle_authenticate E timeout (Some i) chan sess reg fw = (Inr resp, effs, reg', fw')" "resp_outcome resp = 0"
  shows "RegisteredCancel i \<in> set effs"
  using assms(1)
proof (cases rule: handle_cases)
  case (attempted effs1)
  let ?s = "attempt_session E (Some i) sess"
  obtain packet r effs2 where run: "try_parallel_authentication E (from_secs (unat (case timeout of Some t \<Rightarrow> t | None \<Rightarrow> 30)))
      packet chan ?s reg = (r, effs2, reg')" "resp_outcome resp = 0 \<longleftrightarrow> r = Some (Inr ())" "\<exists>post. effs1 = effs2 @ post"
    by (rule run_attempt_result [OF attempted(2)]) blast
  have "RegisteredCancel i \<in> set effs2"
    using run(1,2) assms(2)
    by (auto simp: try_parallel_authentication_def Let_def split: sum.splits prod.splits)
  then show ?thesis
    using attempted(3) run(3) by auto
qed (use assms(2) in auto)

lemma await_zero:
  assumes "\<forall>(t, k) \<in> set ticks. d < t"
  shows "await_auth_result d b n p rb ru False False ticks = ([], None)"
  using assms by (cases ticks) (auto simp: await_Nil await_late split: prod.splits)

lemma zero_deadline:
  assumes "handle_authenticate E (Some 0) i chan sess reg fw = (Inr resp, effs, reg', fw')" "\<forall>(t, k) \<in> set (se_ticks E). 0 < t"
  shows "resp_outcome resp \<in> {2, 3, 4}"
  using assms(1)
proof (cases rule: handle_cases)
  case (attempted effs1)
  obtain packet r effs2 where run: "try_parallel_authentication E (from_secs 0) packet chan (attempt_session E i sess) reg = (r, effs2, reg')"
      "resp_outcome resp = 2 \<longleftrightarrow> r = None" "resp_outcome resp = 3 \<longleftrightarrow> (\<exists>e. r = Some (Inl e) \<and> e \<noteq> ExplicitDenial)"
    by (rule run_attempt_result [OF attempted(2)]) (auto simp: from_secs_def)
  from run(1) show ?thesis
  proof (cases rule: try_parallel_cases)
    case (ran tid p rb ru pre effs3)
    then show ?thesis
      using await_zero [of "se_ticks E" "from_secs 0"] assms(2) run(2) by (simp add: from_secs_def)
  qed (use run(3) in auto)
qed auto

text \<open>A SUCCESS among the answers is the end of a session that saw a signed grant.\<close>

lemma success_dispatched:
  assumes "dispatch_conn C daemon pid uid (dec_envelope (cn_ipc C) m) st = (envelope_pam_response resp, effs, st')"
    and "resp_outcome resp = outcome_number PamSuccess"
  shows "\<exists>req chal csk. dec_envelope (cn_ipc C) m = Some (Some (PamAuthenticate req)) \<and>
    cn_rnd C = Some chal \<and> ds_csk daemon = Some csk \<and>
    grant_evidence (se_crypto (cn_session C)) (se_codec (cn_session C)) (se_hex (cn_session C)) csk chal
      (paired_servers daemon) (session_packets (cn_session C)) \<and>
    (\<exists>(sid, server) \<in> set (paired_servers daemon). par_username req \<in> set (allowed_users server))"
proof -
  obtain req where req: "dec_envelope (cn_ipc C) m = Some (Some (PamAuthenticate req))"
      "handle_pam_authenticate C daemon req st = (resp, effs, st')"
    using assms
    by (auto simp: dispatch_conn_def envelope_pam_response_def envelope_admin_response_def handle_pam_cancel_def
        split: option.splits ipc_msg.splits prod.splits)
  from req(2) show ?thesis
  proof (cases rule: authenticate_cases)
    case (ran sess r w)
    then show ?thesis
      using session_evidence [of "session_of C st" _ _ _ sess _ _ resp] AuthSession_new_Inr [OF ran(2)] assms(2) req(1)
      by (cases r) force+
  qed (use assms(2) in auto)
qed

section \<open>Properties\<close>

text \<open>
  C3. Success over the socket needs a signed grant. If the bytes the daemon sends back on a
  connection are a PAM response with the outcome SUCCESS, then the connection brought a complete
  authentication request, for a user whom a paired server of the daemon allows, and one of the
  packets phones sent during that session opens under the daemon's symmetric key and carries a
  grant, signed by a paired server, for the fresh challenge drawn for this very request.
\<close>

theorem ipc_success_needs_grant:
  assumes "ipc_codec_ok (cn_ipc C)" "handle_conn C stream daemon st = (r, stream', effs, st')"
    and "tx stream' = tx stream @ frame (enc_envelope (cn_ipc C) (envelope_pam_response resp))"
    and "resp_outcome resp = outcome_number PamSuccess"
  shows "\<exists>m rest req chal csk. rx stream = frame m @ rest \<and> dec_envelope (cn_ipc C) m = Some (Some (PamAuthenticate req)) \<and>
    cn_rnd C = Some chal \<and> ds_csk daemon = Some csk \<and>
    grant_evidence (se_crypto (cn_session C)) (se_codec (cn_session C)) (se_hex (cn_session C)) csk chal
      (paired_servers daemon) (session_packets (cn_session C)) \<and>
    (\<exists>(sid, server) \<in> set (paired_servers daemon). par_username req \<in> set (allowed_users server))"
  using assms(2)
proof (cases rule: handle_conn_cases)
  case (answered pid uid m rest msg)
  have msg: "msg = envelope_pam_response resp"
    using assms(3) answered(6)
    by (cases rule: write_response_cases [of "stream\<lparr>rx := rest\<rparr>" "cn_ipc C" msg])
      (auto simp: frame_inj enc_envelope_inj [OF assms(1)])
  show ?thesis
    using success_dispatched [OF answered(5) [unfolded msg] assms(4)] ipc_requests.sound [OF answered(3)] by blast
qed (use assms(3) in auto)

definition demo_request :: pam_authenticate_request where
  "demo_request = \<lparr>par_username = ''alice'', tty_present = True, timeout_seconds = 30, par_request_id = ''r1''\<rparr>"

definition demo_conn :: "instant \<Rightarrow> conn_env" where
  "demo_conn now = \<lparr>cn_admin = demo_admin_env, cn_session = demo_env demo_grant [(5, UdpTick)], cn_ipc = demo_ipc_codec,
     cn_creds = Some (7, 0), cn_read = 0, cn_now = now, cn_rnd = Some demo_challenge, cn_others = id\<rparr>"

definition demo_daemon :: server_state where
  "demo_daemon = \<lparr>sv_admin = (demo_admin None)\<lparr>am_os := demo_os, am_daemon := demo_state [(''phone'', demo_server)]\<rparr>,
     sv_registry = [], sv_recent = [], sv_channels = 0, sv_fired = []\<rparr>"

definition demo_stream :: "ipc_envelope \<Rightarrow> byte_stream" where
  "demo_stream msg = \<lparr>rx = frame (enc_envelope demo_ipc_codec msg), tx = [], wr_err = None\<rparr>"

lemma demo_conn_sel [simp]:
  "cn_ipc (demo_conn now) = demo_ipc_codec" "cn_creds (demo_conn now) = Some (7, 0)" "cn_read (demo_conn now) = 0"
  "cn_now (demo_conn now) = now" "cn_rnd (demo_conn now) = Some demo_challenge" "cn_admin (demo_conn now) = demo_admin_env"
  "cn_session (demo_conn now) = demo_env demo_grant [(5, UdpTick)]"
  by (simp_all add: demo_conn_def)

lemma demo_authenticate_in:
  assumes "par_username req = ''alice''" "0 < timeout_seconds req"
  shows "\<exists>effs st'. handle_pam_authenticate (demo_conn now) (demo_state [(''phone'', demo_server)]) req demo_daemon =
     (response PamSuccess ''Authenticated user alice successfully'' demo_challenge, effs, st')"
proof -
  have "session_of (demo_conn now) (demo_daemon\<lparr>sv_recent := x\<rparr>) = demo_env demo_grant [(5, UdpTick)]" for x
    by (simp add: session_of_def demo_conn_def demo_daemon_def demo_env_def)
  moreover have "AuthSession_new (demo_state sv) u (Some demo_challenge) = Inr (demo_session u sv)" for u sv
    by (simp add: AuthSession_new_def demo_session_def)
  moreover obtain effs reg' fw' where "handle_authenticate (demo_env demo_grant [(5, UdpTick)]) (Some (timeout_seconds req))
      (Some (par_request_id req)) 0 (demo_session ''alice'' [(''phone'', demo_server)]) [] fw_init =
      (Inr (response PamSuccess ''Authenticated user alice successfully'' demo_challenge), effs, reg', fw')"
    using demo_success_in [of "''phone''" "[(''phone'', demo_server)]" "''phone''" demo_server "''alice''" "timeout_seconds req"
        "Some (par_request_id req)" 0 "[]" fw_init] assms(2)
    by auto
  ultimately show ?thesis
    by (simp add: handle_pam_authenticate_def Let_def demo_daemon_def assms(1) demo_admin_def)
qed

lemma demo_authenticate:
  "\<exists>resp effs st'. handle_pam_authenticate (demo_conn now) (demo_state [(''phone'', demo_server)]) demo_request demo_daemon =
     (resp, effs, st') \<and> resp_outcome resp = 0"
  using demo_authenticate_in [of demo_request now] by (auto simp: demo_request_def)

lemma demo_frame: "read_framed (rx (demo_stream (Some (PamAuthenticate demo_request)))) =
    Inr (enc_envelope demo_ipc_codec (Some (PamAuthenticate demo_request)), [])"
  "enc_envelope demo_ipc_codec (Some (PamAuthenticate demo_request)) \<noteq> []"
proof -
  have "length (enc_envelope demo_ipc_codec (Some (PamAuthenticate demo_request))) \<le> MAX_REQUEST"
    by (simp add: demo_ipc_codec_def demo_request_def MAX_REQUEST_def word_field_def bool_field_def length_put_fields)
  then show "read_framed (rx (demo_stream (Some (PamAuthenticate demo_request)))) =
      Inr (enc_envelope demo_ipc_codec (Some (PamAuthenticate demo_request)), [])"
    using ipc_requests.reads_all by (simp add: demo_stream_def)
  show "enc_envelope demo_ipc_codec (Some (PamAuthenticate demo_request)) \<noteq> []"
    by (simp add: demo_ipc_codec_def put_fields_def put_field_def)
qed

theorem ipc_success_needs_grant_witness:
  "\<exists>r stream' effs st' resp. handle_conn (demo_conn 9) (demo_stream (Some (PamAuthenticate demo_request)))
      (demo_state [(''phone'', demo_server)]) demo_daemon = (r, stream', effs, st') \<and>
    tx stream' = frame (enc_envelope demo_ipc_codec (envelope_pam_response resp)) \<and> resp_outcome resp = 0 \<and>
    grant_evidence demo_crypto demo_codec demo_hex demo_csk demo_challenge [(''phone'', demo_server)]
      (session_packets (demo_env demo_grant [(5, UdpTick)]))"
proof -
  obtain resp effs st' where a: "handle_pam_authenticate (demo_conn 9) (demo_state [(''phone'', demo_server)]) demo_request demo_daemon =
      (resp, effs, st')" "resp_outcome resp = 0"
    using demo_authenticate by blast
  have "dec_envelope demo_ipc_codec (enc_envelope demo_ipc_codec m) = Some m" for m
    using demo_ipc_codec_ok by (simp add: ipc_codec_ok_def)
  then obtain r stream' where run: "handle_conn (demo_conn 9) (demo_stream (Some (PamAuthenticate demo_request)))
      (demo_state [(''phone'', demo_server)]) demo_daemon = (r, stream', effs, st')"
      "tx stream' = frame (enc_envelope demo_ipc_codec (envelope_pam_response resp))"
    using a demo_frame
    by (simp add: handle_conn_def Let_def dispatch_conn_def write_response_def write_framed_def write_all_def demo_stream_def)
  then show ?thesis
    using ipc_success_needs_grant [OF _ run(1), of resp] a(2) demo_ipc_codec_ok
    by (auto simp: demo_stream_def demo_state_def)
qed

text \<open>
  C30. One answer per request. On a connection with known credentials whose stream works and whose
  request arrives within three seconds, every complete frame of at most 10 MiB is answered by
  exactly one frame, which holds a PAM or an administrative response; an empty frame, the health
  check, is closed without an answer and without any effect. A request that is too long, cut off or
  late, or whose sender is unknown, gets no answer and has no effect.
\<close>

theorem one_answer_per_request:
  assumes "handle_conn C stream daemon st = (r, stream', effs, st')" "wr_err stream = None"
  shows "(conn_ready C \<and> (\<exists>m rest. rx stream = frame m @ rest \<and> m \<noteq> [] \<and> length m \<le> MAX_REQUEST) \<longrightarrow>
      r = Inr () \<and> (\<exists>msg. tx stream' = tx stream @ frame (enc_envelope (cn_ipc C) (Some msg)) \<and>
        ((\<exists>resp. msg = PamResponse resp) \<or> (\<exists>resp. msg = AdminResponse resp)))) \<and>
    (\<not> conn_ready C \<or> (\<nexists>m rest. rx stream = frame m @ rest \<and> m \<noteq> [] \<and> length m \<le> MAX_REQUEST) \<longrightarrow>
      tx stream' = tx stream \<and> effs = [] \<and> st' = st)"
  using assms(1)
proof (cases rule: handle_conn_cases)
  case (rejected e)
  then show ?thesis
    using ipc_requests.reads by (auto simp: is_ok_def)
next
  case (health_check rest)
  have "m = []" if "rx stream = frame m @ rest'" "length m \<le> MAX_REQUEST" for m rest'
    using ipc_requests.reads [OF that(2), of rest'] that(1) health_check(2) by simp
  then show ?thesis
    using health_check by auto
next
  case (answered pid uid m rest msg)
  have "\<exists>x. msg = Some x \<and> ((\<exists>resp. x = PamResponse resp) \<or> (\<exists>resp. x = AdminResponse resp))"
    using answered(5)
    by (auto simp: dispatch_conn_def envelope_pam_response_def envelope_admin_response_def
        split: option.splits ipc_msg.splits prod.splits)
  moreover have "r = Inr () \<and> tx stream' = tx stream @ frame (enc_envelope (cn_ipc C) msg)"
    using answered(6) assms(2) by (auto simp: write_response_def write_framed_def write_all_def map_err_def)
  moreover have "rx stream = frame m @ rest \<and> length m \<le> MAX_REQUEST"
    using ipc_requests.sound [OF answered(3)] .
  ultimately show ?thesis
    using answered(1,4) by blast
qed

theorem one_answer_per_request_witness:
  "\<exists>r stream' effs st'. handle_conn (demo_conn 9) (demo_stream (Some (PamAuthenticate demo_request)))
      (demo_state [(''phone'', demo_server)]) demo_daemon = (r, stream', effs, st') \<and> r = Inr () \<and> tx stream' \<noteq> []"
proof -
  obtain r stream' effs st' where run: "handle_conn (demo_conn 9) (demo_stream (Some (PamAuthenticate demo_request)))
      (demo_state [(''phone'', demo_server)]) demo_daemon = (r, stream', effs, st')"
    by (metis prod_cases4)
  moreover have "conn_ready (demo_conn 9)"
    by (simp add: conn_ready_def)
  moreover have "wr_err (demo_stream m) = None" for m
    by (simp add: demo_stream_def)
  ultimately show ?thesis
    using one_answer_per_request [OF run] ipc_requests.sound [OF demo_frame(1)] demo_frame(2)
    by (metis append_is_Nil_conv frame_nonempty)
qed

text \<open>
  C33. A user's requests are at least a second apart. Of two authentication requests for the same user
  less than a second apart the second is answered with IGNORE at once, whatever its request id and
  whoever sent it: no challenge is drawn, no session started, and the first one is not disturbed.
  A request that comes a second or more after the user's last one is never taken for a duplicate.
\<close>

theorem repeated_request_is_ignored:
  assumes "handle_pam_authenticate C daemon req st = (resp, effs, st1)" "distinct (map fst (sv_recent st))"
    and "\<not> repeated (cn_now C) (par_username req) st"
    and "par_username req' = par_username req" "cn_now C \<le> cn_now C'"
  shows "\<exists>resp' effs' st2. handle_pam_authenticate C' daemon' req' st1 = (resp', effs', st2) \<and>
    (if cn_now C' - cn_now C < from_secs 1
     then resp' = response PamIgnore ''Duplicate request - another authentication is in progress'' [] \<and> effs' = [] \<and>
          sv_registry st2 = sv_registry st1 \<and> sv_admin st2 = sv_admin st1
     else \<not> repeated (cn_now C') (par_username req') st1 \<and> map_of (sv_recent st2) (par_username req') = Some (cn_now C'))"
proof -
  have last_time: "map_of (sv_recent st1) (par_username req) = Some (cn_now C)" "distinct (map fst (sv_recent st1))"
  proof -
    show "map_of (sv_recent st1) (par_username req) = Some (cn_now C)"
      using assms(1) by (cases rule: authenticate_cases) (use assms(3) in auto)
    show "distinct (map fst (sv_recent st1))"
      using authenticate_recent_distinct [OF assms(1,2)] .
  qed
  have rep: "repeated (cn_now C') (par_username req') st1 \<longleftrightarrow> cn_now C' - cn_now C < from_secs 1"
  proof
    assume "repeated (cn_now C') (par_username req') st1"
    then show "cn_now C' - cn_now C < from_secs 1"
      using map_of_filter_distinct [OF last_time(2), of "\<lambda>t. cn_now C' - t < from_secs 2" "par_username req"] last_time(1)
      unfolding repeated_def assms(4) by fastforce
  next
    assume a: "cn_now C' - cn_now C < from_secs 1"
    then have "cn_now C' - cn_now C < from_secs 2"
      by (simp add: from_secs_def)
    from map_of_filter_value [OF last_time(1), of "\<lambda>t. cn_now C' - t < from_secs 2", OF this] a
    show "repeated (cn_now C') (par_username req') st1"
      unfolding repeated_def assms(4) by blast
  qed
  obtain resp' effs' st2 where run: "handle_pam_authenticate C' daemon' req' st1 = (resp', effs', st2)"
    by (metis prod_cases3)
  then show ?thesis
  proof (cases rule: authenticate_cases)
    case duplicate
    then show ?thesis using rep run by simp
  next
    case no_challenge
    then show ?thesis using rep run by simp
  next
    case (ran sess r w)
    then show ?thesis using rep run by simp
  qed
qed

theorem repeated_request_is_ignored_witness:
  "\<exists>resp effs st1 st2. handle_pam_authenticate (demo_conn 9) (demo_state [(''phone'', demo_server)]) demo_request demo_daemon =
      (resp, effs, st1) \<and>
     handle_pam_authenticate (demo_conn 500) (demo_state [(''phone'', demo_server)]) demo_request st1 =
      (response PamIgnore ''Duplicate request - another authentication is in progress'' [], [], st2) \<and> sv_admin st2 = sv_admin st1"
proof -
  obtain resp effs st1 where run: "handle_pam_authenticate (demo_conn 9) (demo_state [(''phone'', demo_server)]) demo_request demo_daemon =
      (resp, effs, st1)"
    using demo_authenticate by blast
  have "distinct (map fst (sv_recent demo_daemon))" "\<not> repeated (cn_now (demo_conn 9)) u demo_daemon" for u
    by (simp_all add: demo_daemon_def repeated_def)
  from repeated_request_is_ignored [OF run this, of demo_request "demo_conn 500" "demo_state [(''phone'', demo_server)]"]
  obtain st2 where "handle_pam_authenticate (demo_conn 500) (demo_state [(''phone'', demo_server)]) demo_request st1 =
      (response PamIgnore ''Duplicate request - another authentication is in progress'' [], [], st2)" "sv_admin st2 = sv_admin st1"
    by (auto simp: from_secs_def)
  then show ?thesis
    using run by blast
qed



text \<open>
  A time-out of zero is no default. The message definition says that 0 stands for the daemon's
  default of 30 seconds; the daemon uses the number as it is, so that a request with 0 never
  succeeds and is never denied by the phone: unless an event comes in the very instant it starts,
  an admitted session ends at once, with TIMEOUT if its packets could be built.
\<close>

theorem zero_timeout_expires_at_once:
  assumes "handle_pam_authenticate C daemon req st = (resp, effs, st')" "timeout_seconds req = 0"
    and "\<forall>(t, k) \<in> set (se_ticks (cn_session C)). 0 < t"
  shows "resp_outcome resp \<in> {outcome_number PamTimeout, outcome_number PamIgnore, outcome_number PamError}"
  using assms(1)
proof (cases rule: authenticate_cases)
  case (ran sess r w)
  show ?thesis
  proof (cases r)
    case (Inr x)
    have "resp_outcome x \<in> {2, 3, 4}"
      using zero_deadline [OF ran(3) [unfolded Inr assms(2)]] assms(3) by simp
    then show ?thesis
      using ran(4) Inr by auto
  qed (use ran(4) in auto)
qed auto

theorem zero_timeout_expires_at_once_witness:
  "\<exists>resp effs st'. handle_pam_authenticate (demo_conn 9) (demo_state [(''phone'', demo_server)])
      (demo_request\<lparr>timeout_seconds := 0\<rparr>) demo_daemon = (resp, effs, st') \<and> resp_outcome resp \<noteq> outcome_number PamSuccess"
proof -
  obtain resp effs st' where run: "handle_pam_authenticate (demo_conn 9) (demo_state [(''phone'', demo_server)])
      (demo_request\<lparr>timeout_seconds := 0\<rparr>) demo_daemon = (resp, effs, st')"
    by (metis prod_cases3)
  from zero_timeout_expires_at_once [OF run] show ?thesis
    using run by auto
qed

end
