(* ===== verification/PamClient.thy ===== *)
theory PamClient
  imports Ipc
begin

text \<open>
  The socket client of the PAM module, \<^verbatim>\<open>src/client-pam/src/ipc_client.rs\<close>. A blocking read takes
  a whole frame; the event loops read what is there and keep the incomplete frame in the client. What
  the kernel returns from one \<^verbatim>\<open>read\<close> is a \<open>read_result\<close>; the list given to
  \<open>try_read_response_nonblocking\<close> are the results of its reads, and its end is a read that would block.
\<close>

section \<open>Definitions\<close>

datatype ipc_error = IpcIo io_error | IpcEncode | IpcDecode | IpcFrameTooLarge u32

record ipc_client =
  cl_stream :: byte_stream
  read_buf :: bytes
  expected_total :: "nat option"

datatype read_result = ReadBytes bytes | ReadError io_error

definition MAX_RESPONSE :: nat where
  "MAX_RESPONSE = 1024 * 1024"

text \<open>The result of \<^verbatim>\<open>UnixStream::connect\<close> and of setting the socket up is a parameter.\<close>

definition connect_client :: "io_error + byte_stream \<Rightarrow> ipc_error + ipc_client" where
  "connect_client r = rbind (map_err IpcIo r) (\<lambda>stream. Inr \<lparr>cl_stream = stream, read_buf = [], expected_total = None\<rparr>)"

definition send_message :: "ipc_codec \<Rightarrow> ipc_envelope \<Rightarrow> ipc_client \<Rightarrow> ipc_error + ipc_client" where
  "send_message I msg c =
     (let encoded = enc_envelope I msg
      in if 2 ^ 32 \<le> length encoded then Inl (IpcFrameTooLarge (- 1))
         else rbind (map_err IpcIo (write_all (cl_stream c) (be_bytes 4 (length encoded) @ encoded))) (\<lambda>stream.
                Inr (c\<lparr>cl_stream := stream\<rparr>)))"

definition response_frame :: "bytes \<Rightarrow> ipc_error + bytes \<times> bytes" where
  "response_frame s =
     rbind (map_err IpcIo (read_exact 4 s)) (\<lambda>(len_buf, s).
       if from_be len_buf > MAX_RESPONSE then Inl (IpcFrameTooLarge (word_of_nat (from_be len_buf)))
       else map_err IpcIo (read_exact (from_be len_buf) s))"

definition decode_response :: "ipc_codec \<Rightarrow> bytes \<Rightarrow> ipc_error + pam_authenticate_response" where
  "decode_response I data =
     (case dec_envelope I data of
        None \<Rightarrow> Inl IpcDecode
      | Some (Some (PamResponse response)) \<Rightarrow> Inr response
      | Some _ \<Rightarrow> Inl (IpcIo InvalidData))"

definition recv_response :: "ipc_codec \<Rightarrow> bytes \<Rightarrow> ipc_error + pam_authenticate_response" where
  "recv_response I s = rbind (response_frame s) (\<lambda>(data, _). decode_response I data)"

definition send_authenticate_start ::
  "ipc_codec \<Rightarrow> string \<Rightarrow> bool \<Rightarrow> u32 \<Rightarrow> string \<Rightarrow> ipc_client \<Rightarrow> ipc_error + ipc_client"
where
  "send_authenticate_start I username tty timeout request_id =
     send_message I (Some (PamAuthenticate \<lparr>par_username = username, tty_present = tty,
       timeout_seconds = timeout, par_request_id = request_id\<rparr>))"

definition send_authenticate ::
  "ipc_codec \<Rightarrow> string \<Rightarrow> bool \<Rightarrow> u32 \<Rightarrow> string \<Rightarrow> ipc_client \<Rightarrow> ipc_error + pam_authenticate_response"
where
  "send_authenticate I username tty timeout request_id c =
     rbind (send_authenticate_start I username tty timeout request_id c) (\<lambda>c. recv_response I (rx (cl_stream c)))"

text \<open>The callers ignore the answer to a cancel request, and with it the error.\<close>

definition send_cancel :: "ipc_codec \<Rightarrow> string \<Rightarrow> string \<Rightarrow> ipc_client \<Rightarrow> (ipc_error + pam_authenticate_response) \<times> ipc_client" where
  "send_cancel I reason request_id c =
     (case send_message I (Some (PamCancel \<lparr>pcr_reason = reason, pcr_request_id = request_id\<rparr>)) c of
        Inl e \<Rightarrow> (Inl e, c)
      | Inr c \<Rightarrow> (recv_response I (rx (cl_stream c)), c))"

fun drain :: "read_result list \<Rightarrow> bytes \<Rightarrow> (ipc_error + unit) \<times> bytes" where
  "drain [] buf = (Inr (), buf)"
| "drain (ReadBytes b # rs) buf = (if b = [] then (Inr (), buf) else drain rs (buf @ b))"
| "drain (ReadError e # rs) buf = (if e \<in> {WouldBlock, Interrupted} then (Inr (), buf) else (Inl (IpcIo e), buf))"

definition try_read_response_nonblocking ::
  "ipc_codec \<Rightarrow> read_result list \<Rightarrow> ipc_client \<Rightarrow> (ipc_error + pam_authenticate_response option) \<times> ipc_client"
where
  "try_read_response_nonblocking I reads c =
     (case drain reads (read_buf c) of
        (Inl e, buf) \<Rightarrow> (Inl e, c\<lparr>read_buf := buf\<rparr>)
      | (Inr _, buf) \<Rightarrow>
          let c = c\<lparr>read_buf := buf\<rparr>;
              expected = (case expected_total c of
                            Some len_total \<Rightarrow> Inr (Some len_total)
                          | None \<Rightarrow>
                              if 4 \<le> length buf then
                                (if from_be (take 4 buf) > MAX_RESPONSE then Inl (IpcFrameTooLarge (word_of_nat (from_be (take 4 buf))))
                                 else Inr (Some (4 + from_be (take 4 buf))))
                              else Inr None)
          in (case expected of
                Inl e \<Rightarrow> (Inl e, c)
              | Inr None \<Rightarrow> (Inr None, c)
              | Inr (Some len_total) \<Rightarrow>
                  if len_total \<le> length buf then
                    (rbind (decode_response I (drop 4 (take len_total buf))) (\<lambda>resp. Inr (Some resp)),
                     c\<lparr>read_buf := drop len_total buf, expected_total := None\<rparr>)
                  else (Inr None, c\<lparr>expected_total := Some len_total\<rparr>)))"

section \<open>Reading in pieces\<close>

text \<open>Polling until there is an answer; \<open>None\<close> when the given reads bring none.\<close>

primrec poll_responses :: "ipc_codec \<Rightarrow> read_result list list \<Rightarrow> ipc_client \<Rightarrow> (ipc_error + pam_authenticate_response) option" where
  "poll_responses I [] c = None"
| "poll_responses I (reads # polls) c =
     (case try_read_response_nonblocking I reads c of
        (Inl e, _) \<Rightarrow> Some (Inl e)
      | (Inr (Some resp), _) \<Rightarrow> Some (Inr resp)
      | (Inr None, c) \<Rightarrow> poll_responses I polls c)"

interpretation ipc_responses: frame_reader response_frame MAX_RESPONSE
proof
  show "MAX_RESPONSE < 2 ^ 32"
    by (simp add: MAX_RESPONSE_def)
  show "response_frame (frame m @ r) = Inr (m, r)" if "length m \<le> MAX_RESPONSE" for m r
    using that header_body_reads [OF that] by (simp add: response_frame_def MAX_RESPONSE_def)
  show "s = frame m @ r \<and> length m \<le> MAX_RESPONSE" if "response_frame s = Inr (m, r)" for s m r
    using that header_body_sound [of s _ _ m r]
    by (auto simp: response_frame_def result_simps split: if_splits)
qed

lemma drain_bytes: "\<forall>b \<in> set bs. b \<noteq> [] \<Longrightarrow> drain (map ReadBytes bs) buf = (Inr (), buf @ concat bs)"
  by (induction bs arbitrary: buf) simp_all

text \<open>What a client has read of an incomplete frame.\<close>

definition waiting_client :: "bytes \<Rightarrow> ipc_client \<Rightarrow> bool" where
  "waiting_client s c \<longleftrightarrow> read_buf c = s \<and> response_frame s = Inl (IpcIo UnexpectedEof) \<and>
     expected_total c \<in> {None, Some (4 + from_be (take 4 s))} \<and> (expected_total c \<noteq> None \<longrightarrow> 4 \<le> length s)"

lemma response_frame_cases:
  "response_frame s = (if length s < 4 then Inl (IpcIo UnexpectedEof)
     else let n = from_be (take 4 s) in
       if n > MAX_RESPONSE then Inl (IpcFrameTooLarge (word_of_nat n))
       else if length s < 4 + n then Inl (IpcIo UnexpectedEof) else Inr (take n (drop 4 s), drop n (drop 4 s)))"
  by (auto simp: response_frame_def read_exact_def Let_def map_err_def)

lemma try_read_step:
  assumes "waiting_client s c" "\<forall>b \<in> set bs. b \<noteq> []" "s' = s @ concat bs" "n = from_be (take 4 s')"
  shows "try_read_response_nonblocking I (map ReadBytes bs) c =
    (if length s' < 4 then (Inr None, c\<lparr>read_buf := s'\<rparr>)
     else if n > MAX_RESPONSE then (Inl (IpcFrameTooLarge (word_of_nat n)), c\<lparr>read_buf := s'\<rparr>)
     else if length s' < 4 + n then (Inr None, c\<lparr>read_buf := s', expected_total := Some (4 + n)\<rparr>)
     else (rbind (decode_response I (take n (drop 4 s'))) (\<lambda>resp. Inr (Some resp)), c\<lparr>read_buf := drop (4 + n) s', expected_total := None\<rparr>))"
proof (cases "expected_total c")
  case None
  moreover have "drain (map ReadBytes bs) s = (Inr (), s')"
    using drain_bytes [OF assms(2), of s] assms(3) by simp
  ultimately show ?thesis
    using assms(1,4)
    by (simp add: try_read_response_nonblocking_def waiting_client_def Let_def drop_take)
next
  case (Some t)
  then have t: "t = 4 + from_be (take 4 s)" "4 \<le> length s" "\<not> from_be (take 4 s) > MAX_RESPONSE"
    using assms(1) by (auto simp: waiting_client_def response_frame_cases Let_def split: if_splits)
  then have "n = from_be (take 4 s)" "\<not> length s' < 4"
    using assms(3,4) by simp_all
  moreover have "drain (map ReadBytes bs) s = (Inr (), s')"
    using drain_bytes [OF assms(2), of s] assms(3) by simp
  ultimately show ?thesis
    using Some t assms(1)
    by (simp add: try_read_response_nonblocking_def waiting_client_def Let_def drop_take)
qed

lemma try_read_waiting:
  assumes "waiting_client s c" "\<forall>b \<in> set bs. b \<noteq> []" "s' = s @ concat bs"
  obtains (more) c' where "response_frame s' = Inl (IpcIo UnexpectedEof)"
      "try_read_response_nonblocking I (map ReadBytes bs) c = (Inr None, c')" "waiting_client s' c'"
    | (bad) e c' where "e \<noteq> IpcIo UnexpectedEof" "response_frame s' = Inl e"
      "try_read_response_nonblocking I (map ReadBytes bs) c = (Inl e, c')"
    | (complete) m rest c' where "response_frame s' = Inr (m, rest)"
      "try_read_response_nonblocking I (map ReadBytes bs) c = (rbind (decode_response I m) (\<lambda>r. Inr (Some r)), c')"
proof -
  define n where "n = from_be (take 4 s')"
  note step = try_read_step [OF assms n_def, of I]
  note rf = response_frame_cases [of s', folded n_def, unfolded Let_def]
  have old: "expected_total c = None" if "length s' < 4"
    using assms(1,3) that by (auto simp: waiting_client_def)
  consider "length s' < 4" | "\<not> length s' < 4" "n > MAX_RESPONSE" | "\<not> length s' < 4" "\<not> n > MAX_RESPONSE" "length s' < 4 + n"
    | "\<not> length s' < 4" "\<not> n > MAX_RESPONSE" "\<not> length s' < 4 + n"
    by blast
  then show ?thesis
  proof cases
    case 1
    then show ?thesis
      using more step rf old by (simp add: waiting_client_def)
  next
    case 2
    show ?thesis
      by (rule bad [of "IpcFrameTooLarge (word_of_nat n)"]) (use 2 step rf in simp_all)
  next
    case 3
    then show ?thesis
      using more step rf by (simp add: waiting_client_def n_def)
  next
    case 4
    then show ?thesis
      using complete step rf by simp
  qed
qed

lemma decode_response_error: "decode_response I m \<noteq> Inl (IpcIo UnexpectedEof)"
  by (simp add: decode_response_def split: option.split ipc_msg.split)

lemma response_frame_refused:
  "response_frame s = Inl e \<Longrightarrow> e \<noteq> IpcIo UnexpectedEof \<Longrightarrow> response_frame (s @ t) = Inl e"
  by (simp add: response_frame_cases Let_def split: if_splits)

lemma poll_waiting:
  assumes "waiting_client s c" "\<forall>bs \<in> set polls. \<forall>b \<in> set bs. b \<noteq> []"
  shows "poll_responses I (map (map ReadBytes) polls) c =
    (let r = recv_response I (s @ concat (concat polls)) in if r = Inl (IpcIo UnexpectedEof) then None else Some r)"
  using assms
proof (induction polls arbitrary: s c)
  case Nil
  then show ?case
    by (simp add: waiting_client_def recv_response_def)
next
  case (Cons bs polls)
  have ne: "\<forall>b \<in> set bs. b \<noteq> []"
    using Cons.prems(2) by simp
  show ?case
    using Cons.prems(1) ne refl
  proof (cases rule: try_read_waiting [where I = I])
    case (more c')
    then show ?thesis
      using Cons.IH [OF more(3)] Cons.prems(2) by simp
  next
    case (bad e c')
    then show ?thesis
      using response_frame_refused [OF bad(2,1), of "concat (concat polls)"] by (simp add: recv_response_def)
  next
    case (complete m rest c')
    have "recv_response I (s @ concat (concat (bs # polls))) = decode_response I m"
      using ipc_responses.no_lookahead [OF complete(1), of "concat (concat polls)"] by (simp add: recv_response_def)
    then show ?thesis
      using complete(2) decode_response_error [of I m] by (cases "decode_response I m") auto
  qed
qed

section \<open>Properties\<close>

text \<open>
  C31. Reading in pieces is reading at once. However the kernel cuts the daemon's bytes into reads, and
  however these spread over wake-ups of the event loop, a fresh client reports exactly what the
  blocking read of the same bytes reports: the response, or the refusal of a frame that is
  too long, undecodable or of the wrong kind; and nothing as long as the frame is incomplete, where
  the blocking read would still wait.
\<close>

theorem incremental_read_is_blocking_read:
  assumes "connect_client r = Inr c" "\<forall>bs \<in> set polls. \<forall>b \<in> set bs. b \<noteq> []"
  shows "poll_responses I (map (map ReadBytes) polls) c =
    (let r = recv_response I (concat (concat polls)) in if r = Inl (IpcIo UnexpectedEof) then None else Some r)"
proof -
  have "waiting_client [] c"
    using assms(1) by (auto simp: connect_client_def waiting_client_def response_frame_cases result_simps)
  from poll_waiting [OF this assms(2)] show ?thesis
    by simp
qed

theorem incremental_read_is_blocking_read_witness:
  "poll_responses demo_ipc_codec
     (let s = frame (enc_envelope demo_ipc_codec (Some (PamResponse \<lparr>resp_outcome = 0, resp_detail = [], resp_challenge = []\<rparr>)))
      in map (map ReadBytes) [[take 3 s], [], [drop 3 s]])
     \<lparr>cl_stream = \<lparr>rx = [], tx = [], wr_err = None\<rparr>, read_buf = [], expected_total = None\<rparr> =
   Some (Inr \<lparr>resp_outcome = 0, resp_detail = [], resp_challenge = []\<rparr>)"
proof -
  let ?r = "\<lparr>resp_outcome = 0, resp_detail = [], resp_challenge = []\<rparr>"
  define m where "m = enc_envelope demo_ipc_codec (Some (PamResponse ?r))"
  have "length m \<le> MAX_RESPONSE"
    by (simp add: m_def demo_ipc_codec_def length_put_fields int_field_def MAX_RESPONSE_def)
  then have "response_frame (frame m) = Inr (m, [])"
    by (rule ipc_responses.reads_all)
  moreover have "dec_envelope demo_ipc_codec m = Some (Some (PamResponse ?r))"
    using demo_ipc_codec_ok by (simp add: m_def ipc_codec_ok_def)
  ultimately have "recv_response demo_ipc_codec (frame m) = Inr ?r"
    by (simp add: recv_response_def decode_response_def)
  moreover have "length (frame m) = 4 + length m"
    by (simp add: frame_def)
  then have "take 3 (frame m) \<noteq> []" "drop 3 (frame m) \<noteq> []"
    by auto
  ultimately show ?thesis
    using incremental_read_is_blocking_read [of "Inr \<lparr>rx = [], tx = [], wr_err = None\<rparr>"
        "\<lparr>cl_stream = \<lparr>rx = [], tx = [], wr_err = None\<rparr>, read_buf = [], expected_total = None\<rparr>"
        "[[take 3 (frame m)], [], [drop 3 (frame m)]]" demo_ipc_codec]
    unfolding m_def [symmetric] Let_def by (simp add: connect_client_def)
qed

end
