(* ===== verification/Pam.thy ===== *)
theory Pam
  imports PamClient Auth Text
begin

text \<open>
  The PAM module, \<^verbatim>\<open>src/client-pam/src/pam_logic.rs\<close> with \<^verbatim>\<open>config.rs\<close>, \<^verbatim>\<open>lib.rs\<close> and the accessors of
  \<^verbatim>\<open>pam_sys.rs\<close>. One call of \<^verbatim>\<open>pam_authenticate\<close> is a function of its environment \<open>pam_env\<close> and of
  the process-wide record of the last conclusion. What the user is shown and the cancel requests are
  the list of effects. An event loop consumes the results of its polls: each entry holds the clock at
  the head of the loop, what \<^verbatim>\<open>poll\<close> returned, what reading the socket gives, whether the password
  thread has a password by then, and the key read from the terminal. The end of the list is the deadline.
\<close>

section \<open>Codes, items and messages\<close>

datatype pam_code =
    PAM_SUCCESS | PAM_PERM_DENIED | PAM_AUTH_ERR | PAM_AUTHINFO_UNAVAIL | PAM_USER_UNKNOWN | PAM_IGNORE
  | PAM_SYSTEM_ERR | PAM_CONV_ERR | PamOther i32

text \<open>\<^verbatim>\<open>pam_get_item\<close> fails, or returns a null pointer or a C string; only whether it exists matters of the conversation.\<close>

record pam_handle =
  item_user :: "pam_code + string option"
  item_ruser :: "pam_code + string option"
  item_service :: "pam_code + string option"
  item_conv :: "pam_code + bool"

definition get_service_name :: "pam_handle option \<Rightarrow> string option" where
  "get_service_name pamh =
     (case pamh of
        None \<Rightarrow> None
      | Some h \<Rightarrow> (case item_service h of Inr (Some s) \<Rightarrow> if utf8_valid (str_bytes s) then Some s else None | _ \<Rightarrow> None))"

definition get_user :: "pam_handle option \<Rightarrow> pam_code + string" where
  "get_user pamh =
     (case pamh of
        None \<Rightarrow> Inl PAM_SYSTEM_ERR
      | Some h \<Rightarrow>
          rbind (item_user h) (\<lambda>item.
          rbind (case item of
                   Some s \<Rightarrow> Inr s
                 | None \<Rightarrow> rbind (item_ruser h) (\<lambda>item. ok_or PAM_USER_UNKNOWN item)) (\<lambda>s.
            if utf8_valid (str_bytes s) then Inr s else Inl PAM_USER_UNKNOWN)))"

definition get_conv :: "pam_handle option \<Rightarrow> pam_code + unit" where
  "get_conv pamh =
     (case pamh of
        None \<Rightarrow> Inl PAM_SYSTEM_ERR
      | Some h \<Rightarrow> rbind (item_conv h) (\<lambda>present. if present then Inr () else Inl PAM_CONV_ERR))"

datatype pam_message =
    WaitingForTapSkip | WaitingForTap | WaitingForTapPassword | CannotConnect | CommunicationError | ConnectionLost
  | TimedOutMessage | Skipped | AuthSuccessful | AuthDenied | ErrorMessage string

datatype pam_effect =
    ShowInfo pam_message | ShowError pam_message | CancelOnNewConnection string | AskPassword

section \<open>Configuration\<close>

record pam_config =
  pam_operation_timeout_secs :: u64
  pam_gui_timeout_secs :: u64

definition PamConfig_default :: pam_config where
  "PamConfig_default = \<lparr>pam_operation_timeout_secs = 120, pam_gui_timeout_secs = 30\<rparr>"

text \<open>\<open>parse\<close> is the TOML parser with the defaults for missing fields.\<close>

definition PamConfig_load_from_path :: "(bytes \<Rightarrow> pam_config option) \<Rightarrow> path \<Rightarrow> os \<Rightarrow> pam_config" where
  "PamConfig_load_from_path parse p s =
     (case fs_read_to_string p s of
        Inl _ \<Rightarrow> PamConfig_default
      | Inr b \<Rightarrow> (case parse b of Some config \<Rightarrow> config | None \<Rightarrow> PamConfig_default))"

definition PamConfig_load :: "(bytes \<Rightarrow> pam_config option) \<Rightarrow> os \<Rightarrow> pam_config" where
  "PamConfig_load parse s = PamConfig_load_from_path parse ''/etc/tapauth/config.toml'' s"

section \<open>The last conclusion\<close>

definition VERDICT_REUSE_WINDOW :: duration where
  "VERDICT_REUSE_WINDOW = from_millis 500"

record last_conclusion =
  concluded_at :: instant
  lc_username :: string
  lc_service :: string
  lc_code :: pam_code

record conclusion_cell =
  cell_poisoned :: bool
  cell_last :: "last_conclusion option"

record verdict =
  vd_username :: string
  vd_service :: "string option"
  from_cache :: bool

definition reusable_conclusion :: "last_conclusion \<Rightarrow> string \<Rightarrow> string \<Rightarrow> instant \<Rightarrow> pam_code option" where
  "reusable_conclusion prev username service now =
     (if lc_username prev = username \<and> lc_service prev = service \<and> now - concluded_at prev < VERDICT_REUSE_WINDOW
      then Some (lc_code prev) else None)"

definition cached_conclusion_for :: "conclusion_cell \<Rightarrow> string \<Rightarrow> string \<Rightarrow> instant \<Rightarrow> (pam_code \<times> duration) option" where
  "cached_conclusion_for cell username service now =
     (if cell_poisoned cell then None
      else Option.bind (cell_last cell) (\<lambda>prev.
             map_option (\<lambda>code. (code, now - concluded_at prev)) (reusable_conclusion prev username service now)))"

definition record_conclusion :: "string \<Rightarrow> string \<Rightarrow> pam_code \<Rightarrow> instant \<Rightarrow> conclusion_cell \<Rightarrow> conclusion_cell" where
  "record_conclusion username service code now cell =
     (if cell_poisoned cell then cell
      else cell\<lparr>cell_last := Some \<lparr>concluded_at = now, lc_username = username, lc_service = service, lc_code = code\<rparr>\<rparr>)"

definition record_verdict :: "verdict option \<Rightarrow> pam_code \<Rightarrow> instant \<Rightarrow> conclusion_cell \<Rightarrow> conclusion_cell" where
  "record_verdict verdict code now cell =
     (case verdict of
        None \<Rightarrow> cell
      | Some v \<Rightarrow> (case (from_cache v, vd_service v) of
                     (False, Some service) \<Rightarrow> record_conclusion (vd_username v) service code now cell
                   | _ \<Rightarrow> cell))"

datatype start_error = StartConnect ipc_error | StartSend ipc_error

text \<open>The record is armed only once the request is on the wire.\<close>

definition start_authentication ::
  "verdict option \<Rightarrow> string \<Rightarrow> string option \<Rightarrow> ipc_error + 'c \<Rightarrow> ('c \<Rightarrow> ipc_error + 'c) \<Rightarrow> (start_error + 'c) \<times> verdict option"
where
  "start_authentication verdict username service connect send =
     (case connect of
        Inl e \<Rightarrow> (Inl (StartConnect e), verdict)
      | Inr client \<Rightarrow>
          (case send client of
             Inl e \<Rightarrow> (Inl (StartSend e), verdict)
           | Inr client \<Rightarrow> (Inr client, Some \<lparr>vd_username = username, vd_service = service, from_cache = False\<rparr>)))"

section \<open>The calling host\<close>

datatype conv_mode = Threaded | PreCollected | Sequential

definition to_ascii_lowercase :: "string \<Rightarrow> string" where
  "to_ascii_lowercase = map (\<lambda>c. if 65 \<le> (of_char c :: nat) \<and> (of_char c :: nat) \<le> 90 then char_of (of_char c + 32 :: nat) else c)"

definition eq_ignore_ascii_case :: "string \<Rightarrow> string \<Rightarrow> bool" where
  "eq_ignore_ascii_case a b = (to_ascii_lowercase a = to_ascii_lowercase b)"

text \<open>\<open>exe\<close> is the file name that the link \<^verbatim>\<open>/proc/self/exe\<close> ends in, \<open>comm\<close> what \<^verbatim>\<open>/proc/self/comm\<close> holds.\<close>

definition process_identity :: "string option \<Rightarrow> string option \<Rightarrow> string option" where
  "process_identity exe comm =
     (let deleted = '' (deleted)'';
          fallback = (case comm of Some c \<Rightarrow> if trim c = [] then None else Some (trim c) | None \<Rightarrow> None)
      in case exe of
           Some name \<Rightarrow>
             let name = (if drop (length name - length deleted) name = deleted then take (length name - length deleted) name else name)
             in if name \<noteq> [] then Some name else fallback
         | None \<Rightarrow> fallback)"

definition conversation_mode :: "string \<Rightarrow> string option \<Rightarrow> bool \<Rightarrow> conv_mode" where
  "conversation_mode service process reauth =
     (case process of
        Some name \<Rightarrow>
          if name \<in> {''polkit-agent-helper-1'', ''polkit-agent-he'', ''kscreenlocker_worker'', ''kscreenlocker_w'', ''hyprlock'', ''authproto_pam''}
          then Threaded
          else if name \<in> {''gdm-session-worker'', ''gdm-session-wor''} \<and> reauth \<and> eq_ignore_ascii_case service ''gdm-password''
          then Threaded
          else if name \<in> {''swaylock'', ''gtklock'', ''i3lock''} then PreCollected
          else Sequential
      | None \<Rightarrow> if service = ''polkit-1'' then Threaded else Sequential)"

definition is_gdm_reauth :: "string \<Rightarrow> bool \<Rightarrow> bool" where
  "is_gdm_reauth service for_reauth = (eq_ignore_ascii_case service ''gdm-password'' \<and> for_reauth)"

definition DM_PREFIXES :: "string list" where
  "DM_PREFIXES = [''sddm'', ''gdm'', ''gdm3'', ''lightdm'', ''lxdm'', ''slim'', ''xdm'', ''kdm'', ''greetd'', ''ly'', ''nodm'',
     ''entrance'', ''plasmalogin'']"

definition is_dm_service :: "string \<Rightarrow> bool" where
  "is_dm_service service =
     (let service_lower = to_ascii_lowercase service
      in list_ex (\<lambda>p. service_lower = p \<or>
           (starts_with p service_lower \<and> length p < length service_lower \<and> service_lower ! length p = CHR ''-'')) DM_PREFIXES)"

definition guard_display_manager_bypass :: "pam_handle option \<Rightarrow> bool \<Rightarrow> pam_code option" where
  "guard_display_manager_bypass pamh for_reauth =
     (case get_service_name pamh of
        None \<Rightarrow> None
      | Some service \<Rightarrow> if is_dm_service service \<and> \<not> is_gdm_reauth service for_reauth then Some PAM_AUTHINFO_UNAVAIL else None)"

section \<open>Outcomes\<close>

definition outcome_from_raw :: "i32 \<Rightarrow> pam_outcome" where
  "outcome_from_raw raw =
     (if raw = 0 then PamSuccess else if raw = 1 then PamDenied else if raw = 2 then PamTimeout
      else if raw = 3 then PamIgnore else if raw = 4 then PamError else PamError)"

definition map_pam_outcome :: "pam_authenticate_response \<Rightarrow> pam_code \<times> pam_effect list" where
  "map_pam_outcome resp =
     (case outcome_from_raw (resp_outcome resp) of
        PamSuccess \<Rightarrow> (PAM_SUCCESS, [ShowInfo AuthSuccessful])
      | PamDenied \<Rightarrow> (PAM_PERM_DENIED, [ShowInfo AuthDenied])
      | PamTimeout \<Rightarrow> (PAM_AUTHINFO_UNAVAIL, [])
      | PamIgnore \<Rightarrow> (PAM_AUTHINFO_UNAVAIL, [])
      | PamError \<Rightarrow> (PAM_AUTH_ERR, [ShowError (ErrorMessage (resp_detail resp))]))"

section \<open>Event loops\<close>

datatype exit_reason = ExitTimeout | IpcResponseReceived | ExitIpcError | PasswordEntered | PasswordFailed

record revents =
  rv_in :: bool
  rv_hup :: bool
  rv_err :: bool

record poll_ready =
  pr_ipc :: "revents option"
  pr_reads :: "read_result list"
  pr_other :: "revents option"
  pr_password :: bool
  pr_key :: "io_error + 8 word option"

datatype poll_result = PollNone | PollReady poll_ready | PollFailed bool

type_synonym polls = "(instant \<times> poll_result) list"

abbreviation rv_gone :: "revents \<Rightarrow> bool" where
  "rv_gone ev \<equiv> rv_hup ev \<or> rv_err ev"

text \<open>
  The loop of a host whose conversation runs on a second thread. The other descriptor is the pipe
  through which that thread reports. A poll that failed is one that was interrupted, or not.
\<close>

fun run_gui_event_loop ::
  "ipc_codec \<Rightarrow> string \<Rightarrow> instant \<Rightarrow> polls \<Rightarrow> ipc_client \<Rightarrow>
   exit_reason \<times> pam_authenticate_response option \<times> pam_message option \<times> ipc_client"
where
  "run_gui_event_loop I request_id deadline [] c = (ExitTimeout, None, None, c)"
| "run_gui_event_loop I request_id deadline ((now, p) # ps) c =
     (if deadline \<le> now then (ExitTimeout, None, None, c)
      else case p of
        PollNone \<Rightarrow> run_gui_event_loop I request_id deadline ps c
      | PollFailed interrupted \<Rightarrow>
          if interrupted then run_gui_event_loop I request_id deadline ps c else (ExitIpcError, None, Some CommunicationError, c)
      | PollReady r \<Rightarrow>
          if pr_password r then (PasswordEntered, None, None, snd (send_cancel I ''gui-password-skip'' request_id c))
          else
            let pipe = (case pr_other r of
                          Some ev \<Rightarrow> if rv_in ev then (PasswordFailed, None, None, snd (send_cancel I ''gui-password-failed'' request_id c))
                                      else run_gui_event_loop I request_id deadline ps c
                        | None \<Rightarrow> run_gui_event_loop I request_id deadline ps c)
            in (case pr_ipc r of
                  Some ev \<Rightarrow>
                    if rv_in ev then
                      (case try_read_response_nonblocking I (pr_reads r) c of
                         (Inr (Some resp), c) \<Rightarrow> (IpcResponseReceived, Some resp, None, c)
                       | (Inr None, c) \<Rightarrow>
                           if rv_gone ev then (ExitIpcError, None, Some ConnectionLost, c)
                           else run_gui_event_loop I request_id deadline ps c
                       | (Inl e, c) \<Rightarrow> (ExitIpcError, None, Some CommunicationError, c))
                    else if rv_gone ev then (ExitIpcError, None, Some ConnectionLost, c)
                    else pipe
                | None \<Rightarrow> pipe))"

text \<open>The loop of a host whose conversation must be left alone.\<close>

fun run_sequential_event_loop ::
  "ipc_codec \<Rightarrow> instant \<Rightarrow> polls \<Rightarrow> ipc_client \<Rightarrow> exit_reason \<times> pam_authenticate_response option \<times> ipc_client"
where
  "run_sequential_event_loop I deadline [] c = (ExitTimeout, None, c)"
| "run_sequential_event_loop I deadline ((now, p) # ps) c =
     (if deadline \<le> now then (ExitTimeout, None, c)
      else case p of
        PollNone \<Rightarrow> run_sequential_event_loop I deadline ps c
      | PollFailed interrupted \<Rightarrow>
          if interrupted then run_sequential_event_loop I deadline ps c else (ExitIpcError, None, c)
      | PollReady r \<Rightarrow>
          (case pr_ipc r of
             None \<Rightarrow> run_sequential_event_loop I deadline ps c
           | Some ev \<Rightarrow>
               if rv_in ev then
                 (case try_read_response_nonblocking I (pr_reads r) c of
                    (Inr (Some resp), c) \<Rightarrow> (IpcResponseReceived, Some resp, c)
                  | (Inr None, c) \<Rightarrow>
                      if rv_gone ev then (ExitIpcError, None, c) else run_sequential_event_loop I deadline ps c
                  | (Inl e, c) \<Rightarrow> (ExitIpcError, None, c))
               else if rv_gone ev then (ExitIpcError, None, c)
               else run_sequential_event_loop I deadline ps c))"

text \<open>What one byte from the terminal means: Enter skips, the end of the file or an error stops polling it.\<close>

datatype tty_action = TtySkip | TtyStop | TtyIgnore

definition read_tty :: "poll_ready \<Rightarrow> tty_action" where
  "read_tty r =
     (case pr_other r of
        None \<Rightarrow> TtyIgnore
      | Some ev \<Rightarrow>
          if rv_in ev then
            (case pr_key r of
               Inr (Some b) \<Rightarrow> if b = 10 \<or> b = 13 then TtySkip else TtyIgnore
             | Inr None \<Rightarrow> TtyStop
             | Inl e \<Rightarrow> if e = WouldBlock then TtyIgnore else TtyStop)
          else if rv_gone ev then TtyStop else TtyIgnore)"

text \<open>The loop of a terminal. A poll that fails is repeated.\<close>

fun terminal_loop :: "ipc_codec \<Rightarrow> instant \<Rightarrow> bool \<Rightarrow> polls \<Rightarrow> ipc_client \<Rightarrow> pam_code \<times> pam_effect list \<times> ipc_client" where
  "terminal_loop I deadline poll_tty [] c = (PAM_AUTHINFO_UNAVAIL, [ShowInfo TimedOutMessage], c)"
| "terminal_loop I deadline poll_tty ((now, p) # ps) c =
     (if deadline \<le> now then (PAM_AUTHINFO_UNAVAIL, [ShowInfo TimedOutMessage], c)
      else case p of
        PollNone \<Rightarrow> terminal_loop I deadline poll_tty ps c
      | PollFailed _ \<Rightarrow> terminal_loop I deadline poll_tty ps c
      | PollReady r \<Rightarrow>
          let tty = (\<lambda>c. if poll_tty
                          then (case read_tty r of
                                  TtySkip \<Rightarrow> (PAM_AUTHINFO_UNAVAIL, [CancelOnNewConnection ''tty-skip'', ShowInfo Skipped], c)
                                | TtyStop \<Rightarrow> terminal_loop I deadline False ps c
                                | TtyIgnore \<Rightarrow> terminal_loop I deadline True ps c)
                          else terminal_loop I deadline False ps c)
          in (case pr_ipc r of
                Some ev \<Rightarrow>
                  if rv_in ev then
                    (case try_read_response_nonblocking I (pr_reads r) c of
                       (Inr (Some resp), c) \<Rightarrow> (case map_pam_outcome resp of (code, effs) \<Rightarrow> (code, effs, c))
                     | (Inr None, c) \<Rightarrow>
                         if rv_gone ev then (PAM_AUTHINFO_UNAVAIL, [ShowInfo ConnectionLost], c) else tty c
                     | (Inl e, c) \<Rightarrow> (PAM_AUTHINFO_UNAVAIL, [ShowInfo CommunicationError], c))
                  else if rv_gone ev then (PAM_AUTHINFO_UNAVAIL, [ShowInfo ConnectionLost], c)
                  else tty c
              | None \<Rightarrow> tty c))"

section \<open>A call of the module\<close>

record pam_env =
  pv_ipc :: ipc_codec
  pv_hex :: hex_lib
  pv_toml :: "bytes \<Rightarrow> pam_config option"
  pv_os :: os
  pv_handle :: "pam_handle option"
  pv_for_reauth :: bool
  pv_exe :: "string option"
  pv_comm :: "string option"
  pv_tty :: bool
  pv_lookup :: instant
  pv_rid :: "bytes option"
  pv_connect :: "io_error + byte_stream"
  pv_pipe_ok :: bool
  pv_thread_ok :: bool
  pv_start :: instant
  pv_polls :: polls
  pv_return :: instant

definition request_timeout :: "pam_config \<Rightarrow> bool \<Rightarrow> conv_mode \<Rightarrow> u32" where
  "request_timeout config has_terminal conv =
     (let secs = (if \<not> has_terminal \<and> conv = Sequential
                  then min (pam_gui_timeout_secs config) (pam_operation_timeout_secs config)
                  else pam_operation_timeout_secs config)
      in if secs > 0xFFFFFFFF then 0xFFFFFFFF else ucast secs)"

definition sequential_wait :: "pam_env \<Rightarrow> u32 \<Rightarrow> ipc_client \<Rightarrow> pam_code \<times> pam_effect list \<times> ipc_client" where
  "sequential_wait E timeout_secs c =
     (let deadline = pv_start E + from_secs (unat timeout_secs)
      in case run_sequential_event_loop (pv_ipc E) deadline (pv_polls E) c of
           (exit_reason, auth_response, c) \<Rightarrow>
             (case exit_reason of
                IpcResponseReceived \<Rightarrow>
                  (case auth_response of
                     Some resp \<Rightarrow> (case map_pam_outcome resp of (code, effs) \<Rightarrow> (code, ShowInfo WaitingForTapPassword # effs, c))
                   | None \<Rightarrow> (PAM_AUTHINFO_UNAVAIL, [ShowInfo WaitingForTapPassword], c))
              | ExitTimeout \<Rightarrow> (PAM_AUTHINFO_UNAVAIL, [ShowInfo WaitingForTapPassword, ShowInfo TimedOutMessage], c)
              | _ \<Rightarrow> (PAM_AUTHINFO_UNAVAIL,
                      [ShowInfo WaitingForTapPassword, CancelOnNewConnection ''gui-ipc-error'', ShowError CommunicationError], c)))"

text \<open>The password thread is joined before anything is shown; its effects are the flags the polls report.\<close>

definition threaded_wait :: "pam_env \<Rightarrow> string \<Rightarrow> u32 \<Rightarrow> ipc_client \<Rightarrow> pam_code \<times> pam_effect list \<times> ipc_client" where
  "threaded_wait E request_id timeout_secs c =
     (if \<not> pv_pipe_ok E then (PAM_AUTH_ERR, [CancelOnNewConnection ''gui-pipe2-fail''], c)
      else if \<not> pv_thread_ok E then (PAM_AUTH_ERR, [CancelOnNewConnection ''gui-thread-spawn-fail''], c)
      else
        let deadline = pv_start E + from_secs (unat timeout_secs)
        in case run_gui_event_loop (pv_ipc E) request_id deadline (pv_polls E) c of
             (exit_reason, auth_response, pending_error, c) \<Rightarrow>
               let shown_error = (case pending_error of Some m \<Rightarrow> [ShowInfo m] | None \<Rightarrow> []);
                   (final_outcome, effs) = (case auth_response of Some resp \<Rightarrow> map_pam_outcome resp | None \<Rightarrow> (PAM_AUTHINFO_UNAVAIL, []));
                   timed_out = (if exit_reason = ExitTimeout then [ShowInfo TimedOutMessage] else [])
               in (final_outcome, AskPassword # shown_error @ effs @ timed_out, c))"

definition terminal_wait :: "pam_env \<Rightarrow> u32 \<Rightarrow> ipc_client \<Rightarrow> pam_code \<times> pam_effect list \<times> ipc_client" where
  "terminal_wait E timeout_secs c =
     terminal_loop (pv_ipc E) (pv_start E + from_secs (unat timeout_secs)) True (pv_polls E) c"

text \<open>From the request on: only here is the daemon contacted and the record armed.\<close>

definition run_transaction ::
  "pam_env \<Rightarrow> pam_config \<Rightarrow> string \<Rightarrow> string option \<Rightarrow> conv_mode \<Rightarrow> bool \<Rightarrow>
   pam_code \<times> verdict option \<times> pam_effect list \<times> ipc_client option"
where
  "run_transaction E config username service_item conv has_terminal =
     (let announce = (if has_terminal then [ShowInfo WaitingForTapSkip] else if conv = Threaded then [ShowInfo WaitingForTap] else [])
      in case pv_rid E of
           None \<Rightarrow> (PAM_AUTH_ERR, None, announce, None)
         | Some rid_bytes \<Rightarrow>
             let request_id = hex_encode (pv_hex E) rid_bytes;
                 timeout_secs = request_timeout config has_terminal conv
             in (case start_authentication None username service_item (connect_client (pv_connect E))
                        (send_authenticate_start (pv_ipc E) username has_terminal timeout_secs request_id) of
                   (Inl (StartConnect e), verdict) \<Rightarrow> (PAM_AUTHINFO_UNAVAIL, verdict, announce @ [ShowError CannotConnect], None)
                 | (Inl (StartSend e), verdict) \<Rightarrow> (PAM_AUTHINFO_UNAVAIL, verdict, announce @ [ShowError CommunicationError], None)
                 | (Inr ipc, verdict) \<Rightarrow>
                     (case (if \<not> has_terminal \<and> conv = Sequential then sequential_wait E timeout_secs ipc
                            else if \<not> has_terminal \<and> conv = Threaded then threaded_wait E request_id timeout_secs ipc
                            else terminal_wait E timeout_secs ipc) of
                        (code, effs, ipc) \<Rightarrow> (code, verdict, announce @ effs, Some ipc))))"

definition authenticate_inner ::
  "pam_env \<Rightarrow> conclusion_cell \<Rightarrow> pam_code \<times> verdict option \<times> pam_effect list \<times> ipc_client option"
where
  "authenticate_inner E cell =
     (case guard_display_manager_bypass (pv_handle E) (pv_for_reauth E) of
        Some pam_status \<Rightarrow> (pam_status, None, [], None)
      | None \<Rightarrow>
          let config = PamConfig_load (pv_toml E) (pv_os E)
          in (case get_user (pv_handle E) of
                Inl _ \<Rightarrow> (PAM_USER_UNKNOWN, None, [], None)
              | Inr username \<Rightarrow>
                  (case get_conv (pv_handle E) of
                     Inl _ \<Rightarrow> (PAM_AUTH_ERR, None, [], None)
                   | Inr _ \<Rightarrow>
                       let service_item = get_service_name (pv_handle E);
                           service = (case service_item of Some s \<Rightarrow> s | None \<Rightarrow> []);
                           process = process_identity (pv_exe E) (pv_comm E);
                           reauth = is_gdm_reauth service (pv_for_reauth E);
                           conv = conversation_mode service process reauth;
                           has_terminal = (conv = Sequential \<and> pv_tty E)
                       in if conv = PreCollected then (PAM_AUTHINFO_UNAVAIL, None, [AskPassword], None)
                          else
                            (case Option.bind service_item (\<lambda>s. cached_conclusion_for cell username s (pv_lookup E)) of
                               Some (code, age) \<Rightarrow>
                                 (code, Some \<lparr>vd_username = username, vd_service = service_item, from_cache = True\<rparr>, [], None)
                             | None \<Rightarrow> run_transaction E config username service_item conv has_terminal))))"

text \<open>The last component is the connection of the request, if one was sent.\<close>

definition authenticate :: "pam_env \<Rightarrow> conclusion_cell \<Rightarrow> pam_code \<times> pam_effect list \<times> ipc_client option \<times> conclusion_cell" where
  "authenticate E cell =
     (case authenticate_inner E cell of
        (code, verdict, effs, ipc) \<Rightarrow> (code, effs, ipc, record_verdict verdict code (pv_return E) cell))"

text \<open>The panic guard of the entry point; \<open>None\<close> is a panic.\<close>

definition guard :: "pam_code option \<Rightarrow> pam_code" where
  "guard r = (case r of Some code \<Rightarrow> code | None \<Rightarrow> PAM_AUTH_ERR)"

text \<open>The other entry points manage nothing.\<close>

definition pam_sm_setcred :: pam_code where "pam_sm_setcred = PAM_SUCCESS"

definition pam_sm_acct_mgmt :: pam_code where "pam_sm_acct_mgmt = PAM_SUCCESS"

text \<open>The calls a host process makes, one after the other, from the load of the module on.\<close>

definition no_conclusion :: conclusion_cell where
  "no_conclusion = \<lparr>cell_poisoned = False, cell_last = None\<rparr>"

primrec run_calls :: "pam_env list \<Rightarrow> conclusion_cell \<Rightarrow> (pam_code \<times> ipc_client option) list" where
  "run_calls [] cell = []"
| "run_calls (E # Es) cell = (case authenticate E cell of (code, _, ipc, cell) \<Rightarrow> (code, ipc) # run_calls Es cell)"

end
