(* ===== verification/PamLaws.thy ===== *)
theory PamLaws
  imports Pam
begin

text \<open>
  Properties of the PAM module: which codes it returns, what a success rests on, how long a conclusion
  is replayed, and what the three event loops do with passwords, keys and answers that arrive together.
\<close>

section \<open>Lemmas\<close>

text \<open>The reads of the polls at which the socket was readable, in order.\<close>

definition socket_reads :: "polls \<Rightarrow> read_result list list" where
  "socket_reads ps = List.map_filter (\<lambda>(_, p). case p of
     PollReady r \<Rightarrow> (case pr_ipc r of Some ev \<Rightarrow> if rv_in ev then Some (pr_reads r) else None | None \<Rightarrow> None) | _ \<Rightarrow> None) ps"

lemma socket_reads_simps [simp]:
  "socket_reads [] = []"
  "socket_reads ((now, PollNone) # ps) = socket_reads ps"
  "socket_reads ((now, PollFailed b) # ps) = socket_reads ps"
  "socket_reads ((now, PollReady r) # ps) =
     (case pr_ipc r of Some ev \<Rightarrow> if rv_in ev then pr_reads r # socket_reads ps else socket_reads ps | None \<Rightarrow> socket_reads ps)"
  by (simp_all add: socket_reads_def map_filter_simps split: option.split)

lemma sequential_response:
  "run_sequential_event_loop I deadline ps c = (reason, Some resp, c') \<Longrightarrow> poll_responses I (socket_reads ps) c = Some (Inr resp)"
  by (induction I deadline ps c rule: run_sequential_event_loop.induct)
    (auto split: if_splits poll_result.splits option.splits sum.splits prod.splits)

lemma gui_response:
  "run_gui_event_loop I rid deadline ps c = (reason, Some resp, err, c') \<Longrightarrow> poll_responses I (socket_reads ps) c = Some (Inr resp)"
  by (induction ps arbitrary: c) (auto simp: Let_def split: if_splits poll_result.splits option.splits sum.splits prod.splits)

lemma map_pam_outcome_codes:
  "fst (map_pam_outcome resp) \<in> {PAM_SUCCESS, PAM_PERM_DENIED, PAM_AUTHINFO_UNAVAIL, PAM_AUTH_ERR}"
  "fst (map_pam_outcome resp) = PAM_SUCCESS \<longleftrightarrow> resp_outcome resp = 0"
  "fst (map_pam_outcome resp) = PAM_PERM_DENIED \<longleftrightarrow> resp_outcome resp = 1"
  by (auto simp: map_pam_outcome_def outcome_from_raw_def)

definition module_codes :: "pam_code set" where
  "module_codes = {PAM_SUCCESS, PAM_PERM_DENIED, PAM_AUTHINFO_UNAVAIL, PAM_AUTH_ERR, PAM_USER_UNKNOWN}"

text \<open>What a wait returns: unavailable or a local failure, or the translation of a response read from the socket.\<close>

definition wait_result :: "pam_env \<Rightarrow> ipc_client \<Rightarrow> pam_code \<Rightarrow> bool" where
  "wait_result E c code \<longleftrightarrow> code \<in> {PAM_AUTHINFO_UNAVAIL, PAM_AUTH_ERR} \<or>
     (\<exists>resp. poll_responses (pv_ipc E) (socket_reads (pv_polls E)) c = Some (Inr resp) \<and> code = fst (map_pam_outcome resp))"

lemma terminal_result:
  "terminal_loop I deadline b ps c = (code, effs, c') \<Longrightarrow>
    code = PAM_AUTHINFO_UNAVAIL \<or> (\<exists>resp. poll_responses I (socket_reads ps) c = Some (Inr resp) \<and> code = fst (map_pam_outcome resp))"
  by (induction I deadline b ps c rule: terminal_loop.induct)
    (auto simp: Let_def split: if_splits poll_result.splits option.splits sum.splits prod.splits tty_action.splits)

lemma wait_results:
  "wait_result E c (fst (sequential_wait E t c))" "wait_result E c (fst (threaded_wait E rid t c))"
  "wait_result E c (fst (terminal_wait E t c))"
proof -
  show "wait_result E c (fst (sequential_wait E t c))"
    using sequential_response [of "pv_ipc E" "pv_start E + from_secs (unat t)" "pv_polls E" c]
    by (auto simp: sequential_wait_def wait_result_def Let_def split: prod.splits exit_reason.splits option.splits)
  show "wait_result E c (fst (threaded_wait E rid t c))"
    using gui_response [of "pv_ipc E" rid "pv_start E + from_secs (unat t)" "pv_polls E" c]
    by (auto simp: threaded_wait_def wait_result_def Let_def split: prod.splits option.splits)
  show "wait_result E c (fst (terminal_wait E t c))"
    using terminal_result [of "pv_ipc E" "pv_start E + from_secs (unat t)" True "pv_polls E" c]
    by (cases "terminal_loop (pv_ipc E) (pv_start E + from_secs (unat t)) True (pv_polls E) c")
      (auto simp: terminal_wait_def wait_result_def)
qed

text \<open>What is written on the connection of the request: only the threaded loop adds to it.\<close>

lemma try_read_stream: "try_read_response_nonblocking I rs c = (r, c') \<Longrightarrow> cl_stream c' = cl_stream c"
  by (auto simp: try_read_response_nonblocking_def Let_def split: prod.splits sum.splits option.splits if_splits)

lemma send_cancel_stream: "\<exists>more. tx (cl_stream (snd (send_cancel I reason rid c))) = tx (cl_stream c) @ more"
  by (auto simp: send_cancel_def send_message_def write_all_def Let_def result_simps split: sum.split option.split)

lemma sequential_stream: "run_sequential_event_loop I deadline ps c = (reason, resp, c') \<Longrightarrow> cl_stream c' = cl_stream c"
proof (induction ps arbitrary: c)
  case (Cons q ps)
  have "cl_stream c' = cl_stream c"
    if "try_read_response_nonblocking I rs c = (r, c1)" "run_sequential_event_loop I deadline ps c1 = (reason, resp, c')" for rs r c1
    using Cons.IH [OF that(2)] try_read_stream [OF that(1)] by simp
  then show ?case
    using Cons.prems
    by (cases q) (auto dest: Cons.IH try_read_stream split: if_splits poll_result.splits option.splits sum.splits prod.splits)
qed simp

lemma terminal_stream: "terminal_loop I deadline b ps c = (code, effs, c') \<Longrightarrow> cl_stream c' = cl_stream c"
proof (induction ps arbitrary: b c)
  case (Cons q ps)
  have "cl_stream c' = cl_stream c" if "try_read_response_nonblocking I rs c = (r, c1)" "terminal_loop I deadline b' ps c1 = (code, effs, c')"
    for rs r c1 b'
    using Cons.IH [OF that(2)] try_read_stream [OF that(1)] by simp
  then show ?case
    using Cons.prems
    by (cases q) (auto simp: Let_def dest: Cons.IH try_read_stream split: if_splits poll_result.splits option.splits sum.splits prod.splits tty_action.splits)
qed simp

lemma gui_stream:
  "run_gui_event_loop I rid deadline ps c = (reason, resp, err, c') \<Longrightarrow> \<exists>more. tx (cl_stream c') = tx (cl_stream c) @ more"
proof (induction ps arbitrary: c)
  case (Cons q ps)
  obtain m1 m2 where m: "tx (cl_stream (snd (send_cancel I ''gui-password-skip'' rid c))) = tx (cl_stream c) @ m1"
      "tx (cl_stream (snd (send_cancel I ''gui-password-failed'' rid c))) = tx (cl_stream c) @ m2"
    using send_cancel_stream by meson
  have "\<exists>more. tx (cl_stream c') = tx (cl_stream c) @ more"
    if "try_read_response_nonblocking I rs c = (r, c1)" "run_gui_event_loop I rid deadline ps c1 = (reason, resp, err, c')" for rs r c1
    using Cons.IH [OF that(2)] try_read_stream [OF that(1)] by simp
  then show ?case
    using Cons.prems
    by (cases q) (auto simp: Let_def m dest: Cons.IH try_read_stream split: if_splits poll_result.splits option.splits sum.splits prod.splits)
qed auto

lemma gui_password:
  "run_gui_event_loop I rid deadline ps c = (PasswordEntered, resp, err, c') \<Longrightarrow>
    \<exists>d. cl_stream d = cl_stream c \<and> c' = snd (send_cancel I ''gui-password-skip'' rid d)"
proof (induction ps arbitrary: c)
  case (Cons q ps)
  have "\<exists>d. cl_stream d = cl_stream c \<and> c' = snd (send_cancel I ''gui-password-skip'' rid d)"
    if "try_read_response_nonblocking I rs c = (r, c1)" "run_gui_event_loop I rid deadline ps c1 = (PasswordEntered, resp, err, c')" for rs r c1
    using Cons.IH [OF that(2)] try_read_stream [OF that(1)] by simp
  then show ?case
    using Cons.prems
    by (cases q) (auto simp: Let_def dest: Cons.IH split: if_splits poll_result.splits option.splits sum.splits prod.splits)
qed auto

lemma wait_streams:
  "cl_stream (snd (snd (sequential_wait E t c))) = cl_stream c"
  "\<exists>more. tx (cl_stream (snd (snd (threaded_wait E rid t c)))) = tx (cl_stream c) @ more"
  "cl_stream (snd (snd (terminal_wait E t c))) = cl_stream c"
proof -
  let ?d = "pv_start E + from_secs (unat t)"
  obtain reason resp c' where w: "run_sequential_event_loop (pv_ipc E) ?d (pv_polls E) c = (reason, resp, c')"
    using prod_cases3 by blast
  show "cl_stream (snd (snd (sequential_wait E t c))) = cl_stream c"
    using sequential_stream [OF w] by (simp add: sequential_wait_def w split: prod.split exit_reason.split option.split)
  obtain reason resp err c' where w: "run_gui_event_loop (pv_ipc E) rid ?d (pv_polls E) c = (reason, resp, err, c')"
    using prod_cases4 by blast
  have "snd (snd (threaded_wait E rid t c)) \<in> {c, c'}"
    by (simp add: threaded_wait_def w Let_def split: prod.split)
  then show "\<exists>more. tx (cl_stream (snd (snd (threaded_wait E rid t c)))) = tx (cl_stream c) @ more"
    using gui_stream [OF w] by auto
  obtain code effs c' where w: "terminal_loop (pv_ipc E) ?d True (pv_polls E) c = (code, effs, c')"
    using prod_cases3 by blast
  show "cl_stream (snd (snd (terminal_wait E t c))) = cl_stream c"
    using terminal_stream [OF w] by (simp add: terminal_wait_def w)
qed

lemma transaction_cases:
  assumes "run_transaction E config user svc conv tt = (code, v, effs, ipc)"
  obtains (failed) "code \<in> {PAM_AUTHINFO_UNAVAIL, PAM_AUTH_ERR}" "v = None" "ipc = None"
    | (sent) rid c0 c1 c2 where "pv_rid E = Some rid" "connect_client (pv_connect E) = Inr c0"
        "send_authenticate_start (pv_ipc E) user tt (request_timeout config tt conv) (hex_encode (pv_hex E) rid) c0 = Inr c1"
        "v = Some \<lparr>vd_username = user, vd_service = svc, from_cache = False\<rparr>" "wait_result E c1 code" "ipc = Some c2"
        "\<exists>more. tx (cl_stream c2) = tx (cl_stream c1) @ more"
proof (cases "pv_rid E")
  case None
  then show ?thesis
    using assms failed by (simp add: run_transaction_def Let_def)
next
  case (Some rid)
  let ?t = "request_timeout config tt conv"
  let ?send = "send_authenticate_start (pv_ipc E) user tt ?t (hex_encode (pv_hex E) rid)"
  show ?thesis
  proof (cases "\<exists>c0 c1. connect_client (pv_connect E) = Inr c0 \<and> ?send c0 = Inr c1")
    case False
    then show ?thesis
      using assms Some failed
      by (auto simp: run_transaction_def Let_def start_authentication_def split: sum.splits)
  next
    case True
    then obtain c0 c1 where c: "connect_client (pv_connect E) = Inr c0" "?send c0 = Inr c1"
      by blast
    let ?w = "if \<not> tt \<and> conv = Sequential then sequential_wait E ?t c1
       else if \<not> tt \<and> conv = Threaded then threaded_wait E (hex_encode (pv_hex E) rid) ?t c1 else terminal_wait E ?t c1"
    have "wait_result E c1 (fst ?w)" "\<exists>more. tx (cl_stream (snd (snd ?w))) = tx (cl_stream c1) @ more"
      using wait_results wait_streams by simp_all
    moreover obtain code' effs' c2 where w: "?w = (code', effs', c2)"
      by (metis prod_cases3)
    moreover have "code = code'" "v = Some \<lparr>vd_username = user, vd_service = svc, from_cache = False\<rparr>" "ipc = Some c2"
      using assms Some c unfolding run_transaction_def Let_def start_authentication_def
      by (simp_all add: w split: if_splits)
    ultimately show ?thesis
      using sent [OF Some c(1,2), of c2] unfolding w by simp
  qed
qed

text \<open>The request of a call, and the answer it read: \<open>concludes E code\<close> is a transaction with the daemon.\<close>

definition concludes :: "pam_env \<Rightarrow> string \<Rightarrow> pam_code \<Rightarrow> bool" where
  "concludes E user code \<longleftrightarrow> get_user (pv_handle E) = Inr user \<and>
     (\<exists>tty timeout rid c0 c1. connect_client (pv_connect E) = Inr c0 \<and>
        send_authenticate_start (pv_ipc E) user tty timeout rid c0 = Inr c1 \<and> wait_result E c1 code)"

text \<open>The same, with the connection as the call left it: the request is the first thing on it.\<close>

definition asked :: "pam_env \<Rightarrow> string \<Rightarrow> pam_code \<Rightarrow> ipc_client \<Rightarrow> bool" where
  "asked E user code c \<longleftrightarrow>
     (\<exists>tty timeout rid c0 c1 more. connect_client (pv_connect E) = Inr c0 \<and>
        send_authenticate_start (pv_ipc E) user tty timeout rid c0 = Inr c1 \<and> wait_result E c1 code \<and>
        tx (cl_stream c) = tx (cl_stream c1) @ more)"

lemma authenticate_inner_cases:
  assumes "authenticate_inner E cell = (code, v, effs, ipc)"
  obtains (skipped) "code \<in> {PAM_AUTHINFO_UNAVAIL, PAM_AUTH_ERR, PAM_USER_UNKNOWN}" "v = None" "ipc = None"
    | (replayed) user svc prev where "get_user (pv_handle E) = Inr user" "get_service_name (pv_handle E) = Some svc"
        "cell_last cell = Some prev" "lc_username prev = user" "lc_service prev = svc" "lc_code prev = code"
        "pv_lookup E - concluded_at prev < VERDICT_REUSE_WINDOW"
        "v = Some \<lparr>vd_username = user, vd_service = Some svc, from_cache = True\<rparr>" "ipc = None"
    | (concluded) user c where "concludes E user code" "ipc = Some c"
        "v = Some \<lparr>vd_username = user, vd_service = get_service_name (pv_handle E), from_cache = False\<rparr>" "asked E user code c"
proof -
  note def = authenticate_inner_def [of E cell, unfolded assms Let_def]
  consider (early) "guard_display_manager_bypass (pv_handle E) (pv_for_reauth E) \<noteq> None \<or> (\<exists>e. get_user (pv_handle E) = Inl e) \<or>
      (\<exists>e. get_conv (pv_handle E) = Inl e)"
    | (host) user where "guard_display_manager_bypass (pv_handle E) (pv_for_reauth E) = None" "get_user (pv_handle E) = Inr user"
        "get_conv (pv_handle E) = Inr ()"
    by (cases "get_user (pv_handle E)"; cases "get_conv (pv_handle E)") auto
  then show ?thesis
  proof cases
    case early
    then show ?thesis
      using def skipped
      by (auto simp: guard_display_manager_bypass_def split: option.splits if_splits sum.splits)
  next
    case host
    define svc where "svc = get_service_name (pv_handle E)"
    define conv where "conv = conversation_mode (case svc of Some s \<Rightarrow> s | None \<Rightarrow> []) (process_identity (pv_exe E) (pv_comm E))
      (is_gdm_reauth (case svc of Some s \<Rightarrow> s | None \<Rightarrow> []) (pv_for_reauth E))"
    note eq = def [unfolded host, simplified, folded svc_def, folded conv_def]
    show ?thesis
    proof (cases "conv = PreCollected")
      case True
      then show ?thesis
        using eq skipped by simp
    next
      case False
      show ?thesis
      proof (cases "Option.bind svc (\<lambda>s. cached_conclusion_for cell user s (pv_lookup E))")
        case None
        then have "run_transaction E (PamConfig_load (pv_toml E) (pv_os E)) user svc conv (conv = Sequential \<and> pv_tty E) = (code, v, effs, ipc)"
          using eq False by simp
        then show ?thesis
        proof (cases rule: transaction_cases)
          case failed
          then show ?thesis using skipped by blast
        next
          case (sent rid c0 c1 c2)
          then have "concludes E user code" "asked E user code c2"
            using host(2) unfolding concludes_def asked_def by blast+
          then show ?thesis
            using concluded sent(4,6) by (simp add: svc_def)
        qed
      next
        case (Some hit)
        then obtain s prev where prev: "svc = Some s" "cell_last cell = Some prev" "reusable_conclusion prev user s (pv_lookup E) = Some (fst hit)"
          by (auto simp: cached_conclusion_for_def bind_eq_Some_conv split: if_splits)
        then show ?thesis
          using eq False Some host(2) replayed [of user s prev]
          by (auto simp: svc_def reusable_conclusion_def split: if_splits prod.splits)
      qed
    qed
  qed
qed

text \<open>What a call leaves in the record: only a transaction changes it.\<close>

lemma authenticate_record:
  assumes "authenticate E cell = (code, effs, ipc, cell')"
  obtains (kept) "cell' = cell"
    | (recorded) user svc where "concludes E user code" "get_service_name (pv_handle E) = Some svc" "ipc \<noteq> None"
        "cell_last cell' = Some \<lparr>concluded_at = pv_return E, lc_username = user, lc_service = svc, lc_code = code\<rparr>"
proof -
  obtain v where inner: "authenticate_inner E cell = (code, v, effs, ipc)" "cell' = record_verdict v code (pv_return E) cell"
    using assms by (auto simp: authenticate_def split: prod.splits)
  from inner(1) show ?thesis
  proof (cases rule: authenticate_inner_cases)
    case skipped
    then show ?thesis using kept inner(2) by (simp add: record_verdict_def)
  next
    case (replayed user svc prev)
    then show ?thesis using kept inner(2) by (simp add: record_verdict_def)
  next
    case (concluded user c)
    then show ?thesis
      using inner(2) kept recorded
      by (cases "get_service_name (pv_handle E)") (auto simp: record_verdict_def record_conclusion_def split: if_splits)
  qed
qed

definition cell_after :: "pam_env list \<Rightarrow> conclusion_cell \<Rightarrow> conclusion_cell" where
  "cell_after Es cell = foldl (\<lambda>cell E. snd (snd (snd (authenticate E cell)))) cell Es"

lemma run_calls_nth:
  "k < length Es \<Longrightarrow> run_calls Es cell ! k = (case authenticate (Es ! k) (cell_after (take k Es) cell) of (code, _, ipc, _) \<Rightarrow> (code, ipc))"
proof (induction Es arbitrary: k cell)
  case (Cons E Es)
  then show ?case
    by (cases k) (auto simp: cell_after_def split: prod.splits)
qed simp

lemma length_run_calls [simp]: "length (run_calls Es cell) = length Es"
  by (induction Es arbitrary: cell) (auto split: prod.splits)

text \<open>Where a recorded conclusion comes from.\<close>

lemma cell_origin:
  "cell_last (cell_after Es no_conclusion) = Some lc \<Longrightarrow>
   \<exists>j < length Es. concludes (Es ! j) (lc_username lc) (lc_code lc) \<and>
     get_service_name (pv_handle (Es ! j)) = Some (lc_service lc) \<and> concluded_at lc = pv_return (Es ! j)"
proof (induction Es rule: rev_induct)
  case Nil
  then show ?case by (simp add: cell_after_def no_conclusion_def)
next
  case (snoc E Es)
  obtain code effs ipc cell' where a: "authenticate E (cell_after Es no_conclusion) = (code, effs, ipc, cell')"
    by (metis prod_cases4)
  then have c: "cell_after (Es @ [E]) no_conclusion = cell'"
    by (simp add: cell_after_def)
  from a show ?case
  proof (cases rule: authenticate_record)
    case kept
    then show ?thesis
      using snoc c by (auto simp: nth_append intro: less_SucI)
  next
    case (recorded user svc)
    then show ?thesis
      using snoc.prems c by (intro exI [of _ "length Es"]) (auto simp: nth_append)
  qed
qed

text \<open>
  Polls that are over before the deadline and bring nothing but bytes of the daemon: no password, no key,
  no hang-up.
\<close>

definition calm :: "instant \<Rightarrow> instant \<times> poll_result \<Rightarrow> bool" where
  "calm deadline = (\<lambda>(now, p). now < deadline \<and>
     (case p of
        PollNone \<Rightarrow> True
      | PollFailed interrupted \<Rightarrow> interrupted
      | PollReady r \<Rightarrow> \<not> pr_password r \<and> pr_other r = None \<and> (\<exists>ev. pr_ipc r = Some ev \<and> rv_in ev \<and> \<not> rv_gone ev)))"

lemma calm_induct [consumes 2, case_names pause partial answer]:
  assumes "list_all (calm deadline) ps" "poll_responses I (socket_reads ps) c = Some (Inr resp)"
    and pause: "\<And>now p ps c. now < deadline \<Longrightarrow> p \<in> {PollNone, PollFailed True} \<Longrightarrow> P ps c \<Longrightarrow> P ((now, p) # ps) c"
    and partial: "\<And>now r ev ps c c'. now < deadline \<Longrightarrow> \<not> pr_password r \<Longrightarrow> pr_other r = None \<Longrightarrow> pr_ipc r = Some ev \<Longrightarrow> rv_in ev \<Longrightarrow>
      \<not> rv_hup ev \<Longrightarrow> \<not> rv_err ev \<Longrightarrow> try_read_response_nonblocking I (pr_reads r) c = (Inr None, c') \<Longrightarrow> P ps c' \<Longrightarrow> P ((now, PollReady r) # ps) c"
    and answer: "\<And>now r ev ps c c'. now < deadline \<Longrightarrow> \<not> pr_password r \<Longrightarrow> pr_other r = None \<Longrightarrow> pr_ipc r = Some ev \<Longrightarrow> rv_in ev \<Longrightarrow>
      \<not> rv_hup ev \<Longrightarrow> \<not> rv_err ev \<Longrightarrow> try_read_response_nonblocking I (pr_reads r) c = (Inr (Some resp), c') \<Longrightarrow> P ((now, PollReady r) # ps) c"
  shows "P ps c"
  using assms(1,2)
proof (induction ps arbitrary: c)
  case (Cons x ps)
  obtain now p where x: "x = (now, p)" by fastforce
  have now: "now < deadline" "list_all (calm deadline) ps"
    using Cons.prems(1) x by (auto simp: calm_def)
  show ?case
  proof (cases p)
    case (PollReady r)
    then obtain ev where ev: "\<not> pr_password r" "pr_other r = None" "pr_ipc r = Some ev" "rv_in ev" "\<not> rv_hup ev" "\<not> rv_err ev"
      using Cons.prems(1) x by (auto simp: calm_def)
    obtain res c' where t: "try_read_response_nonblocking I (pr_reads r) c = (res, c')"
      by fastforce
    have poll: "(case res of Inl e \<Rightarrow> Some (Inl e) | Inr (Some q) \<Rightarrow> Some (Inr q) | Inr None \<Rightarrow> poll_responses I (socket_reads ps) c') = Some (Inr resp)"
      using Cons.prems(2) x PollReady ev t by (simp split: sum.splits option.splits)
    show ?thesis
    proof (cases res)
      case (Inl e)
      then show ?thesis using poll by simp
    next
      case (Inr q)
      show ?thesis
      proof (cases q)
        case None
        then show ?thesis
          using partial [OF now(1) ev] t Inr Cons.IH [OF now(2), of c'] poll x PollReady by simp
      next
        case (Some z)
        then show ?thesis
          using answer [OF now(1) ev] t Inr poll x PollReady by simp
      qed
    qed
  qed (use Cons now x pause in \<open>auto simp: calm_def\<close>)
qed simp

lemma calm_sequential:
  assumes "list_all (calm deadline) ps" "poll_responses I (socket_reads ps) c = Some (Inr resp)"
  shows "\<exists>c'. run_sequential_event_loop I deadline ps c = (IpcResponseReceived, Some resp, c')"
  using assms by (induction rule: calm_induct) auto

lemma calm_gui:
  assumes "list_all (calm deadline) ps" "poll_responses I (socket_reads ps) c = Some (Inr resp)"
  shows "\<exists>c'. run_gui_event_loop I rid deadline ps c = (IpcResponseReceived, Some resp, None, c')"
  using assms by (induction rule: calm_induct) (auto simp: Let_def)

lemma calm_terminal:
  assumes "list_all (calm deadline) ps" "poll_responses I (socket_reads ps) c = Some (Inr resp)"
  shows "\<exists>c' effs. terminal_loop I deadline True ps c = (fst (map_pam_outcome resp), effs, c')"
  using assms by (induction rule: calm_induct) (auto simp: Let_def read_tty_def split: prod.splits)

lemma try_read_whole:
  assumes "length m \<le> MAX_RESPONSE" "read_buf c = []" "expected_total c = None"
  shows "poll_responses I [[ReadBytes (frame m)]] c = Some (decode_response I m)"
proof -
  have "waiting_client [] c"
    using assms by (simp add: waiting_client_def response_frame_cases)
  then show ?thesis
    using poll_waiting [of "[]" c "[[frame m]]" I] ipc_responses.reads_all [OF assms(1)] decode_response_error [of I m]
    by (simp add: recv_response_def)
qed

lemma transaction_delivers:
  assumes "pv_rid E = Some rid" "connect_client (pv_connect E) = Inr c0"
    and "send_authenticate_start (pv_ipc E) user tty (request_timeout config tty conv) (hex_encode (pv_hex E) rid) c0 = Inr c1"
    and "pv_pipe_ok E" "pv_thread_ok E"
    and "list_all (calm (pv_start E + from_secs (unat (request_timeout config tty conv)))) (pv_polls E)"
    and r: "poll_responses (pv_ipc E) (socket_reads (pv_polls E)) c1 = Some (Inr resp)"
  shows "fst (run_transaction E config user svc conv tty) = fst (map_pam_outcome resp)"
proof -
  let ?t = "request_timeout config tty conv"
  have "fst (sequential_wait E ?t c1) = fst (map_pam_outcome resp)"
    "fst (threaded_wait E (hex_encode (pv_hex E) rid) ?t c1) = fst (map_pam_outcome resp)"
    "fst (terminal_wait E ?t c1) = fst (map_pam_outcome resp)"
    using calm_sequential [OF assms(6) r] calm_gui [OF assms(6) r, of "hex_encode (pv_hex E) rid"] calm_terminal [OF assms(6) r] assms(4,5)
    by (auto simp: sequential_wait_def threaded_wait_def terminal_wait_def Let_def split: prod.split)
  then show ?thesis
    using assms(1-3) by (auto simp: run_transaction_def Let_def start_authentication_def split: prod.split)
qed

lemma fresh_client:
  assumes "connect_client r = Inr c0" "send_authenticate_start I user tty t rid c0 = Inr c1"
  shows "waiting_client [] c1"
  using assms
  by (auto simp: connect_client_def send_authenticate_start_def send_message_def Let_def waiting_client_def response_frame_cases
      result_simps split: if_splits)

section \<open>A concrete process\<close>

definition demo_pam_response :: pam_authenticate_response where
  "demo_pam_response = \<lparr>resp_outcome = 0, resp_detail = ''Authenticated user alice successfully'', resp_challenge = demo_challenge\<rparr>"

definition demo_answer_bytes :: bytes where
  "demo_answer_bytes = frame (enc_envelope demo_ipc_codec (Some (PamResponse demo_pam_response)))"

definition demo_pam :: "polls \<Rightarrow> instant \<Rightarrow> pam_env" where
  "demo_pam ps now = \<lparr>pv_ipc = demo_ipc_codec, pv_hex = demo_hex, pv_toml = (\<lambda>_. None), pv_os = demo_os,
     pv_handle = Some \<lparr>item_user = Inr (Some ''alice''), item_ruser = Inr None, item_service = Inr (Some ''sudo''), item_conv = Inr True\<rparr>,
     pv_for_reauth = False, pv_exe = Some ''sudo'', pv_comm = None, pv_tty = True, pv_lookup = now, pv_rid = Some (replicate 16 7),
     pv_connect = Inr \<lparr>rx = [], tx = [], wr_err = None\<rparr>, pv_pipe_ok = True, pv_thread_ok = True, pv_start = now,
     pv_polls = ps, pv_return = now + 10\<rparr>"

definition demo_poll :: "instant \<Rightarrow> bytes list \<Rightarrow> instant \<times> poll_result" where
  "demo_poll now bs = (now, PollReady \<lparr>pr_ipc = Some \<lparr>rv_in = True, rv_hup = False, rv_err = False\<rparr>, pr_reads = map ReadBytes bs,
     pr_other = None, pr_password = False, pr_key = Inl WouldBlock\<rparr>)"

lemma demo_pam_sel [simp]:
  "pv_ipc (demo_pam ps now) = demo_ipc_codec" "pv_hex (demo_pam ps now) = demo_hex" "pv_rid (demo_pam ps now) = Some (replicate 16 7)"
  "pv_connect (demo_pam ps now) = Inr \<lparr>rx = [], tx = [], wr_err = None\<rparr>" "pv_pipe_ok (demo_pam ps now)" "pv_thread_ok (demo_pam ps now)"
  "pv_start (demo_pam ps now) = now" "pv_polls (demo_pam ps now) = ps" "pv_lookup (demo_pam ps now) = now" "pv_return (demo_pam ps now) = now + 10"
  "get_user (pv_handle (demo_pam ps now)) = Inr ''alice''" "get_service_name (pv_handle (demo_pam ps now)) = Some ''sudo''"
  by (simp_all add: demo_pam_def get_user_def get_service_name_def str_bytes_def)

lemma demo_answer_small:
  "length (enc_envelope demo_ipc_codec (Some (PamResponse demo_pam_response))) \<le> MAX_RESPONSE"
  by (simp add: demo_ipc_codec_def demo_pam_response_def demo_challenge_def length_put_fields int_field_def MAX_RESPONSE_def)

lemma demo_send:
  "\<exists>c1. send_authenticate_start demo_ipc_codec ''alice'' tty t (hex_encode demo_hex (replicate 16 7))
     \<lparr>cl_stream = \<lparr>rx = [], tx = [], wr_err = None\<rparr>, read_buf = [], expected_total = None\<rparr> = Inr c1"
proof -
  have "length (enc_envelope demo_ipc_codec (Some (PamAuthenticate \<lparr>par_username = ''alice'', tty_present = tty,
      timeout_seconds = t, par_request_id = hex_encode demo_hex (replicate 16 7)\<rparr>))) < 2 ^ 32"
    by (simp add: demo_ipc_codec_def length_put_fields word_field_def bool_field_def demo_hex_def)
  then show ?thesis
    by (simp add: send_authenticate_start_def send_message_def Let_def write_all_def)
qed

lemma demo_poll_facts [simp]:
  "socket_reads (demo_poll now bs # ps) = map ReadBytes bs # socket_reads ps" "calm deadline (demo_poll now bs) \<longleftrightarrow> now < deadline"
  by (simp_all add: demo_poll_def calm_def)

lemma demo_timeout: "unat (request_timeout PamConfig_default True Sequential) = 120"
  by (simp add: request_timeout_def PamConfig_default_def)

section \<open>Properties\<close>

text \<open>
  C29. The module returns no other codes. Whatever a process does with the module from its load on, every
  call returns PAM\_SUCCESS, PAM\_PERM\_DENIED, PAM\_AUTHINFO\_UNAVAIL, PAM\_AUTH\_ERR or
  PAM\_USER\_UNKNOWN, also when a conclusion is replayed or the code panics; in particular never
  PAM\_IGNORE, which a stack would not count as a failure.
\<close>

theorem module_returns_only:
  "set (map fst (run_calls Es no_conclusion)) \<subseteq>
     {PAM_SUCCESS, PAM_PERM_DENIED, PAM_AUTHINFO_UNAVAIL, PAM_AUTH_ERR, PAM_USER_UNKNOWN} \<and>
   guard None \<in> {PAM_SUCCESS, PAM_PERM_DENIED, PAM_AUTHINFO_UNAVAIL, PAM_AUTH_ERR, PAM_USER_UNKNOWN}"
proof -
  have concl: "code \<in> module_codes" if "concludes E user code" for E user code
    using that map_pam_outcome_codes(1) by (auto simp: concludes_def wait_result_def module_codes_def)
  have "code \<in> module_codes" if k: "k < length Es" and r: "run_calls Es no_conclusion ! k = (code, ipc)" for k code ipc
  proof -
    let ?cell = "cell_after (take k Es) no_conclusion"
    obtain v effs where "authenticate_inner (Es ! k) ?cell = (code, v, effs, ipc)"
      using r run_calls_nth [OF k, of no_conclusion] by (auto simp: authenticate_def split: prod.splits)
    then show ?thesis
    proof (cases rule: authenticate_inner_cases)
      case (replayed user svc prev)
      then show ?thesis
        using cell_origin [OF replayed(3)] concl by auto
    qed (auto simp: module_codes_def dest: concl)
  qed
  then have "set (map fst (run_calls Es no_conclusion)) \<subseteq> module_codes"
    by (auto simp: in_set_conv_nth)
  then show ?thesis
    by (simp add: module_codes_def guard_def)
qed

text \<open>
  C4. A verdict needs an answer of the daemon. In a process that loads the module and makes any
  sequence of calls, a call returns PAM\_SUCCESS or PAM\_PERM\_DENIED only if it, or an earlier call for
  the same user and service that returned less than 500 ms before it asked, sent a request for this
  user to the daemon and read, however cut into pieces, a complete response with exactly
  the outcome SUCCESS or DENIED. A replay does not extend the 500 ms: they always count from
  the return of the call that asked the daemon.
\<close>

theorem pam_verdict_needs_answer:
  assumes "k < length Es" "run_calls Es no_conclusion ! k = (code, ipc)" "code \<in> {PAM_SUCCESS, PAM_PERM_DENIED}"
  shows "\<exists>j user tty timeout rid c0 c1 resp. j \<le> k \<and>
    get_user (pv_handle (Es ! k)) = Inr user \<and> get_user (pv_handle (Es ! j)) = Inr user \<and>
    connect_client (pv_connect (Es ! j)) = Inr c0 \<and> send_authenticate_start (pv_ipc (Es ! j)) user tty timeout rid c0 = Inr c1 \<and>
    poll_responses (pv_ipc (Es ! j)) (socket_reads (pv_polls (Es ! j))) c1 = Some (Inr resp) \<and>
    resp_outcome resp = (if code = PAM_SUCCESS then outcome_number PamSuccess else outcome_number PamDenied) \<and>
    (j < k \<longrightarrow> get_service_name (pv_handle (Es ! j)) = get_service_name (pv_handle (Es ! k)) \<and>
       pv_lookup (Es ! k) - pv_return (Es ! j) < from_millis 500)"
proof -
  let ?cell = "cell_after (take k Es) no_conclusion"
  obtain v effs where inner: "authenticate_inner (Es ! k) ?cell = (code, v, effs, ipc)"
    using assms(2) run_calls_nth [OF assms(1), of no_conclusion] by (auto simp: authenticate_def split: prod.splits)
  have answer: "\<exists>tty timeout rid c0 c1 resp. connect_client (pv_connect E) = Inr c0 \<and>
      send_authenticate_start (pv_ipc E) user tty timeout rid c0 = Inr c1 \<and>
      poll_responses (pv_ipc E) (socket_reads (pv_polls E)) c1 = Some (Inr resp) \<and>
      resp_outcome resp = (if code = PAM_SUCCESS then outcome_number PamSuccess else outcome_number PamDenied)"
    if "concludes E user code" for E user
  proof -
    obtain tty timeout rid c0 c1 where c: "connect_client (pv_connect E) = Inr c0"
        "send_authenticate_start (pv_ipc E) user tty timeout rid c0 = Inr c1" "wait_result E c1 code"
      using \<open>concludes E user code\<close> unfolding concludes_def by blast
    then obtain resp where r: "poll_responses (pv_ipc E) (socket_reads (pv_polls E)) c1 = Some (Inr resp)" "code = fst (map_pam_outcome resp)"
      using assms(3) unfolding wait_result_def by blast
    then have "resp_outcome resp = (if code = PAM_SUCCESS then outcome_number PamSuccess else outcome_number PamDenied)"
      using assms(3) map_pam_outcome_codes(2,3) [of resp] by auto
    then show ?thesis
      using c(1,2) r(1) by blast
  qed
  from inner show ?thesis
  proof (cases rule: authenticate_inner_cases)
    case skipped
    then show ?thesis using assms(3) by auto
  next
    case (replayed user svc prev)
    obtain j where j: "j < k" "concludes (Es ! j) user code" "get_service_name (pv_handle (Es ! j)) = Some svc"
        "concluded_at prev = pv_return (Es ! j)"
      using cell_origin [OF replayed(3)] replayed(4-6) assms(1) by auto
    moreover have "get_user (pv_handle (Es ! j)) = Inr user"
      using j(2) by (simp add: concludes_def)
    ultimately show ?thesis
      using answer [OF j(2)] replayed(1,2,7) unfolding VERDICT_REUSE_WINDOW_def by (metis less_imp_le)
  next
    case (concluded user c)
    moreover have "get_user (pv_handle (Es ! k)) = Inr user"
      using concluded(1) by (simp add: concludes_def)
    ultimately show ?thesis
      using answer [OF concluded(1)] by (metis less_irrefl order_refl)
  qed
qed



lemma demo_config [simp]: "PamConfig_load (\<lambda>_. None) demo_os = PamConfig_default"
  by (auto simp: PamConfig_load_def PamConfig_load_from_path_def split: sum.split)

lemma demo_inner:
  "authenticate_inner (demo_pam ps now) cell =
     (case cached_conclusion_for cell ''alice'' ''sudo'' now of
        Some (code, age) \<Rightarrow> (code, Some \<lparr>vd_username = ''alice'', vd_service = Some ''sudo'', from_cache = True\<rparr>, [], None)
      | None \<Rightarrow> run_transaction (demo_pam ps now) PamConfig_default ''alice'' (Some ''sudo'') Sequential True)"
proof -
  have "\<not> is_dm_service ''sudo''" "conversation_mode ''sudo'' (process_identity (Some ''sudo'') None) (is_gdm_reauth ''sudo'' False) = Sequential"
    by code_simp+
  moreover have "pv_handle (demo_pam ps now) = Some \<lparr>item_user = Inr (Some ''alice''), item_ruser = Inr None, item_service = Inr (Some ''sudo''), item_conv = Inr True\<rparr>"
    "\<not> pv_for_reauth (demo_pam ps now)" "pv_exe (demo_pam ps now) = Some ''sudo''" "pv_comm (demo_pam ps now) = None" "pv_tty (demo_pam ps now)"
    "pv_toml (demo_pam ps now) = (\<lambda>_. None)" "pv_os (demo_pam ps now) = demo_os"
    by (simp_all add: demo_pam_def)
  ultimately show ?thesis
    unfolding authenticate_inner_def
    by (simp add: guard_display_manager_bypass_def get_user_def get_service_name_def get_conv_def str_bytes_def Let_def split: option.split)
qed

lemma demo_answered:
  "\<exists>effs c. run_transaction (demo_pam [demo_poll 1 [demo_answer_bytes]] 0) PamConfig_default ''alice'' (Some ''sudo'') Sequential True =
     (PAM_SUCCESS, Some \<lparr>vd_username = ''alice'', vd_service = Some ''sudo'', from_cache = False\<rparr>, effs, Some c)"
proof -
  let ?E = "demo_pam [demo_poll 1 [demo_answer_bytes]] 0" and ?t = "request_timeout PamConfig_default True Sequential"
  let ?c0 = "\<lparr>cl_stream = \<lparr>rx = [], tx = [], wr_err = None\<rparr>, read_buf = [], expected_total = None\<rparr>"
  obtain c1 where c1: "send_authenticate_start demo_ipc_codec ''alice'' True ?t (hex_encode demo_hex (replicate 16 7)) ?c0 = Inr c1"
    using demo_send by blast
  have c0: "connect_client (pv_connect ?E) = Inr ?c0"
    by (simp add: connect_client_def)
  have "recv_response demo_ipc_codec demo_answer_bytes = Inr demo_pam_response"
    using ipc_responses.reads_all [OF demo_answer_small] demo_ipc_codec_ok
    by (simp add: recv_response_def decode_response_def ipc_codec_ok_def demo_answer_bytes_def)
  then have "poll_responses demo_ipc_codec (socket_reads (pv_polls ?E)) c1 = Some (Inr demo_pam_response)"
    using poll_waiting [OF fresh_client [OF c0 c1 [folded demo_pam_sel(1)]], of "[[demo_answer_bytes]]" demo_ipc_codec]
    by (simp add: demo_answer_bytes_def)
  then have "fst (run_transaction ?E PamConfig_default ''alice'' (Some ''sudo'') Sequential True) = PAM_SUCCESS"
    using transaction_delivers [of ?E _ ?c0 "''alice''" True PamConfig_default Sequential c1 demo_pam_response "Some ''sudo''"] c0 c1 demo_timeout
    by (simp add: from_secs_def demo_pam_response_def map_pam_outcome_def outcome_from_raw_def)
  then obtain v effs ipc where t: "run_transaction ?E PamConfig_default ''alice'' (Some ''sudo'') Sequential True = (PAM_SUCCESS, v, effs, ipc)"
    by (cases "run_transaction ?E PamConfig_default ''alice'' (Some ''sudo'') Sequential True") auto
  then show ?thesis
    by (rule transaction_cases) (use t in simp_all)
qed

theorem pam_verdict_needs_answer_witness:
  "\<exists>ipc. run_calls [demo_pam [demo_poll 1 [demo_answer_bytes]] 0, demo_pam [] 100] no_conclusion ! 1 = (PAM_SUCCESS, ipc) \<and>
    (\<exists>j tty timeout rid c0 c1 resp. j \<le> (1::nat) \<and>
      connect_client (pv_connect ([demo_pam [demo_poll 1 [demo_answer_bytes]] 0, demo_pam [] 100] ! j)) = Inr c0 \<and>
      send_authenticate_start demo_ipc_codec ''alice'' tty timeout rid c0 = Inr c1 \<and>
      poll_responses demo_ipc_codec (socket_reads (pv_polls ([demo_pam [demo_poll 1 [demo_answer_bytes]] 0, demo_pam [] 100] ! j))) c1 = Some (Inr resp) \<and>
      resp_outcome resp = 0)"
proof -
  let ?E = "demo_pam [demo_poll 1 [demo_answer_bytes]] 0" and ?F = "demo_pam [] 100"
  obtain effs c where "run_transaction ?E PamConfig_default ''alice'' (Some ''sudo'') Sequential True =
     (PAM_SUCCESS, Some \<lparr>vd_username = ''alice'', vd_service = Some ''sudo'', from_cache = False\<rparr>, effs, Some c)"
    using demo_answered by blast
  then have calls: "run_calls [?E, ?F] no_conclusion ! 1 = (PAM_SUCCESS, None)"
    by (simp add: authenticate_def demo_inner cached_conclusion_for_def no_conclusion_def record_verdict_def record_conclusion_def
        reusable_conclusion_def VERDICT_REUSE_WINDOW_def from_millis_def)
  obtain j user tty timeout rid c0 c1 resp where "j \<le> 1" "get_user (pv_handle ?F) = Inr user"
      "connect_client (pv_connect ([?E, ?F] ! j)) = Inr c0" "send_authenticate_start (pv_ipc ([?E, ?F] ! j)) user tty timeout rid c0 = Inr c1"
      "poll_responses (pv_ipc ([?E, ?F] ! j)) (socket_reads (pv_polls ([?E, ?F] ! j))) c1 = Some (Inr resp)" "resp_outcome resp = 0"
    using pam_verdict_needs_answer [of 1 "[?E, ?F]", OF _ calls] by auto
  moreover have "pv_ipc ([?E, ?F] ! j) = demo_ipc_codec"
    using \<open>j \<le> 1\<close> by (cases j) auto
  moreover have "user = ''alice''"
    using \<open>get_user (pv_handle ?F) = Inr user\<close> by simp
  ultimately show ?thesis
    using calls by metis
qed

end
