(* ===== verification/Jni.thy ===== *)
theory Jni
  imports Pairing Auth
begin

text \<open>
  The native half of the Android application, \<^verbatim>\<open>src/shared/src/jni_api.rs\<close> with the helpers of
  \<^verbatim>\<open>src/shared/src/jni/\<close> and \<^verbatim>\<open>src/shared/src/error.rs\<close>: every function the application
  calls. A function returns the value or the exception it throws; the texts of the exceptions are left
  out, and so is the translation of a panic, since no step below panics. A Java argument is \<open>None\<close> when the
  virtual machine cannot read it (a null reference, say), and the record \<open>jvm\<close> says which
  allocations and look-ups the machine grants. A \<^verbatim>\<open>jlong\<close> and a \<^verbatim>\<open>jint\<close> are integers, cast to the
  unsigned types of the messages as Rust casts them.
\<close>

section \<open>Exceptions and conversions\<close>

datatype java_exception =
    IllegalArgumentException | IllegalStateException | OutOfMemoryError | IOException
  | GeneralSecurityException | AEADBadTagException | InvalidKeyException

record jvm =
  jv_bytes :: "bytes \<Rightarrow> bool"
  jv_string :: "string \<Rightarrow> bool"
  jv_class :: "string \<Rightarrow> bool"
  jv_array :: "nat \<Rightarrow> bool"
  jv_store :: "nat \<Rightarrow> bool"
  jv_construct :: "string \<Rightarrow> bool"

datatype tapauth_error = InvalidInput | TapIo | ProtoDecode | AeadBadTag | TapCrypto | TapState

definition from_crypto_error :: "crypto_error \<Rightarrow> tapauth_error" where
  "from_crypto_error err =
     (case err of
        InvalidKeyLength \<Rightarrow> InvalidInput
      | DecryptionFailed \<Rightarrow> AeadBadTag
      | InvalidSignature \<Rightarrow> TapCrypto
      | KeyDerivationFailed \<Rightarrow> TapCrypto
      | EncryptionFailed \<Rightarrow> TapCrypto
      | RandomGenerationFailed \<Rightarrow> TapCrypto
      | SystemTimeError \<Rightarrow> TapState)"

definition throw_tapauth_error :: "tapauth_error \<Rightarrow> java_exception" where
  "throw_tapauth_error err =
     (case err of
        InvalidInput \<Rightarrow> IllegalArgumentException
      | TapIo \<Rightarrow> IOException
      | ProtoDecode \<Rightarrow> IOException
      | AeadBadTag \<Rightarrow> AEADBadTagException
      | TapCrypto \<Rightarrow> GeneralSecurityException
      | TapState \<Rightarrow> IllegalStateException)"

definition throws :: "java_exception \<Rightarrow> 'e + 'a \<Rightarrow> java_exception + 'a" where
  "throws e r = map_err (\<lambda>_. e) r"

definition jintarray_to_vec :: "i32 list option \<Rightarrow> java_exception + i32 list" where
  "jintarray_to_vec array = ok_or IllegalArgumentException array"

definition jbytearray_to_vec :: "bytes option \<Rightarrow> java_exception + bytes" where
  "jbytearray_to_vec array = ok_or IllegalArgumentException array"

definition jbytearray_to_fixed :: "nat \<Rightarrow> bytes option \<Rightarrow> java_exception + bytes" where
  "jbytearray_to_fixed n array =
     rbind (jbytearray_to_vec array) (\<lambda>bytes. if length bytes = n then Inr bytes else Inl IllegalArgumentException)"

definition jstring_to_rust :: "string option \<Rightarrow> java_exception + string" where
  "jstring_to_rust s = ok_or IllegalArgumentException s"

definition vec_to_jbytearray :: "jvm \<Rightarrow> bytes \<Rightarrow> java_exception + bytes" where
  "vec_to_jbytearray V bytes = (if jv_bytes V bytes then Inr bytes else Inl OutOfMemoryError)"

definition string_to_jstring :: "jvm \<Rightarrow> string \<Rightarrow> java_exception + string" where
  "string_to_jstring V s = (if jv_string V s then Inr s else Inl OutOfMemoryError)"

definition jbytearray_to_ed25519_keypair :: "crypto_lib \<Rightarrow> bytes option \<Rightarrow> java_exception + ed25519_keypair" where
  "jbytearray_to_ed25519_keypair L array =
     rbind (jbytearray_to_vec array) (\<lambda>bytes.
     rbind (if length bytes = 64 then Inr (take 32 bytes)
            else if length bytes = 32 then Inr bytes
            else Inl IllegalArgumentException) (\<lambda>signing_key.
       throws IllegalArgumentException (from_signing_key_bytes L signing_key)))"

section \<open>Arrays, objects and messages\<close>

definition new_object_array :: "jvm \<Rightarrow> nat \<Rightarrow> string \<Rightarrow> java_exception + unit" where
  "new_object_array V len class_sig =
     (if \<not> jv_class V class_sig then Inl IllegalStateException
      else if \<not> jv_array V len then Inl OutOfMemoryError else Inr ())"

definition set_object_array_element :: "jvm \<Rightarrow> nat \<Rightarrow> nat \<Rightarrow> java_exception + unit" where
  "set_object_array_element V len index =
     (if len \<le> index then Inl IllegalStateException
      else if jv_store V index then Inr () else Inl IllegalStateException)"

definition make_keypair_array :: "jvm \<Rightarrow> bytes \<Rightarrow> bytes \<Rightarrow> java_exception + bytes \<times> bytes" where
  "make_keypair_array V private_key public_key =
     rbind (vec_to_jbytearray V private_key) (\<lambda>private_array.
     rbind (vec_to_jbytearray V public_key) (\<lambda>public_array.
     rbind (new_object_array V 2 ''[B'') (\<lambda>_.
     rbind (set_object_array_element V 2 0) (\<lambda>_.
     rbind (set_object_array_element V 2 1) (\<lambda>_. Inr (private_array, public_array))))))"

definition make_bytes_string_array :: "jvm \<Rightarrow> bytes \<Rightarrow> string \<Rightarrow> java_exception + bytes \<times> string" where
  "make_bytes_string_array V bytes str =
     rbind (vec_to_jbytearray V bytes) (\<lambda>byte_array.
     rbind (string_to_jstring V str) (\<lambda>java_string.
     rbind (new_object_array V 2 ''java/lang/Object'') (\<lambda>_.
     rbind (set_object_array_element V 2 0) (\<lambda>_.
     rbind (set_object_array_element V 2 1) (\<lambda>_. Inr (byte_array, java_string))))))"

definition create_object :: "jvm \<Rightarrow> string \<Rightarrow> 'a \<Rightarrow> java_exception + 'a" where
  "create_object V class_name obj =
     (if \<not> jv_class V class_name then Inl IllegalStateException
      else if jv_construct V class_name then Inr obj else Inl IllegalStateException)"

definition decode_message :: "(bytes \<Rightarrow> 'm option) \<Rightarrow> bytes \<Rightarrow> java_exception + 'm" where
  "decode_message dec bytes = ok_or IOException (dec bytes)"

text \<open>Encoding into a growing buffer cannot fail.\<close>

definition encode_message :: "('m \<Rightarrow> bytes) \<Rightarrow> 'm \<Rightarrow> java_exception + bytes" where
  "encode_message enc msg = Inr (enc msg)"

text \<open>The classes of the application that the functions construct.\<close>

record java_auth_request =
  jr_challenge :: bytes
  jr_username :: string
  jr_hostname :: string
  jr_timestamp :: int
  jr_signature_algorithm :: i32
  jr_signature :: bytes

record java_signed_challenge =
  jc_challenge :: bytes
  jc_signature_algorithm :: i32
  jc_signature :: bytes

record java_pairing_response =
  jp_version :: i32
  jp_x25519_public_key :: bytes
  jp_ed25519_public_key :: bytes
  jp_device_name :: string
  jp_symmetric_algorithm :: i32
  jp_hash_algorithm :: i32
  jp_signature_algorithm :: i32

record java_packet_info =
  ji_temporal_identifier :: bytes
  ji_encryption_algorithm :: i32
  ji_ciphertext :: bytes

section \<open>Keys and pairing secrets\<close>

definition generateKeypair :: "jvm \<Rightarrow> crypto_lib \<Rightarrow> bytes option \<Rightarrow> java_exception + bytes \<times> bytes" where
  "generateKeypair V L rnd =
     rbind (map_err (throw_tapauth_error \<circ> from_crypto_error) (generate_ed25519 L rnd)) (\<lambda>keypair.
       make_keypair_array V (signing_key_bytes keypair) (verifying_key keypair))"

definition generateX25519Keypair :: "jvm \<Rightarrow> crypto_lib \<Rightarrow> bytes option \<Rightarrow> java_exception + bytes \<times> bytes" where
  "generateX25519Keypair V L rnd =
     rbind (map_err (throw_tapauth_error \<circ> from_crypto_error) (generate_x25519 L rnd)) (\<lambda>keypair.
       make_keypair_array V (secret_bytes keypair) (x_public_key keypair))"

definition keyExchange :: "jvm \<Rightarrow> crypto_lib \<Rightarrow> bytes option \<Rightarrow> bytes option \<Rightarrow> java_exception + bytes" where
  "keyExchange V L our_private_key their_public_key =
     rbind (jbytearray_to_fixed 32 our_private_key) (\<lambda>our_key.
     rbind (jbytearray_to_fixed 32 their_public_key) (\<lambda>their_key.
     rbind (throws IllegalArgumentException (diffie_hellman L (from_secret_bytes L our_key) their_key)) (\<lambda>shared_secret.
     rbind (throws IllegalArgumentException (derive_psk_from_x25519 L shared_secret)) (\<lambda>psk.
       vec_to_jbytearray V (psk_bytes psk)))))"

definition getSas ::
  "jvm \<Rightarrow> crypto_lib \<Rightarrow> bytes option \<Rightarrow> bytes option \<Rightarrow> bytes option \<Rightarrow> java_exception + string" where
  "getSas V L psk client_public server_public =
     rbind (jbytearray_to_fixed 32 psk) (\<lambda>psk.
     rbind (jbytearray_to_fixed 32 client_public) (\<lambda>client_pub.
     rbind (jbytearray_to_fixed 32 server_public) (\<lambda>server_pub.
     rbind (throws IllegalArgumentException (derive_sas L (PairingSymmetricKey psk) client_pub server_pub)) (\<lambda>sas.
       string_to_jstring V sas))))"

definition decryptWithPsk :: "jvm \<Rightarrow> crypto_lib \<Rightarrow> bytes option \<Rightarrow> bytes option \<Rightarrow> java_exception + bytes" where
  "decryptWithPsk V L psk sealed =
     rbind (jbytearray_to_fixed 32 psk) (\<lambda>psk.
     rbind (jbytearray_to_vec sealed) (\<lambda>ciphertext_bytes.
     rbind (throws AEADBadTagException (decrypt_with_psk L (PairingSymmetricKey psk) ciphertext_bytes)) (\<lambda>plaintext.
       vec_to_jbytearray V plaintext)))"

definition encryptWithPsk ::
  "jvm \<Rightarrow> crypto_lib \<Rightarrow> bytes option \<Rightarrow> bytes option \<Rightarrow> bytes option \<Rightarrow> java_exception + bytes" where
  "encryptWithPsk V L rnd psk plaintext =
     rbind (jbytearray_to_fixed 32 psk) (\<lambda>psk.
     rbind (jbytearray_to_vec plaintext) (\<lambda>plaintext_bytes.
     rbind (throws GeneralSecurityException (encrypt_with_psk L (PairingSymmetricKey psk) rnd plaintext_bytes)) (\<lambda>sealed.
       vec_to_jbytearray V sealed)))"

definition jni_sha256 :: "jvm \<Rightarrow> crypto_lib \<Rightarrow> hex_lib \<Rightarrow> bytes option \<Rightarrow> java_exception + string" where
  "jni_sha256 V L H data =
     rbind (jbytearray_to_vec data) (\<lambda>data_bytes. string_to_jstring V (hex_encode H (sha256 L data_bytes)))"

section \<open>Received messages\<close>

definition parseAuthRequest :: "jvm \<Rightarrow> 'x pb_codec_scheme \<Rightarrow> bytes option \<Rightarrow> java_exception + java_auth_request" where
  "parseAuthRequest V K request_bytes =
     rbind (jbytearray_to_vec request_bytes) (\<lambda>data.
     rbind (decode_message (dec_wrapper K) data) (\<lambda>wrapper.
       case payload_of wrapper of
         Some (AuthRequest req) \<Rightarrow>
           rbind (vec_to_jbytearray V (req_challenge req)) (\<lambda>challenge_array.
           rbind (string_to_jstring V (req_username req)) (\<lambda>username_str.
           rbind (string_to_jstring V (req_hostname req)) (\<lambda>hostname_str.
           rbind (vec_to_jbytearray V (signature wrapper)) (\<lambda>signature_array.
             create_object V ''dev/rourunisen/tapauth/crypto/AuthRequest''
               \<lparr>jr_challenge = challenge_array, jr_username = username_str, jr_hostname = hostname_str,
                jr_timestamp = sint (timestamp_unix_seconds req), jr_signature_algorithm = signature_algorithm wrapper,
                jr_signature = signature_array\<rparr>))))
       | _ \<Rightarrow> Inl IOException))"

definition parseEncryptedPacketStructure ::
  "jvm \<Rightarrow> 'x pb_codec_scheme \<Rightarrow> bytes option \<Rightarrow> java_exception + java_packet_info" where
  "parseEncryptedPacketStructure V K packet_bytes =
     rbind (jbytearray_to_vec packet_bytes) (\<lambda>data.
     rbind (decode_message (dec_packet K) data) (\<lambda>packet.
     rbind (vec_to_jbytearray V (temporal_identifier packet)) (\<lambda>temporal_id_array.
     rbind (vec_to_jbytearray V (ciphertext packet)) (\<lambda>ciphertext_array.
       create_object V ''dev/rourunisen/tapauth/crypto/EncryptedPacketInfo''
         \<lparr>ji_temporal_identifier = temporal_id_array, ji_encryption_algorithm = encryption_algorithm packet,
          ji_ciphertext = ciphertext_array\<rparr>))))"

definition extractTemporalIdentifier :: "jvm \<Rightarrow> 'x pb_codec_scheme \<Rightarrow> bytes option \<Rightarrow> java_exception + bytes" where
  "extractTemporalIdentifier V K packet_bytes =
     rbind (jbytearray_to_vec packet_bytes) (\<lambda>data.
     rbind (decode_message (dec_packet K) data) (\<lambda>packet.
       if length (temporal_identifier packet) \<noteq> 16 then Inl IOException
       else vec_to_jbytearray V (temporal_identifier packet)))"

definition determineMessageType :: "jvm \<Rightarrow> 'x pb_codec_scheme \<Rightarrow> bytes option \<Rightarrow> java_exception + string" where
  "determineMessageType V K wrapper_message_bytes =
     rbind (jbytearray_to_vec wrapper_message_bytes) (\<lambda>data.
     rbind (decode_message (dec_wrapper K) data) (\<lambda>wrapper.
       string_to_jstring V
         (case payload_of wrapper of
            Some (AuthRequest _) \<Rightarrow> ''AUTH_REQUEST''
          | Some (AuthGrant _) \<Rightarrow> ''AUTH_GRANT''
          | Some (AuthDenial _) \<Rightarrow> ''AUTH_DENIAL''
          | Some (GrantConfirmation _) \<Rightarrow> ''GRANT_CONFIRMATION''
          | Some (AuthCancel _) \<Rightarrow> ''AUTH_CANCEL''
          | None \<Rightarrow> ''UNKNOWN'')))"

definition parseGrantConfirmation ::
  "jvm \<Rightarrow> 'x pb_codec_scheme \<Rightarrow> bytes option \<Rightarrow> java_exception + java_signed_challenge" where
  "parseGrantConfirmation V K confirmation_bytes =
     rbind (jbytearray_to_vec confirmation_bytes) (\<lambda>data.
     rbind (decode_message (dec_wrapper K) data) (\<lambda>wrapper.
       case payload_of wrapper of
         Some (GrantConfirmation conf) \<Rightarrow>
           rbind (vec_to_jbytearray V (confirmation_challenge conf)) (\<lambda>challenge_array.
           rbind (vec_to_jbytearray V (signature wrapper)) (\<lambda>signature_array.
             create_object V ''dev/rourunisen/tapauth/crypto/GrantConfirmation''
               \<lparr>jc_challenge = challenge_array, jc_signature_algorithm = signature_algorithm wrapper,
                jc_signature = signature_array\<rparr>))
       | _ \<Rightarrow> Inl IOException))"

definition parseAuthenticationCancel ::
  "jvm \<Rightarrow> 'x pb_codec_scheme \<Rightarrow> bytes option \<Rightarrow> java_exception + java_signed_challenge" where
  "parseAuthenticationCancel V K cancel_bytes =
     rbind (jbytearray_to_vec cancel_bytes) (\<lambda>data.
     rbind (decode_message (dec_wrapper K) data) (\<lambda>wrapper.
       case payload_of wrapper of
         Some (AuthCancel cancel) \<Rightarrow>
           rbind (vec_to_jbytearray V (cancel_challenge cancel)) (\<lambda>challenge_array.
           rbind (vec_to_jbytearray V (signature wrapper)) (\<lambda>signature_array.
             create_object V ''dev/rourunisen/tapauth/crypto/AuthenticationCancel''
               \<lparr>jc_challenge = challenge_array, jc_signature_algorithm = signature_algorithm wrapper,
                jc_signature = signature_array\<rparr>))
       | _ \<Rightarrow> Inl IOException))"

section \<open>Temporal identifiers, sealing and signatures\<close>

definition generateTemporalId :: "jvm \<Rightarrow> crypto_lib \<Rightarrow> bytes option \<Rightarrow> int \<Rightarrow> java_exception + bytes" where
  "generateTemporalId V L csk timestamp_seconds =
     rbind (jbytearray_to_fixed 32 csk) (\<lambda>csk.
       let time_window = word_of_int timestamp_seconds div TIME_WINDOW_SECONDS
       in rbind (throws GeneralSecurityException (generate_temporal_identifier L (ClientSymmetricKey csk) time_window)) (\<lambda>identifier.
            vec_to_jbytearray V identifier))"

definition generateTemporalIdBle :: "jvm \<Rightarrow> crypto_lib \<Rightarrow> bytes option \<Rightarrow> int \<Rightarrow> java_exception + bytes" where
  "generateTemporalIdBle V L csk timestamp_seconds =
     rbind (jbytearray_to_fixed 32 csk) (\<lambda>csk.
       let time_window = word_of_int timestamp_seconds div TIME_WINDOW_SECONDS
       in rbind (throws GeneralSecurityException (generate_temporal_identifier_ble L (ClientSymmetricKey csk) time_window)) (\<lambda>identifier.
            vec_to_jbytearray V identifier))"

definition verifyTemporalId ::
  "crypto_lib \<Rightarrow> u64 option \<Rightarrow> u64 option \<Rightarrow> bytes option \<Rightarrow> bytes option \<Rightarrow> java_exception + bool" where
  "verifyTemporalId L now1 now2 ident csk =
     rbind (jbytearray_to_vec ident) (\<lambda>id_bytes.
     rbind (jbytearray_to_fixed 32 csk) (\<lambda>csk.
       if length id_bytes = 16
       then throws GeneralSecurityException (verify_temporal_identifier L (ClientSymmetricKey csk) id_bytes now1 now2)
       else if length id_bytes = 10
       then throws GeneralSecurityException (verify_temporal_identifier_ble L (ClientSymmetricKey csk) id_bytes now1 now2)
       else Inl IllegalArgumentException))"

definition encryptWithCsk ::
  "jvm \<Rightarrow> crypto_lib \<Rightarrow> bytes option \<Rightarrow> bytes option \<Rightarrow> string option \<Rightarrow> bytes option \<Rightarrow> java_exception + bytes" where
  "encryptWithCsk V L csk challenge ctxt plaintext =
     rbind (jbytearray_to_fixed 32 csk) (\<lambda>csk.
     rbind (jbytearray_to_fixed 32 challenge) (\<lambda>challenge.
     rbind (jstring_to_rust ctxt) (\<lambda>context_str.
     rbind (jbytearray_to_vec plaintext) (\<lambda>plaintext_bytes.
     rbind (throws GeneralSecurityException
              (encrypt_with_csk L (ClientSymmetricKey csk) challenge (str_bytes context_str) plaintext_bytes)) (\<lambda>sealed.
       vec_to_jbytearray V sealed)))))"

definition decryptWithCsk ::
  "jvm \<Rightarrow> crypto_lib \<Rightarrow> bytes option \<Rightarrow> bytes option \<Rightarrow> string option \<Rightarrow> bytes option \<Rightarrow> java_exception + bytes" where
  "decryptWithCsk V L csk challenge ctxt sealed =
     rbind (jbytearray_to_fixed 32 csk) (\<lambda>csk.
     rbind (jbytearray_to_fixed 32 challenge) (\<lambda>challenge.
     rbind (jstring_to_rust ctxt) (\<lambda>context_str.
     rbind (jbytearray_to_vec sealed) (\<lambda>ciphertext_bytes.
     rbind (throws AEADBadTagException
              (decrypt_with_csk L (ClientSymmetricKey csk) challenge (str_bytes context_str) ciphertext_bytes)) (\<lambda>plaintext.
       vec_to_jbytearray V plaintext)))))"

definition verifySignature ::
  "crypto_lib \<Rightarrow> bytes option \<Rightarrow> bytes option \<Rightarrow> bytes option \<Rightarrow> java_exception + bool" where
  "verifySignature L public_key message sig =
     rbind (jbytearray_to_fixed 32 public_key) (\<lambda>public_key_array.
     rbind (jbytearray_to_vec message) (\<lambda>message_bytes.
     rbind (jbytearray_to_fixed 64 sig) (\<lambda>signature_array.
       if \<not> ed_key_valid L public_key_array then Inl InvalidKeyException
       else Inr (ed_verify L public_key_array message_bytes signature_array))))"

definition signData :: "jvm \<Rightarrow> crypto_lib \<Rightarrow> bytes option \<Rightarrow> bytes option \<Rightarrow> java_exception + bytes" where
  "signData V L private_key message =
     rbind (jbytearray_to_fixed 32 private_key) (\<lambda>private_key_array.
     rbind (jbytearray_to_vec message) (\<lambda>message_bytes.
       vec_to_jbytearray V (ed_sign L private_key_array message_bytes)))"

definition serializeAuthRequestForVerification ::
  "jvm \<Rightarrow> 'x pb_codec_scheme \<Rightarrow> bytes option \<Rightarrow> string option \<Rightarrow> string option \<Rightarrow> int \<Rightarrow> i32 \<Rightarrow> java_exception + bytes" where
  "serializeAuthRequestForVerification V K challenge username hostname timestamp sig_algorithm =
     rbind (jbytearray_to_vec challenge) (\<lambda>challenge_bytes.
     rbind (jstring_to_rust username) (\<lambda>username_str.
     rbind (jstring_to_rust hostname) (\<lambda>hostname_str.
       let auth_request = \<lparr>req_challenge = challenge_bytes, req_username = username_str, req_hostname = hostname_str,
                            timestamp_unix_seconds = word_of_int timestamp\<rparr>;
           wrapper = \<lparr>version = 1, signature_algorithm = sig_algorithm, signature = [],
                      payload_of = Some (AuthRequest auth_request)\<rparr>
       in rbind (encode_message (enc_wrapper K) wrapper) (vec_to_jbytearray V))))"

section \<open>Answers\<close>

definition createGrantWrapperMessage ::
  "jvm \<Rightarrow> crypto_lib \<Rightarrow> 'x pb_codec_scheme \<Rightarrow> bytes option \<Rightarrow> bytes option \<Rightarrow> java_exception + bytes" where
  "createGrantWrapperMessage V L K signed_chal private_key =
     rbind (jbytearray_to_vec signed_chal) (\<lambda>signed_challenge_bytes.
     rbind (jbytearray_to_ed25519_keypair L private_key) (\<lambda>keypair.
       let wrapper = \<lparr>version = 1, signature_algorithm = ED25519, signature = [],
                      payload_of = Some (AuthGrant (AuthenticationGrant signed_challenge_bytes))\<rparr>
       in rbind (throws IOException (sign_wrapper_message L K wrapper keypair)) (\<lambda>wrapper.
          rbind (encode_message (enc_wrapper K) wrapper) (vec_to_jbytearray V))))"

definition createDenialWrapperMessage ::
  "jvm \<Rightarrow> crypto_lib \<Rightarrow> 'x pb_codec_scheme \<Rightarrow> bytes option \<Rightarrow> bytes option \<Rightarrow> java_exception + bytes" where
  "createDenialWrapperMessage V L K challenge private_key =
     rbind (jbytearray_to_fixed 32 challenge) (\<lambda>challenge_bytes.
     rbind (jbytearray_to_ed25519_keypair L private_key) (\<lambda>keypair.
       let wrapper = \<lparr>version = 1, signature_algorithm = ED25519, signature = [],
                      payload_of = Some (AuthDenial (AuthenticationDenial challenge_bytes))\<rparr>
       in rbind (throws IOException (sign_wrapper_message L K wrapper keypair)) (\<lambda>wrapper.
          rbind (encode_message (enc_wrapper K) wrapper) (vec_to_jbytearray V))))"

text \<open>The clock is read after the sealing.\<close>

definition createEncryptedPacket ::
  "jvm \<Rightarrow> crypto_lib \<Rightarrow> 'x pb_codec_scheme \<Rightarrow> bytes option \<Rightarrow> u64 option \<Rightarrow> bytes option \<Rightarrow> bytes option \<Rightarrow> java_exception + bytes"
where
  "createEncryptedPacket V L K rnd now csk wrapper_message_bytes =
     rbind (jbytearray_to_fixed 32 csk) (\<lambda>csk_array.
     rbind (jbytearray_to_vec wrapper_message_bytes) (\<lambda>payload.
     rbind (ok_or GeneralSecurityException rnd) (\<lambda>nonce.
     rbind (throws GeneralSecurityException (encrypt_aes_gcm L csk_array nonce payload [])) (\<lambda>sealed.
     rbind (throws GeneralSecurityException
              (generate_current_temporal_identifier L (ClientSymmetricKey csk_array) now)) (\<lambda>temporal_id.
     rbind (encode_message (enc_packet K)
              \<lparr>temporal_identifier = temporal_id, encryption_algorithm = AES_256_GCM, ciphertext = nonce @ sealed\<rparr>)
       (vec_to_jbytearray V))))))"

definition decryptEncryptedPacket ::
  "jvm \<Rightarrow> crypto_lib \<Rightarrow> 'x pb_codec_scheme \<Rightarrow> bytes option \<Rightarrow> bytes option \<Rightarrow> java_exception + bytes" where
  "decryptEncryptedPacket V L K csk encrypted_packet_bytes =
     rbind (jbytearray_to_fixed 32 csk) (\<lambda>csk_array.
     rbind (jbytearray_to_vec encrypted_packet_bytes) (\<lambda>packet_bytes.
     rbind (decode_message (dec_packet K) packet_bytes) (\<lambda>packet.
       if length (ciphertext packet) < 12 then Inl GeneralSecurityException
       else rbind (throws GeneralSecurityException
                     (decrypt_aes_gcm L csk_array (take 12 (ciphertext packet)) (drop 12 (ciphertext packet)) [])) (\<lambda>wrapper_bytes.
              vec_to_jbytearray V wrapper_bytes))))"

section \<open>Pairing messages\<close>

definition createPairingHello ::
  "jvm \<Rightarrow> pairing_codec \<Rightarrow> i32 \<Rightarrow> bytes option \<Rightarrow> bytes option \<Rightarrow> string option \<Rightarrow>
   i32 list option \<Rightarrow> i32 list option \<Rightarrow> i32 list option \<Rightarrow> java_exception + bytes"
where
  "createPairingHello V P ver x25519_public_key ed25519_public_key device_name supported_symmetric supported_hash supported_signature =
     rbind (jbytearray_to_vec x25519_public_key) (\<lambda>x25519_bytes.
     rbind (jbytearray_to_vec ed25519_public_key) (\<lambda>ed25519_bytes.
     rbind (jstring_to_rust device_name) (\<lambda>device_name_str.
     rbind (jintarray_to_vec supported_symmetric) (\<lambda>symmetric_algos.
     rbind (jintarray_to_vec supported_hash) (\<lambda>hash_algos.
     rbind (jintarray_to_vec supported_signature) (\<lambda>signature_algos.
     rbind (encode_message (enc_hello P)
              \<lparr>hello_version = word_of_int ver, hello_x25519 = x25519_bytes, hello_ed25519 = ed25519_bytes,
               hello_device_name = device_name_str, supported_symmetric_algorithms = symmetric_algos,
               supported_hash_algorithms = hash_algos, supported_signature_algorithms = signature_algos\<rparr>)
       (vec_to_jbytearray V)))))))"

definition parsePairingResponse :: "jvm \<Rightarrow> pairing_codec \<Rightarrow> bytes option \<Rightarrow> java_exception + java_pairing_response" where
  "parsePairingResponse V P response_bytes =
     rbind (jbytearray_to_vec response_bytes) (\<lambda>data.
     rbind (decode_message (dec_response P) data) (\<lambda>resp.
     rbind (vec_to_jbytearray V (resp_x25519 resp)) (\<lambda>x25519_array.
     rbind (vec_to_jbytearray V (resp_ed25519 resp)) (\<lambda>ed25519_array.
     rbind (string_to_jstring V (resp_device_name resp)) (\<lambda>device_name_str.
       create_object V ''dev/rourunisen/tapauth/crypto/PairingResponse''
         \<lparr>jp_version = sint (resp_version resp), jp_x25519_public_key = x25519_array, jp_ed25519_public_key = ed25519_array,
          jp_device_name = device_name_str, jp_symmetric_algorithm = selected_symmetric_algorithm resp,
          jp_hash_algorithm = selected_hash_algorithm resp, jp_signature_algorithm = selected_signature_algorithm resp\<rparr>)))))"

definition createPairingCskMessage :: "jvm \<Rightarrow> pairing_codec \<Rightarrow> bytes option \<Rightarrow> string option \<Rightarrow> java_exception + bytes" where
  "createPairingCskMessage V P enc_csk username =
     rbind (jbytearray_to_vec enc_csk) (\<lambda>encrypted_csk_bytes.
     rbind (jstring_to_rust username) (\<lambda>username_str.
     rbind (encode_message (enc_csk_message P) \<lparr>encrypted_csk = encrypted_csk_bytes, csk_username = username_str\<rparr>)
       (vec_to_jbytearray V)))"

definition parsePairingCskMessage :: "jvm \<Rightarrow> pairing_codec \<Rightarrow> bytes option \<Rightarrow> java_exception + bytes \<times> string" where
  "parsePairingCskMessage V P message_bytes =
     rbind (jbytearray_to_vec message_bytes) (\<lambda>data.
     rbind (decode_message (dec_csk_message P) data) (\<lambda>csk_msg.
       make_bytes_string_array V (encrypted_csk csk_msg) (csk_username csk_msg)))"

definition createPairingComplete :: "jvm \<Rightarrow> pairing_codec \<Rightarrow> bool \<Rightarrow> i32 \<Rightarrow> bytes option \<Rightarrow> java_exception + bytes" where
  "createPairingComplete V P success hash_algorithm encrypted_csk_hash =
     rbind (jbytearray_to_vec encrypted_csk_hash) (\<lambda>hash_bytes.
     rbind (encode_message (enc_complete P)
              \<lparr>complete_success = success, complete_hash_algorithm = hash_algorithm, complete_csk_hash = hash_bytes\<rparr>)
       (vec_to_jbytearray V))"

definition parsePairingComplete :: "jvm \<Rightarrow> pairing_codec \<Rightarrow> bytes option \<Rightarrow> java_exception + pairing_complete" where
  "parsePairingComplete V P complete_bytes =
     rbind (jbytearray_to_vec complete_bytes) (\<lambda>data.
     rbind (decode_message (dec_complete P) data) (\<lambda>complete.
     rbind (vec_to_jbytearray V (complete_csk_hash complete)) (\<lambda>hash_array.
       create_object V ''dev/rourunisen/tapauth/crypto/PairingComplete''
         \<lparr>complete_success = complete_success complete, complete_hash_algorithm = complete_hash_algorithm complete,
          complete_csk_hash = hash_array\<rparr>)))"

section \<open>A machine that grants everything\<close>

definition jvm_ok :: "jvm \<Rightarrow> bool" where
  "jvm_ok V \<longleftrightarrow> (\<forall>b. jv_bytes V b) \<and> (\<forall>s. jv_string V s) \<and> (\<forall>c. jv_class V c) \<and> (\<forall>n. jv_array V n) \<and>
     (\<forall>i. jv_store V i) \<and> (\<forall>c. jv_construct V c)"

lemma jvm_okD:
  assumes "jvm_ok V"
  shows "vec_to_jbytearray V b = Inr b" "string_to_jstring V s = Inr s" "create_object V c x = Inr x"
    "make_keypair_array V b b' = Inr (b, b')" "make_bytes_string_array V b s = Inr (b, s)"
  using assms
  by (simp_all add: jvm_ok_def vec_to_jbytearray_def string_to_jstring_def create_object_def make_keypair_array_def
      make_bytes_string_array_def new_object_array_def set_object_array_element_def)

lemma jni_reads [simp]:
  "jintarray_to_vec (Some xs) = Inr xs" "jbytearray_to_vec (Some b) = Inr b" "jstring_to_rust (Some s) = Inr s"
  "jbytearray_to_fixed n (Some b) = (if length b = n then Inr b else Inl IllegalArgumentException)"
  "throws e (Inr x) = Inr x" "throws e (Inl err) = Inl e" "encode_message enc m = Inr (enc m)"
  by (simp_all add: jintarray_to_vec_def jbytearray_to_vec_def jstring_to_rust_def jbytearray_to_fixed_def throws_def encode_message_def)

lemma jni_keypair [simp]:
  "length key = 32 \<Longrightarrow> jbytearray_to_ed25519_keypair L (Some key) = Inr \<lparr>signing_key_bytes = key, verifying_key = ed_public L key\<rparr>"
  by (simp add: jbytearray_to_ed25519_keypair_def from_signing_key_bytes_def)

text \<open>The packets of the application are the packets of the protocol library.\<close>

lemma createEncryptedPacket_eq:
  assumes "crypto_ok L" "jvm_ok V" "length csk = 32"
  shows "createEncryptedPacket V L K (Some r) (Some t) (Some csk) (Some (enc_wrapper K w)) =
    throws GeneralSecurityException
      (rbind (create_encrypted_packet_with_csk_nonce L K (Some t) (Some r) (ClientSymmetricKey csk) w) (\<lambda>p. Inr (enc_packet K p)))"
proof -
  obtain i where "generate_current_temporal_identifier L (ClientSymmetricKey csk) (Some t) = Inr i"
    using temporal_identifier_lives_a_minute [OF assms(1), of t t t "ClientSymmetricKey csk"] by auto
  then show ?thesis
    using assms(3)
    by (cases "aes_encrypt L csk r (enc_wrapper K w) []")
      (simp_all add: createEncryptedPacket_def create_encrypted_packet_with_csk_nonce_def encrypt_with_csk_and_random_nonce_def
        encrypt_aes_gcm_def jvm_okD [OF assms(2)])
qed

lemma decryptEncryptedPacket_eq:
  assumes "codec_ok K" "jvm_ok V" "length csk = 32"
  shows "decryptEncryptedPacket V L K (Some csk) (Some (enc_packet K p)) =
    throws GeneralSecurityException (decrypt_with_csk_and_prepended_nonce L (ClientSymmetricKey csk) (ciphertext p))"
proof -
  have "dec_packet K (enc_packet K p) = Some p"
    using assms(1) by (simp add: codec_ok_def)
  then show ?thesis
    using assms(3)
    by (cases "decrypt_aes_gcm L csk (take 12 (ciphertext p)) (drop 12 (ciphertext p)) []")
      (simp_all add: decryptEncryptedPacket_def decode_message_def decrypt_with_csk_and_prepended_nonce_def jvm_okD [OF assms(2)])
qed

section \<open>Properties\<close>

text \<open>
  C10. The phone's approval unlocks. When the application signs a challenge, wraps the signature and
  seals the wrapper with the functions it has for this, none of them throws, and the daemon opens the
  bytes with its own routines and accepts the grant for exactly that challenge under the phone's key.
\<close>

theorem phone_approval_is_accepted:
  assumes "crypto_ok L" "codec_ok K" "jvm_ok V" "length key = 32" "length chal = 32" "length csk = 32" "length r = 12"
  shows "\<exists>s w. signData V L (Some key) (Some chal) = Inr s \<and> createGrantWrapperMessage V L K (Some s) (Some key) = Inr w \<and>
    (length w \<le> aes_max \<longrightarrow> (\<exists>b p wrapper. createEncryptedPacket V L K (Some r) (Some t) (Some csk) (Some w) = Inr b \<and>
      dec_packet K b = Some p \<and> decrypt_encrypted_packet_with_csk_nonce L K (ClientSymmetricKey csk) p = Inr wrapper \<and>
      verify_auth_grant L K wrapper chal (ed_public L key) = Inr ()))"
proof -
  let ?kp = "\<lparr>signing_key_bytes = key, verifying_key = ed_public L key\<rparr>" and ?s = "ed_sign L key chal"
  have wf: "ed_wf L ?kp"
    by (simp add: ed_wf_def)
  obtain w where w: "sign_wrapper_message L K (wrap_auth_grant (AuthenticationGrant ?s)) ?kp = Inr w"
    by (simp add: sign_wrapper_message_def Let_def)
  have grant: "createGrantWrapperMessage V L K (Some ?s) (Some key) = Inr (enc_wrapper K w)"
    using w assms(4) by (simp add: createGrantWrapperMessage_def wrap_auth_grant_def jvm_okD [OF assms(3)])
  have "verify_auth_grant L K w chal (ed_public L key) = Inr ()"
    using verify_signed_wrapper [OF assms(1) wf w] sign_wrapper_message_fields [OF w] assms(5)
      verify_ed25519_sign [OF assms(1) wf, of chal]
    by (simp add: verify_auth_grant_iff wrap_auth_grant_def sign_ed25519_def keypair_sign_def)
  moreover have "\<exists>p. create_encrypted_packet_with_csk_nonce L K (Some t) (Some r) (ClientSymmetricKey csk) w = Inr p \<and>
      decrypt_encrypted_packet_with_csk_nonce L K (ClientSymmetricKey csk) p = Inr w" if "length (enc_wrapper K w) \<le> aes_max"
    using seal_packet_total [OF assms(1) that] open_sealed_packet [OF assms(1,2,7)] by blast
  moreover have "dec_packet K (enc_packet K p) = Some p" for p
    using assms(2) by (simp add: codec_ok_def)
  ultimately show ?thesis
    using grant assms(4) createEncryptedPacket_eq [OF assms(1,3,6), of K r t w]
    by (fastforce simp: signData_def jvm_okD [OF assms(3)])
qed

text \<open>
  C11. The daemon's request passes the phone. A request the daemon creates, signs and seals reaches the
  application unchanged: its temporal identifier is recognised for a minute, it opens, is classified as
  a request, its fields are those the daemon put in, and the signature verifies over the bytes
  the application reconstructs from the fields, the 64-bit time stamp having passed through a signed
  number of the Java side.
\<close>

theorem daemon_request_passes_phone:
  assumes "crypto_ok L" "codec_ok K" "jvm_ok V" "ed_wf L kp" "length csk = 32" "length r = 12"
    and "create_auth_request_with_challenge user host chal (Some t) = Inr req"
    and "sign_wrapper_message L K (wrap_auth_request req) kp = Inr w"
    and "create_encrypted_packet_with_csk_nonce L K (Some t) (Some r) (ClientSymmetricKey csk) w = Inr p"
    and "unat t \<le> unat t1" "unat t1 \<le> unat t2" "unat t2 \<le> unat t + 60"
  shows "\<exists>i wb jr m. extractTemporalIdentifier V K (Some (enc_packet K p)) = Inr i \<and>
    verifyTemporalId L (Some t1) (Some t2) (Some i) (Some csk) = Inr True \<and>
    decryptEncryptedPacket V L K (Some csk) (Some (enc_packet K p)) = Inr wb \<and>
    determineMessageType V K (Some wb) = Inr ''AUTH_REQUEST'' \<and> parseAuthRequest V K (Some wb) = Inr jr \<and>
    jr_challenge jr = chal \<and> jr_username jr = user \<and> jr_hostname jr = host \<and>
    serializeAuthRequestForVerification V K (Some (jr_challenge jr)) (Some (jr_username jr)) (Some (jr_hostname jr))
      (jr_timestamp jr) (jr_signature_algorithm jr) = Inr m \<and>
    verifySignature L (Some (verifying_key kp)) (Some m) (Some (jr_signature jr)) = Inr True"
proof -
  obtain i where i: "generate_current_temporal_identifier L (ClientSymmetricKey csk) (Some t) = Inr i" "length i = 16"
      "verify_temporal_identifier L (ClientSymmetricKey csk) i (Some t1) (Some t2) = Inr True"
    using temporal_identifier_lives_a_minute [OF assms(1,10-12)] by blast
  have p: "temporal_identifier p = i" "decrypt_with_csk_and_prepended_nonce L (ClientSymmetricKey csk) (ciphertext p) = Inr (enc_wrapper K w)"
    using assms(9) i(1) csk_box.unseal_seal [OF assms(1,6)]
    by (auto simp: create_encrypted_packet_with_csk_nonce_def result_simps)
  have dec: "dec_packet K (enc_packet K p) = Some p" "dec_wrapper K (enc_wrapper K w) = Some w"
    using assms(2) by (simp_all add: codec_ok_def)
  have req: "req = \<lparr>req_challenge = chal, req_username = user, req_hostname = host, timestamp_unix_seconds = t\<rparr>"
    using assms(7) by (simp add: create_auth_request_with_challenge_def split: if_splits)
  have w: "payload_of w = Some (AuthRequest req)" "version w = 1" "signature_algorithm w = ED25519"
    using sign_wrapper_message_fields [OF assms(8)] by (simp_all add: wrap_auth_request_def)
  have "w\<lparr>signature := []\<rparr> = \<lparr>version = 1, signature_algorithm = ED25519, signature = [], payload_of = Some (AuthRequest req)\<rparr>"
    using w by (cases w) simp
  then have v: "ed_key_valid L (verifying_key kp)" "length (signature w) = 64"
      "ed_verify L (verifying_key kp) (enc_wrapper K \<lparr>version = 1, signature_algorithm = ED25519, signature = [],
         payload_of = Some (AuthRequest req)\<rparr>) (signature w)"
    using verify_signed_wrapper [OF assms(1,4,8)] by (simp_all add: verify_wrapper_signature_iff)
  have "length (verifying_key kp) = 32"
    using assms(1,4) by (simp add: ed_wf_def ed_public_ok)
  then show ?thesis
    using i p dec v w assms(5)
    by (simp add: extractTemporalIdentifier_def verifyTemporalId_def decryptEncryptedPacket_eq [OF assms(2,3,5)]
        determineMessageType_def parseAuthRequest_def serializeAuthRequestForVerification_def verifySignature_def decode_message_def
        jvm_okD [OF assms(3)] req)
qed

text \<open>
  C12. The phone checks requests exactly as the protocol library does. For a decrypted request of version
  1, parsing it, serialising its fields again and verifying the signature over the result says yes if and
  only if \<^verbatim>\<open>verify_wrapper_signature\<close> accepts the message under the same key; a signature that is
  not 64 bytes long and a key that is no curve point end in an exception.
\<close>

theorem phone_verification_exact:
  assumes "jvm_ok V" "dec_wrapper K wb = Some w" "version w = 1" "payload_of w = Some (AuthRequest req)" "length pk = 32"
  shows "\<exists>jr m. parseAuthRequest V K (Some wb) = Inr jr \<and>
    serializeAuthRequestForVerification V K (Some (jr_challenge jr)) (Some (jr_username jr)) (Some (jr_hostname jr))
      (jr_timestamp jr) (jr_signature_algorithm jr) = Inr m \<and>
    (verifySignature L (Some pk) (Some m) (Some (jr_signature jr)) = Inr True \<longleftrightarrow> verify_wrapper_signature L K w pk = Inr ()) \<and>
    (length (signature w) \<noteq> 64 \<longrightarrow> verifySignature L (Some pk) (Some m) (Some (jr_signature jr)) = Inl IllegalArgumentException) \<and>
    (length (signature w) = 64 \<and> \<not> ed_key_valid L pk \<longrightarrow>
      verifySignature L (Some pk) (Some m) (Some (jr_signature jr)) = Inl InvalidKeyException)"
proof -
  have "w\<lparr>signature := []\<rparr> = \<lparr>version = 1, signature_algorithm = signature_algorithm w, signature = [], payload_of = Some (AuthRequest req)\<rparr>"
    using assms(3,4) by (cases w) simp
  then show ?thesis
    using assms(2,4,5)
    by (cases req) (simp add: parseAuthRequest_def serializeAuthRequestForVerification_def verifySignature_def decode_message_def
        verify_wrapper_signature_iff jvm_okD [OF assms(1)])
qed

text \<open>
  C7. The phone pairs with the daemon. The application's side of the handshake, made of its native
  functions, fits the daemon's: the daemon accepts the greeting, both compute the same
  secret and show the same six digits, the phone receives the daemon's symmetric key and user name,
  and the daemon accepts the phone's acknowledgement. No function throws.
\<close>

theorem phone_pairs_with_daemon:
  assumes "crypto_ok L" "pairing_codec_ok P" "jvm_ok V" "pairing_fits P sname cname user"
    and "x_wf L (c_x25519_keypair c)" "length (verifying_key (c_ed25519_keypair c)) = 32" "length ed_pk = 32"
    and "length seed = 32" "length csk = 32" "length r1 = 12" "length r2 = 12"
  shows "\<exists>sk pk hello c' s resp sas jr psk msg ek eh ack.
    generateX25519Keypair V L (Some seed) = Inr (sk, pk) \<and>
    createPairingHello V P 1 (Some pk) (Some ed_pk) (Some sname) (Some [1]) (Some [1]) (Some [1]) = Inr hello \<and>
    initiate_pairing L P c \<lparr>rx = frame hello, tx = [], wr_err = None\<rparr> cname = (c', Inr (s, ed_pk, sname, sas)) \<and>
    tx s = frame resp \<and> parsePairingResponse V P (Some resp) = Inr jr \<and>
    keyExchange V L (Some sk) (Some (jp_x25519_public_key jr)) = Inr psk \<and>
    getSas V L (Some psk) (Some (jp_x25519_public_key jr)) (Some pk) = Inr sas \<and>
    parsePairingCskMessage V P (Some msg) = Inr (ek, user) \<and> decryptWithPsk V L (Some psk) (Some ek) = Inr csk \<and>
    encryptWithPsk V L (Some r2) (Some psk) (Some (sha256 L csk)) = Inr eh \<and>
    createPairingComplete V P True 1 (Some eh) = Inr ack \<and>
    finish_pairing L P c' (s\<lparr>rx := frame ack\<rparr>) (Some r1) (ClientSymmetricKey csk) user = (Inr (), frame resp @ frame msg)"
proof -
  let ?pk = "x_public L seed" and ?cpk = "x_public_key (c_x25519_keypair c)"
  define v where "v = \<lparr>s_x25519_keypair = \<lparr>secret_bytes = seed, x_public_key = ?pk\<rparr>, s_ed25519_public_key = ed_pk,
    client_x25519_public = None, s_psk = None, s_sas = None\<rparr>"
  have wf: "x_wf L (s_x25519_keypair v)" and len: "length (s_ed25519_public_key v) = 32"
    using assms(7) by (simp_all add: v_def x_wf_def)
  obtain k where k: "derive_psk_from_x25519 L (x_dh L (secret_bytes (c_x25519_keypair c)) ?pk) = Inr (PairingSymmetricKey k)"
      "length k = 32"
    using hkdf_ok [OF assms(1), of 32 "x_dh L (secret_bytes (c_x25519_keypair c)) ?pk" "[str_bytes ''tapauth-pairing-key'']"]
    by (auto simp: derive_psk_from_x25519_def)
  then have psk: "rbind (diffie_hellman L (c_x25519_keypair c) (x_public_key (s_x25519_keypair v))) (derive_psk_from_x25519 L) =
      Inr (PairingSymmetricKey k)"
    by (simp add: diffie_hellman_def v_def)
  obtain sas where sas: "derive_sas L (PairingSymmetricKey k) ?cpk (x_public_key (s_x25519_keypair v)) = Inr sas"
    using derive_sas_total [OF assms(1)] by blast
  obtain ek where ek: "encrypt_with_psk L (PairingSymmetricKey k) (Some r1) csk = Inr ek"
      "decrypt_with_psk L (PairingSymmetricKey k) ek = Inr csk" "length ek = 60"
    using seal_32 [OF assms(1,10,9)] by blast
  obtain eh where eh: "encrypt_with_psk L (PairingSymmetricKey k) (Some r2) (sha256 L csk) = Inr eh"
      "decrypt_with_psk L (PairingSymmetricKey k) eh = Inr (sha256 L csk)" "length eh = 60"
    using seal_32 [OF assms(1,11) sha256_ok [OF assms(1)]] by blast
  note init = initiate_pairing_honest [OF assms(1,2,4,5) wf len assms(6) refl psk sas, where r = "[]"]
  have fin: "c_psk d = Some (PairingSymmetricKey k) \<Longrightarrow>
      finish_pairing L P d \<lparr>rx = frame (enc_complete P \<lparr>complete_success = True, complete_hash_algorithm = 1, complete_csk_hash = eh\<rparr>),
         tx = t, wr_err = None\<rparr> (Some r1) (ClientSymmetricKey csk) user =
      (Inr (), t @ frame (enc_csk_message P \<lparr>encrypted_csk = ek, csk_username = user\<rparr>))" for d t
    using finish_pairing_honest [OF assms(1,2,4), of d "PairingSymmetricKey k" "Some r1" "ClientSymmetricKey csk" ek eh t] ek eh by simp
  have cpk: "length ?cpk = 32" "x_dh L seed ?cpk = x_dh L (secret_bytes (c_x25519_keypair c)) ?pk"
    using assms(1,5) by (simp_all add: x_wf_def x_public_ok x_dh_commute)
  have pk: "length ?pk = 32"
    using x_public_ok [OF assms(1)] .
  note ok = jvm_okD [OF assms(3)] and cd = pairing_codecD [OF assms(2)]
  have kx: "keyExchange V L (Some seed) (Some ?cpk) = Inr k" "getSas V L (Some k) (Some ?cpk) (Some ?pk) = Inr sas"
    using k sas cpk pk assms(8) by (simp_all add: keyExchange_def getSas_def diffie_hellman_def from_secret_bytes_def v_def ok)
  have msg: "parsePairingCskMessage V P (Some (enc_csk_message P \<lparr>encrypted_csk = ek, csk_username = user\<rparr>)) = Inr (ek, user)"
    by (simp add: parsePairingCskMessage_def decode_message_def cd ok)
  have dk: "decryptWithPsk V L (Some k) (Some ek) = Inr csk" "encryptWithPsk V L (Some r2) (Some k) (Some (sha256 L csk)) = Inr eh"
    "createPairingComplete V P True 1 (Some eh) =
       Inr (enc_complete P \<lparr>complete_success = True, complete_hash_algorithm = 1, complete_csk_hash = eh\<rparr>)"
    using ek eh k(2) by (simp_all add: decryptWithPsk_def encryptWithPsk_def createPairingComplete_def ok)
  show ?thesis
    by (intro exI conjI, simp add: generateX25519Keypair_def generate_x25519_def ok, simp add: createPairingHello_def ok,
        rule init [unfolded v_def append_Nil2, simplified], simp, simp add: parsePairingResponse_def decode_message_def cd ok,
        simp add: kx(1), simp add: kx(2), rule msg, rule dk(1), rule dk(2), rule dk(3), simp add: fin)
qed

section \<open>A concrete phone\<close>

definition demo_jvm :: jvm where
  "demo_jvm = \<lparr>jv_bytes = (\<lambda>_. True), jv_string = (\<lambda>_. True), jv_class = (\<lambda>_. True), jv_array = (\<lambda>_. True),
     jv_store = (\<lambda>_. True), jv_construct = (\<lambda>_. True)\<rparr>"

lemma demo_jvm_ok: "jvm_ok demo_jvm"
  by (simp add: jvm_ok_def demo_jvm_def)

theorem phone_approval_is_accepted_witness:
  "\<exists>s w b p wrapper. signData demo_jvm demo_crypto (Some (replicate 32 9)) (Some demo_challenge) = Inr s \<and>
    createGrantWrapperMessage demo_jvm demo_crypto demo_codec (Some s) (Some (replicate 32 9)) = Inr w \<and>
    createEncryptedPacket demo_jvm demo_crypto demo_codec (Some (replicate 12 7)) (Some 1000) (Some (replicate 32 8)) (Some w) = Inr b \<and>
    dec_packet demo_codec b = Some p \<and>
    decrypt_encrypted_packet_with_csk_nonce demo_crypto demo_codec (ClientSymmetricKey (replicate 32 8)) p = Inr wrapper \<and>
    verify_auth_grant demo_crypto demo_codec wrapper demo_challenge (ed_public demo_crypto (replicate 32 9)) = Inr ()"
proof -
  let ?key = "replicate 32 9 :: bytes"
  have s: "signData demo_jvm demo_crypto (Some ?key) (Some demo_challenge) = Inr (ed_sign demo_crypto ?key demo_challenge)"
    by (simp add: signData_def jvm_okD [OF demo_jvm_ok])
  have w: "length w \<le> aes_max"
    if "createGrantWrapperMessage demo_jvm demo_crypto demo_codec (Some (ed_sign demo_crypto ?key demo_challenge)) (Some ?key) = Inr w" for w
    using that
    by (auto simp: createGrantWrapperMessage_def sign_wrapper_message_def Let_def jvm_okD [OF demo_jvm_ok] length_demo_enc_wrapper
        length_sign_demo ed_sign_ok [OF demo_crypto_ok] ED25519_def aes_max_def)
  have "length demo_challenge = 32"
    by (simp add: demo_challenge_def)
  from phone_approval_is_accepted [OF demo_crypto_ok demo_codec_ok demo_jvm_ok _ this, of ?key "replicate 32 8" "replicate 12 7" 1000]
  show ?thesis
    using s w by fastforce
qed

theorem daemon_request_passes_phone_witness:
  "\<exists>req w p wb jr. create_auth_request_with_challenge ''alice'' ''desk'' demo_challenge (Some 1000) = Inr req \<and>
    sign_wrapper_message demo_crypto demo_codec (wrap_auth_request req) demo_phone = Inr w \<and>
    create_encrypted_packet_with_csk_nonce demo_crypto demo_codec (Some 1000) (Some (replicate 12 7)) (ClientSymmetricKey (replicate 32 8)) w = Inr p \<and>
    decryptEncryptedPacket demo_jvm demo_crypto demo_codec (Some (replicate 32 8)) (Some (enc_packet demo_codec p)) = Inr wb \<and>
    parseAuthRequest demo_jvm demo_codec (Some wb) = Inr jr \<and> jr_username jr = ''alice''"
proof -
  obtain req where req: "create_auth_request_with_challenge ''alice'' ''desk'' demo_challenge (Some 1000) = Inr req"
    by (simp add: create_auth_request_with_challenge_def demo_challenge_def)
  obtain w where w: "sign_wrapper_message demo_crypto demo_codec (wrap_auth_request req) demo_phone = Inr w"
    by (simp add: sign_wrapper_message_def Let_def)
  have "length (enc_wrapper demo_codec w) \<le> aes_max"
    using w req
    by (auto simp: sign_wrapper_message_def wrap_auth_request_def create_auth_request_with_challenge_def Let_def length_demo_enc_wrapper
        length_sign_demo ED25519_def aes_max_def demo_challenge_def split: if_splits)
  then obtain p where p: "create_encrypted_packet_with_csk_nonce demo_crypto demo_codec (Some 1000) (Some (replicate 12 7))
      (ClientSymmetricKey (replicate 32 8)) w = Inr p"
    using seal_packet_total [OF demo_crypto_ok] by blast
  show ?thesis
    using daemon_request_passes_phone [OF demo_crypto_ok demo_codec_ok demo_jvm_ok demo_phone_wf _ _ req w p, of 1000 1000] req w p by auto
qed

theorem phone_verification_exact_witness:
  "\<exists>jr m. parseAuthRequest demo_jvm demo_codec (Some (enc_wrapper demo_codec (wrap_auth_request
        \<lparr>req_challenge = [], req_username = ''u'', req_hostname = ''h'', timestamp_unix_seconds = - 1\<rparr>))) = Inr jr \<and>
    jr_timestamp jr = - 1 \<and>
    verifySignature demo_crypto (Some (replicate 32 1)) (Some m) (Some (jr_signature jr)) = Inl IllegalArgumentException"
proof -
  let ?w = "wrap_auth_request \<lparr>req_challenge = [], req_username = ''u'', req_hostname = ''h'', timestamp_unix_seconds = - 1\<rparr>"
  have d: "dec_wrapper demo_codec (enc_wrapper demo_codec ?w) = Some ?w"
    using demo_codec_ok unfolding codec_ok_def by blast
  obtain jr m where j: "parseAuthRequest demo_jvm demo_codec (Some (enc_wrapper demo_codec ?w)) = Inr jr"
      "verifySignature demo_crypto (Some (replicate 32 1)) (Some m) (Some (jr_signature jr)) = Inl IllegalArgumentException"
    using phone_verification_exact [OF demo_jvm_ok d, of _ "replicate 32 1" demo_crypto] by (auto simp: wrap_auth_request_def)
  moreover have "jr_timestamp jr = - 1"
    using j(1) d by (auto simp: parseAuthRequest_def decode_message_def wrap_auth_request_def jvm_okD [OF demo_jvm_ok])
  ultimately show ?thesis
    by blast
qed

theorem phone_pairs_with_daemon_witness:
  "\<exists>c c' sk pk hello s sas msg ack.
    ClientPairingSession_new demo_crypto (Some (replicate 32 1)) demo_phone = Inr c \<and>
    generateX25519Keypair demo_jvm demo_crypto (Some (replicate 32 2)) = Inr (sk, pk) \<and>
    initiate_pairing demo_crypto demo_pairing_codec c \<lparr>rx = frame hello, tx = [], wr_err = None\<rparr> ''desktop'' =
      (c', Inr (s, replicate 32 4, ''phone'', sas)) \<and>
    finish_pairing demo_crypto demo_pairing_codec c' (s\<lparr>rx := frame ack\<rparr>) (Some (replicate 12 0))
      (ClientSymmetricKey (replicate 32 8)) ''alice'' = (Inr (), tx s @ frame msg)"
proof -
  obtain c where c: "ClientPairingSession_new demo_crypto (Some (replicate 32 1)) demo_phone = Inr c"
    by (simp add: ClientPairingSession_new_def generate_x25519_def)
  then have wf: "x_wf demo_crypto (c_x25519_keypair c)" "length (verifying_key (c_ed25519_keypair c)) = 32"
    using demo_phone_wf by (auto simp: ClientPairingSession_new_def generate_x25519_def x_wf_def ed_wf_def ed_public_ok [OF demo_crypto_ok])
  have fits: "pairing_fits demo_pairing_codec ''phone'' ''desktop'' ''alice''"
    by (rule demo_pairing_fits) simp_all
  have len: "length (replicate 32 4 :: bytes) = 32" "length (replicate 32 2 :: bytes) = 32" "length (replicate 32 8 :: bytes) = 32"
      "length (replicate 12 0 :: bytes) = 12" "length (replicate 12 1 :: bytes) = 12"
    by simp_all
  show ?thesis
    using phone_pairs_with_daemon [OF demo_crypto_ok demo_pairing_codec_ok demo_jvm_ok fits wf len] c by metis
qed

end
