(* ===== verification/AdminClient.thy ===== *)
theory AdminClient
  imports Daemon Text
begin

text \<open>
  The two programs that administer the daemon over its socket: the requests of the configuration
  GUI, \<^verbatim>\<open>src/client-config-gui/src/ipc.rs\<close>, and the command line tool
  \<^verbatim>\<open>src/tapauthd/src/bin/tapauth-ipc-cli.rs\<close>. Every request opens a connection of its own. The
  record \<open>ipc_conn\<close> is what happens to it: whether the connection is there within its ten seconds,
  whether the request is written within its five, whether the response is late for a given limit; the received
  bytes of the stream are what the daemon sends. A request is modelled with the bytes it wrote; of
  a write that fails or is late nothing is recorded, since the connection ends there. The
  texts of the errors are left out, except those of the daemon.
\<close>

record ipc_conn =
  ic_socket :: "(io_error + byte_stream) option"
  ic_write_late :: bool
  ic_read_late :: "duration \<Rightarrow> bool"

section \<open>The requests of the GUI\<close>

datatype gui_ipc_error =
    ConnectionTimeout | ConnectionFailed io_error | SendTimeout | SendFailed io_error | ResponseTimeout
  | ReadFailed io_error | DecodeFailed | UnexpectedEnvelope | DaemonError string | UnexpectedResponse

definition MAX_ADMIN_RESPONSE :: nat where
  "MAX_ADMIN_RESPONSE = 10 * 1024 * 1024"

definition gui_write_framed :: "byte_stream \<Rightarrow> bytes \<Rightarrow> io_error + byte_stream" where
  "gui_write_framed stream msg = write_all stream (frame msg)"

definition gui_read_framed :: "bytes \<Rightarrow> io_error + bytes \<times> bytes" where
  "gui_read_framed s =
     rbind (read_exact 4 s) (\<lambda>(len_buf, s).
       if from_be len_buf > MAX_ADMIN_RESPONSE then Inl InvalidData else read_exact (from_be len_buf) s)"

definition err_msg :: "admin_response \<Rightarrow> string" where
  "err_msg resp = (if adm_error_message resp = [] then ''Unknown error'' else adm_error_message resp)"

definition send_admin_request_with_read_timeout ::
  "ipc_codec \<Rightarrow> ipc_conn \<Rightarrow> admin_request option \<Rightarrow> duration \<Rightarrow> (gui_ipc_error + admin_response) \<times> bytes"
where
  "send_admin_request_with_read_timeout I C request read_timeout =
     (case ic_socket C of
        None \<Rightarrow> (Inl ConnectionTimeout, [])
      | Some (Inl e) \<Rightarrow> (Inl (ConnectionFailed e), [])
      | Some (Inr stream) \<Rightarrow>
          if ic_write_late C then (Inl SendTimeout, [])
          else
            (case gui_write_framed stream (enc_envelope I (Some (AdminRequest request))) of
               Inl e \<Rightarrow> (Inl (SendFailed e), [])
             | Inr stream \<Rightarrow>
                 (if ic_read_late C read_timeout then Inl ResponseTimeout
                  else
                    (case gui_read_framed (rx stream) of
                       Inl e \<Rightarrow> Inl (ReadFailed e)
                     | Inr (result, _) \<Rightarrow>
                         (case dec_envelope I result of
                            None \<Rightarrow> Inl DecodeFailed
                          | Some (Some (AdminResponse resp)) \<Rightarrow> Inr resp
                          | Some _ \<Rightarrow> Inl UnexpectedEnvelope)),
                  tx stream)))"

definition send_admin_request ::
  "ipc_codec \<Rightarrow> ipc_conn \<Rightarrow> admin_request option \<Rightarrow> (gui_ipc_error + admin_response) \<times> bytes" where
  "send_admin_request I C request = send_admin_request_with_read_timeout I C request (from_secs 120)"

text \<open>The check of the status that follows every request, then what the request expects of the payload.\<close>

definition on_success ::
  "(admin_payload option \<Rightarrow> gui_ipc_error + 'a) \<Rightarrow> (gui_ipc_error + admin_response) \<times> bytes \<Rightarrow> (gui_ipc_error + 'a) \<times> bytes" where
  "on_success expect r =
     (rbind (fst r) (\<lambda>response.
        if adm_status response \<noteq> status_number AdminSuccess then Inl (DaemonError (err_msg response))
        else expect (adm_payload response)), snd r)"

definition gui_get_paired_servers :: "ipc_codec \<Rightarrow> ipc_conn \<Rightarrow> (gui_ipc_error + paired_server_info list) \<times> bytes" where
  "gui_get_paired_servers I C =
     on_success (\<lambda>p. case p of Some (ServersResponse servers) \<Rightarrow> Inr servers | _ \<Rightarrow> Inl UnexpectedResponse)
       (send_admin_request I C (Some GetServers))"

definition gui_start_pairing :: "ipc_codec \<Rightarrow> ipc_conn \<Rightarrow> (gui_ipc_error + string \<times> u16) \<times> bytes" where
  "gui_start_pairing I C =
     on_success (\<lambda>p. case p of Some (StartPairingResponse url port) \<Rightarrow> Inr (url, ucast port) | _ \<Rightarrow> Inl UnexpectedResponse)
       (send_admin_request I C (Some StartPairing))"

definition gui_wait_for_pairing :: "ipc_codec \<Rightarrow> ipc_conn \<Rightarrow> u32 \<Rightarrow> (gui_ipc_error + string \<times> u16) \<times> bytes" where
  "gui_wait_for_pairing I C port =
     on_success (\<lambda>p. case p of Some (WaitForPairingResponse sas_code port) \<Rightarrow> Inr (sas_code, ucast port) | _ \<Rightarrow> Inl UnexpectedResponse)
       (send_admin_request_with_read_timeout I C (Some (WaitForPairing port)) (from_secs 300))"

definition gui_complete_pairing :: "ipc_codec \<Rightarrow> ipc_conn \<Rightarrow> u32 \<Rightarrow> (gui_ipc_error + string) \<times> bytes" where
  "gui_complete_pairing I C port =
     on_success (\<lambda>p. case p of Some (CompletePairingResponse server_hex) \<Rightarrow> Inr server_hex | _ \<Rightarrow> Inl UnexpectedResponse)
       (send_admin_request I C (Some (CompletePairing port)))"

definition gui_remove_device :: "ipc_codec \<Rightarrow> ipc_conn \<Rightarrow> string \<Rightarrow> (gui_ipc_error + unit) \<times> bytes" where
  "gui_remove_device I C public_key = on_success (\<lambda>_. Inr ()) (send_admin_request I C (Some (RemoveDevice public_key)))"

definition gui_rotate_csk :: "ipc_codec \<Rightarrow> ipc_conn \<Rightarrow> (gui_ipc_error + unit) \<times> bytes" where
  "gui_rotate_csk I C = on_success (\<lambda>_. Inr ()) (send_admin_request I C (Some RotateCsk))"

definition gui_save_config ::
  "ipc_codec \<Rightarrow> ipc_conn \<Rightarrow> string \<Rightarrow> u16 \<Rightarrow> bool \<Rightarrow> bool \<Rightarrow> (gui_ipc_error + unit) \<times> bytes" where
  "gui_save_config I C client_hostname port ble network =
     on_success (\<lambda>_. Inr ()) (send_admin_request I C (Some (SaveConfig
       \<lparr>scr_hostname = client_hostname, scr_udp_port = ucast port, scr_enable_ble = Some ble, scr_enable_network = Some network\<rparr>)))"

definition gui_recover_tpm :: "ipc_codec \<Rightarrow> ipc_conn \<Rightarrow> (gui_ipc_error + unit) \<times> bytes" where
  "gui_recover_tpm I C = on_success (\<lambda>_. Inr ()) (send_admin_request I C (Some RecoverTpm))"

definition gui_get_daemon_status :: "ipc_codec \<Rightarrow> ipc_conn \<Rightarrow> (gui_ipc_error + bool \<times> string) \<times> bytes" where
  "gui_get_daemon_status I C =
     on_success (\<lambda>p. case p of Some (DaemonStatusResponse tpm_enabled tpm_error) \<Rightarrow> Inr (tpm_enabled, tpm_error) | _ \<Rightarrow> Inl UnexpectedResponse)
       (send_admin_request I C (Some GetDaemonStatus))"

record client_config_values =
  ccv_hostname :: string
  ccv_udp_port :: u16
  ccv_enable_ble :: bool
  ccv_enable_network :: bool

definition gui_get_config :: "ipc_codec \<Rightarrow> ipc_conn \<Rightarrow> (gui_ipc_error + client_config_values) \<times> bytes" where
  "gui_get_config I C =
     on_success (\<lambda>p. case p of
         Some (ConfigResponse hostname port ble network) \<Rightarrow>
           Inr \<lparr>ccv_hostname = hostname, ccv_udp_port = ucast port, ccv_enable_ble = ble, ccv_enable_network = network\<rparr>
       | _ \<Rightarrow> Inl UnexpectedResponse)
       (send_admin_request I C (Some GetConfig))"

section \<open>The command line tool\<close>

datatype cli_error = CliElapsed | CliIo io_error | CliFrameTooLarge | CliDecode | CliUnexpected | CliParse

text \<open>
  What the tool prints, and how it ends: by \<^verbatim>\<open>std::process::exit\<close> with a code, by returning, or with an
  error of \<^verbatim>\<open>main\<close>. A listed server is kept as a record, since its users are printed in Rust's debug format.
\<close>

datatype cli_output = Out string | Err string | OutServer string string "string list"

datatype cli_end = CliExit i32 | CliReturn | CliFail cli_error

type_synonym cli_run = "cli_output list \<times> cli_end"

definition cli_read_framed :: "bytes \<Rightarrow> cli_error + bytes \<times> bytes" where
  "cli_read_framed s =
     rbind (map_err CliIo (read_exact 4 s)) (\<lambda>(len_buf, s).
       if from_be len_buf > MAX_ADMIN_RESPONSE then Inl CliFrameTooLarge
       else map_err CliIo (read_exact (from_be len_buf) s))"

definition send_envelope :: "ipc_codec \<Rightarrow> ipc_conn \<Rightarrow> ipc_envelope \<Rightarrow> duration \<Rightarrow> (cli_error + ipc_envelope) \<times> bytes" where
  "send_envelope I C envelope read_timeout =
     (case ic_socket C of
        None \<Rightarrow> (Inl CliElapsed, [])
      | Some (Inl e) \<Rightarrow> (Inl (CliIo e), [])
      | Some (Inr stream) \<Rightarrow>
          if ic_write_late C then (Inl CliElapsed, [])
          else
            (case write_all stream (frame (enc_envelope I envelope)) of
               Inl e \<Rightarrow> (Inl (CliIo e), [])
             | Inr stream \<Rightarrow>
                 (if ic_read_late C read_timeout then Inl CliElapsed
                  else rbind (cli_read_framed (rx stream)) (\<lambda>(resp_bytes, _).
                         ok_or CliDecode (dec_envelope I resp_bytes)),
                  tx stream)))"

definition send_admin ::
  "ipc_codec \<Rightarrow> ipc_conn \<Rightarrow> admin_request \<Rightarrow> duration \<Rightarrow> (cli_error + admin_response) \<times> bytes" where
  "send_admin I C req read_timeout =
     (case send_envelope I C (Some (AdminRequest (Some req))) read_timeout of
        (r, sent) \<Rightarrow>
          (rbind r (\<lambda>msg. case msg of Some (AdminResponse resp) \<Rightarrow> Inr resp | _ \<Rightarrow> Inl CliUnexpected), sent))"

definition send_pam_auth ::
  "ipc_codec \<Rightarrow> ipc_conn \<Rightarrow> string \<Rightarrow> u32 \<Rightarrow> string \<Rightarrow> (cli_error + pam_authenticate_response) \<times> bytes" where
  "send_pam_auth I C username timeout_secs request_id =
     (case send_envelope I C (Some (PamAuthenticate \<lparr>par_username = username, tty_present = False,
             timeout_seconds = timeout_secs, par_request_id = request_id\<rparr>)) (from_secs (unat timeout_secs + 10)) of
        (r, sent) \<Rightarrow>
          (rbind r (\<lambda>msg. case msg of Some (PamResponse resp) \<Rightarrow> Inr resp | _ \<Rightarrow> Inl CliUnexpected), sent))"

definition send_pam_cancel ::
  "ipc_codec \<Rightarrow> ipc_conn \<Rightarrow> string \<Rightarrow> string \<Rightarrow> (cli_error + pam_authenticate_response) \<times> bytes" where
  "send_pam_cancel I C request_id reason =
     (case send_envelope I C (Some (PamCancel \<lparr>pcr_reason = reason, pcr_request_id = request_id\<rparr>)) (from_secs 10) of
        (r, sent) \<Rightarrow>
          (rbind r (\<lambda>msg. case msg of Some (PamResponse resp) \<Rightarrow> Inr resp | _ \<Rightarrow> Inl CliUnexpected), sent))"

definition outcome_name :: "i32 \<Rightarrow> string" where
  "outcome_name outcome =
     (if outcome = outcome_number PamSuccess then ''SUCCESS''
      else if outcome = outcome_number PamDenied then ''DENIED''
      else if outcome = outcome_number PamTimeout then ''TIMEOUT''
      else if outcome = outcome_number PamIgnore then ''IGNORE''
      else if outcome = outcome_number PamError then ''ERROR'' else ''UNKNOWN'')"

definition parse_u32 :: "string \<Rightarrow> cli_error + u32" where
  "parse_u32 s = map_err (\<lambda>_. CliParse) (rbind (parse_unsigned (2 ^ 32) s) (\<lambda>n. Inr (word_of_nat n)))"

definition parse_bool :: "string \<Rightarrow> cli_error + bool" where
  "parse_bool s = (if s = ''true'' then Inr True else if s = ''false'' then Inr False else Inl CliParse)"

definition show_bool :: "bool \<Rightarrow> string" where
  "show_bool b = (if b then ''true'' else ''false'')"

text \<open>What every administrative command does with its answer.\<close>

definition admin_answer :: "string \<Rightarrow> cli_error + admin_response \<Rightarrow> (admin_payload option \<Rightarrow> cli_run) \<Rightarrow> cli_run" where
  "admin_answer prefix r k =
     (case r of
        Inl e \<Rightarrow> ([], CliFail e)
      | Inr resp \<Rightarrow>
          if adm_status resp \<noteq> status_number AdminSuccess then ([Err (prefix @ adm_error_message resp)], CliExit 1)
          else k (adm_payload resp))"

definition cmd_start_pairing :: "ipc_codec \<Rightarrow> ipc_conn \<Rightarrow> cli_run \<times> bytes list" where
  "cmd_start_pairing I C =
     (case send_admin I C StartPairing (from_secs 10) of
        (r, sent) \<Rightarrow>
          (admin_answer ''ERROR: '' r (\<lambda>p.
             ((case p of
                 Some (StartPairingResponse url port) \<Rightarrow> [Out (''PORT='' @ decimal (unat port)), Out (''URL='' @ url)]
               | _ \<Rightarrow> []), CliReturn)), [sent]))"

definition cmd_wait_for_pairing :: "ipc_codec \<Rightarrow> ipc_conn \<Rightarrow> string list \<Rightarrow> cli_run \<times> bytes list" where
  "cmd_wait_for_pairing I C args =
     (case args of
        [] \<Rightarrow> (([Err ''Usage: tapauth-ipc-cli wait-for-pairing <port>''], CliExit 1), [])
      | a # _ \<Rightarrow>
          (case parse_u32 a of
             Inl e \<Rightarrow> (([], CliFail e), [])
           | Inr port \<Rightarrow>
               (case send_admin I C (WaitForPairing port) (from_secs 60) of
                  (r, sent) \<Rightarrow>
                    (admin_answer ''ERROR: '' r (\<lambda>p.
                       ((case p of
                           Some (WaitForPairingResponse sas_code port) \<Rightarrow>
                             [Out (''SAS='' @ sas_code), Out (''PORT='' @ decimal (unat port))]
                         | _ \<Rightarrow> []), CliReturn)), [sent]))))"

definition cmd_complete_pairing :: "ipc_codec \<Rightarrow> ipc_conn \<Rightarrow> string list \<Rightarrow> cli_run \<times> bytes list" where
  "cmd_complete_pairing I C args =
     (case args of
        [] \<Rightarrow> (([Err ''Usage: tapauth-ipc-cli complete-pairing <port>''], CliExit 1), [])
      | a # _ \<Rightarrow>
          (case parse_u32 a of
             Inl e \<Rightarrow> (([], CliFail e), [])
           | Inr port \<Rightarrow>
               (case send_admin I C (CompletePairing port) (from_secs 30) of
                  (r, sent) \<Rightarrow>
                    (admin_answer ''ERROR: '' r (\<lambda>p.
                       ((case p of Some (CompletePairingResponse server_hex) \<Rightarrow> [Out (''SERVER_HEX='' @ server_hex)] | _ \<Rightarrow> []),
                        CliReturn)), [sent]))))"

definition cmd_get_servers :: "ipc_codec \<Rightarrow> ipc_conn \<Rightarrow> cli_run \<times> bytes list" where
  "cmd_get_servers I C =
     (case send_admin I C GetServers (from_secs 10) of
        (r, sent) \<Rightarrow>
          (admin_answer ''ERROR: '' r (\<lambda>p.
             ((case p of
                 Some (ServersResponse servers) \<Rightarrow>
                   Out (''COUNT='' @ decimal (length servers)) #
                   map (\<lambda>s. OutServer (psi_name s) (psi_public_key s) (psi_allowed_users s)) servers
               | _ \<Rightarrow> []), CliReturn)), [sent]))"

definition cmd_remove_device :: "ipc_codec \<Rightarrow> ipc_conn \<Rightarrow> string list \<Rightarrow> cli_run \<times> bytes list" where
  "cmd_remove_device I C args =
     (case args of
        [] \<Rightarrow> (([Err ''Usage: tapauth-ipc-cli remove-device <public_key_hex>''], CliExit 1), [])
      | public_key # _ \<Rightarrow>
          (case send_admin I C (RemoveDevice public_key) (from_secs 10) of
             (r, sent) \<Rightarrow> (admin_answer ''ERROR: '' r (\<lambda>_. ([Out ''REMOVED=true''], CliReturn)), [sent])))"

fun transport_args :: "string list \<Rightarrow> bool option \<Rightarrow> bool option \<Rightarrow> cli_run + bool option \<times> bool option" where
  "transport_args [] ble network = Inr (ble, network)"
| "transport_args (a # as) ble network =
     (if a = ''--ble'' then
        (case as of
           [] \<Rightarrow> Inl ([Err ''Missing value for --ble''], CliExit 1)
         | v # as' \<Rightarrow> (case parse_bool v of Inl e \<Rightarrow> Inl ([], CliFail e) | Inr b \<Rightarrow> transport_args as' (Some b) network))
      else if a = ''--network'' then
        (case as of
           [] \<Rightarrow> Inl ([Err ''Missing value for --network''], CliExit 1)
         | v # as' \<Rightarrow> (case parse_bool v of Inl e \<Rightarrow> Inl ([], CliFail e) | Inr b \<Rightarrow> transport_args as' ble (Some b)))
      else transport_args as ble network)"

text \<open>The transports are set by reading the configuration and writing it back, over two connections.\<close>

definition cmd_set_transports :: "ipc_codec \<Rightarrow> ipc_conn \<Rightarrow> ipc_conn \<Rightarrow> string list \<Rightarrow> cli_run \<times> bytes list" where
  "cmd_set_transports I C C' args =
     (case transport_args args None None of
        Inl run \<Rightarrow> (run, [])
      | Inr (ble, network) \<Rightarrow>
          (case send_admin I C GetConfig (from_secs 10) of
             (Inl e, sent) \<Rightarrow> (([], CliFail e), [sent])
           | (Inr cfg_resp, sent) \<Rightarrow>
               if adm_status cfg_resp \<noteq> status_number AdminSuccess
               then (([Err (''ERROR: could not read current config: '' @ adm_error_message cfg_resp)], CliExit 1), [sent])
               else
                 (case adm_payload cfg_resp of
                    Some (ConfigResponse hostname port _ _) \<Rightarrow>
                      (case send_admin I C' (SaveConfig \<lparr>scr_hostname = hostname, scr_udp_port = port, scr_enable_ble = ble,
                              scr_enable_network = network\<rparr>) (from_secs 10) of
                         (r, sent') \<Rightarrow>
                           (admin_answer ''ERROR: '' r (\<lambda>_. ([Out ''CONFIG_SAVED=true''], CliReturn)), [sent, sent']))
                  | _ \<Rightarrow> (([Err ''ERROR: unexpected response payload from get-config''], CliExit 1), [sent]))))"

definition cmd_get_config :: "ipc_codec \<Rightarrow> ipc_conn \<Rightarrow> cli_run \<times> bytes list" where
  "cmd_get_config I C =
     (case send_admin I C GetConfig (from_secs 10) of
        (r, sent) \<Rightarrow>
          (admin_answer ''ERROR: '' r (\<lambda>p.
             ((case p of
                 Some (ConfigResponse hostname port ble network) \<Rightarrow>
                   [Out (''HOSTNAME='' @ hostname), Out (''UDP_PORT='' @ decimal (unat port)),
                    Out (''ENABLE_BLE='' @ show_bool ble), Out (''ENABLE_NETWORK='' @ show_bool network)]
               | _ \<Rightarrow> []), CliReturn)), [sent]))"

definition cmd_pam_auth :: "ipc_codec \<Rightarrow> ipc_conn \<Rightarrow> u32 \<Rightarrow> string list \<Rightarrow> cli_run \<times> bytes list" where
  "cmd_pam_auth I C pid args =
     (case args of
        [] \<Rightarrow> (([Err ''Usage: tapauth-ipc-cli pam-auth <username> [timeout_secs] [request_id]''], CliExit 1), [])
      | user # as \<Rightarrow>
          (case (case as of [] \<Rightarrow> Inr 30 | a # _ \<Rightarrow> parse_u32 a) of
             Inl e \<Rightarrow> (([], CliFail e), [])
           | Inr timeout_secs \<Rightarrow>
               let request_id = (case as of _ # rid # _ \<Rightarrow> rid | _ \<Rightarrow> ''test-'' @ decimal (unat pid));
                   announced = Out (''REQUEST_ID='' @ request_id)
               in (case send_pam_auth I C user timeout_secs request_id of
                     (Inl e, sent) \<Rightarrow> (([announced], CliFail e), [sent])
                   | (Inr resp, sent) \<Rightarrow>
                       (([announced, Out (''OUTCOME='' @ outcome_name (resp_outcome resp)), Out (''DETAIL='' @ resp_detail resp)],
                         if resp_outcome resp \<noteq> 0 then CliExit (resp_outcome resp) else CliReturn), [sent]))))"

definition cmd_pam_cancel :: "ipc_codec \<Rightarrow> ipc_conn \<Rightarrow> string list \<Rightarrow> cli_run \<times> bytes list" where
  "cmd_pam_cancel I C args =
     (case args of
        [] \<Rightarrow> (([Err ''Usage: tapauth-ipc-cli pam-cancel <request_id> [reason]''], CliExit 1), [])
      | request_id # as \<Rightarrow>
          (case send_pam_cancel I C request_id (case as of [] \<Rightarrow> ''cli-cancel'' | reason # _ \<Rightarrow> reason) of
             (Inl e, sent) \<Rightarrow> (([], CliFail e), [sent])
           | (Inr resp, sent) \<Rightarrow>
               (([Out (''OUTCOME='' @ outcome_name (resp_outcome resp)), Out (''DETAIL='' @ resp_detail resp)], CliReturn), [sent])))"

definition cli_usage :: "cli_output list" where
  "cli_usage = map Err
     [''Usage: tapauth-ipc-cli <command> [args...]'', ''Commands:'', ''  start-pairing'', ''  wait-for-pairing <port>'',
      ''  complete-pairing <port>'', ''  get-servers'', ''  remove-device <public_key_hex>'',
      ''  set-transports --ble <true|false> --network <true|false>'', ''  get-config'',
      ''  pam-auth <username> [timeout_secs] [request_id]'', ''  pam-cancel <request_id> [reason]'']"

text \<open>The arguments without the program's name; the second connection serves \<^verbatim>\<open>set-transports\<close> only.\<close>

definition cli_main :: "ipc_codec \<Rightarrow> ipc_conn \<Rightarrow> ipc_conn \<Rightarrow> u32 \<Rightarrow> string list \<Rightarrow> cli_run \<times> bytes list" where
  "cli_main I C C' pid args =
     (case args of
        [] \<Rightarrow> ((cli_usage, CliExit 1), [])
      | command # as \<Rightarrow>
          if command = ''start-pairing'' then cmd_start_pairing I C
          else if command = ''wait-for-pairing'' then cmd_wait_for_pairing I C as
          else if command = ''complete-pairing'' then cmd_complete_pairing I C as
          else if command = ''get-servers'' then cmd_get_servers I C
          else if command = ''remove-device'' then cmd_remove_device I C as
          else if command = ''set-transports'' then cmd_set_transports I C C' as
          else if command = ''get-config'' then cmd_get_config I C
          else if command = ''pam-auth'' then cmd_pam_auth I C pid as
          else if command = ''pam-cancel'' then cmd_pam_cancel I C as
          else (([Err (''Unknown command: '' @ command)], CliExit 1), []))"

text \<open>The code the shell sees: the low byte of what the tool exits with, 1 after an error of \<^verbatim>\<open>main\<close>.\<close>

definition exit_status :: "cli_run \<Rightarrow> int" where
  "exit_status run = (case snd run of CliExit n \<Rightarrow> n mod 256 | CliReturn \<Rightarrow> 0 | CliFail _ \<Rightarrow> 1)"

section \<open>Lemmas\<close>

interpretation gui_responses: frame_reader gui_read_framed MAX_ADMIN_RESPONSE
proof
  show "MAX_ADMIN_RESPONSE < 2 ^ 32"
    by (simp add: MAX_ADMIN_RESPONSE_def)
  show "gui_read_framed (frame m @ r) = Inr (m, r)" if "length m \<le> MAX_ADMIN_RESPONSE" for m r
    using that header_body_reads [OF that] by (simp add: gui_read_framed_def MAX_ADMIN_RESPONSE_def)
  show "s = frame m @ r \<and> length m \<le> MAX_ADMIN_RESPONSE" if "gui_read_framed s = Inr (m, r)" for s m r
    using that header_body_sound [of s _ _ m r]
    by (auto simp: gui_read_framed_def result_simps split: if_splits)
qed

interpretation cli_responses: frame_reader cli_read_framed MAX_ADMIN_RESPONSE
proof
  show "MAX_ADMIN_RESPONSE < 2 ^ 32"
    by (simp add: MAX_ADMIN_RESPONSE_def)
  show "cli_read_framed (frame m @ r) = Inr (m, r)" if "length m \<le> MAX_ADMIN_RESPONSE" for m r
    using that header_body_reads [OF that] by (simp add: cli_read_framed_def MAX_ADMIN_RESPONSE_def)
  show "s = frame m @ r \<and> length m \<le> MAX_ADMIN_RESPONSE" if "cli_read_framed s = Inr (m, r)" for s m r
    using that header_body_sound [of s _ _ m r]
    by (auto simp: cli_read_framed_def result_simps split: if_splits)
qed

text \<open>
  A working connection between a client and the daemon: the daemon serves what the client sent, and the
  client receives what the daemon answered, in time; both are less than 4 GiB, the range of the length
  in front of a message.
\<close>

definition serves :: "conn_env \<Rightarrow> daemon_state \<Rightarrow> server_state \<Rightarrow> ipc_conn \<Rightarrow> bytes \<Rightarrow> server_state \<Rightarrow> bool" where
  "serves D daemon st C sent st' \<longleftrightarrow>
     (\<exists>r stream' effs. handle_conn D \<lparr>rx = sent, tx = [], wr_err = None\<rparr> daemon st = (r, stream', effs, st') \<and>
        ic_socket C = Some (Inr \<lparr>rx = tx stream', tx = [], wr_err = None\<rparr>) \<and> \<not> ic_write_late C \<and> (\<forall>t. \<not> ic_read_late C t) \<and>
        length sent < 2 ^ 32 \<and> length (tx stream') < 2 ^ 32)"

text \<open>A request and its answer that the limits on both sides let through.\<close>

definition admissible :: "ipc_codec \<Rightarrow> admin_request option \<Rightarrow> admin_response \<Rightarrow> bool" where
  "admissible I req resp \<longleftrightarrow> enc_envelope I (Some (AdminRequest req)) \<noteq> [] \<and>
     length (enc_envelope I (Some (AdminRequest req))) \<le> MAX_REQUEST \<and>
     length (enc_envelope I (Some (AdminResponse resp))) \<le> MAX_ADMIN_RESPONSE"

lemma handle_conn_admin:
  assumes "ipc_codec_ok (cn_ipc D)" "conn_ready D" "cn_creds D = Some (pid, uid)" "admissible (cn_ipc D) req resp"
    and "handle_admin_request (cn_admin D) (cn_others D) req pid uid (sv_admin st) = (resp, a)"
  shows "handle_conn D \<lparr>rx = frame (enc_envelope (cn_ipc D) (Some (AdminRequest req))), tx = [], wr_err = None\<rparr> daemon st =
    (Inr (), \<lparr>rx = [], tx = frame (enc_envelope (cn_ipc D) (Some (AdminResponse resp))), wr_err = None\<rparr>, [], st\<lparr>sv_admin := a\<rparr>)"
proof -
  have "\<not> from_secs 3 < cn_read D"
    using assms(2) by (simp add: conn_ready_def)
  moreover have "dec_envelope (cn_ipc D) (enc_envelope (cn_ipc D) (Some (AdminRequest req))) = Some (Some (AdminRequest req))"
    using assms(1) by (simp add: ipc_codec_ok_def)
  ultimately show ?thesis
    using assms(3-5) ipc_requests.reads_all [of "enc_envelope (cn_ipc D) (Some (AdminRequest req))"]
    by (simp add: handle_conn_def admissible_def dispatch_conn_def write_response_def write_framed_def write_all_def
        envelope_admin_response_def)
qed

lemma serve_admin:
  assumes "ipc_codec_ok (cn_ipc D)" "conn_ready D" "cn_creds D = Some (pid, uid)" "admissible (cn_ipc D) req resp"
    and "handle_admin_request (cn_admin D) (cn_others D) req pid uid (sv_admin st) = (resp, a)"
    and "serves D daemon st C (frame (enc_envelope (cn_ipc D) (Some (AdminRequest req)))) st'"
  shows "st' = st\<lparr>sv_admin := a\<rparr>" "\<not> ic_write_late C" "\<not> ic_read_late C t"
    "ic_socket C = Some (Inr \<lparr>rx = frame (enc_envelope (cn_ipc D) (Some (AdminResponse resp))), tx = [], wr_err = None\<rparr>)"
  using assms(6) by (auto simp: serves_def handle_conn_admin [OF assms(1-5)])

lemma gui_exchange:
  assumes "ipc_codec_ok (cn_ipc D)" "conn_ready D" "cn_creds D = Some (pid, uid)" "admissible (cn_ipc D) req resp"
    and "handle_admin_request (cn_admin D) (cn_others D) req pid uid (sv_admin st) = (resp, a)"
    and "serves D daemon st C (snd (send_admin_request_with_read_timeout (cn_ipc D) C req t)) st'"
  shows "fst (send_admin_request_with_read_timeout (cn_ipc D) C req t) = Inr resp" "st' = st\<lparr>sv_admin := a\<rparr>"
proof -
  have "snd (send_admin_request_with_read_timeout (cn_ipc D) C req t) = frame (enc_envelope (cn_ipc D) (Some (AdminRequest req)))"
    using assms(6) by (auto simp: serves_def send_admin_request_with_read_timeout_def gui_write_framed_def write_all_def)
  note s = serve_admin [OF assms(1-5) assms(6) [unfolded this]]
  show "st' = st\<lparr>sv_admin := a\<rparr>"
    by (rule s(1))
  show "fst (send_admin_request_with_read_timeout (cn_ipc D) C req t) = Inr resp"
    using s(2,3,4) assms(1,4) gui_responses.reads_all [of "enc_envelope (cn_ipc D) (Some (AdminResponse resp))"]
    by (simp add: send_admin_request_with_read_timeout_def gui_write_framed_def write_all_def admissible_def ipc_codec_ok_def)
qed

lemma cli_exchange:
  assumes "ipc_codec_ok (cn_ipc D)" "conn_ready D" "cn_creds D = Some (pid, uid)" "admissible (cn_ipc D) (Some req) resp"
    and "handle_admin_request (cn_admin D) (cn_others D) (Some req) pid uid (sv_admin st) = (resp, a)"
    and "serves D daemon st C (snd (send_admin (cn_ipc D) C req t)) st'"
  shows "fst (send_admin (cn_ipc D) C req t) = Inr resp" "st' = st\<lparr>sv_admin := a\<rparr>"
proof -
  have "snd (send_admin (cn_ipc D) C req t) = frame (enc_envelope (cn_ipc D) (Some (AdminRequest (Some req))))"
    using assms(6) by (auto simp: serves_def send_admin_def send_envelope_def write_all_def)
  note s = serve_admin [OF assms(1-5) assms(6) [unfolded this]]
  show "st' = st\<lparr>sv_admin := a\<rparr>"
    by (rule s(1))
  show "fst (send_admin (cn_ipc D) C req t) = Inr resp"
    using s(2,3,4) assms(1,4) cli_responses.reads_all [of "enc_envelope (cn_ipc D) (Some (AdminResponse resp))"]
    by (simp add: send_admin_def send_envelope_def write_all_def admissible_def ipc_codec_ok_def)
qed

text \<open>What a client receives over such a connection is what the daemon computed.\<close>

lemma cli_exchange_sound:
  assumes "ipc_codec_ok (cn_ipc D)" "serves D daemon st C sent st'" "send_admin (cn_ipc D) C req t = (Inr resp, sent)"
  shows "\<exists>pid uid a. handle_admin_request (cn_admin D) (cn_others D) (Some req) pid uid (sv_admin st) = (resp, a) \<and> st' = st\<lparr>sv_admin := a\<rparr>"
proof -
  let ?I = "cn_ipc D" and ?req = "enc_envelope (cn_ipc D) (Some (AdminRequest (Some req)))"
  obtain r stream' effs where h: "handle_conn D \<lparr>rx = sent, tx = [], wr_err = None\<rparr> daemon st = (r, stream', effs, st')"
      "ic_socket C = Some (Inr \<lparr>rx = tx stream', tx = [], wr_err = None\<rparr>)" "\<not> ic_write_late C" "\<not> ic_read_late C t"
      "length sent < 2 ^ 32" "length (tx stream') < 2 ^ 32"
    using assms(2) unfolding serves_def by blast
  have sent: "sent = frame ?req"
    using assms(3) h(2-4) by (auto simp: send_admin_def send_envelope_def write_all_def)
  obtain data rest where d: "cli_read_framed (tx stream') = Inr (data, rest)" "dec_envelope ?I data = Some (Some (AdminResponse resp))"
  proof -
    have "rbind (rbind (cli_read_framed (tx stream')) (\<lambda>(resp_bytes, _). ok_or CliDecode (dec_envelope ?I resp_bytes)))
        (\<lambda>msg. case msg of Some (AdminResponse resp) \<Rightarrow> Inr resp | _ \<Rightarrow> Inl CliUnexpected) = Inr resp"
      using assms(3) h(2-4) by (simp add: send_admin_def send_envelope_def write_all_def)
    moreover have "msg = Some (AdminResponse resp)"
      if "(case msg of Some (AdminResponse resp) \<Rightarrow> Inr resp | _ \<Rightarrow> Inl CliUnexpected) = Inr resp" for msg
      using that by (cases msg; cases "the msg") auto
    ultimately obtain x where "rbind (cli_read_framed (tx stream')) (\<lambda>(resp_bytes, _). ok_or CliDecode (dec_envelope ?I resp_bytes)) =
        Inr (Some (AdminResponse resp))" "x = ()"
      unfolding rbind_eq_Inr [of "rbind _ _"] by blast
    then obtain data rest where "cli_read_framed (tx stream') = Inr (data, rest)" "dec_envelope ?I data = Some (Some (AdminResponse resp))"
      by (cases "cli_read_framed (tx stream')") (auto simp: ok_or_eq_Inr)
    then show ?thesis
      by (rule that)
  qed
  have t: "tx stream' = frame data @ rest" "length data < 2 ^ 32"
    using cli_responses.sound [OF d(1)] cli_responses.limit_u32 by auto
  from h(1) show ?thesis
  proof (cases rule: handle_conn_cases)
    case (answered pid uid m rest' msg)
    have w: "tx stream' = frame (enc_envelope ?I msg)"
      using answered(6) by (simp add: write_response_def write_framed_def write_all_def)
    have "length (enc_envelope ?I msg) < 2 ^ 32" "length ?req < 2 ^ 32"
      using h(5,6) unfolding w sent by (simp_all add: frame_def)
    note short = this
    have "data = enc_envelope ?I msg"
      using frame_inj_append [of data "enc_envelope ?I msg" rest "[]"] t short(1) unfolding w by simp
    then have msg: "msg = Some (AdminResponse resp)"
      using d(2) assms(1) by (simp add: ipc_codec_ok_def)
    have "length m < 2 ^ 32" "frame m @ rest' = frame ?req @ []"
      using ipc_requests.sound [OF answered(3)] ipc_requests.limit_u32 unfolding sent by simp_all
    then have "m = ?req"
      using frame_inj_append [OF _ short(2)] by blast
    then have "dec_envelope ?I m = Some (Some (AdminRequest (Some req)))"
      using assms(1) by (simp add: ipc_codec_ok_def)
    then show ?thesis
      using answered(5) msg
      by (cases "handle_admin_request (cn_admin D) (cn_others D) (Some req) pid uid (sv_admin st)")
        (auto simp: dispatch_conn_def envelope_admin_response_def)
  next
    case rejected
    then show ?thesis using t(1) by simp
  next
    case health_check
    then show ?thesis using t(1) by simp
  qed
qed

section \<open>Properties\<close>

text \<open>
  C21. The socket is transparent to the GUI. Over a working connection, a request of the GUI returns exactly
  the response the daemon's handler computed for the peer of the connection, and the daemon's state
  afterwards is exactly the one the handler left; with the status check that follows, the caller gets the
  payload of a success, and of every other answer the daemon's own error message.
\<close>

theorem gui_request_is_transparent:
  assumes "ipc_codec_ok (cn_ipc D)" "conn_ready D" "cn_creds D = Some (pid, uid)"
    and "handle_admin_request (cn_admin D) (cn_others D) req pid uid (sv_admin st) = (resp, a)" "admissible (cn_ipc D) req resp"
    and "serves D daemon st C (snd (send_admin_request (cn_ipc D) C req)) st'"
  shows "fst (send_admin_request (cn_ipc D) C req) = Inr resp \<and> st' = st\<lparr>sv_admin := a\<rparr> \<and>
    fst (on_success expect (send_admin_request (cn_ipc D) C req)) =
      (if adm_status resp = status_number AdminSuccess then expect (adm_payload resp) else Inl (DaemonError (err_msg resp)))"
  using gui_exchange [OF assms(1-3,5,4), of daemon C "from_secs 120" st'] assms(6)
  by (simp add: send_admin_request_def on_success_def)

text \<open>
  C22. Setting the transports keeps the rest. When \<^verbatim>\<open>tapauth-ipc-cli set-transports\<close> reports success, over two
  connections that the daemon served one after the other, the daemon's configuration has the
  switches given on the command line, and everything else is as it was: the port, the switches not given, and
  the host name up to surrounding white space.
\<close>

theorem cli_set_transports_keeps_the_rest:
  assumes "ipc_codec_ok I" "cn_ipc D = I" "cn_ipc D' = I" "cn_admin D = E" "cn_admin D' = E"
    and "cli_main I C C' p (''set-transports'' # args) = ((out, CliReturn), [sent, sent'])"
    and "transport_args args None None = Inr (ble, network)"
    and "serves D daemon st C sent st1" "serves D' daemon' st1 C' sent' st2"
    and "config_codec_ok (ad_conf E)" "healthy CONFIG_DIR (am_os (sv_admin st))"
    and "fault (am_os (sv_admin st)) OpRead DEFAULT_CONFIG_PATH = None" "\<not> use_tpm (TapAuthConfig_load (ad_conf E) (am_os (sv_admin st)))"
  shows "\<exists>host port b n. handle_get_config E (sv_admin st) = get_config_success host port b n \<and>
    handle_get_config E (sv_admin st2) = get_config_success (trim host) port
      (case ble of Some x \<Rightarrow> x | None \<Rightarrow> b) (case network of Some x \<Rightarrow> x | None \<Rightarrow> n)"
proof -
  obtain cfg host port b n resp where s: "send_admin I C GetConfig (from_secs 10) = (Inr cfg, sent)" "adm_status cfg = 0"
      "adm_payload cfg = Some (ConfigResponse host port b n)" "adm_status resp = 0"
      "send_admin I C' (SaveConfig \<lparr>scr_hostname = host, scr_udp_port = port, scr_enable_ble = ble, scr_enable_network = network\<rparr>)
         (from_secs 10) = (Inr resp, sent')"
    using assms(6,7)
    by (auto simp: cli_main_def cmd_set_transports_def admin_answer_def split: sum.splits prod.splits option.splits admin_payload.splits if_splits)
  obtain pid uid a where g: "handle_admin_request E (cn_others D) (Some GetConfig) pid uid (sv_admin st) = (cfg, a)" "st1 = st\<lparr>sv_admin := a\<rparr>"
    using cli_exchange_sound [of D daemon st C sent st1 GetConfig "from_secs 10" cfg] s(1) assms(1-4,8) by auto
  have c: "cfg = handle_get_config E (sv_admin st)" "a = sv_admin st"
    by (rule admin_authorized [OF g(1)]; use s(2) in \<open>simp add: dispatch_admin_def\<close>)+
  obtain pid' uid' a' where v: "handle_admin_request E (cn_others D') (Some (SaveConfig \<lparr>scr_hostname = host, scr_udp_port = port,
      scr_enable_ble = ble, scr_enable_network = network\<rparr>)) pid' uid' (sv_admin st) = (resp, a')" "st2 = st1\<lparr>sv_admin := a'\<rparr>"
    using cli_exchange_sound [of D' daemon' st1 C' sent' st2 "SaveConfig \<lparr>scr_hostname = host, scr_udp_port = port,
        scr_enable_ble = ble, scr_enable_network = network\<rparr>" "from_secs 10" resp] s(5) assms(1,3,5,9) g(2) c(2) by auto
  have h: "handle_get_config E (sv_admin st) = get_config_success host port b n"
      "b = enable_ble (TapAuthConfig_load (ad_conf E) (am_os (sv_admin st)))" "n = enable_network (TapAuthConfig_load (ad_conf E) (am_os (sv_admin st)))"
    using s(3) unfolding c(1) by (simp_all add: handle_get_config_def get_config_success_def success_with_def Let_def)
  show ?thesis
    using saved_settings [OF v(1) _ assms(10-13)] s(4) h v(2) by auto
qed

section \<open>Witnesses\<close>

text \<open>A user with the uid 1000 talks to the daemon of the examples.\<close>

definition alice_conn :: conn_env where
  "alice_conn = (demo_conn 9)\<lparr>cn_creds := Some (7, 1000)\<rparr>"

definition alice_daemon :: "admin_state \<Rightarrow> server_state" where
  "alice_daemon a = demo_daemon\<lparr>sv_admin := a\<rparr>"

definition alice_client :: "admin_response \<Rightarrow> ipc_conn" where
  "alice_client resp = \<lparr>ic_socket = Some (Inr \<lparr>rx = frame (enc_envelope demo_ipc_codec (Some (AdminResponse resp))), tx = [], wr_err = None\<rparr>),
     ic_write_late = False, ic_read_late = (\<lambda>_. False)\<rparr>"

lemma alice_conn_sel [simp]:
  "cn_ipc alice_conn = demo_ipc_codec" "cn_creds alice_conn = Some (7, 1000)" "cn_admin alice_conn = demo_admin_env"
  "cn_others alice_conn = id" "conn_ready alice_conn" "sv_admin (alice_daemon a) = a"
  by (simp_all add: alice_conn_def alice_daemon_def demo_conn_def conn_ready_def)

lemma alice_served:
  assumes "admissible demo_ipc_codec req resp" "handle_admin_request demo_admin_env id req 7 1000 a = (resp, a')"
  shows "serves alice_conn daemon (alice_daemon a) (alice_client resp)
    (frame (enc_envelope demo_ipc_codec (Some (AdminRequest req)))) (alice_daemon a')"
proof -
  note h = handle_conn_admin [of alice_conn 7 1000 req resp "alice_daemon a" a' daemon, simplified]
  have "(alice_daemon a)\<lparr>sv_admin := a'\<rparr> = alice_daemon a'"
    by (simp add: alice_daemon_def)
  moreover have "length (frame (enc_envelope demo_ipc_codec (Some (AdminRequest req)))) < 2 ^ 32"
    "length (frame (enc_envelope demo_ipc_codec (Some (AdminResponse resp)))) < 2 ^ 32"
    using assms(1) by (simp_all add: admissible_def frame_def MAX_REQUEST_def MAX_ADMIN_RESPONSE_def)
  ultimately show ?thesis
    using h assms demo_ipc_codec_ok by (auto simp: serves_def alice_client_def)
qed

lemma alice_sends:
  "snd (send_admin_request demo_ipc_codec (alice_client resp) req) = frame (enc_envelope demo_ipc_codec (Some (AdminRequest req)))"
  "snd (send_admin demo_ipc_codec (alice_client resp) q t) = frame (enc_envelope demo_ipc_codec (Some (AdminRequest (Some q))))"
  by (simp_all add: alice_client_def send_admin_request_def send_admin_request_with_read_timeout_def gui_write_framed_def write_all_def
      send_admin_def send_envelope_def)

lemma alice_asks:
  assumes "admissible demo_ipc_codec (Some req) resp" "handle_admin_request demo_admin_env id (Some req) 7 1000 a = (resp, a')"
  shows "send_admin demo_ipc_codec (alice_client resp) req t =
    (Inr resp, frame (enc_envelope demo_ipc_codec (Some (AdminRequest (Some req)))))"
  using cli_exchange(1) [of alice_conn 7 1000 req resp "alice_daemon a" a' undefined "alice_client resp" t "alice_daemon a'"]
    alice_served [OF assms] assms demo_ipc_codec_ok alice_sends(2) [of resp req t]
  by (metis alice_conn_sel prod.collapse)

theorem gui_request_is_transparent_witness:
  "\<exists>resp a st'. handle_admin_request demo_admin_env id None 7 1000 (demo_admin None) = (resp, a) \<and>
     serves alice_conn undefined (alice_daemon (demo_admin None)) (alice_client resp)
       (snd (send_admin_request demo_ipc_codec (alice_client resp) None)) st' \<and>
     fst (send_admin_request demo_ipc_codec (alice_client resp) None) = Inr resp"
proof -
  let ?resp = "err_resp AdminError ''Empty admin request''"
  have run: "handle_admin_request demo_admin_env id None 7 1000 (demo_admin None) = (?resp, demo_admin None)"
    using demo_resolved by (auto simp: handle_admin_request_def dispatch_admin_def)
  have adm: "admissible demo_ipc_codec None ?resp"
    by (simp add: admissible_def demo_ipc_codec_def length_put_fields int_field_def MAX_REQUEST_def MAX_ADMIN_RESPONSE_def err_resp_def)
      (simp add: put_fields_def put_field_def)
  note sv = alice_served [OF adm run, of undefined, folded alice_sends(1) [of ?resp]]
  show ?thesis
    using gui_request_is_transparent [of alice_conn 7 1000 None "alice_daemon (demo_admin None)" ?resp "demo_admin None" undefined
        "alice_client ?resp" "alice_daemon (demo_admin None)" "\<lambda>_. Inr ()"] run adm sv demo_ipc_codec_ok
    by (intro exI [of _ ?resp] exI [of _ "demo_admin None"] exI [of _ "alice_daemon (demo_admin None)"]) simp
qed

theorem cli_set_transports_keeps_the_rest_witness:
  "\<exists>out sent sent' a.
     cli_main demo_ipc_codec (alice_client (get_config_success ''laptop'' 36692 True True)) (alice_client empty_success) 1
       [''set-transports'', ''--ble'', ''false''] = ((out, CliReturn), [sent, sent']) \<and>
     serves alice_conn undefined (alice_daemon (demo_admin None)) (alice_client (get_config_success ''laptop'' 36692 True True)) sent
       (alice_daemon (demo_admin None)) \<and>
     serves alice_conn undefined (alice_daemon (demo_admin None)) (alice_client empty_success) sent' (alice_daemon a) \<and>
     handle_get_config demo_admin_env (demo_admin None) = get_config_success ''laptop'' 36692 True True \<and>
     handle_get_config demo_admin_env a = get_config_success ''laptop'' 36692 False True"
proof -
  let ?cfg = "get_config_success ''laptop'' 36692 True True"
  define q where "q = SaveConfig \<lparr>scr_hostname = ''laptop'', scr_udp_port = 36692, scr_enable_ble = Some False, scr_enable_network = None\<rparr>"
  have t: "trim ''laptop'' = ''laptop''"
    using trim_word(2) [of "CHR ''l''" "''aptop''"] by (simp add: printable_def)
  have cfg: "handle_get_config demo_admin_env (demo_admin None) = ?cfg"
  proof -
    have "\<not> path_exists (path_join CONFIG_DIR CLIENT_CONFIG_FILE) demo_os"
      by (simp add: path_exists_def metadata_def demo_os_def CONFIG_DIR_def path_join_def)
    moreover have "ad_hostname demo_admin_env = Some ''laptop''"
      by (simp add: demo_admin_env_def)
    ultimately show ?thesis
      by (simp add: handle_get_config_def load_config_def demo_admin_files demo_admin_toml ClientConfig_default_def TapAuthConfig_default_def)
  qed
  have g: "handle_admin_request demo_admin_env id (Some GetConfig) 7 1000 (demo_admin None) = (?cfg, demo_admin None)"
    using demo_resolved cfg by (auto simp: handle_admin_request_def dispatch_admin_def)
  obtain a where v: "handle_admin_request demo_admin_env id (Some q) 7 1000 (demo_admin None) = (empty_success, a)"
    using demo_save_ok t unfolding q_def by fastforce
  have adm: "admissible demo_ipc_codec (Some GetConfig) ?cfg" "admissible demo_ipc_codec (Some q) empty_success"
    by (simp_all add: q_def admissible_def demo_ipc_codec_def length_put_fields int_field_def word_field_def bool_field_def opt_bool_field_def
        MAX_REQUEST_def MAX_ADMIN_RESPONSE_def get_config_success_def success_with_def empty_success_def)
      (simp_all add: put_fields_def put_field_def)
  have args: "transport_args [''--ble'', ''false''] None None = Inr (Some False, None)"
    by (simp add: parse_bool_def)
  obtain out where run: "cli_main demo_ipc_codec (alice_client ?cfg) (alice_client empty_success) 1 [''set-transports'', ''--ble'', ''false''] =
      ((out, CliReturn), [frame (enc_envelope demo_ipc_codec (Some (AdminRequest (Some GetConfig)))),
         frame (enc_envelope demo_ipc_codec (Some (AdminRequest (Some q))))])"
    using alice_asks [OF adm(1) g] alice_asks [OF adm(2) v] args unfolding q_def
    by (simp add: cli_main_def cmd_set_transports_def admin_answer_def get_config_success_def success_with_def empty_success_def)
  note served = alice_served [OF adm(1) g, of undefined] alice_served [OF adm(2) v, of undefined]
  have "handle_get_config demo_admin_env a = get_config_success ''laptop'' 36692 False True"
    using cli_set_transports_keeps_the_rest [OF demo_ipc_codec_ok _ _ _ _ run args served] demo_admin_host demo_admin_toml cfg t
    by (auto simp: TapAuthConfig_default_def get_config_success_def success_with_def)
  then show ?thesis
    using run served cfg by blast
qed

end
