(* ===== verification/Spec2Isabelle.thy ===== *)
theory Spec2Isabelle
  imports Pairing PairingSlot Daemon PamLaws Jni AdminClient
begin

text \<open>
  Skeleton.
\<close>

section \<open>From the login to the phone and back\<close>

text \<open>What a fresh connection carries once the request was sent.\<close>

lemma request_bytes:
  assumes "connect_client (Inr s0) = Inr c0" "tx s0 = []" "send_authenticate_start I user tty timeout rid c0 = Inr c1"
  shows "tx (cl_stream c1) = frame (enc_envelope I (Some (PamAuthenticate
      \<lparr>par_username = user, tty_present = tty, timeout_seconds = timeout, par_request_id = rid\<rparr>)))"
    "length (enc_envelope I (Some (PamAuthenticate
      \<lparr>par_username = user, tty_present = tty, timeout_seconds = timeout, par_request_id = rid\<rparr>))) < 2 ^ 32"
  using assms
  by (auto simp: connect_client_def send_authenticate_start_def send_message_def write_all_def Let_def frame_def result_simps
      split: if_splits option.splits)

text \<open>The daemon's answer as the module decodes it.\<close>

lemma answer_bytes:
  assumes "ipc_codec_ok I" "recv_response I bs = Inr resp" "bs @ pending = frame (enc_envelope I msg)" "length (enc_envelope I msg) < 2 ^ 32"
  shows "msg = envelope_pam_response resp"
proof -
  obtain data rest where d: "response_frame bs = Inr (data, rest)" "decode_response I data = Inr resp"
    using assms(2) by (auto simp: recv_response_def result_simps split: sum.splits)
  then have "bs = frame data @ rest" "length data < 2 ^ 32"
    using ipc_responses.sound [OF d(1)] ipc_responses.limit_u32 by auto
  then have "data = enc_envelope I msg"
    using frame_inj_append [of data "enc_envelope I msg" "rest @ pending" "[]"] assms(3,4) by simp
  then show ?thesis
    using d(2) assms(1)
    by (auto simp: decode_response_def envelope_pam_response_def ipc_codec_ok_def split: option.splits ipc_msg.splits)
qed

text \<open>
  C1. A login by tap needs a signed grant of a paired phone. Put the two ends of the socket together: the
  PAM module asks for a user over a fresh connection, the daemon serves that connection, reading
  what the module wrote, and the module reads what the daemon wrote, cut into any pieces. If the call
  then returns PAM\_SUCCESS, the user it was called for is allowed by a server paired with the daemon, and
  among the packets phones sent in that session one opens under the daemon's symmetric key and
  carries a grant, signed by a paired server, for the challenge drawn for this very request.
\<close>

theorem login_needs_signed_grant:
  assumes "ipc_codec_ok (pv_ipc E)" "cn_ipc C = pv_ipc E"
    and "pv_connect E = Inr s0" "tx s0 = []" "authenticate E cell = (PAM_SUCCESS, effs, Some client, cell')"
    and "handle_conn C stream daemon st = (r, stream', deffs, st')" "tx stream = []" "length (tx stream') < 2 ^ 32"
    and "rx stream @ unread = tx (cl_stream client)"
    and "socket_reads (pv_polls E) = map (map ReadBytes) chunks" "\<forall>bs \<in> set chunks. \<forall>b \<in> set bs. b \<noteq> []"
    and "concat (concat chunks) @ pending = tx stream'"
  shows "\<exists>user chal csk. get_user (pv_handle E) = Inr user \<and> cn_rnd C = Some chal \<and> ds_csk daemon = Some csk \<and>
    grant_evidence (se_crypto (cn_session C)) (se_codec (cn_session C)) (se_hex (cn_session C)) csk chal
      (paired_servers daemon) (session_packets (cn_session C)) \<and>
    (\<exists>(sid, server) \<in> set (paired_servers daemon). user \<in> set (allowed_users server))"
proof -
  let ?I = "pv_ipc E"
  obtain v where "authenticate_inner E cell = (PAM_SUCCESS, v, effs, Some client)"
    using assms(5) by (auto simp: authenticate_def split: prod.splits)
  then obtain user where u: "get_user (pv_handle E) = Inr user" "asked E user PAM_SUCCESS client"
    by (cases rule: authenticate_inner_cases) (auto simp: concludes_def)
  then obtain tty timeout rid c0 c1 more where c: "connect_client (Inr s0) = Inr c0"
      "send_authenticate_start ?I user tty timeout rid c0 = Inr c1" "wait_result E c1 PAM_SUCCESS"
      "tx (cl_stream client) = tx (cl_stream c1) @ more"
    unfolding asked_def assms(3) by blast
  define req where "req = \<lparr>par_username = user, tty_present = tty, timeout_seconds = timeout, par_request_id = rid\<rparr>"
  obtain resp where "poll_responses ?I (socket_reads (pv_polls E)) c1 = Some (Inr resp)" "resp_outcome resp = 0"
    using c(3) unfolding wait_result_def by (auto simp: map_pam_outcome_codes(2) eq_commute [of PAM_SUCCESS])
  then have resp: "recv_response ?I (concat (concat chunks)) = Inr resp" "resp_outcome resp = outcome_number PamSuccess"
    using poll_waiting [OF fresh_client [OF c(1,2)] assms(11), of ?I] assms(10) by (auto simp: Let_def split: if_splits)
  have sent: "tx stream' \<noteq> []"
  proof -
    have "recv_response ?I [] = Inl (IpcIo UnexpectedEof)"
      by (simp add: recv_response_def response_frame_cases)
    then show ?thesis
      using resp(1) assms(12) by (metis append_is_Nil_conv sum.distinct(1))
  qed
  from assms(6) show ?thesis
  proof (cases rule: handle_conn_cases)
    case (answered pid uid m rest msg)
    then have w: "tx stream' = frame (enc_envelope ?I msg)"
      using sent assms(2,7) by (cases rule: write_response_cases [of "stream\<lparr>rx := rest\<rparr>" "cn_ipc C" msg]) auto
    have "msg = envelope_pam_response resp"
      using answer_bytes [OF assms(1) resp(1), of pending msg] assms(8,12) unfolding w by (simp add: frame_def)
    moreover have "m = enc_envelope ?I (Some (PamAuthenticate req))"
      using ipc_requests.sound [OF answered(3)] ipc_requests.limit_u32 assms(9) c(4) request_bytes [OF c(1) assms(4) c(2), folded req_def]
        frame_inj_append [of m "enc_envelope ?I (Some (PamAuthenticate req))" "rest @ unread" more] by simp
    ultimately show ?thesis
      using success_dispatched [of C daemon pid uid m st resp] answered(5) resp(2) u(1) assms(1,2)
      by (fastforce simp: req_def ipc_codec_ok_def)
  qed (use sent assms(7) in auto)
qed

theorem login_needs_signed_grant_witness:
  "\<exists>client effs cell' r stream' deffs st'.
    authenticate (demo_pam [demo_poll 1 [demo_answer_bytes]] 0) no_conclusion = (PAM_SUCCESS, effs, Some client, cell') \<and>
    handle_conn (demo_conn 9) \<lparr>rx = tx (cl_stream client), tx = [], wr_err = None\<rparr> (demo_state [(''phone'', demo_server)]) demo_daemon =
      (r, stream', deffs, st') \<and> tx stream' = demo_answer_bytes \<and>
    grant_evidence demo_crypto demo_codec demo_hex demo_csk demo_challenge [(''phone'', demo_server)]
      (session_packets (demo_env demo_grant [(5, UdpTick)]))"
proof -
  let ?E = "demo_pam [demo_poll 1 [demo_answer_bytes]] 0" and ?D = "demo_state [(''phone'', demo_server)]"
  let ?c0 = "\<lparr>cl_stream = \<lparr>rx = [], tx = [], wr_err = None\<rparr>, read_buf = [], expected_total = None\<rparr>"
  let ?t = "request_timeout PamConfig_default True Sequential" and ?rid = "hex_encode demo_hex (replicate 16 7)"
  define req where "req = \<lparr>par_username = ''alice'', tty_present = True, timeout_seconds = ?t, par_request_id = ?rid\<rparr>"
  obtain effs v client where t: "run_transaction ?E PamConfig_default ''alice'' (Some ''sudo'') Sequential True =
      (PAM_SUCCESS, v, effs, Some client)"
    using demo_answered by blast
  then obtain cell' where auth: "authenticate ?E no_conclusion = (PAM_SUCCESS, effs, Some client, cell')"
    by (simp add: authenticate_def demo_inner cached_conclusion_for_def no_conclusion_def)
  obtain more where wire: "tx (cl_stream client) = frame (enc_envelope demo_ipc_codec (Some (PamAuthenticate req))) @ more"
    using t
  proof (cases rule: transaction_cases)
    case (sent rid c0 c1 c2)
    then show ?thesis
      using that request_bytes(1) [of "\<lparr>rx = [], tx = [], wr_err = None\<rparr>" c0 demo_ipc_codec "''alice''" True ?t ?rid c1] by (auto simp: req_def)
  qed simp
  let ?S = "\<lparr>rx = tx (cl_stream client), tx = [], wr_err = None\<rparr>" and ?m = "enc_envelope demo_ipc_codec (Some (PamAuthenticate req))"
  have "0 < ?t"
    by (simp add: request_timeout_def PamConfig_default_def)
  then obtain deffs st' where "handle_pam_authenticate (demo_conn 9) ?D req demo_daemon = (demo_pam_response, deffs, st')"
    using demo_authenticate_in [of req 9] by (auto simp: req_def demo_pam_response_def response_def)
  moreover have "length ?m \<le> MAX_REQUEST"
    by (simp add: demo_ipc_codec_def req_def MAX_REQUEST_def word_field_def bool_field_def length_put_fields demo_hex_def)
  moreover have "?m \<noteq> []"
    by (simp add: demo_ipc_codec_def put_fields_def put_field_def)
  moreover have "dec_envelope demo_ipc_codec ?m = Some (Some (PamAuthenticate req))"
    using demo_ipc_codec_ok by (simp add: ipc_codec_ok_def)
  ultimately obtain r stream' where run: "handle_conn (demo_conn 9) ?S ?D demo_daemon = (r, stream', deffs, st')"
      "tx stream' = demo_answer_bytes"
    by (simp add: handle_conn_def wire ipc_requests.reads Let_def dispatch_conn_def write_response_def write_framed_def write_all_def
        demo_answer_bytes_def envelope_pam_response_def)
  have "length demo_answer_bytes < 2 ^ 32"
    using demo_answer_small by (simp add: demo_answer_bytes_def frame_def MAX_RESPONSE_def)
  moreover have "\<forall>bs \<in> set [[demo_answer_bytes]]. \<forall>b \<in> set bs. b \<noteq> []"
    by (simp add: demo_answer_bytes_def)
  ultimately show ?thesis
    using login_needs_signed_grant [OF _ _ _ _ auth run(1), of _ "[]" "[[demo_answer_bytes]]" "[]"] demo_ipc_codec_ok auth run
    by (auto simp: demo_state_def)
qed

text \<open>
  C40. The cancellation of a graphical login is never read. When a password is entered while the threaded
  loop waits, the module writes the cancellation on the connection of the request. The daemon
  reads one frame per connection: the cancellation stays unread in the socket, and the daemon does and
  answers exactly what it would have without it, so the phone keeps being asked.
\<close>

theorem gui_cancel_is_never_read:
  assumes "ipc_codec_ok I" "connect_client (Inr s0) = Inr c0" "tx s0 = []"
    and "send_authenticate_start I user tty timeout rid c0 = Inr c1" "length (tx (cl_stream c1)) \<le> MAX_REQUEST"
    and "run_gui_event_loop I rid deadline ps c1 = (PasswordEntered, resp, err, c2)"
    and "length (enc_envelope I (Some (PamCancel \<lparr>pcr_reason = ''gui-password-skip'', pcr_request_id = rid\<rparr>))) < 2 ^ 32"
    and "conn_ready C" "rx stream = tx (cl_stream c2)" "handle_conn C stream daemon st = (r, stream', effs, st')"
  shows "rx stream' = frame (enc_envelope I (Some (PamCancel \<lparr>pcr_reason = ''gui-password-skip'', pcr_request_id = rid\<rparr>))) \<and>
    handle_conn C (stream\<lparr>rx := tx (cl_stream c1)\<rparr>) daemon st = (r, stream'\<lparr>rx := []\<rparr>, effs, st')"
proof -
  define cancel where "cancel = enc_envelope I (Some (PamCancel \<lparr>pcr_reason = ''gui-password-skip'', pcr_request_id = rid\<rparr>))"
  define request where "request = enc_envelope I (Some (PamAuthenticate
    \<lparr>par_username = user, tty_present = tty, timeout_seconds = timeout, par_request_id = rid\<rparr>))"
  have c1: "tx (cl_stream c1) = frame request" "wr_err (cl_stream c1) = None"
    using request_bytes(1) [OF assms(2-4)] assms(2,4)
    by (auto simp: request_def send_authenticate_start_def send_message_def write_all_def Let_def result_simps split: if_splits option.splits)
  obtain c where c: "cl_stream c = cl_stream c1" "c2 = snd (send_cancel I ''gui-password-skip'' rid c)"
    using gui_password [OF assms(6)] by blast
  then have wire: "rx stream = frame request @ frame cancel"
    using assms(7,9) c1 by (simp add: send_cancel_def send_message_def write_all_def Let_def frame_def cancel_def)
  have "length request \<le> MAX_REQUEST"
    using assms(5) by (simp add: c1 frame_def)
  then have rd: "read_framed (rx stream) = Inr (request, frame cancel)" "read_framed (frame request) = Inr (request, [])"
    using ipc_requests.reads ipc_requests.reads_all by (simp_all add: wire)
  obtain pid uid where cr: "cn_creds C = Some (pid, uid)" "\<not> from_secs 3 < cn_read C"
    using assms(8) by (auto simp: conn_ready_def)
  show ?thesis
    using assms(10) unfolding cancel_def [symmetric] handle_conn_def c1
    by (auto simp: cr rd Let_def write_response_def write_framed_def write_all_def result_simps split: prod.splits option.splits sum.splits if_splits)
qed

theorem gui_cancel_is_never_read_witness:
  "\<exists>c1 c2 r stream' effs st'.
    run_gui_event_loop demo_ipc_codec ''r1'' 10 [(1, PollReady \<lparr>pr_ipc = None, pr_reads = [], pr_other = None, pr_password = True,
      pr_key = Inl WouldBlock\<rparr>)] c1 = (PasswordEntered, None, None, c2) \<and>
    handle_conn (demo_conn 9) \<lparr>rx = tx (cl_stream c2), tx = [], wr_err = None\<rparr> (demo_state [(''phone'', demo_server)]) demo_daemon =
      (r, stream', effs, st') \<and>
    rx stream' = frame (enc_envelope demo_ipc_codec (Some (PamCancel \<lparr>pcr_reason = ''gui-password-skip'', pcr_request_id = ''r1''\<rparr>)))"
proof -
  let ?c0 = "\<lparr>cl_stream = \<lparr>rx = [], tx = [], wr_err = None\<rparr>, read_buf = [], expected_total = None\<rparr>"
  let ?ps = "[(1, PollReady \<lparr>pr_ipc = None, pr_reads = [], pr_other = None, pr_password = True, pr_key = Inl WouldBlock\<rparr>)]"
  have small: "length (enc_envelope demo_ipc_codec (Some (PamAuthenticate \<lparr>par_username = ''alice'', tty_present = False,
      timeout_seconds = 30, par_request_id = ''r1''\<rparr>))) \<le> 1000"
    "length (enc_envelope demo_ipc_codec (Some (PamCancel \<lparr>pcr_reason = ''gui-password-skip'', pcr_request_id = ''r1''\<rparr>))) < 2 ^ 32"
    by (simp_all add: demo_ipc_codec_def length_put_fields word_field_def bool_field_def)
  then obtain c1 where c1: "send_authenticate_start demo_ipc_codec ''alice'' False 30 ''r1'' ?c0 = Inr c1"
    by (simp add: send_authenticate_start_def send_message_def Let_def write_all_def)
  have c0: "connect_client (Inr \<lparr>rx = [], tx = [], wr_err = None\<rparr>) = Inr ?c0"
    by (simp add: connect_client_def)
  have len: "length (tx (cl_stream c1)) \<le> MAX_REQUEST"
    using request_bytes(1) [OF c0 _ c1] small(1) by (simp add: frame_def MAX_REQUEST_def)
  obtain c2 where gui: "run_gui_event_loop demo_ipc_codec ''r1'' 10 ?ps c1 = (PasswordEntered, None, None, c2)"
    by simp
  let ?S = "\<lparr>rx = tx (cl_stream c2), tx = [], wr_err = None\<rparr>"
  obtain r stream' effs st' where run: "handle_conn (demo_conn 9) ?S (demo_state [(''phone'', demo_server)]) demo_daemon = (r, stream', effs, st')"
    using prod_cases4 by blast
  have "rx stream' = frame (enc_envelope demo_ipc_codec (Some (PamCancel \<lparr>pcr_reason = ''gui-password-skip'', pcr_request_id = ''r1''\<rparr>)))"
    using gui_cancel_is_never_read [OF demo_ipc_codec_ok c0 _ c1 len gui small(2) _ _ run] by (simp add: conn_ready_def)
  then show ?thesis
    using gui run by blast
qed

end
